(* ===== verification/Prelude.thy ===== *)
theory Prelude
  imports
    Main
    "HOL-Library.AList"
    "HOL-Library.Multiset"
    "HOL-Library.Word"
    "HOL-Library.List_Lexorder"
    "HOL-Library.Char_ord"
begin

text \<open>
  The vocabulary every component shares.

  \<^item> Go's signed 64-bit integers (\<^verbatim>\<open>int64\<close>, and \<^verbatim>\<open>int\<close> on the 64-bit platforms the exporter
    is built for) are \<open>int\<close> with the wrap-around written out by \<open>w64\<close>.
  \<^item> A Go map is an association list with distinct keys. Its list order stands for the order in
    which one \<^verbatim>\<open>range\<close> statement visits it; the Go runtime chooses that order freely, so results
    are stated over \<open>map_of\<close> or up to permutation.
  \<^item> Errors are values of \<open>gerr\<close>, with Go's wrapping; a computation that may panic returns a
    value of \<open>'a go\<close>.
\<close>

section \<open>Lemma collections\<close>

named_theorems gomap_simps \<open>lookups and updates of Go maps\<close>
named_theorems w64_simps \<open>arithmetic of wrapped 64-bit integers\<close>

section \<open>Signed 64-bit integers\<close>

definition w64 :: "int \<Rightarrow> int" where
  "w64 x = (x + 2 ^ 63) mod 2 ^ 64 - 2 ^ 63"

definition int64 :: "int \<Rightarrow> bool" where
  "int64 x \<longleftrightarrow> - (2 ^ 63) \<le> x \<and> x < 2 ^ 63"

lemma w64_word: "w64 x = sint (word_of_int x :: 64 word)"
  by (simp add: w64_def sint_sbintrunc' signed_take_bit_eq_take_bit_shift take_bit_eq_mod)

lemma w64_int64 [simp]: "int64 (w64 x)"
  by (simp add: int64_def w64_def)

lemma w64_id [w64_simps]: "int64 x \<Longrightarrow> w64 x = x"
  by (simp add: int64_def w64_def)

lemma w64_mod [simp]: "w64 x mod 2 ^ 64 = x mod 2 ^ 64"
  by (simp add: w64_def mod_simps)

lemma w64_cong: "x mod 2 ^ 64 = y mod 2 ^ 64 \<Longrightarrow> w64 x = w64 y"
  unfolding w64_def by (metis mod_add_left_eq)

lemma w64_0 [simp]: "w64 0 = 0"
  by (simp add: w64_def)

lemma w64_idem [w64_simps]: "w64 (w64 x) = w64 x"
  by (simp add: w64_id)

lemma w64_add_left [w64_simps]: "w64 (w64 a + b) = w64 (a + b)"
  by (rule w64_cong) (metis mod_add_left_eq w64_mod)

lemma w64_add_right [w64_simps]: "w64 (a + w64 b) = w64 (a + b)"
  by (metis add.commute w64_add_left)

lemma w64_diff_right [w64_simps]: "w64 (a - w64 b) = w64 (a - b)"
  by (rule w64_cong) (metis mod_diff_right_eq w64_mod)

lemma w64_diff_left [w64_simps]: "w64 (w64 a - b) = w64 (a - b)"
  by (rule w64_cong) (metis mod_diff_left_eq w64_mod)

lemma w64_sum_list [w64_simps]:
  "foldl (\<lambda>acc x. w64 (acc + x)) (w64 a) xs = w64 (a + sum_list xs)"
  by (induction xs arbitrary: a) (simp_all add: w64_simps add.assoc)

section \<open>Go maps\<close>

type_synonym ('k, 'v) gomap = "('k \<times> 'v) list"

definition wf_gomap :: "('k, 'v) gomap \<Rightarrow> bool" where
  "wf_gomap m \<longleftrightarrow> distinct (map fst m)"

text \<open>Reading an absent key of a map of integers gives zero.\<close>

definition gm_get0 :: "('k, int) gomap \<Rightarrow> 'k \<Rightarrow> int" where
  "gm_get0 m k = (case map_of m k of None \<Rightarrow> 0 | Some v \<Rightarrow> v)"

text \<open>Reading an absent key of a map of maps gives the nil map, which reads as empty.\<close>

definition gm_getm :: "('k, ('l, 'v) gomap) gomap \<Rightarrow> 'k \<Rightarrow> ('l, 'v) gomap" where
  "gm_getm m k = (case map_of m k of None \<Rightarrow> [] | Some v \<Rightarrow> v)"

definition gm_getl :: "('k, 'v list) gomap \<Rightarrow> 'k \<Rightarrow> 'v list" where
  "gm_getl m k = (case map_of m k of None \<Rightarrow> [] | Some v \<Rightarrow> v)"

lemma wf_gomap_Nil [simp, intro]: "wf_gomap []"
  by (simp add: wf_gomap_def)

lemma map_of_update [gomap_simps, simp]: "map_of (AList.update k v m) = (map_of m)(k \<mapsto> v)"
  by (rule update_conv')

lemma wf_gomap_update [simp, intro]: "wf_gomap m \<Longrightarrow> wf_gomap (AList.update k v m)"
  by (simp add: wf_gomap_def distinct_update)

lemma keys_update [simp]: "fst ` set (AList.update k v m) = insert k (fst ` set m)"
  using dom_update [of k v m] by (simp add: dom_map_of_conv_image_fst)

lemma gm_get0_update [gomap_simps, simp]:
  "gm_get0 (AList.update k v m) k' = (if k' = k then v else gm_get0 m k')"
  by (simp add: gm_get0_def)

lemma gm_get0_Nil [simp]: "gm_get0 [] k = 0"
  by (simp add: gm_get0_def)

lemma gm_get0_absent: "k \<notin> fst ` set m \<Longrightarrow> gm_get0 m k = 0"
  by (simp add: gm_get0_def map_of_eq_None_iff [THEN iffD2])

lemma gm_getm_update [gomap_simps, simp]:
  "gm_getm (AList.update k v m) k' = (if k' = k then v else gm_getm m k')"
  by (simp add: gm_getm_def)

lemma gm_getm_Nil [simp]: "gm_getm [] k = []"
  by (simp add: gm_getm_def)

lemma gm_getl_update [gomap_simps, simp]:
  "gm_getl (AList.update k v m) k' = (if k' = k then v else gm_getl m k')"
  by (simp add: gm_getl_def)

lemma gm_getl_Nil [simp]: "gm_getl [] k = []"
  by (simp add: gm_getl_def)

text \<open>Two orders of the same map answer every lookup alike.\<close>

lemma map_of_perm:
  assumes "wf_gomap m" "mset m' = mset m"
  shows "map_of m' = map_of m"
proof -
  from assms(2) have "set m' = set m" by (rule mset_eq_setD)
  moreover from assms have "distinct (map fst m')"
    unfolding wf_gomap_def by (metis mset_eq_imp_distinct_iff mset_map)
  ultimately show ?thesis
    using assms(1) unfolding wf_gomap_def by (simp add: map_of_inject_set)
qed

section \<open>Errors and panics\<close>

text \<open>
  A sentinel is a package-level error value compared by identity; \<open>Errorf\<close> is a fresh error
  built from a message; \<open>Wrapf\<close> is \<^verbatim>\<open>fmt.Errorf\<close> with the verb \<^verbatim>\<open>%w\<close>.
\<close>

datatype gerr = Sentinel string | Errorf string | Wrapf string gerr

fun errors_is :: "gerr \<Rightarrow> gerr \<Rightarrow> bool" where
  "errors_is (Wrapf m e) t = (Wrapf m e = t \<or> errors_is e t)"
| "errors_is e t = (e = t)"

datatype go_panic = NilMapWrite | NilDeref | FlagRedefined | RandArgument

datatype 'a go = Ret 'a | Panic go_panic

fun go_bind :: "'a go \<Rightarrow> ('a \<Rightarrow> 'b go) \<Rightarrow> 'b go" where
  "go_bind (Ret x) f = f x"
| "go_bind (Panic p) f = Panic p"

lemma go_bind_Ret_iff: "go_bind m f = Ret y \<longleftrightarrow> (\<exists>x. m = Ret x \<and> f x = Ret y)"
  by (cases m) auto

lemma go_bind_Panic_iff: "go_bind m f = Panic p \<longleftrightarrow> m = Panic p \<or> (\<exists>x. m = Ret x \<and> f x = Panic p)"
  by (cases m) auto

section \<open>Runs of a step relation\<close>

text \<open>A relation whose runs are bounded has a run that cannot go on.\<close>

lemma bounded_runs_end:
  assumes bound: "\<And>n s. (R ^^ n) s0 s \<Longrightarrow> n \<le> b"
  shows "\<exists>n s. (R ^^ n) s0 s \<and> (\<forall>s'. \<not> R s s')"
proof -
  let ?P = "\<lambda>n. \<exists>s. (R ^^ n) s0 s"
  have "?P 0" by simp
  then obtain n where n: "?P n" "\<And>m. ?P m \<Longrightarrow> m \<le> n"
    using ex_has_greatest_nat [of ?P 0 "\<lambda>n. n" "Suc b"] bound by (auto simp: less_Suc_eq_le)
  then obtain s where s: "(R ^^ n) s0 s" by blast
  have "\<not> R s s'" for s' using n(2) [of "Suc n"] s by auto
  with s show ?thesis by blast
qed

end
