(* ===== verification/GoStd.thy ===== *)
theory GoStd
  imports Prelude
begin

text \<open>
  The parts of Go's standard library that the exporter calls: \<^verbatim>\<open>strings\<close>, \<^verbatim>\<open>strconv\<close>, the integer
  verb of \<^verbatim>\<open>fmt\<close> and \<^verbatim>\<open>filepath.Match\<close>. A Go string is a list of bytes. Patterns, object names
  and file contents that reach these functions are ASCII (Kubernetes names are DNS labels), so a
  byte is a rune here; the Unicode white space beyond ASCII is not trimmed.
\<close>

section \<open>Package strings\<close>

definition HasPrefix :: "string \<Rightarrow> string \<Rightarrow> bool" where
  "HasPrefix s p \<longleftrightarrow> take (length p) s = p"

fun Contains :: "string \<Rightarrow> string \<Rightarrow> bool" where
  "Contains [] sub = (sub = [])"
| "Contains (c # cs) sub = (HasPrefix (c # cs) sub \<or> Contains cs sub)"

text \<open>\<open>Split\<close> for the one-byte separators the code uses.\<close>

fun Split :: "string \<Rightarrow> char \<Rightarrow> string list" where
  "Split [] sep = [[]]"
| "Split (c # cs) sep =
     (if c = sep then [] # Split cs sep
      else (case Split cs sep of [] \<Rightarrow> [[c]] | w # ws \<Rightarrow> (c # w) # ws))"

fun Join :: "string list \<Rightarrow> string \<Rightarrow> string" where
  "Join [] sep = []"
| "Join [x] sep = x"
| "Join (x # y # zs) sep = x @ sep @ Join (y # zs) sep"

definition trim_by :: "(char \<Rightarrow> bool) \<Rightarrow> string \<Rightarrow> string" where
  "trim_by p s = rev (dropWhile p (rev (dropWhile p s)))"

definition is_space :: "char \<Rightarrow> bool" where
  "is_space c \<longleftrightarrow> c \<in> {CHR 0x09, CHR 0x0A, CHR 0x0B, CHR 0x0C, CHR 0x0D, CHR 0x20}"

definition TrimSpace :: "string \<Rightarrow> string" where
  "TrimSpace s = trim_by is_space s"

definition Trim :: "string \<Rightarrow> string \<Rightarrow> string" where
  "Trim s cutset = trim_by (\<lambda>c. c \<in> set cutset) s"

definition to_lower_char :: "char \<Rightarrow> char" where
  "to_lower_char c =
     (if CHR ''A'' \<le> c \<and> c \<le> CHR ''Z'' then char_of (of_char c + (32::nat)) else c)"

definition ToLower :: "string \<Rightarrow> string" where
  "ToLower s = map to_lower_char s"

section \<open>Integers and their decimal text\<close>

definition digit_char :: "int \<Rightarrow> char" where
  "digit_char d = char_of (48 + d)"

text \<open>The decimal digits of an unsigned value.\<close>

function show_uint :: "int \<Rightarrow> string" where
  "show_uint n = (if n < 10 then [digit_char n] else show_uint (n div 10) @ [digit_char (n mod 10)])"
  by pat_completeness auto
termination
  by (relation "measure nat") auto

declare show_uint.simps [simp del]

text \<open>\<^verbatim>\<open>fmt.Sprintf\<close> with the verb \<^verbatim>\<open>%d\<close>.\<close>

definition show_int :: "int \<Rightarrow> string" where
  "show_int i = (if i < 0 then CHR ''-'' # show_uint (- i) else show_uint i)"

definition is_digit :: "char \<Rightarrow> bool" where
  "is_digit c \<longleftrightarrow> 48 \<le> (of_char c :: int) \<and> (of_char c :: int) \<le> 57"

definition digit_val :: "char \<Rightarrow> int" where
  "digit_val c = of_char c - 48"

datatype num_err = ErrSyntax | ErrRange

text \<open>
  The digit loop of \<^verbatim>\<open>strconv.ParseUint\<close> in base 10: a byte that is no digit is a syntax error, a
  value beyond 64 bits a range error, whichever comes first.
\<close>

fun parse_uint_loop :: "int \<Rightarrow> string \<Rightarrow> num_err + int" where
  "parse_uint_loop n [] = Inr n"
| "parse_uint_loop n (c # cs) =
     (if \<not> is_digit c then Inl ErrSyntax
      else if n * 10 + digit_val c > 2 ^ 64 - 1 then Inl ErrRange
      else parse_uint_loop (n * 10 + digit_val c) cs)"

definition ParseUint :: "string \<Rightarrow> num_err + int" where
  "ParseUint s = (if s = [] then Inl ErrSyntax else parse_uint_loop 0 s)"

text \<open>
  \<^verbatim>\<open>strconv.ParseInt(s, 10, 64)\<close>: the value and the error. On a range error the value is the bound
  that was exceeded; on a syntax error it is zero.
\<close>

definition ParseInt :: "string \<Rightarrow> int \<times> num_err option" where
  "ParseInt s =
     (if s = [] then (0, Some ErrSyntax)
      else
        let neg = (hd s = CHR ''-'');
            body = (if hd s = CHR ''+'' \<or> hd s = CHR ''-'' then tl s else s)
        in case ParseUint body of
             Inl ErrSyntax \<Rightarrow> (0, Some ErrSyntax)
           | Inl ErrRange \<Rightarrow> (if neg then - (2 ^ 63) else 2 ^ 63 - 1, Some ErrRange)
           | Inr un \<Rightarrow>
               (if \<not> neg \<and> un \<ge> 2 ^ 63 then (2 ^ 63 - 1, Some ErrRange)
                else if neg \<and> un > 2 ^ 63 then (- (2 ^ 63), Some ErrRange)
                else (if neg then - un else un, None)))"

text \<open>\<^verbatim>\<open>strconv.Atoi\<close> agrees with \<^verbatim>\<open>ParseInt\<close> on a 64-bit \<^verbatim>\<open>int\<close>.\<close>

definition Atoi :: "string \<Rightarrow> int \<times> num_err option" where
  "Atoi s = ParseInt s"

section \<open>filepath.Match\<close>

text \<open>\<open>None\<close> is the error \<^verbatim>\<open>ErrBadPattern\<close>, which comes with a negative answer.\<close>

definition getEsc :: "string \<Rightarrow> (char \<times> string) option" where
  "getEsc chunk =
     (case chunk of
        [] \<Rightarrow> None
      | c # cs \<Rightarrow>
          if c = CHR ''-'' \<or> c = CHR '']'' then None
          else if c = CHR 0x5C
          then (case cs of [] \<Rightarrow> None | d # ds \<Rightarrow> if ds = [] then None else Some (d, ds))
          else if cs = [] then None else Some (c, cs))"

lemma getEsc_shorter: "getEsc chunk = Some (r, rest) \<Longrightarrow> length rest < length chunk"
  by (auto simp: getEsc_def split: list.splits if_splits)

lemma getEsc_nonempty: "getEsc chunk = Some (r, rest) \<Longrightarrow> rest \<noteq> []"
  by (auto simp: getEsc_def split: list.splits if_splits)

function parse_ranges :: "char \<Rightarrow> nat \<Rightarrow> bool \<Rightarrow> string \<Rightarrow> (bool \<times> string) option" where
  "parse_ranges r nrange m chunk =
     (if chunk \<noteq> [] \<and> hd chunk = CHR '']'' \<and> nrange > 0 then Some (m, tl chunk)
      else
        case getEsc chunk of
          None \<Rightarrow> None
        | Some (lo, chunk1) \<Rightarrow>
            if hd chunk1 = CHR ''-''
            then (case getEsc (tl chunk1) of
                    None \<Rightarrow> None
                  | Some (hi, chunk2) \<Rightarrow>
                      parse_ranges r (Suc nrange) (m \<or> lo \<le> r \<and> r \<le> hi) chunk2)
            else parse_ranges r (Suc nrange) (m \<or> lo \<le> r \<and> r \<le> lo) chunk1)"
  by pat_completeness auto
termination
  by (relation "measure (\<lambda>(r, n, m, chunk). length chunk)")
    (auto dest!: getEsc_shorter)

declare parse_ranges.simps [simp del]

lemma parse_ranges_shorter:
  "parse_ranges r n m chunk = Some (b, rest) \<Longrightarrow> length rest < length chunk"
proof (induction r n m chunk rule: parse_ranges.induct)
  case (1 r n m chunk)
  show ?case
  proof (cases "chunk \<noteq> [] \<and> hd chunk = CHR '']'' \<and> n > 0")
    case True
    with "1.prems" have "rest = tl chunk" by (simp add: parse_ranges.simps [of r n m chunk])
    with True show ?thesis by (cases chunk) auto
  next
    case False
    with "1.prems" obtain lo chunk1 where g: "getEsc chunk = Some (lo, chunk1)"
      by (auto simp: parse_ranges.simps [of r n m chunk] split: option.splits)
    note len1 = getEsc_shorter [OF g]
    show ?thesis
    proof (cases "hd chunk1 = CHR ''-''")
      case True
      with False "1.prems" g obtain hi chunk2 where h: "getEsc (tl chunk1) = Some (hi, chunk2)"
        by (auto simp: parse_ranges.simps [of r n m chunk] split: option.splits)
      from "1.prems" False g True h
      have "parse_ranges r (Suc n) (m \<or> lo \<le> r \<and> r \<le> hi) chunk2 = Some (b, rest)"
        by (simp add: parse_ranges.simps [of r n m chunk])
      from "1.IH"(1) [OF False g refl True h refl this] getEsc_shorter [OF h] len1
      show ?thesis by simp
    next
      case no: False
      from "1.prems" False g no
      have "parse_ranges r (Suc n) (m \<or> lo \<le> r \<and> r \<le> lo) chunk1 = Some (b, rest)"
        by (simp add: parse_ranges.simps [of r n m chunk])
      from "1.IH"(2) [OF False g refl no this] len1 show ?thesis by simp
    qed
  qed
qed

text \<open>
  \<^verbatim>\<open>matchChunk\<close>: the rest of the name and whether the chunk matched. After a mismatch the loop
  goes on through the chunk, only to find out whether it is well formed.
\<close>

function matchChunk :: "bool \<Rightarrow> string \<Rightarrow> string \<Rightarrow> (string \<times> bool) option" where
  "matchChunk failed0 chunk s =
     (case chunk of
        [] \<Rightarrow> Some (if failed0 then ([], False) else (s, True))
      | c # cs \<Rightarrow>
          let failed = (failed0 \<or> s = []);
              s' = (if failed then s else tl s)
          in if c = CHR ''['' then
               let r = (if failed then CHR 0x00 else hd s);
                   negated = (cs \<noteq> [] \<and> hd cs = CHR ''^'')
               in (case parse_ranges r 0 False (if negated then tl cs else cs) of
                     None \<Rightarrow> None
                   | Some (m, rest) \<Rightarrow> matchChunk (failed \<or> m = negated) rest s')
             else if c = CHR ''?'' then matchChunk (failed \<or> hd s = CHR ''/'') cs s'
             else if c = CHR 0x5C then
               (case cs of
                  [] \<Rightarrow> None
                | d # ds \<Rightarrow> matchChunk (failed \<or> d \<noteq> hd s) ds s')
             else matchChunk (failed \<or> c \<noteq> hd s) cs s')"
  by pat_completeness auto
termination
proof (relation "measure (\<lambda>(f, chunk, s). length chunk)", goal_cases)
  case 1
  then show ?case by simp
next
  case (2 f chunk s c cs fd s' r neg z m rest)
  then have "length rest < length (if neg then tl cs else cs)"
    by (auto dest: parse_ranges_shorter)
  also have "\<dots> \<le> length cs" by simp
  finally show ?case using 2 by simp
qed auto

declare matchChunk.simps [simp del]

fun scan_split :: "bool \<Rightarrow> string \<Rightarrow> string \<times> string" where
  "scan_split inrange [] = ([], [])"
| "scan_split inrange (c # cs) =
     (if c = CHR 0x5C then
        (case cs of
           [] \<Rightarrow> ([c], [])
         | d # ds \<Rightarrow> (case scan_split inrange ds of (x, y) \<Rightarrow> (c # d # x, y)))
      else if c = CHR ''*'' \<and> \<not> inrange then ([], c # cs)
      else
        (case scan_split (if c = CHR ''['' then True else if c = CHR '']'' then False else inrange) cs
         of (x, y) \<Rightarrow> (c # x, y)))"

definition scanChunk :: "string \<Rightarrow> bool \<times> string \<times> string" where
  "scanChunk pat =
     (let p = dropWhile (\<lambda>c. c = CHR ''*'') pat
      in (p \<noteq> pat, scan_split False p))"

lemma scan_split_append: "scan_split b p = (x, y) \<Longrightarrow> p = x @ y"
  by (induction b p arbitrary: x y rule: scan_split.induct)
    (auto split: if_splits list.splits prod.splits)

lemma scan_split_progress:
  "p \<noteq> [] \<Longrightarrow> hd p \<noteq> CHR ''*'' \<Longrightarrow> scan_split b p = (x, y) \<Longrightarrow> x \<noteq> []"
  by (cases p) (auto split: if_splits list.splits prod.splits)

lemma scanChunk_shorter:
  assumes "pat \<noteq> []" "scanChunk pat = (star, chunk, rest)"
  shows "length rest < length pat"
proof -
  let ?p = "dropWhile (\<lambda>c. c = CHR ''*'') pat"
  from assms(2) have sp: "scan_split False ?p = (chunk, rest)"
    by (simp add: scanChunk_def Let_def)
  have len: "length rest \<le> length ?p"
    using scan_split_append [OF sp] by simp
  show ?thesis
  proof (cases "hd pat = CHR ''*''")
    case True
    with assms(1) have "length ?p < length pat"
      by (cases pat) (auto simp: le_imp_less_Suc length_dropWhile_le)
    with len show ?thesis by simp
  next
    case False
    with assms(1) have eq: "?p = pat" by (cases pat) auto
    with sp False assms(1) have "chunk \<noteq> []" by (metis scan_split_progress)
    with scan_split_append [OF sp] eq show ?thesis by simp
  qed
qed

text \<open>The loop over the positions a star may skip to; it does not skip a separator.\<close>

fun star_loop :: "string \<Rightarrow> bool \<Rightarrow> string \<Rightarrow> string option option" where
  "star_loop chunk last_chunk [] = Some None"
| "star_loop chunk last_chunk (c # cs) =
     (if c = CHR ''/'' then Some None
      else
        case matchChunk False chunk cs of
          None \<Rightarrow> None
        | Some (t, ok) \<Rightarrow>
            if ok \<and> \<not> (last_chunk \<and> t \<noteq> []) then Some (Some t)
            else star_loop chunk last_chunk cs)"

text \<open>Whether the rest of the pattern is well formed, checked before a negative answer.\<close>

function pattern_ok :: "string \<Rightarrow> bool" where
  "pattern_ok pat =
     (if pat = [] then True
      else
        case scanChunk pat of (star, chunk, rest) \<Rightarrow>
          (case matchChunk False chunk [] of None \<Rightarrow> False | Some u \<Rightarrow> pattern_ok rest))"
  by pat_completeness auto
termination
  by (relation "measure length") (auto dest: scanChunk_shorter [OF _ sym])

declare pattern_ok.simps [simp del]

function Match :: "string \<Rightarrow> string \<Rightarrow> bool option" where
  "Match pat name =
     (if pat = [] then Some (name = [])
      else
        case scanChunk pat of (star, chunk, rest) \<Rightarrow>
          if star \<and> chunk = [] then Some (CHR ''/'' \<notin> set name)
          else
            case matchChunk False chunk name of
              None \<Rightarrow> None
            | Some (t, ok) \<Rightarrow>
                if ok \<and> (t = [] \<or> rest \<noteq> []) then Match rest t
                else
                  (case (if star then star_loop chunk (rest = []) name else Some None) of
                     None \<Rightarrow> None
                   | Some (Some t') \<Rightarrow> Match rest t'
                   | Some None \<Rightarrow> if pattern_ok rest then Some False else None))"
  by pat_completeness auto
termination
  by (relation "measure (\<lambda>(pat, name). length pat)") (auto dest: scanChunk_shorter [OF _ sym])

declare Match.simps [simp del]

section \<open>File paths\<close>

text \<open>
  \<^verbatim>\<open>filepath.Clean\<close> on Unix: empty and dot elements go, a dot-dot element removes the element
  before it, and a dot-dot at the root goes too. The accumulator holds the elements in reverse.
\<close>

fun clean_elems :: "bool \<Rightarrow> string list \<Rightarrow> string list \<Rightarrow> string list" where
  "clean_elems rooted acc [] = rev acc"
| "clean_elems rooted acc (e # es) =
     (if e = [] \<or> e = ''.'' then clean_elems rooted acc es
      else if e = ''..'' then
        (case acc of
           [] \<Rightarrow> clean_elems rooted (if rooted then [] else [''..'']) es
         | a # as \<Rightarrow> if a = ''..'' then clean_elems rooted (''..'' # acc) es
                    else clean_elems rooted as es)
      else clean_elems rooted (e # acc) es)"

definition Clean :: "string \<Rightarrow> string" where
  "Clean path =
     (if path = [] then ''.''
      else
        let rooted = (hd path = CHR ''/'');
            es = clean_elems rooted [] (Split path (CHR ''/''))
        in if rooted then CHR ''/'' # Join es ''/''
           else if es = [] then ''.'' else Join es ''/'')"

text \<open>\<^verbatim>\<open>filepath.Join\<close> skips leading empty elements and cleans the rest.\<close>

fun PathJoin :: "string list \<Rightarrow> string" where
  "PathJoin [] = []"
| "PathJoin (e # es) = (if e = [] then PathJoin es else Clean (Join (e # es) ''/''))"

section \<open>Facts about strings\<close>

lemma HasPrefix_append [simp]: "HasPrefix (p @ s) p"
  by (simp add: HasPrefix_def)

lemma HasPrefix_iff: "HasPrefix s p \<longleftrightarrow> (\<exists>t. s = p @ t)"
  by (metis HasPrefix_append HasPrefix_def append_take_drop_id)

lemma HasPrefix_Nil [simp]: "HasPrefix s []"
  by (simp add: HasPrefix_def)

lemma HasPrefix_Cons [simp]: "HasPrefix (c # s) (d # p) \<longleftrightarrow> c = d \<and> HasPrefix s p"
  by (auto simp: HasPrefix_def)

lemma HasPrefix_Nil_Cons [simp]: "\<not> HasPrefix [] (d # p)"
  by (simp add: HasPrefix_def)

lemma Split_nonempty [simp]: "Split s c \<noteq> []"
  by (cases s) (auto split: list.splits)

lemma Split_no_sep: "c \<notin> set s \<Longrightarrow> Split s c = [s]"
  by (induction s) auto

lemma Split_append_sep: "c \<notin> set s \<Longrightarrow> Split (s @ c # t) c = s # Split t c"
  by (induction s) auto

lemma Split_parts: "w \<in> set (Split s c) \<Longrightarrow> c \<notin> set w"
  by (induction s arbitrary: w) (auto split: if_splits list.splits)

lemma Join_Split: "Join (Split s c) [c] = s"
proof (induction s)
  case Nil
  then show ?case by simp
next
  case (Cons a s)
  obtain w ws where "Split s c = w # ws" by (cases "Split s c") auto
  with Cons show ?case by (cases ws) auto
qed

lemma trim_by_id: "s = [] \<or> \<not> p (hd s) \<and> \<not> p (last s) \<Longrightarrow> trim_by p s = s"
  by (cases s rule: rev_cases) (auto simp: trim_by_def hd_append dropWhile_append3 dropWhile_eq_self_iff split: if_splits)

section \<open>Facts about decimal text\<close>

lemma digit_char_digit [simp]: "0 \<le> d \<Longrightarrow> d < 10 \<Longrightarrow> is_digit (digit_char d)"
  by (simp add: is_digit_def digit_char_def)

lemma digit_val_char [simp]: "0 \<le> d \<Longrightarrow> d < 10 \<Longrightarrow> digit_val (digit_char d) = d"
  by (simp add: digit_val_def digit_char_def)

lemma digit_val_nonneg [simp]: "is_digit c \<Longrightarrow> 0 \<le> digit_val c"
  by (simp add: is_digit_def digit_val_def)

lemma show_uint_digits: "0 \<le> n \<Longrightarrow> c \<in> set (show_uint n) \<Longrightarrow> is_digit c"
proof (induction n rule: show_uint.induct)
  case (1 n)
  then show ?case by (cases "n < 10") (auto simp: show_uint.simps [of n])
qed

lemma show_uint_nonempty [simp]: "show_uint n \<noteq> []"
  by (simp add: show_uint.simps [of n])

definition dec_val :: "string \<Rightarrow> int" where
  "dec_val s = foldl (\<lambda>n c. n * 10 + digit_val c) 0 s"

lemma dec_val_show_uint [simp]: "0 \<le> n \<Longrightarrow> dec_val (show_uint n) = n"
proof (induction n rule: show_uint.induct)
  case (1 n)
  then show ?case
    by (cases "n < 10") (auto simp: show_uint.simps [of n] dec_val_def)
qed

lemma show_uint_inj: "0 \<le> m \<Longrightarrow> 0 \<le> n \<Longrightarrow> show_uint m = show_uint n \<longleftrightarrow> m = n"
  by (metis dec_val_show_uint)

lemma not_digit_sign [simp]: "\<not> is_digit CHR ''-''" "\<not> is_digit CHR ''+''"
  by (simp_all add: is_digit_def)

lemma show_uint_hd: "0 \<le> n \<Longrightarrow> is_digit (hd (show_uint n))"
  by (rule show_uint_digits [of n]) simp_all

lemma show_int_inj [simp]: "show_int i = show_int j \<longleftrightarrow> i = j"
proof -
  have *: "CHR ''-'' # xs \<noteq> show_uint n" if "0 \<le> n" for xs n
    using show_uint_hd [OF that] by (metis list.sel(1) not_digit_sign(1))
  show ?thesis
    using * [of i] * [of j] by (auto simp: show_int_def show_uint_inj not_less) metis+
qed

lemma parse_uint_loop_snoc:
  "parse_uint_loop n (xs @ [c]) =
     (case parse_uint_loop n xs of Inl e \<Rightarrow> Inl e | Inr k \<Rightarrow> parse_uint_loop k [c])"
  by (induction xs arbitrary: n) auto

lemma parse_uint_show_uint: "0 \<le> n \<Longrightarrow> n < 2 ^ 64 \<Longrightarrow> parse_uint_loop 0 (show_uint n) = Inr n"
proof (induction n rule: show_uint.induct)
  case (1 n)
  show ?case
  proof (cases "n < 10")
    case True
    with "1.prems" show ?thesis by (simp add: show_uint.simps [of n])
  next
    case False
    with 1 have "parse_uint_loop 0 (show_uint (n div 10)) = Inr (n div 10)" by simp
    with False "1.prems" show ?thesis
      by (simp add: show_uint.simps [of n] parse_uint_loop_snoc)
  qed
qed

lemma parse_uint_loop_nonneg: "0 \<le> n \<Longrightarrow> parse_uint_loop n s = Inr k \<Longrightarrow> 0 \<le> k"
  by (induction n s rule: parse_uint_loop.induct) (auto split: if_splits)

text \<open>
  Text written by \<^verbatim>\<open>%d\<close> from an unsigned 64-bit value reads back as that value, or as the largest
  \<^verbatim>\<open>int64\<close> when it does not fit.
\<close>

lemma ParseInt_show_uint:
  assumes "0 \<le> n" "n < 2 ^ 64"
  shows "ParseInt (show_uint n) =
    (if n < 2 ^ 63 then (n, None) else (2 ^ 63 - 1, Some ErrRange))"
proof -
  have "hd (show_uint n) \<noteq> CHR ''-''" "hd (show_uint n) \<noteq> CHR ''+''"
    using show_uint_hd [OF assms(1)] by (metis not_digit_sign)+
  with parse_uint_show_uint [OF assms] show ?thesis
    by (simp add: ParseInt_def ParseUint_def)
qed

lemma ParseInt_show_int: "int64 i \<Longrightarrow> ParseInt (show_int i) = (i, None)"
proof (cases "i < 0")
  case True
  assume i: "int64 i"
  with True parse_uint_show_uint [of "- i"] show ?thesis
    by (simp add: ParseInt_def ParseUint_def show_int_def int64_def)
next
  case False
  assume "int64 i"
  with False ParseInt_show_uint [of i] show ?thesis by (simp add: show_int_def int64_def)
qed

lemma ParseInt_int64: "int64 (fst (ParseInt s))"
  by (auto simp: ParseInt_def ParseUint_def int64_def Let_def not_le
      dest: parse_uint_loop_nonneg [rotated] split: sum.splits num_err.splits)

section \<open>Facts about Match\<close>

definition literal :: "string \<Rightarrow> bool" where
  "literal p \<longleftrightarrow> (\<forall>c \<in> set p. c \<notin> {CHR ''*'', CHR ''?'', CHR ''['', CHR 0x5C})"

lemma literal_Nil [simp]: "literal []"
  by (simp add: literal_def)

lemma literal_Cons [simp]:
  "literal (c # p) \<longleftrightarrow> c \<notin> {CHR ''*'', CHR ''?'', CHR ''['', CHR 0x5C} \<and> literal p"
  by (simp add: literal_def)

lemma scan_split_literal: "literal p \<Longrightarrow> scan_split False p = (p, [])"
  by (induction p) auto

lemma scan_split_literal_star:
  "literal p \<Longrightarrow> scan_split False (p @ CHR ''*'' # q) = (p, CHR ''*'' # q)"
  by (induction p) auto

lemma matchChunk_Nil [simp]: "matchChunk f [] s = Some (if f then ([], False) else (s, True))"
  by (simp add: matchChunk.simps)

lemma matchChunk_literal_Cons:
  "c \<notin> {CHR ''*'', CHR ''?'', CHR ''['', CHR 0x5C} \<Longrightarrow>
   matchChunk f (c # cs) s =
     matchChunk (f \<or> s = [] \<or> c \<noteq> hd s) cs (if f \<or> s = [] then s else tl s)"
  by (simp add: matchChunk.simps [of f "c # cs" s] Let_def)

lemma matchChunk_failed: "literal p \<Longrightarrow> matchChunk True p s = Some ([], False)"
  by (induction p) (simp_all add: matchChunk_literal_Cons)

lemma matchChunk_literal:
  "literal p \<Longrightarrow> matchChunk False p s =
     Some (if HasPrefix s p then (drop (length p) s, True) else ([], False))"
proof (induction p arbitrary: s)
  case Nil
  then show ?case by simp
next
  case (Cons c p)
  then show ?case
    by (cases s; cases "c = hd s") (auto simp: matchChunk_literal_Cons matchChunk_failed)
qed

lemma dropWhile_star_literal: "literal p \<Longrightarrow> p \<noteq> [] \<Longrightarrow> dropWhile (\<lambda>c. c = CHR ''*'') (p @ q) = p @ q"
  by (cases p) auto

lemma Match_Nil [simp]: "Match [] name = Some (name = [])"
  by (simp add: Match.simps)

lemma pattern_ok_Nil [simp]: "pattern_ok []"
  by (simp add: pattern_ok.simps)

lemma Match_literal: "literal p \<Longrightarrow> Match p name = Some (name = p)"
proof (cases "p = []")
  case True
  then show ?thesis by simp
next
  case False
  assume p: "literal p"
  from dropWhile_star_literal [OF p False, of "[]"]
  have sc: "scanChunk p = (False, p, [])"
    by (simp add: scanChunk_def scan_split_literal [OF p])
  show ?thesis using False
    by (auto simp: Match.simps [of p name] sc matchChunk_literal [OF p] HasPrefix_iff)
qed

lemma Match_star: "Match ''*'' name = Some (CHR ''/'' \<notin> set name)"
  by (simp add: Match.simps [of "''*''"] scanChunk_def)

lemma Match_prefix_star:
  assumes p: "literal p"
  shows "Match (p @ ''*'') name = Some (HasPrefix name p \<and> CHR ''/'' \<notin> set (drop (length p) name))"
proof (cases "p = []")
  case True
  then show ?thesis by (simp add: Match_star)
next
  case False
  from dropWhile_star_literal [OF p False, of "''*''"]
  have sc: "scanChunk (p @ ''*'') = (False, p, ''*'')"
    by (simp add: scanChunk_def scan_split_literal_star [OF p])
  have ok: "pattern_ok ''*''"
    by (simp add: pattern_ok.simps [of "''*''"] scanChunk_def)
  show ?thesis using False
    by (auto simp: Match.simps [of "p @ ''*''"] sc matchChunk_literal [OF p] Match_star ok)
qed

end
