(* ===== verification/PodRes.thy ===== *)
theory PodRes
  imports GoStd "HOL-Library.Sublist"
begin

text \<open>
  The messages of the kubelet's podresources API, as far as the exporter reads them, and the
  contract that every filtering client of \<^verbatim>\<open>pkg/podres/middleware\<close> keeps. The API itself is
  generated code outside the repository; its messages are records here. A nil \<^verbatim>\<open>Topology\<close> is
  \<open>None\<close>; the generated getters read it as a topology without nodes.
\<close>

section \<open>Messages\<close>

record NUMANode =
  nn_ID :: int

record TopologyInfo =
  ti_Nodes :: "NUMANode list"

record ContainerDevices =
  cd_ResourceName :: string
  cd_DeviceIds :: "string list"
  cd_Topology :: "TopologyInfo option"

record ContainerMemory =
  cm_MemoryType :: string
  cm_Size :: int
  cm_Topology :: "TopologyInfo option"

record ContainerResources =
  cr_Name :: string
  cr_Devices :: "ContainerDevices list"
  cr_CpuIds :: "int list"
  cr_Memory :: "ContainerMemory list"

record PodResources =
  pr_Name :: string
  pr_Namespace :: string
  pr_Containers :: "ContainerResources list"

record AllocatableResources =
  al_Devices :: "ContainerDevices list"
  al_CpuIds :: "int list"
  al_Memory :: "ContainerMemory list"

text \<open>\<^verbatim>\<open>x.GetTopology().GetNodes()\<close>, and the identifiers of these nodes.\<close>

definition topo_nodes :: "TopologyInfo option \<Rightarrow> int list" where
  "topo_nodes t = (case t of None \<Rightarrow> [] | Some ti \<Rightarrow> map nn_ID (ti_Nodes ti))"

definition numa_topology :: "int \<Rightarrow> TopologyInfo option" where
  "numa_topology n = Some \<lparr>ti_Nodes = [\<lparr>nn_ID = n\<rparr>]\<rparr>"

lemma topo_nodes_numa [simp]: "topo_nodes (numa_topology n) = [n]"
  by (simp add: topo_nodes_def numa_topology_def)

lemma topo_nodes_None [simp]: "topo_nodes None = []"
  by (simp add: topo_nodes_def)

section \<open>What a filtering client may do\<close>

text \<open>
  A filtering client hides pods, and takes CPUs away from containers; it invents neither. The
  relation \<open>pod_le\<close> compares a filtered pod with the pod it was made from.
\<close>

definition container_le :: "ContainerResources \<Rightarrow> ContainerResources \<Rightarrow> bool" where
  "container_le c d \<longleftrightarrow> cr_Name c = cr_Name d \<and> cr_Devices c = cr_Devices d \<and>
     cr_Memory c = cr_Memory d \<and> mset (cr_CpuIds c) \<subseteq># mset (cr_CpuIds d)"

definition pod_le :: "PodResources \<Rightarrow> PodResources \<Rightarrow> bool" where
  "pod_le p q \<longleftrightarrow> pr_Name p = pr_Name q \<and> pr_Namespace p = pr_Namespace q \<and>
     list_all2 container_le (pr_Containers p) (pr_Containers q)"

definition pods_le :: "PodResources list \<Rightarrow> PodResources list \<Rightarrow> bool" where
  "pods_le ps qs \<longleftrightarrow> (\<exists>rs. subseq rs qs \<and> list_all2 pod_le ps rs)"

lemma list_all2_transp:
  "(\<And>a b c. P a b \<Longrightarrow> P b c \<Longrightarrow> P a c) \<Longrightarrow> list_all2 P xs ys \<Longrightarrow> list_all2 P ys zs \<Longrightarrow>
   list_all2 P xs zs"
  by (rule list_all2_trans)

lemma subseq_set_subset: "subseq xs ys \<Longrightarrow> set xs \<subseteq> set ys"
  by (metis notin_set_nthsI subseq_conv_nths subsetI)

lemma container_le_refl [simp]: "container_le c c"
  by (simp add: container_le_def)

lemma container_le_trans: "container_le a b \<Longrightarrow> container_le b c \<Longrightarrow> container_le a c"
  by (auto simp: container_le_def intro: subset_mset.order_trans)

lemma pod_le_refl [simp]: "pod_le p p"
  by (simp add: pod_le_def list_all2_refl)

lemma pod_le_trans: "pod_le a b \<Longrightarrow> pod_le b c \<Longrightarrow> pod_le a c"
  by (auto simp: pod_le_def elim: list_all2_transp [rotated] intro: container_le_trans)

lemma pods_le_refl [simp]: "pods_le ps ps"
  by (auto simp: pods_le_def intro!: exI [of _ ps] list_all2_refl)

lemma list_all2_subseq:
  assumes "list_all2 P xs ys" "subseq rs xs"
  obtains ss where "subseq ss ys" "list_all2 P rs ss"
proof -
  from assms(2,1) have "\<exists>ss. subseq ss ys \<and> list_all2 P rs ss"
  proof (induction rs xs arbitrary: ys rule: list_emb.induct)
    case (list_emb_Nil xs)
    then show ?case by (auto intro: exI [of _ "[]"])
  next
    case (list_emb_Cons rs xs x)
    then obtain y ys' where "ys = y # ys'" "list_all2 P xs ys'" by (auto simp: list_all2_Cons1)
    with list_emb_Cons.IH [of ys'] show ?case by (auto intro: subseq_Cons')
  next
    case (list_emb_Cons2 a b rs xs)
    then obtain y ys' where ys: "ys = y # ys'" "P b y" "list_all2 P xs ys'"
      by (auto simp: list_all2_Cons1)
    with list_emb_Cons2.IH [of ys'] obtain ss where "subseq ss ys'" "list_all2 P rs ss" by auto
    with ys list_emb_Cons2.hyps(1) show ?case by (intro exI [of _ "y # ss"]) auto
  qed
  with that show thesis by blast
qed

lemma pods_le_trans:
  assumes "pods_le as bs" "pods_le bs cs"
  shows "pods_le as cs"
proof -
  from assms obtain rs ss where rs: "subseq rs bs" "list_all2 pod_le as rs"
    and ss: "subseq ss cs" "list_all2 pod_le bs ss" by (auto simp: pods_le_def)
  from list_all2_subseq [OF ss(2) rs(1)] obtain ts
    where ts: "subseq ts ss" "list_all2 pod_le rs ts" .
  from rs(2) ts(2) have "list_all2 pod_le as ts" by (rule list_all2_transp [rotated]) (rule pod_le_trans)
  with ts(1) ss(1) show ?thesis
    by (auto simp: pods_le_def intro: subseq_order.order_trans)
qed

lemma pods_le_filter [simp]: "pods_le (filter P ps) ps"
  by (auto simp: pods_le_def intro!: exI [of _ "filter P ps"] list_all2_refl)

lemma pods_le_map: "(\<And>p. p \<in> set ps \<Longrightarrow> pod_le (f p) p) \<Longrightarrow> pods_le (map f ps) ps"
  by (auto simp: pods_le_def list_all2_map1 intro!: exI [of _ ps] list.rel_refl_strong)

lemma pods_le_container:
  assumes "pods_le ps qs" "p \<in> set ps" "c \<in> set (pr_Containers p)"
  shows "\<exists>q \<in> set qs. \<exists>d \<in> set (pr_Containers q). container_le c d"
proof -
  from assms(1) obtain rs where rs: "subseq rs qs" "list_all2 pod_le ps rs" by (auto simp: pods_le_def)
  with assms(2) obtain q where q: "q \<in> set rs" "pod_le p q"
    by (metis in_set_conv_nth list_all2_conv_all_nth)
  with assms(3) obtain d where "d \<in> set (pr_Containers q)" "container_le c d"
    unfolding pod_le_def by (metis in_set_conv_nth list_all2_conv_all_nth)
  with q(1) subseq_set_subset [OF rs(1)] show ?thesis by blast
qed

text \<open>The list call of a wrapped client: an error of the inner client is passed on unchanged.\<close>

type_synonym list_result = "gerr + PodResources list"

definition client_List :: "(PodResources list \<Rightarrow> PodResources list) \<Rightarrow> list_result \<Rightarrow> list_result" where
  "client_List f r = (case r of Inl e \<Rightarrow> Inl e | Inr ps \<Rightarrow> Inr (f ps))"

text \<open>The contract of one filter, and the contract of two stacked filters.\<close>

locale podres_filter =
  fixes filt :: "PodResources list \<Rightarrow> PodResources list"
  assumes shrinks: "pods_le (filt ps) ps"
begin

lemma pods_known:
  assumes "p \<in> set (filt ps)"
  shows "\<exists>q \<in> set ps. pod_le p q"
proof -
  from shrinks [of ps] obtain rs where "subseq rs ps" "list_all2 pod_le (filt ps) rs"
    by (auto simp: pods_le_def)
  moreover from \<open>list_all2 pod_le (filt ps) rs\<close> assms obtain q where "q \<in> set rs" "pod_le p q"
    by (metis in_set_conv_nth list_all2_conv_all_nth)
  ultimately show ?thesis using subseq_set_subset by blast
qed

lemma no_more_pods: "length (filt ps) \<le> length ps"
proof -
  from shrinks [of ps] obtain rs where "subseq rs ps" "list_all2 pod_le (filt ps) rs"
    by (auto simp: pods_le_def)
  then show ?thesis by (metis list_all2_lengthD list_emb_length)
qed

lemma list_error: "client_List filt (Inl e) = Inl e"
  by (simp add: client_List_def)

end

locale podres_filter2 = inner: podres_filter f + outer: podres_filter g
  for f :: "PodResources list \<Rightarrow> PodResources list"
  and g :: "PodResources list \<Rightarrow> PodResources list"
begin

lemma stacked: "podres_filter (g \<circ> f)"
  by unfold_locales (metis comp_apply inner.shrinks outer.shrinks pods_le_trans)

end

end
