(* ===== verification/NumaLocality.thy ===== *)
theory NumaLocality
  imports PodRes
begin

text \<open>
  \<^verbatim>\<open>pkg/podres/filter\<close>: the decision whether a pod takes part in the pod fingerprint. The filter
  \<^verbatim>\<open>numalocality.Verify\<close> accepts a pod that holds resources bound to a NUMA node and names the
  container and the kind of resource that decided.
\<close>

record Result =
  res_Allow :: bool
  res_Ident :: string
  res_Reason :: string

definition VerifyAlwaysPass :: "PodResources option \<Rightarrow> Result" where
  "VerifyAlwaysPass pr = \<lparr>res_Allow = True, res_Ident = [], res_Reason = []\<rparr>"

definition AlwaysPass :: "PodResources option \<Rightarrow> bool" where
  "AlwaysPass pr = res_Allow (VerifyAlwaysPass pr)"

definition nl_CPU :: string where
  "nl_CPU = ''cpu''"

definition nl_Memory :: string where
  "nl_Memory = ''memory''"

definition nl_Device :: string where
  "nl_Device = ''device''"

definition IsPresent :: "TopologyInfo option \<Rightarrow> bool" where
  "IsPresent topo =
     (case topo of
        None \<Rightarrow> False
      | Some ti \<Rightarrow> list_ex (\<lambda>node. nn_ID node \<ge> 0) (ti_Nodes ti))"

definition accept :: "string \<Rightarrow> string \<Rightarrow> Result" where
  "accept name reason = \<lparr>res_Allow = True, res_Ident = name, res_Reason = reason\<rparr>"

definition reject :: Result where
  "reject = \<lparr>res_Allow = False, res_Ident = [], res_Reason = []\<rparr>"

fun verify_containers :: "ContainerResources list \<Rightarrow> Result" where
  "verify_containers [] = reject"
| "verify_containers (cr # crs) =
     (if cr_CpuIds cr \<noteq> [] then accept (cr_Name cr) nl_CPU
      else if list_ex (\<lambda>mem. IsPresent (cm_Topology mem)) (cr_Memory cr)
      then accept (cr_Name cr) nl_Memory
      else if list_ex (\<lambda>dev. cd_DeviceIds dev \<noteq> [] \<and> IsPresent (cd_Topology dev)) (cr_Devices cr)
      then accept (cr_Name cr) nl_Device
      else verify_containers crs)"

definition Verify :: "PodResources option \<Rightarrow> Result" where
  "Verify pr = (case pr of None \<Rightarrow> reject | Some p \<Rightarrow> verify_containers (pr_Containers p))"

definition Required :: "PodResources option \<Rightarrow> bool" where
  "Required pr = res_Allow (Verify pr)"

section \<open>When a pod is accepted\<close>

text \<open>The specification: a container holds a CPU, or memory or a device with a NUMA node.\<close>

definition numa_bound :: "ContainerResources \<Rightarrow> bool" where
  "numa_bound cr \<longleftrightarrow> cr_CpuIds cr \<noteq> [] \<or>
     (\<exists>m \<in> set (cr_Memory cr). \<exists>n \<in> set (topo_nodes (cm_Topology m)). 0 \<le> n) \<or>
     (\<exists>d \<in> set (cr_Devices cr). cd_DeviceIds d \<noteq> [] \<and>
        (\<exists>n \<in> set (topo_nodes (cd_Topology d)). 0 \<le> n))"

lemma IsPresent_iff: "IsPresent t \<longleftrightarrow> (\<exists>n \<in> set (topo_nodes t). 0 \<le> n)"
  by (auto simp: IsPresent_def topo_nodes_def list_ex_iff split: option.splits)

lemma verify_containers_skip:
  "\<not> numa_bound cr \<Longrightarrow> verify_containers (cr # crs) = verify_containers crs"
  by (auto simp: numa_bound_def IsPresent_iff list_ex_iff)

lemma verify_containers_hit:
  "numa_bound cr \<Longrightarrow> verify_containers (cr # crs) =
     accept (cr_Name cr)
       (if cr_CpuIds cr \<noteq> [] then nl_CPU
        else if \<exists>m \<in> set (cr_Memory cr). IsPresent (cm_Topology m) then nl_Memory else nl_Device)"
  by (auto simp: numa_bound_def IsPresent_iff list_ex_iff)

lemma verify_containers_find:
  "verify_containers crs =
     (case find numa_bound crs of
        None \<Rightarrow> reject
      | Some cr \<Rightarrow>
          accept (cr_Name cr)
            (if cr_CpuIds cr \<noteq> [] then nl_CPU
             else if \<exists>m \<in> set (cr_Memory cr). IsPresent (cm_Topology m) then nl_Memory
             else nl_Device))"
proof (induction crs)
  case Nil
  then show ?case by simp
next
  case (Cons cr crs)
  then show ?case
    by (cases "numa_bound cr")
      (simp_all add: verify_containers_skip verify_containers_hit del: verify_containers.simps)
qed

lemma Verify_Allow: "res_Allow (Verify (Some p)) \<longleftrightarrow> (\<exists>cr \<in> set (pr_Containers p). numa_bound cr)"
  by (auto simp: Verify_def verify_containers_find accept_def reject_def find_None_iff
      find_Some_iff split: option.splits)

end
