(* ===== verification/PodExclude.thy ===== *)
theory PodExclude
  imports PodRes
begin

text \<open>
  \<^verbatim>\<open>pkg/podres/middleware/podexclude\<close>: the client that hides the pods whose namespace and name
  match a pair of configured globs.
\<close>

record Item =
  NamespacePattern :: string
  NamePattern :: string

definition items_Clone :: "Item list \<Rightarrow> Item list" where
  "items_Clone items = [] @ items"

text \<open>
  The loop over the excludes. A malformed pattern is reported in debug mode, where the loop moves
  on at once; otherwise the negative answer that comes with the error makes it move on.
\<close>

fun ShouldExclude :: "Item list \<Rightarrow> string \<Rightarrow> string \<Rightarrow> bool \<Rightarrow> bool" where
  "ShouldExclude [] namespace name debug = False"
| "ShouldExclude (item # items) namespace name debug =
     (let ns = Match (NamespacePattern item) namespace in
      if ns = None \<and> debug then ShouldExclude items namespace name debug
      else if ns \<noteq> Some True then ShouldExclude items namespace name debug
      else
        let n = Match (NamePattern item) name in
        if n = None \<and> debug then ShouldExclude items namespace name debug
        else if n \<noteq> Some True then ShouldExclude items namespace name debug
        else True)"

record podexclude_client =
  px_debug :: bool
  px_podExcludes :: "Item list"

fun px_FilterListResponse :: "podexclude_client \<Rightarrow> PodResources list \<Rightarrow> PodResources list" where
  "px_FilterListResponse fc [] = []"
| "px_FilterListResponse fc (podRes # rest) =
     (if ShouldExclude (px_podExcludes fc) (pr_Namespace podRes) (pr_Name podRes) (px_debug fc)
      then px_FilterListResponse fc rest
      else podRes # px_FilterListResponse fc rest)"

definition px_List :: "podexclude_client \<Rightarrow> list_result \<Rightarrow> list_result" where
  "px_List fc r = client_List (px_FilterListResponse fc) r"

definition px_NewFromLister :: "bool \<Rightarrow> Item list \<Rightarrow> podexclude_client" where
  "px_NewFromLister debug podExcludes = \<lparr>px_debug = debug, px_podExcludes = podExcludes\<rparr>"

text \<open>The other two calls are passed through.\<close>

definition px_FilterAllocatableResponse :: "AllocatableResources \<Rightarrow> AllocatableResources" where
  "px_FilterAllocatableResponse resp = resp"

definition px_FilterGetResponse :: "PodResources \<Rightarrow> PodResources" where
  "px_FilterGetResponse resp = resp"

definition px_GetAllocatableResources :: "gerr + AllocatableResources \<Rightarrow> gerr + AllocatableResources" where
  "px_GetAllocatableResources r = (case r of Inl e \<Rightarrow> Inl e | Inr resp \<Rightarrow> Inr (px_FilterAllocatableResponse resp))"

definition px_Get :: "gerr + PodResources \<Rightarrow> gerr + PodResources" where
  "px_Get r = (case r of Inl e \<Rightarrow> Inl e | Inr resp \<Rightarrow> Inr (px_FilterGetResponse resp))"

section \<open>Which pods are hidden\<close>

lemma ShouldExclude_iff:
  "ShouldExclude items namespace name debug \<longleftrightarrow>
     (\<exists>item \<in> set items. Match (NamespacePattern item) namespace = Some True \<and>
        Match (NamePattern item) name = Some True)"
  by (induction items) (auto simp: Let_def)

lemma px_FilterListResponse_filter:
  "px_FilterListResponse fc ps =
     filter (\<lambda>p. \<not> ShouldExclude (px_podExcludes fc) (pr_Namespace p) (pr_Name p) (px_debug fc)) ps"
  by (induction ps) auto

interpretation px: podres_filter "px_FilterListResponse fc" for fc
  by unfold_locales (simp add: px_FilterListResponse_filter)

end
