(* ===== verification/NRTApi.thy ===== *)
theory NRTApi
  imports Prelude
begin

text \<open>
  The parts of the \<^verbatim>\<open>NodeResourceTopology\<close> API (version v1alpha2) that the exporter fills in. The
  types are declared outside the repository. A quantity is kept as the call that built it.
\<close>

datatype quantity_format = DecimalSI | BinarySI

datatype Quantity = NewQuantity (qty_value: int) (qty_format: quantity_format)

record CostInfo =
  co_Name :: string
  co_Value :: int

record ResourceInfo =
  ri_Name :: string
  ri_Available :: Quantity
  ri_Allocatable :: Quantity
  ri_Capacity :: Quantity

record Zone =
  z_Name :: string
  z_Type :: string
  z_Costs :: "CostInfo list"
  z_Resources :: "ResourceInfo list"

record AttributeInfo =
  at_Name :: string
  at_Value :: string

text \<open>The fields of a core \<^verbatim>\<open>Node\<close> that the program reads.\<close>

record v1_Node =
  vn_Name :: string
  vn_UID :: string
  vn_Capacity :: "(string, Quantity) gomap"
  vn_Allocatable :: "(string, Quantity) gomap"

text \<open>Names of the core resources, constants of \<^verbatim>\<open>k8s.io/api/core/v1\<close>.\<close>

definition ResourceCPU :: string where
  "ResourceCPU = ''cpu''"

definition ResourceMemory :: string where
  "ResourceMemory = ''memory''"

definition ResourceHugePagesPrefix :: string where
  "ResourceHugePagesPrefix = ''hugepages-''"

end
