(* ===== verification/Sysinfo.thy ===== *)
theory Sysinfo
  imports GoStd NRTApi
begin

text \<open>
  \<^verbatim>\<open>pkg/sysinfo\<close>: memory and huge pages of each NUMA node, read from sysfs. The file system is the
  argument \<open>fs\<close>: what \<^verbatim>\<open>os.ReadDir\<close>, \<^verbatim>\<open>os.ReadFile\<close> and \<^verbatim>\<open>filepath.EvalSymlinks\<close> answer. The
  argument \<open>qs\<close> is the text of a binary quantity, from \<^verbatim>\<open>apimachinery\<close>. A function that fails
  returns the error; the partial results that Go returns beside it are never read.
\<close>

record filesystem =
  fs_ReadDir :: "string \<Rightarrow> gerr + (string \<times> bool) list"
  fs_ReadFile :: "string \<Rightarrow> gerr + string"
  fs_EvalSymlinks :: "string \<Rightarrow> gerr + string"

record sys_Handle =
  hnd_Root :: string

definition SysDevicesNode :: string where
  "SysDevicesNode = ''/sys/devices/system/node''"

definition HugepageSize2Mi :: int where
  "HugepageSize2Mi = 2048"

definition HugepageSize1Gi :: int where
  "HugepageSize1Gi = 1048576"

definition SysDevicesNodes :: "sys_Handle \<Rightarrow> string" where
  "SysDevicesNodes hnd = PathJoin [hnd_Root hnd, SysDevicesNode]"

definition SysDevicesNodesNodeNth :: "sys_Handle \<Rightarrow> int \<Rightarrow> string" where
  "SysDevicesNodesNodeNth hnd nodeID =
     PathJoin [hnd_Root hnd, SysDevicesNode, ''node'' @ show_int nodeID]"

section \<open>Memory\<close>

fun meminfo_lines :: "string \<Rightarrow> string list \<Rightarrow> gerr + int" where
  "meminfo_lines path [] =
     Inl (Errorf (''failed to find MemTotal field under the file '' @ path))"
| "meminfo_lines path (line # rest) =
     (if \<not> Contains line ''MemTotal'' then meminfo_lines path rest
      else
        case Split line (CHR '':'') of
          [a, b] \<Rightarrow>
            (let memValue = Trim b [CHR 0x09, CHR 0x0A, CHR '' '', CHR ''k'', CHR ''B''] in
             case ParseInt memValue of
               (convertedValue, None) \<Rightarrow> Inr (w64 (1024 * convertedValue))
             | (_, Some e) \<Rightarrow> Inl (Errorf (''failed to convert value: '' @ memValue)))
        | _ \<Rightarrow> Inl (Errorf (''MemTotal has unexpected format: '' @ line)))"

definition readTotalMemoryFromMeminfo :: "filesystem \<Rightarrow> string \<Rightarrow> gerr + int" where
  "readTotalMemoryFromMeminfo fs path =
     (case fs_ReadFile fs path of
        Inl e \<Rightarrow> Inl e
      | Inr data \<Rightarrow> meminfo_lines path (Split data (CHR 0x0A)))"

definition MemoryForNode :: "filesystem \<Rightarrow> sys_Handle \<Rightarrow> int \<Rightarrow> gerr + int" where
  "MemoryForNode fs hnd nodeID =
     readTotalMemoryFromMeminfo fs (PathJoin [SysDevicesNodesNodeNth hnd nodeID, ''meminfo''])"

fun memory_entries ::
    "filesystem \<Rightarrow> sys_Handle \<Rightarrow> (string \<times> bool) list \<Rightarrow> (int, int) gomap \<Rightarrow> gerr + (int, int) gomap" where
  "memory_entries fs hnd [] memory = Inr memory"
| "memory_entries fs hnd ((entryName, isDir) # rest) memory =
     (if isDir \<and> HasPrefix entryName ''node'' then
        (case Atoi (drop 4 entryName) of
           (_, Some e) \<Rightarrow> Inl (Errorf (''cannot detect the node ID for '' @ entryName))
         | (nodeID, None) \<Rightarrow>
             (case MemoryForNode fs hnd nodeID of
                Inl e \<Rightarrow> Inl (Wrapf ''cannot find the memory on NUMA node'' e)
              | Inr nodeMemory \<Rightarrow>
                  memory_entries fs hnd rest (AList.update nodeID nodeMemory memory)))
      else memory_entries fs hnd rest memory)"

definition GetMemory :: "filesystem \<Rightarrow> sys_Handle \<Rightarrow> gerr + (int, int) gomap" where
  "GetMemory fs hnd =
     (case fs_ReadDir fs (SysDevicesNodes hnd) of
        Inl e \<Rightarrow> Inl e
      | Inr entries \<Rightarrow> memory_entries fs hnd entries [])"

section \<open>Huge pages\<close>

record Hugepages =
  hp_NodeID :: int
  hp_SizeKB :: int
  hp_Total :: int

text \<open>
  \<^verbatim>\<open>fmt.Sscanf\<close> with the format \<^verbatim>\<open>hugepages-%dkB\<close>: the integer verb skips spaces but not a
  newline, and takes a sign and digits; text after the format is ignored.
\<close>

fun scan_skip_space :: "string \<Rightarrow> string option" where
  "scan_skip_space [] = Some []"
| "scan_skip_space (c # cs) =
     (if c = CHR 0x0A then None else if is_space c then scan_skip_space cs else Some (c # cs))"

definition Sscanf_hugepages :: "string \<Rightarrow> int option" where
  "Sscanf_hugepages s =
     (if \<not> HasPrefix s ''hugepages-'' then None
      else
        case scan_skip_space (drop 10 s) of
          None \<Rightarrow> None
        | Some t \<Rightarrow>
            let signed = (t \<noteq> [] \<and> (hd t = CHR ''+'' \<or> hd t = CHR ''-''));
                u = (if signed then tl t else t);
                ds = takeWhile is_digit u
            in if ds = [] then None
               else
                 case ParseInt (if signed then hd t # ds else ds) of
                   (_, Some e) \<Rightarrow> None
                 | (v, None) \<Rightarrow>
                     if HasPrefix (dropWhile is_digit u) ''kB'' then Some v else None)"

definition readIntFromFile :: "filesystem \<Rightarrow> string \<Rightarrow> gerr + int" where
  "readIntFromFile fs path =
     (case fs_ReadFile fs path of
        Inl e \<Rightarrow> Inl e
      | Inr data \<Rightarrow>
          (case Atoi (TrimSpace data) of
             (v, None) \<Rightarrow> Inr v
           | (_, Some e) \<Rightarrow> Inl (Errorf ''strconv.Atoi'')))"

fun hugepages_entries ::
    "filesystem \<Rightarrow> string \<Rightarrow> int \<Rightarrow> (string \<times> bool) list \<Rightarrow> Hugepages list \<Rightarrow> gerr + Hugepages list" where
  "hugepages_entries fs hpPath nodeID [] hugepages = Inr hugepages"
| "hugepages_entries fs hpPath nodeID ((entryName, isDir) # rest) hugepages =
     (if \<not> isDir then hugepages_entries fs hpPath nodeID rest hugepages
      else
        case Sscanf_hugepages entryName of
          None \<Rightarrow> Inl (Errorf (''malformed hugepages entry '' @ entryName))
        | Some hugepageSizeKB \<Rightarrow>
            let entryPath = PathJoin [hpPath, entryName] in
            (case fs_EvalSymlinks fs (PathJoin [entryPath, ''nr_hugepages'']) of
               Inl e \<Rightarrow> Inl (Wrapf (''cannot clean '' @ entryPath) e)
             | Inr hpCountPath \<Rightarrow>
                 if \<not> HasPrefix hpCountPath hpPath
                 then Inl (Errorf (''unexpected path resolution: '' @ hpCountPath @
                        '' not subpath of '' @ hpPath))
                 else
                   case readIntFromFile fs hpCountPath of
                     Inl e \<Rightarrow> Inl (Wrapf (''cannot read from '' @ hpCountPath) e)
                   | Inr totalCount \<Rightarrow>
                       hugepages_entries fs hpPath nodeID rest
                         (hugepages @ [\<lparr>hp_NodeID = nodeID, hp_SizeKB = hugepageSizeKB,
                                        hp_Total = totalCount\<rparr>])))"

definition HugepagesForNode :: "filesystem \<Rightarrow> sys_Handle \<Rightarrow> int \<Rightarrow> gerr + Hugepages list" where
  "HugepagesForNode fs hnd nodeID =
     (let hpPath = PathJoin [SysDevicesNodesNodeNth hnd nodeID, ''hugepages''] in
      case fs_ReadDir fs hpPath of
        Inl e \<Rightarrow> Inl e
      | Inr entries \<Rightarrow> hugepages_entries fs hpPath nodeID entries [])"

fun node_entries ::
    "filesystem \<Rightarrow> sys_Handle \<Rightarrow> (string \<times> bool) list \<Rightarrow> Hugepages list \<Rightarrow> gerr + Hugepages list" where
  "node_entries fs hnd [] hugepages = Inr hugepages"
| "node_entries fs hnd ((entryName, isDir) # rest) hugepages =
     (if isDir \<and> HasPrefix entryName ''node'' then
        (case Atoi (drop 4 entryName) of
           (_, Some e) \<Rightarrow> Inl (Errorf (''cannot detect the node ID for '' @ entryName))
         | (nodeID, None) \<Rightarrow>
             (case HugepagesForNode fs hnd nodeID of
                Inl e \<Rightarrow> Inl (Wrapf ''cannot find the hugepages on NUMA node'' e)
              | Inr nodeHugepages \<Rightarrow> node_entries fs hnd rest (hugepages @ nodeHugepages)))
      else node_entries fs hnd rest hugepages)"

definition GetHugepages :: "filesystem \<Rightarrow> sys_Handle \<Rightarrow> gerr + Hugepages list" where
  "GetHugepages fs hnd =
     (case fs_ReadDir fs (SysDevicesNodes hnd) of
        Inl e \<Rightarrow> Inl e
      | Inr entries \<Rightarrow> node_entries fs hnd entries [])"

definition HugepageResourceNameFromSize :: "(Quantity \<Rightarrow> string) \<Rightarrow> int \<Rightarrow> string" where
  "HugepageResourceNameFromSize qs sizeKB =
     ''hugepages-'' @ qs (NewQuantity (w64 (sizeKB * 1024)) BinarySI)"

section \<open>The counters\<close>

fun hugepages_counters ::
    "(Quantity \<Rightarrow> string) \<Rightarrow> Hugepages list \<Rightarrow> (string, (int, int) gomap) gomap \<Rightarrow>
     (string, (int, int) gomap) gomap" where
  "hugepages_counters qs [] numaCounters = numaCounters"
| "hugepages_counters qs (hpage # rest) numaCounters =
     (let resourceName = HugepageResourceNameFromSize qs (hp_SizeKB hpage);
          numaDevs = (case map_of numaCounters resourceName of None \<Rightarrow> [] | Some m \<Rightarrow> m);
          numaDevs' = AList.update (hp_NodeID hpage)
                        (w64 (w64 (hp_Total hpage * hp_SizeKB hpage) * 1024)) numaDevs
      in hugepages_counters qs rest (AList.update resourceName numaDevs' numaCounters))"

fun memory_counters ::
    "(int, int) gomap \<Rightarrow> (string, (int, int) gomap) gomap \<Rightarrow> (string, (int, int) gomap) gomap" where
  "memory_counters [] numaCounters = numaCounters"
| "memory_counters ((numaID, value) # rest) numaCounters =
     memory_counters rest
       (AList.update ResourceMemory
          (AList.update numaID value (gm_getm numaCounters ResourceMemory)) numaCounters)"

definition GetMemoryResourceCounters ::
    "(Quantity \<Rightarrow> string) \<Rightarrow> filesystem \<Rightarrow> sys_Handle \<Rightarrow> gerr + (string, (int, int) gomap) gomap" where
  "GetMemoryResourceCounters qs fs hnd =
     (case GetHugepages fs hnd of
        Inl e \<Rightarrow> Inl e
      | Inr hugepages \<Rightarrow>
          (let numaCounters = hugepages_counters qs hugepages [(ResourceMemory, [])] in
           case GetMemory fs hnd of
             Inl e \<Rightarrow> Inl e
           | Inr memory \<Rightarrow> Inr (memory_counters memory numaCounters)))"

end
