(* ===== verification/Metrics.thy ===== *)
theory Metrics
  imports Prelude
begin

text \<open>
  \<^verbatim>\<open>pkg/metrics/metrics.go\<close>. The vectors belong to the Prometheus library; a component's effect on
  them is the list of calls it makes, with the label values the package fills in. A delay in
  milliseconds is kept as an integer, the patch size ratio as the pair of the two
  sizes.
\<close>

type_synonym labels = "(string \<times> string) list"

datatype metric_call =
  CounterInc string labels
| GaugeSet string labels int
| HistogramObserve string labels "int \<times> int"

record metrics_state =
  ms_nodeName :: string
  ms_calls :: "metric_call list"

definition ms_call :: "metric_call \<Rightarrow> metrics_state \<Rightarrow> metrics_state" where
  "ms_call c ms = ms\<lparr>ms_calls := ms_calls ms @ [c]\<rparr>"

text \<open>
  The vectors the package registers, with the names of their labels. The library panics when a vector
  is used with other label names than it was declared with.
\<close>

datatype metric_kind = CounterVec | GaugeVec | HistogramVec

definition metric_vectors :: "(string \<times> metric_kind \<times> string list) list" where
  "metric_vectors =
     [(''rte_podresource_api_call_failures_total'', CounterVec, [''node'', ''function_name'']),
      (''rte_noderesourcetopology_writes_total'', CounterVec, [''node'', ''operation'', ''trigger'']),
      (''rte_operation_delay_milliseconds'', GaugeVec, [''node'', ''operation_name'', ''trigger'']),
      (''rte_wakeup_delay_milliseconds'', GaugeVec, [''node'', ''trigger'']),
      (''rte_noderesourcetopology_patch_failures_total'', CounterVec, [''node'', ''trigger'']),
      (''rte_noderesourcetopology_patch_size_ratio'', HistogramVec, [''node''])]"

fun metric_declared :: "metric_call \<Rightarrow> bool" where
  "metric_declared (CounterInc name ls) \<longleftrightarrow> map_of metric_vectors name = Some (CounterVec, map fst ls)"
| "metric_declared (GaugeSet name ls v) \<longleftrightarrow> map_of metric_vectors name = Some (GaugeVec, map fst ls)"
| "metric_declared (HistogramObserve name ls r) \<longleftrightarrow> map_of metric_vectors name = Some (HistogramVec, map fst ls)"

definition metrics_declared :: "metrics_state \<Rightarrow> bool" where
  "metrics_declared ms \<longleftrightarrow> list_all metric_declared (ms_calls ms)"

definition UpdateNodeResourceTopologyWritesMetric ::
    "string \<Rightarrow> string \<Rightarrow> metrics_state \<Rightarrow> metrics_state" where
  "UpdateNodeResourceTopologyWritesMetric operation trigger ms =
     ms_call (CounterInc ''rte_noderesourcetopology_writes_total''
       [(''node'', ms_nodeName ms), (''operation'', operation), (''trigger'', trigger)]) ms"

definition UpdatePodResourceApiCallsFailuresMetric :: "string \<Rightarrow> metrics_state \<Rightarrow> metrics_state" where
  "UpdatePodResourceApiCallsFailuresMetric funcName ms =
     ms_call (CounterInc ''rte_podresource_api_call_failures_total''
       [(''node'', ms_nodeName ms), (''function_name'', funcName)]) ms"

definition UpdateOperationDelayMetric ::
    "string \<Rightarrow> string \<Rightarrow> int \<Rightarrow> metrics_state \<Rightarrow> metrics_state" where
  "UpdateOperationDelayMetric opName trigger operationDelay ms =
     ms_call (GaugeSet ''rte_operation_delay_milliseconds''
       [(''node'', ms_nodeName ms), (''operation_name'', opName), (''trigger'', trigger)]
       operationDelay) ms"

definition UpdateWakeupDelayMetric :: "string \<Rightarrow> int \<Rightarrow> metrics_state \<Rightarrow> metrics_state" where
  "UpdateWakeupDelayMetric trigger wakeupDelay ms =
     ms_call (GaugeSet ''rte_wakeup_delay_milliseconds''
       [(''node'', ms_nodeName ms), (''trigger'', trigger)] wakeupDelay) ms"

definition UpdateNodeResourceTopologyPatchFailuresMetric ::
    "string \<Rightarrow> metrics_state \<Rightarrow> metrics_state" where
  "UpdateNodeResourceTopologyPatchFailuresMetric trigger ms =
     ms_call (CounterInc ''rte_noderesourcetopology_patch_failures_total''
       [(''node'', ms_nodeName ms), (''trigger'', trigger)]) ms"

definition UpdateNodeResourceTopologyPatchSizeRatioMetric ::
    "int \<times> int \<Rightarrow> metrics_state \<Rightarrow> metrics_state" where
  "UpdateNodeResourceTopologyPatchSizeRatioMetric ratio ms =
     ms_call (HistogramObserve ''rte_noderesourcetopology_patch_size_ratio''
       [(''node'', ms_nodeName ms)] ratio) ms"

text \<open>\<open>env\<close> is \<^verbatim>\<open>os.LookupEnv\<close>, \<open>hostname\<close> the result of \<^verbatim>\<open>os.Hostname\<close>.\<close>

definition metrics_Setup ::
    "(string \<Rightarrow> string option) \<Rightarrow> gerr + string \<Rightarrow> string \<Rightarrow> metrics_state \<Rightarrow>
     metrics_state \<times> gerr option" where
  "metrics_Setup env hostname nname ms =
     (let r = (if nname = []
               then (case env ''NODE_NAME'' of Some v \<Rightarrow> Inr v | None \<Rightarrow> hostname)
               else Inr nname)
      in case r of
           Inl e \<Rightarrow> (ms, Some e)
         | Inr val \<Rightarrow> (ms\<lparr>ms_nodeName := val\<rparr>, None))"

definition GetNodeName :: "metrics_state \<Rightarrow> string" where
  "GetNodeName ms = ms_nodeName ms"

lemmas metric_defs =
  UpdateNodeResourceTopologyWritesMetric_def UpdatePodResourceApiCallsFailuresMetric_def
  UpdateOperationDelayMetric_def UpdateWakeupDelayMetric_def
  UpdateNodeResourceTopologyPatchFailuresMetric_def
  UpdateNodeResourceTopologyPatchSizeRatioMetric_def ms_call_def

lemma ms_nodeName_call [simp]: "ms_nodeName (ms_call c ms) = ms_nodeName ms"
  by (simp add: ms_call_def)

text \<open>Every update uses its vector as it was declared.\<close>

lemma metrics_declared_updates [simp]:
  "metrics_declared (UpdateNodeResourceTopologyWritesMetric operation trigger ms) = metrics_declared ms"
  "metrics_declared (UpdatePodResourceApiCallsFailuresMetric funcName ms) = metrics_declared ms"
  "metrics_declared (UpdateOperationDelayMetric opName trigger delay ms) = metrics_declared ms"
  "metrics_declared (UpdateWakeupDelayMetric trigger delay ms) = metrics_declared ms"
  "metrics_declared (UpdateNodeResourceTopologyPatchFailuresMetric trigger ms) = metrics_declared ms"
  "metrics_declared (UpdateNodeResourceTopologyPatchSizeRatioMetric ratio ms) = metrics_declared ms"
  by (simp_all add: metric_defs metrics_declared_def metric_vectors_def)

end
