(* ===== verification/ResourceMonitor.thy ===== *)
theory ResourceMonitor
  imports NumaLocality PodExclude Sysinfo Metrics
begin

text \<open>
  \<^verbatim>\<open>pkg/resourcemonitor/resourcemonitor.go\<close>: what a node can allocate, what its pods use, and the
  zones that are published. The state of the monitor is the record \<open>resourceMonitor\<close>. Answers of
  the podresources API, the machine topology of the \<^verbatim>\<open>ghw\<close> library and the pod fingerprint
  library are arguments. \<open>ord\<close> arguments are the orders in which \<^verbatim>\<open>range\<close> visits a map.
\<close>

section \<open>Data\<close>

type_synonym ResourceExclude = "(string, string list) gomap"

record rm_Args =
  ra_Namespace :: string
  ra_SysfsRoot :: string
  ra_ResourceExclude :: ResourceExclude
  ra_RefreshNodeResources :: bool
  ra_PodSetFingerprint :: bool
  ra_PodSetFingerprintMethod :: string
  ra_ExposeTiming :: bool
  ra_PodSetFingerprintStatusFile :: string
  ra_PodExclude :: "Item list"
  ra_ExcludeTerminalPods :: bool

fun re_Clone :: "ResourceExclude \<Rightarrow> ResourceExclude" where
  "re_Clone [] = []"
| "re_Clone ((key, vals) # rest) = (key, [] @ vals) # re_Clone rest"

definition rm_Args_Clone :: "rm_Args \<Rightarrow> rm_Args" where
  "rm_Args_Clone args =
     \<lparr>ra_Namespace = ra_Namespace args,
      ra_SysfsRoot = ra_SysfsRoot args,
      ra_ResourceExclude = re_Clone (ra_ResourceExclude args),
      ra_RefreshNodeResources = ra_RefreshNodeResources args,
      ra_PodSetFingerprint = ra_PodSetFingerprint args,
      ra_PodSetFingerprintMethod = ra_PodSetFingerprintMethod args,
      ra_ExposeTiming = ra_ExposeTiming args,
      ra_PodSetFingerprintStatusFile = ra_PodSetFingerprintStatusFile args,
      ra_PodExclude = items_Clone (ra_PodExclude args),
      ra_ExcludeTerminalPods = ra_ExcludeTerminalPods args\<rparr>"

record ScanResponse =
  sr_Zones :: "Zone list"
  sr_Attributes :: "AttributeInfo list"
  sr_Annotations :: "(string, string) gomap"

text \<open>
  \<^verbatim>\<open>sort.Slice\<close> by name, on zones and then inside each zone. The library's sort need not be
  stable; where names are distinct there is one sorted order.
\<close>

definition SortedZones :: "ScanResponse \<Rightarrow> Zone list" where
  "SortedZones sr =
     map (\<lambda>z. z\<lparr>z_Resources := sort_key ri_Name (z_Resources z)\<rparr>)
       (map (\<lambda>z. z\<lparr>z_Costs := sort_key co_Name (z_Costs z)\<rparr>)
         (sort_key z_Name (sr_Zones sr)))"

text \<open>The value of a key is a set of names; a set is represented by a list.\<close>

fun ToMapSet :: "ResourceExclude \<Rightarrow> (string, string list) gomap" where
  "ToMapSet [] = []"
| "ToMapSet ((k, v) # rest) = (k, remdups v) # ToMapSet rest"

type_synonym resourceCounter = "(string, int) gomap"
type_synonym perNUMAResourceCounter = "(int, resourceCounter) gomap"

record TopoCore =
  tc_LogicalProcessors :: "int list"

record TopoNode =
  tn_ID :: int
  tn_Cores :: "TopoCore list"
  tn_Distances :: "int list"

record resourceMonitor =
  rm_nodeName :: string
  rm_args :: rm_Args
  rm_topo :: "TopoNode list"
  rm_coreIDToNodeIDMap :: "(int, int) gomap"
  rm_nodeCapacity :: perNUMAResourceCounter
  rm_nodeAllocatable :: perNUMAResourceCounter

section \<open>Topology helpers\<close>

fun core_procs :: "int \<Rightarrow> int list \<Rightarrow> (int, int) gomap \<Rightarrow> (int, int) gomap" where
  "core_procs nodeID [] m = m"
| "core_procs nodeID (procID # rest) m = core_procs nodeID rest (AList.update procID nodeID m)"

fun node_cores :: "int \<Rightarrow> TopoCore list \<Rightarrow> (int, int) gomap \<Rightarrow> (int, int) gomap" where
  "node_cores nodeID [] m = m"
| "node_cores nodeID (core # rest) m =
     node_cores nodeID rest (core_procs nodeID (tc_LogicalProcessors core) m)"

fun topo_cores :: "TopoNode list \<Rightarrow> (int, int) gomap \<Rightarrow> (int, int) gomap" where
  "topo_cores [] m = m"
| "topo_cores (node # rest) m = topo_cores rest (node_cores (tn_ID node) (tn_Cores node) m)"

definition MakeCoreIDToNodeIDMap :: "TopoNode list \<Rightarrow> (int, int) gomap" where
  "MakeCoreIDToNodeIDMap topo = topo_cores topo []"

fun findNodeByID :: "TopoNode list \<Rightarrow> int \<Rightarrow> TopoNode option" where
  "findNodeByID [] nodeID = None"
| "findNodeByID (node # rest) nodeID =
     (if tn_ID node = nodeID then Some node else findNodeByID rest nodeID)"

definition makeZoneName :: "int \<Rightarrow> string" where
  "makeZoneName nodeID = ''node-'' @ show_int nodeID"

fun costs_from :: "int \<Rightarrow> int list \<Rightarrow> CostInfo list" where
  "costs_from nodeIDDst [] = []"
| "costs_from nodeIDDst (dist # rest) =
     \<lparr>co_Name = makeZoneName nodeIDDst, co_Value = dist\<rparr> # costs_from (nodeIDDst + 1) rest"

definition makeCostsPerNumaNode :: "TopoNode list \<Rightarrow> int \<Rightarrow> gerr + CostInfo list" where
  "makeCostsPerNumaNode nodes nodeIDSrc =
     (case findNodeByID nodes nodeIDSrc of
        None \<Rightarrow> Inl (Errorf (''unknown node: '' @ show_int nodeIDSrc))
      | Some nodeSrc \<Rightarrow> Inr (costs_from 0 (tn_Distances nodeSrc)))"

text \<open>Reading the cores of a node that is not found dereferences nil.\<close>

definition cpuCapacity :: "TopoNode list \<Rightarrow> int \<Rightarrow> int go" where
  "cpuCapacity topo nodeID =
     (case findNodeByID topo nodeID of
        None \<Rightarrow> Panic NilDeref
      | Some nodeSrc \<Rightarrow>
          Ret (foldl (\<lambda>n core. w64 (n + int (length (tc_LogicalProcessors core)))) 0
                 (tn_Cores nodeSrc)))"

definition isNativeResource :: "string \<Rightarrow> bool" where
  "isNativeResource resName \<longleftrightarrow>
     resName = ResourceCPU \<or> resName = ResourceMemory \<or> HasPrefix resName ResourceHugePagesPrefix"

definition inExcludeSet :: "(string, string list) gomap \<Rightarrow> string \<Rightarrow> string \<Rightarrow> bool" where
  "inExcludeSet excludeSet resName nodeName \<longleftrightarrow>
     (case map_of excludeSet ''*'' of Some s \<Rightarrow> resName \<in> set s | None \<Rightarrow> False) \<or>
     (case map_of excludeSet nodeName of Some s \<Rightarrow> resName \<in> set s | None \<Rightarrow> False)"

section \<open>Counting devices\<close>

fun cpus_per_numa ::
    "(int, int) gomap \<Rightarrow> int list \<Rightarrow> (int, string list) gomap \<Rightarrow> (int, string list) gomap" where
  "cpus_per_numa coreIDToNodeIDMap [] cpusPerNuma = cpusPerNuma"
| "cpus_per_numa coreIDToNodeIDMap (cpuID # rest) cpusPerNuma =
     (case map_of coreIDToNodeIDMap cpuID of
        None \<Rightarrow> cpus_per_numa coreIDToNodeIDMap rest cpusPerNuma
      | Some nodeID \<Rightarrow>
          cpus_per_numa coreIDToNodeIDMap rest
            (AList.update nodeID (gm_getl cpusPerNuma nodeID @ [show_int cpuID]) cpusPerNuma))"

definition cpu_device :: "int \<times> string list \<Rightarrow> ContainerDevices" where
  "cpu_device p =
     \<lparr>cd_ResourceName = ResourceCPU, cd_DeviceIds = snd p, cd_Topology = numa_topology (fst p)\<rparr>"

definition block_devices :: "ContainerMemory \<Rightarrow> ContainerDevices list" where
  "block_devices block =
     (if cm_Size block = 0 then []
      else
        map (\<lambda>node. \<lparr>cd_ResourceName = cm_MemoryType block,
                      cd_DeviceIds = [show_uint (cm_Size block)],
                      cd_Topology = numa_topology node\<rparr>)
          (topo_nodes (cm_Topology block)))"

definition NormalizeContainerDevices ::
    "((int \<times> string list) list \<Rightarrow> (int \<times> string list) list) \<Rightarrow> ContainerDevices list \<Rightarrow>
     ContainerMemory list \<Rightarrow> int list \<Rightarrow> (int, int) gomap \<Rightarrow> ContainerDevices list" where
  "NormalizeContainerDevices ord devices memoryBlocks cpuIds coreIDToNodeIDMap =
     devices @
     map cpu_device (ord (cpus_per_numa coreIDToNodeIDMap cpuIds [])) @
     concat (map block_devices memoryBlocks)"

text \<open>
  One device on one of its nodes. A memory device sums the sizes its identifiers spell, with the
  parse errors ignored; any other device counts its identifiers.
\<close>

definition is_memory_resource :: "string \<Rightarrow> bool" where
  "is_memory_resource resourceName \<longleftrightarrow>
     resourceName = ResourceMemory \<or> HasPrefix resourceName ResourceHugePagesPrefix"

definition device_amount :: "ContainerDevices \<Rightarrow> int" where
  "device_amount device =
     (if is_memory_resource (cd_ResourceName device)
      then foldl (\<lambda>memSize devBlock. w64 (memSize + fst (ParseInt devBlock))) 0 (cd_DeviceIds device)
      else int (length (cd_DeviceIds device)))"

fun count_nodes ::
    "ContainerDevices \<Rightarrow> int list \<Rightarrow> perNUMAResourceCounter \<Rightarrow> perNUMAResourceCounter" where
  "count_nodes device [] perNUMARc = perNUMARc"
| "count_nodes device (nodeID # rest) perNUMARc =
     (let nodeRes = gm_getm perNUMARc nodeID;
          resourceName = cd_ResourceName device;
          nodeRes' = AList.update resourceName
                       (w64 (gm_get0 nodeRes resourceName + device_amount device)) nodeRes
      in count_nodes device rest (AList.update nodeID nodeRes' perNUMARc))"

fun count_devices ::
    "ContainerDevices list \<Rightarrow> perNUMAResourceCounter \<Rightarrow> perNUMAResourceCounter" where
  "count_devices [] perNUMARc = perNUMARc"
| "count_devices (device # rest) perNUMARc =
     count_devices rest (count_nodes device (topo_nodes (cd_Topology device)) perNUMARc)"

definition ContainerDevicesToPerNUMAResourceCounters ::
    "ContainerDevices list \<Rightarrow> perNUMAResourceCounter" where
  "ContainerDevicesToPerNUMAResourceCounters devices = count_devices devices []"

fun container_devices ::
    "((int \<times> string list) list \<Rightarrow> (int \<times> string list) list) \<Rightarrow> (int, int) gomap \<Rightarrow>
     ContainerResources list \<Rightarrow> ContainerDevices list" where
  "container_devices ord coreIDToNodeIDMap [] = []"
| "container_devices ord coreIDToNodeIDMap (cnt # rest) =
     NormalizeContainerDevices ord (cr_Devices cnt) (cr_Memory cnt) (cr_CpuIds cnt)
       coreIDToNodeIDMap @
     container_devices ord coreIDToNodeIDMap rest"

fun GetAllContainerDevices ::
    "((int \<times> string list) list \<Rightarrow> (int \<times> string list) list) \<Rightarrow> PodResources list \<Rightarrow> string \<Rightarrow>
     (int, int) gomap \<Rightarrow> ContainerDevices list" where
  "GetAllContainerDevices ord [] namespace coreIDToNodeIDMap = []"
| "GetAllContainerDevices ord (pr # rest) namespace coreIDToNodeIDMap =
     (if namespace \<noteq> [] \<and> namespace \<noteq> pr_Namespace pr
      then GetAllContainerDevices ord rest namespace coreIDToNodeIDMap
      else container_devices ord coreIDToNodeIDMap (pr_Containers pr) @
           GetAllContainerDevices ord rest namespace coreIDToNodeIDMap)"

section \<open>The pod fingerprint\<close>

text \<open>
  The library \<^verbatim>\<open>podfingerprint\<close>. A value of \<open>'fp\<close> is a tracing fingerprint together with the
  status it records into; \<open>pfp_New\<close> is \<^verbatim>\<open>MakeStatus\<close> followed by \<^verbatim>\<open>NewTracingFingerprint\<close>.
\<close>

record ('fp, 'st) pfp_lib =
  pfp_MethodAll :: string
  pfp_MethodWithExclusiveResources :: string
  pfp_Attribute :: string
  pfp_AttributeMethod :: string
  pfp_Annotation :: string
  pfp_New :: "string \<Rightarrow> nat \<Rightarrow> 'fp"
  pfp_AddPod :: "'fp \<Rightarrow> PodResources \<Rightarrow> 'fp"
  pfp_Sign :: "'fp \<Rightarrow> 'fp \<times> string"
  pfp_Status :: "'fp \<Rightarrow> 'st"

fun add_pods ::
    "('fp, 'st) pfp_lib \<Rightarrow> (PodResources option \<Rightarrow> Result) \<Rightarrow> PodResources list \<Rightarrow> 'fp \<Rightarrow> 'fp" where
  "add_pods P verifyFunc [] fp = fp"
| "add_pods P verifyFunc (pr # rest) fp =
     (if \<not> res_Allow (verifyFunc (Some pr)) then add_pods P verifyFunc rest fp
      else add_pods P verifyFunc rest (pfp_AddPod P fp pr))"

definition computePodFingerprintFromPodResources ::
    "('fp, 'st) pfp_lib \<Rightarrow> PodResources list \<Rightarrow> string \<Rightarrow> (PodResources option \<Rightarrow> Result) \<Rightarrow>
     'fp \<times> string" where
  "computePodFingerprintFromPodResources P podRes nodeName verifyFunc =
     pfp_Sign P (add_pods P verifyFunc podRes (pfp_New P nodeName (length podRes)))"

fun collect_pods :: "PodResources list \<Rightarrow> string" where
  "collect_pods [] = []"
| "collect_pods (pr # rest) =
     (let nl = Verify (Some pr);
          desc = (if res_Allow nl then ''/'' @ res_Ident nl @ ''='' @ res_Reason nl else [])
      in ''  '' @ pr_Namespace pr @ ''/'' @ pr_Name pr @ desc @ collect_pods rest)"

definition collectPodsFromPodResources :: "PodResources list \<Rightarrow> string" where
  "collectPodsFromPodResources podRes =
     (let val = collect_pods podRes in if length val = 0 then [] else drop 2 val)"

definition PFPMethodSupported :: "('fp, 'st) pfp_lib \<Rightarrow> string" where
  "PFPMethodSupported P = Join [pfp_MethodAll P, pfp_MethodWithExclusiveResources P] '',''"

definition PFPMethodIsSupported :: "('fp, 'st) pfp_lib \<Rightarrow> string \<Rightarrow> string \<times> gerr option" where
  "PFPMethodIsSupported P value =
     (let val = ToLower value in
      if val = pfp_MethodAll P \<or> val = pfp_MethodWithExclusiveResources P then (val, None)
      else (val, Some (Errorf (''unsupported method  '' @ value))))"

section \<open>Scan\<close>

text \<open>The body of the loop over the counters of one node, for one resource.\<close>

definition resource_info ::
    "(string, string list) gomap \<Rightarrow> string \<Rightarrow> resourceCounter \<Rightarrow> resourceCounter \<Rightarrow> string \<times> int \<Rightarrow>
     ResourceInfo list" where
  "resource_info excludeSet nodeName resCapCounters used entry =
     (case entry of (resName, resAlloc) \<Rightarrow>
        if inExcludeSet excludeSet resName nodeName then []
        else
          let resCapacity0 =
                (case map_of resCapCounters resName of
                   None \<Rightarrow> resAlloc
                 | Some c \<Rightarrow> if c = 0 then resAlloc else c);
              resCapacity = (if resAlloc > resCapacity0 then resAlloc else resCapacity0);
              resUsed = gm_get0 used resName;
              resAvail0 = w64 (resAlloc - resUsed);
              resAvail = (if resAvail0 < 0 then 0 else resAvail0)
          in [\<lparr>ri_Name = resName,
               ri_Available = NewQuantity resAvail DecimalSI,
               ri_Allocatable = NewQuantity resAlloc DecimalSI,
               ri_Capacity = NewQuantity resCapacity DecimalSI\<rparr>])"

text \<open>
  The body of the loop over the nodes. \<open>ordR nodeID\<close> is the order in which the counters of that
  node are visited.
\<close>

definition scan_zone ::
    "(int \<Rightarrow> (string \<times> int) list \<Rightarrow> (string \<times> int) list) \<Rightarrow> resourceMonitor \<Rightarrow>
     (string, string list) gomap \<Rightarrow> perNUMAResourceCounter \<Rightarrow> int \<Rightarrow> Zone" where
  "scan_zone ordR rm excludeSet allocated nodeID =
     (let costs = (case makeCostsPerNumaNode (rm_topo rm) nodeID of Inl e \<Rightarrow> [] | Inr c \<Rightarrow> c);
          resCapCounters = gm_getm (rm_nodeCapacity rm) nodeID;
          resCounters = (case map_of (rm_nodeAllocatable rm) nodeID of
                           None \<Rightarrow> [(ResourceCPU, 0)] | Some m \<Rightarrow> m)
      in \<lparr>z_Name = makeZoneName nodeID,
          z_Type = ''Node'',
          z_Costs = costs,
          z_Resources =
            concat (map (resource_info excludeSet (rm_nodeName rm) resCapCounters
                           (gm_getm allocated nodeID))
                      (ordR nodeID resCounters))\<rparr>)"

definition node_indexes :: "TopoNode list \<Rightarrow> int list" where
  "node_indexes topo = map int [0..<length topo]"

text \<open>
  \<open>Scan\<close> answers with the metrics, the fingerprint statuses handed to \<^verbatim>\<open>MarkCompleted\<close> and the
  response; an error comes with the empty response.
\<close>

definition Scan ::
    "('fp, 'st) pfp_lib \<Rightarrow> ((int \<times> string list) list \<Rightarrow> (int \<times> string list) list) \<Rightarrow>
     (int \<Rightarrow> (string \<times> int) list \<Rightarrow> (string \<times> int) list) \<Rightarrow> resourceMonitor \<Rightarrow> ResourceExclude \<Rightarrow>
     list_result \<Rightarrow> metrics_state \<Rightarrow> metrics_state \<times> 'st list \<times> (gerr + ScanResponse)" where
  "Scan P ord ordR rm excludeList resp ms =
     (case resp of
        Inl err \<Rightarrow> (UpdatePodResourceApiCallsFailuresMetric ''list'' ms, [], Inl err)
      | Inr respPodRes \<Rightarrow>
          let verify = (if ra_PodSetFingerprintMethod (rm_args rm) = pfp_MethodAll P
                        then VerifyAlwaysPass else Verify);
              (fp, pfpSign) =
                computePodFingerprintFromPodResources P respPodRes (rm_nodeName rm) verify;
              usepfp = ra_PodSetFingerprint (rm_args rm);
              allDevs = GetAllContainerDevices ord respPodRes (ra_Namespace (rm_args rm))
                          (rm_coreIDToNodeIDMap rm);
              allocated = ContainerDevicesToPerNUMAResourceCounters allDevs;
              excludeSet = ToMapSet excludeList
          in (ms,
              (if usepfp then [pfp_Status P fp] else []),
              Inr \<lparr>sr_Zones = map (scan_zone ordR rm excludeSet allocated) (node_indexes (rm_topo rm)),
                   sr_Attributes =
                     (if usepfp
                      then [\<lparr>at_Name = pfp_Attribute P, at_Value = pfpSign\<rparr>,
                            \<lparr>at_Name = pfp_AttributeMethod P,
                             at_Value = ra_PodSetFingerprintMethod (rm_args rm)\<rparr>]
                      else []),
                   sr_Annotations = (if usepfp then [(pfp_Annotation P, pfpSign)] else [])\<rparr>))"

section \<open>Node resources\<close>

text \<open>One row of the capacity: CPUs from the topology, memory and huge pages from sysfs.\<close>

definition capacity_row ::
    "string \<Rightarrow> string \<Rightarrow> TopoNode list \<Rightarrow> (string, (int, int) gomap) gomap \<Rightarrow> int \<Rightarrow>
     resourceCounter go" where
  "capacity_row hp2Mi hp1Gi topo memCounters nodeID =
     go_bind (cpuCapacity topo nodeID) (\<lambda>cpus.
       Ret (AList.update hp1Gi (gm_get0 (gm_getm memCounters hp1Gi) nodeID)
             (AList.update hp2Mi (gm_get0 (gm_getm memCounters hp2Mi) nodeID)
               (AList.update ResourceMemory (gm_get0 (gm_getm memCounters ResourceMemory) nodeID)
                 (AList.update ResourceCPU cpus [])))))"

fun capacity_rows ::
    "string \<Rightarrow> string \<Rightarrow> TopoNode list \<Rightarrow> (string, (int, int) gomap) gomap \<Rightarrow> int list \<Rightarrow>
     perNUMAResourceCounter \<Rightarrow> perNUMAResourceCounter go" where
  "capacity_rows hp2Mi hp1Gi topo memCounters [] perNUMARc = Ret perNUMARc"
| "capacity_rows hp2Mi hp1Gi topo memCounters (nodeID # rest) perNUMARc =
     go_bind (capacity_row hp2Mi hp1Gi topo memCounters nodeID) (\<lambda>row.
       capacity_rows hp2Mi hp1Gi topo memCounters rest (AList.update nodeID row perNUMARc))"

definition updateNodeCapacity ::
    "(Quantity \<Rightarrow> string) \<Rightarrow> filesystem \<Rightarrow> resourceMonitor \<Rightarrow> (resourceMonitor \<times> gerr option) go" where
  "updateNodeCapacity qs fs rm =
     (case GetMemoryResourceCounters qs fs \<lparr>hnd_Root = []\<rparr> of
        Inl e \<Rightarrow> Ret (rm, Some e)
      | Inr memCounters \<Rightarrow>
          go_bind (capacity_rows (HugepageResourceNameFromSize qs HugepageSize2Mi)
                     (HugepageResourceNameFromSize qs HugepageSize1Gi) (rm_topo rm) memCounters
                     (node_indexes (rm_topo rm)) [])
            (\<lambda>perNUMARc. Ret (rm\<lparr>rm_nodeCapacity := perNUMARc\<rparr>, None)))"

definition updateNodeAllocatable ::
    "((int \<times> string list) list \<Rightarrow> (int \<times> string list) list) \<Rightarrow> gerr + AllocatableResources \<Rightarrow>
     resourceMonitor \<Rightarrow> metrics_state \<Rightarrow> (resourceMonitor \<times> gerr option) \<times> metrics_state" where
  "updateNodeAllocatable ord resp rm ms =
     (case resp of
        Inl err \<Rightarrow>
          ((rm, Some err), UpdatePodResourceApiCallsFailuresMetric ''get_allocatable_resources'' ms)
      | Inr allocRes \<Rightarrow>
          let allDevs = NormalizeContainerDevices ord (al_Devices allocRes) (al_Memory allocRes)
                          (al_CpuIds allocRes) (rm_coreIDToNodeIDMap rm)
          in ((rm\<lparr>rm_nodeAllocatable := ContainerDevicesToPerNUMAResourceCounters allDevs\<rparr>, None), ms))"

text \<open>
  The capacity of a device resource is its allocatable amount. Writing into the counters of a node
  that has no capacity writes into a nil map.
\<close>

fun dev_cap_resources ::
    "int \<Rightarrow> resourceCounter \<Rightarrow> perNUMAResourceCounter \<Rightarrow> perNUMAResourceCounter go" where
  "dev_cap_resources numaId [] cap = Ret cap"
| "dev_cap_resources numaId ((resName, quan) # rest) cap =
     (if isNativeResource resName then dev_cap_resources numaId rest cap
      else
        case map_of cap numaId of
          None \<Rightarrow> Panic NilMapWrite
        | Some capacityResCnt \<Rightarrow>
            dev_cap_resources numaId rest
              (AList.update numaId (AList.update resName quan capacityResCnt) cap))"

fun dev_cap_nodes ::
    "perNUMAResourceCounter \<Rightarrow> perNUMAResourceCounter \<Rightarrow> perNUMAResourceCounter go" where
  "dev_cap_nodes [] cap = Ret cap"
| "dev_cap_nodes ((numaId, resourceCnt) # rest) cap =
     go_bind (dev_cap_resources numaId resourceCnt cap) (dev_cap_nodes rest)"

definition updateDevicesCapacity :: "resourceMonitor \<Rightarrow> resourceMonitor go" where
  "updateDevicesCapacity rm =
     go_bind (dev_cap_nodes (rm_nodeAllocatable rm) (rm_nodeCapacity rm))
       (\<lambda>cap. Ret (rm\<lparr>rm_nodeCapacity := cap\<rparr>))"

definition updateNodeResources ::
    "(Quantity \<Rightarrow> string) \<Rightarrow> filesystem \<Rightarrow> ((int \<times> string list) list \<Rightarrow> (int \<times> string list) list) \<Rightarrow>
     gerr + AllocatableResources \<Rightarrow> resourceMonitor \<Rightarrow> metrics_state \<Rightarrow>
     ((resourceMonitor \<times> gerr option) \<times> metrics_state) go" where
  "updateNodeResources qs fs ord resp rm ms =
     go_bind (updateNodeCapacity qs fs rm) (\<lambda>(rm1, err1).
       case err1 of
         Some e \<Rightarrow> Ret ((rm1, Some (Wrapf ''error while updating node capacity'' e)), ms)
       | None \<Rightarrow>
           (case updateNodeAllocatable ord resp rm1 ms of
              ((rm2, Some e), ms') \<Rightarrow>
                Ret ((rm2, Some (Wrapf ''error while updating node allocatable'' e)), ms')
            | ((rm2, None), ms') \<Rightarrow>
                go_bind (updateDevicesCapacity rm2) (\<lambda>rm3. Ret ((rm3, None), ms'))))"

section \<open>Construction and refresh\<close>

text \<open>
  \<^verbatim>\<open>reflect.DeepEqual\<close> on two maps with distinct keys. The model has one empty map and no cached text in a
  quantity; where only these differ the code refreshes once more.
\<close>

definition gm_equal :: "('k, 'v) gomap \<Rightarrow> ('k, 'v) gomap \<Rightarrow> bool" where
  "gm_equal a b \<longleftrightarrow> set a = set b"

definition resUpdated ::
    "(Quantity \<Rightarrow> string) \<Rightarrow> filesystem \<Rightarrow> ((int \<times> string list) list \<Rightarrow> (int \<times> string list) list) \<Rightarrow>
     gerr + AllocatableResources \<Rightarrow> v1_Node \<Rightarrow> v1_Node \<Rightarrow> resourceMonitor \<Rightarrow> metrics_state \<Rightarrow>
     (resourceMonitor \<times> metrics_state) go" where
  "resUpdated qs fs ord resp nOld nNew rm ms =
     (if vn_Name nNew \<noteq> rm_nodeName rm then Ret (rm, ms)
      else if \<not> gm_equal (vn_Capacity nOld) (vn_Capacity nNew) \<or>
              \<not> gm_equal (vn_Allocatable nOld) (vn_Allocatable nNew)
      then go_bind (updateNodeResources qs fs ord resp rm ms) (\<lambda>((rm', err), ms'). Ret (rm', ms'))
      else Ret (rm, ms))"

text \<open>
  The options set the node name and the topology; \<open>env\<close> is \<^verbatim>\<open>os.Getenv\<close>, \<open>ghw\<close> what the topology
  library finds and \<open>informer\<close> the outcome of starting the node informer.
\<close>

definition NewResourceMonitor ::
    "(Quantity \<Rightarrow> string) \<Rightarrow> filesystem \<Rightarrow> ((int \<times> string list) list \<Rightarrow> (int \<times> string list) list) \<Rightarrow>
     gerr + AllocatableResources \<Rightarrow> (string \<Rightarrow> string) \<Rightarrow> gerr + TopoNode list \<Rightarrow> gerr option \<Rightarrow>
     rm_Args \<Rightarrow> string \<Rightarrow> TopoNode list option \<Rightarrow> metrics_state \<Rightarrow>
     ((gerr + resourceMonitor) \<times> metrics_state) go" where
  "NewResourceMonitor qs fs ord resp getenv ghw informer args optName optTopo ms =
     (let nodeName = (if optName = [] then getenv ''NODE_NAME'' else optName) in
      case (case optTopo of Some t \<Rightarrow> Inr t | None \<Rightarrow> ghw) of
        Inl e \<Rightarrow> Ret (Inl e, ms)
      | Inr topo \<Rightarrow>
          go_bind (updateNodeResources qs fs ord resp
                     \<lparr>rm_nodeName = nodeName, rm_args = args, rm_topo = topo,
                      rm_coreIDToNodeIDMap = MakeCoreIDToNodeIDMap topo,
                      rm_nodeCapacity = [], rm_nodeAllocatable = []\<rparr> ms)
            (\<lambda>((rm, err), ms').
               case err of
                 Some e \<Rightarrow> Ret (Inl e, ms')
               | None \<Rightarrow>
                   if \<not> ra_RefreshNodeResources args then Ret (Inr rm, ms')
                   else (case informer of Some e \<Rightarrow> Ret (Inl e, ms') | None \<Rightarrow> Ret (Inr rm, ms'))))"

end
