(* ===== verification/DeviceCounters.thy ===== *)
theory DeviceCounters
  imports ResourceMonitor
begin

text \<open>
  What the counters of \<^verbatim>\<open>ContainerDevicesToPerNUMAResourceCounters\<close> hold: a reference definition of
  the amount of a resource on a node, and the lemmas that relate the loops to it.
\<close>

section \<open>The reference amount\<close>

abbreviation cnt :: "perNUMAResourceCounter \<Rightarrow> int \<Rightarrow> string \<Rightarrow> int" where
  "cnt rc node res \<equiv> gm_get0 (gm_getm rc node) res"

definition dev_contrib :: "int \<Rightarrow> string \<Rightarrow> ContainerDevices \<Rightarrow> int" where
  "dev_contrib node res d =
     (if cd_ResourceName d = res
      then device_amount d * int (count_list (topo_nodes (cd_Topology d)) node) else 0)"

definition dev_count :: "ContainerDevices list \<Rightarrow> int \<Rightarrow> string \<Rightarrow> int" where
  "dev_count ds node res = sum_list (map (dev_contrib node res) ds)"

lemma dev_count_Nil [simp]: "dev_count [] node res = 0"
  by (simp add: dev_count_def)

lemma dev_count_append [simp]: "dev_count (xs @ ys) node res = dev_count xs node res + dev_count ys node res"
  by (simp add: dev_count_def)

lemma dev_count_Cons [simp]: "dev_count (d # ds) node res = dev_contrib node res d + dev_count ds node res"
  by (simp add: dev_count_def)

lemma dev_count_perm: "mset xs = mset ys \<Longrightarrow> dev_count xs node res = dev_count ys node res"
  unfolding dev_count_def by (metis mset_map sum_mset_sum_list)

section \<open>The loops compute it\<close>

lemma count_nodes_w64:
  "w64 (cnt (count_nodes d ns rc) node res) =
   w64 (cnt rc node res + (if cd_ResourceName d = res then device_amount d * int (count_list ns node) else 0))"
proof (induction ns arbitrary: rc)
  case Nil
  then show ?case by simp
next
  case (Cons n ns)
  let ?rc = "AList.update n (AList.update (cd_ResourceName d)
      (w64 (cnt rc n (cd_ResourceName d) + device_amount d)) (gm_getm rc n)) rc"
  have "w64 (cnt (count_nodes d (n # ns) rc) node res) = w64 (cnt (count_nodes d ns ?rc) node res)"
    by (simp add: Let_def)
  also have "\<dots> = w64 (cnt ?rc node res +
      (if cd_ResourceName d = res then device_amount d * int (count_list ns node) else 0))"
    by (rule Cons.IH)
  also have "\<dots> = w64 (cnt rc node res +
      (if cd_ResourceName d = res then device_amount d * int (count_list (n # ns) node) else 0))"
    by (auto simp: w64_simps algebra_simps)
  finally show ?case .
qed

lemma count_nodes_int64:
  "(\<And>n r. int64 (cnt rc n r)) \<Longrightarrow> int64 (cnt (count_nodes d ns rc) node res)"
proof (induction ns arbitrary: rc)
  case Nil
  then show ?case by simp
next
  case (Cons n ns)
  then show ?case by (auto simp: Let_def intro!: Cons.IH)
qed

lemma count_devices_w64:
  "w64 (cnt (count_devices ds rc) node res) = w64 (cnt rc node res + dev_count ds node res)"
proof (induction ds arbitrary: rc)
  case Nil
  then show ?case by simp
next
  case (Cons d ds)
  let ?rc = "count_nodes d (topo_nodes (cd_Topology d)) rc"
  have "w64 (cnt (count_devices (d # ds) rc) node res) = w64 (w64 (cnt ?rc node res) + dev_count ds node res)"
    by (simp add: Cons.IH w64_simps)
  also have "\<dots> = w64 (cnt rc node res + dev_count (d # ds) node res)"
    by (simp only: count_nodes_w64) (simp add: w64_simps dev_contrib_def add.assoc)
  finally show ?case .
qed

lemma count_devices_int64:
  "(\<And>n r. int64 (cnt rc n r)) \<Longrightarrow> int64 (cnt (count_devices ds rc) node res)"
  by (induction ds arbitrary: rc) (auto intro!: count_nodes_int64)

lemma int64_0 [simp]: "int64 0"
  by (simp add: int64_def)

lemma counters_value:
  "cnt (ContainerDevicesToPerNUMAResourceCounters ds) node res = w64 (dev_count ds node res)"
proof -
  let ?c = "cnt (ContainerDevicesToPerNUMAResourceCounters ds) node res"
  have "int64 ?c"
    unfolding ContainerDevicesToPerNUMAResourceCounters_def by (rule count_devices_int64) simp
  then have "?c = w64 ?c" by (simp add: w64_id)
  also have "\<dots> = w64 (dev_count ds node res)"
    by (simp add: ContainerDevicesToPerNUMAResourceCounters_def count_devices_w64)
  finally show ?thesis .
qed

section \<open>Which keys the counters have\<close>

lemma keys_count_nodes:
  "n \<in> fst ` set (count_nodes d ns rc) \<longleftrightarrow> n \<in> fst ` set rc \<or> n \<in> set ns"
  by (induction ns arbitrary: rc) (auto simp: Let_def)

lemma keys_count_devices:
  "n \<in> fst ` set (count_devices ds rc) \<longleftrightarrow>
   n \<in> fst ` set rc \<or> (\<exists>d \<in> set ds. n \<in> set (topo_nodes (cd_Topology d)))"
  by (induction ds arbitrary: rc) (auto simp: keys_count_nodes)

lemma reskeys_count_nodes:
  "r \<in> fst ` set (gm_getm (count_nodes d ns rc) n) \<longleftrightarrow>
   r \<in> fst ` set (gm_getm rc n) \<or> (r = cd_ResourceName d \<and> n \<in> set ns)"
  by (induction ns arbitrary: rc) (auto simp: Let_def)

lemma reskeys_count_devices:
  "r \<in> fst ` set (gm_getm (count_devices ds rc) n) \<longleftrightarrow>
   r \<in> fst ` set (gm_getm rc n) \<or>
   (\<exists>d \<in> set ds. r = cd_ResourceName d \<and> n \<in> set (topo_nodes (cd_Topology d)))"
  by (induction ds arbitrary: rc) (auto simp: reskeys_count_nodes)

text \<open>The counters are well-formed maps of well-formed maps, each stored amount is an int64.\<close>

definition wf_counters :: "perNUMAResourceCounter \<Rightarrow> bool" where
  "wf_counters rc \<longleftrightarrow> wf_gomap rc \<and> (\<forall>n. wf_gomap (gm_getm rc n))"

lemma wf_counters_Nil [simp]: "wf_counters []"
  by (simp add: wf_counters_def)

lemma wf_counters_update:
  "wf_counters rc \<Longrightarrow> wf_gomap m \<Longrightarrow> wf_counters (AList.update n m rc)"
  by (auto simp: wf_counters_def)

lemma wf_counters_inner: "wf_counters rc \<Longrightarrow> map_of rc n = Some m \<Longrightarrow> wf_gomap m"
  by (metis gm_getm_def option.simps(5) wf_counters_def)

lemma wf_count_nodes: "wf_counters rc \<Longrightarrow> wf_counters (count_nodes d ns rc)"
  by (induction ns arbitrary: rc) (auto simp: Let_def wf_counters_update wf_counters_def)

lemma wf_count_devices: "wf_counters rc \<Longrightarrow> wf_counters (count_devices ds rc)"
  by (induction ds arbitrary: rc) (auto simp: wf_count_nodes)

lemma wf_counters_of_devices [simp]:
  "wf_counters (ContainerDevicesToPerNUMAResourceCounters ds)"
  by (simp add: ContainerDevicesToPerNUMAResourceCounters_def wf_count_devices)

lemma map_of_eq_get0: "k \<in> fst ` set m \<Longrightarrow> map_of m k = Some (gm_get0 m k)"
  by (cases "map_of m k") (auto simp: gm_get0_def map_of_eq_None_iff)

lemma counters_lookup:
  "map_of (gm_getm (ContainerDevicesToPerNUMAResourceCounters ds) n) r =
     (if \<exists>d \<in> set ds. r = cd_ResourceName d \<and> n \<in> set (topo_nodes (cd_Topology d))
      then Some (w64 (dev_count ds n r)) else None)"
proof -
  let ?m = "gm_getm (ContainerDevicesToPerNUMAResourceCounters ds) n"
  have "r \<in> fst ` set ?m \<longleftrightarrow>
      (\<exists>d \<in> set ds. r = cd_ResourceName d \<and> n \<in> set (topo_nodes (cd_Topology d)))"
    by (simp add: ContainerDevicesToPerNUMAResourceCounters_def reskeys_count_devices)
  then show ?thesis
    using map_of_eq_get0 [of r ?m] counters_value [of ds n r] by (simp add: map_of_eq_None_iff)
qed

section \<open>CPUs and memory blocks\<close>

lemma cpus_per_numa_wf: "wf_gomap m \<Longrightarrow> wf_gomap (cpus_per_numa cm cpus m)"
  by (induction cpus arbitrary: m) (auto split: option.splits)

lemma cpus_per_numa_getl:
  "gm_getl (cpus_per_numa cm cpus m) n =
   gm_getl m n @ map show_int (filter (\<lambda>c. map_of cm c = Some n) cpus)"
  by (induction cpus arbitrary: m) (auto split: option.splits)

lemma cpu_device_contrib:
  "dev_contrib node res (cpu_device (n, l)) =
     (if res = ResourceCPU \<and> n = node then int (length l) else 0)"
  by (auto simp: dev_contrib_def cpu_device_def device_amount_def is_memory_resource_def
      ResourceCPU_def ResourceMemory_def ResourceHugePagesPrefix_def HasPrefix_def)

lemma dev_count_cpu_devices:
  "wf_gomap m \<Longrightarrow> dev_count (map cpu_device m) node res =
     (if res = ResourceCPU then int (length (gm_getl m node)) else 0)"
proof (induction m)
  case Nil
  then show ?case by simp
next
  case (Cons p m)
  obtain n l where p: "p = (n, l)" by (cases p)
  from Cons.prems p have "wf_gomap m" and "n \<notin> fst ` set m" by (auto simp: wf_gomap_def)
  then have "map_of m n = None" by (simp add: map_of_eq_None_iff)
  with Cons.IH [OF \<open>wf_gomap m\<close>] p show ?case
    by (auto simp: cpu_device_contrib gm_getl_def)
qed

definition block_amount :: "ContainerMemory \<Rightarrow> int" where
  "block_amount b =
     (if cm_Size b = 0 then 0
      else if is_memory_resource (cm_MemoryType b) then min (cm_Size b) (2 ^ 63 - 1) else 1)"

definition block_contrib :: "int \<Rightarrow> string \<Rightarrow> ContainerMemory \<Rightarrow> int" where
  "block_contrib node res b =
     (if cm_MemoryType b = res
      then block_amount b * int (count_list (topo_nodes (cm_Topology b)) node) else 0)"

definition uint64 :: "int \<Rightarrow> bool" where
  "uint64 x \<longleftrightarrow> 0 \<le> x \<and> x < 2 ^ 64"

lemma w64_min_max [simp]:
  "0 \<le> x \<Longrightarrow> w64 (min x 9223372036854775807) = min x 9223372036854775807"
  by (rule w64_id) (auto simp: int64_def)

lemma block_device_amount:
  assumes "uint64 (cm_Size b)" "cm_Size b \<noteq> 0"
  shows "device_amount \<lparr>cd_ResourceName = cm_MemoryType b,
     cd_DeviceIds = [show_uint (cm_Size b)], cd_Topology = t\<rparr> = block_amount b"
proof -
  have "fst (ParseInt (show_uint (cm_Size b))) = min (cm_Size b) (2 ^ 63 - 1)"
    using ParseInt_show_uint [of "cm_Size b"] assms(1) by (auto simp: uint64_def)
  then show ?thesis
    using assms by (simp add: device_amount_def block_amount_def uint64_def del: min_less_iff_conj)
qed

lemma dev_count_block_devices:
  assumes "uint64 (cm_Size b)"
  shows "dev_count (block_devices b) node res = block_contrib node res b"
proof (cases "cm_Size b = 0")
  case True
  then show ?thesis by (simp add: block_devices_def block_contrib_def block_amount_def)
next
  case False
  let ?d = "\<lambda>n. \<lparr>cd_ResourceName = cm_MemoryType b, cd_DeviceIds = [show_uint (cm_Size b)],
    cd_Topology = numa_topology n\<rparr>"
  have "dev_count (map ?d ns) node res =
      (if cm_MemoryType b = res then block_amount b * int (count_list ns node) else 0)" for ns
    by (induction ns) (auto simp: dev_contrib_def block_device_amount [OF assms False] algebra_simps)
  with False show ?thesis by (simp add: block_devices_def block_contrib_def)
qed

lemma dev_count_blocks:
  "(\<And>b. b \<in> set bs \<Longrightarrow> uint64 (cm_Size b)) \<Longrightarrow>
   dev_count (concat (map block_devices bs)) node res = sum_list (map (block_contrib node res) bs)"
  by (induction bs) (auto simp: dev_count_block_devices)

text \<open>A legal order visits every entry of the map once.\<close>

definition legal_order :: "('a list \<Rightarrow> 'a list) \<Rightarrow> bool" where
  "legal_order ord \<longleftrightarrow> (\<forall>xs. mset (ord xs) = mset xs)"

lemma legal_order_id [simp]: "legal_order id"
  by (simp add: legal_order_def)

lemma legal_order_rev [simp]: "legal_order rev"
  by (simp add: legal_order_def)

definition cpus_on :: "(int, int) gomap \<Rightarrow> int list \<Rightarrow> int \<Rightarrow> int" where
  "cpus_on cm cpus node = int (length (filter (\<lambda>c. map_of cm c = Some node) cpus))"

lemma dev_count_normalize:
  assumes "legal_order ord" "\<And>b. b \<in> set bs \<Longrightarrow> uint64 (cm_Size b)"
  shows "dev_count (NormalizeContainerDevices ord ds bs cpus cm) node res =
     dev_count ds node res + (if res = ResourceCPU then cpus_on cm cpus node else 0) +
     sum_list (map (block_contrib node res) bs)"
proof -
  let ?m = "cpus_per_numa cm cpus []"
  have "mset (map cpu_device (ord ?m)) = mset (map cpu_device ?m)"
    using assms(1) by (simp add: legal_order_def)
  then have "dev_count (map cpu_device (ord ?m)) node res = dev_count (map cpu_device ?m) node res"
    by (rule dev_count_perm)
  also have "\<dots> = (if res = ResourceCPU then cpus_on cm cpus node else 0)"
    by (simp add: dev_count_cpu_devices [OF cpus_per_numa_wf] cpus_per_numa_getl cpus_on_def)
  finally show ?thesis
    by (simp add: NormalizeContainerDevices_def dev_count_blocks [OF assms(2)])
qed

end
