(* ===== verification/MonitorFacts.thy ===== *)
theory MonitorFacts
  imports DeviceCounters
begin

text \<open>
  Lemmas about \<^verbatim>\<open>Scan\<close> and about the node resources: what the pods use on a node, what one
  published resource says, the zones, and when refreshing the node resources can panic.
\<close>

section \<open>What the pods use\<close>

definition container_use :: "(int, int) gomap \<Rightarrow> int \<Rightarrow> string \<Rightarrow> ContainerResources \<Rightarrow> int" where
  "container_use cm node res c =
     dev_count (cr_Devices c) node res +
     (if res = ResourceCPU then cpus_on cm (cr_CpuIds c) node else 0) +
     sum_list (map (block_contrib node res) (cr_Memory c))"

definition pod_use :: "(int, int) gomap \<Rightarrow> int \<Rightarrow> string \<Rightarrow> PodResources \<Rightarrow> int" where
  "pod_use cm node res p = sum_list (map (container_use cm node res) (pr_Containers p))"

definition pods_use :: "string \<Rightarrow> (int, int) gomap \<Rightarrow> PodResources list \<Rightarrow> int \<Rightarrow> string \<Rightarrow> int" where
  "pods_use ns cm ps node res =
     sum_list (map (pod_use cm node res) (filter (\<lambda>p. ns = [] \<or> ns = pr_Namespace p) ps))"

definition blocks_ok :: "PodResources list \<Rightarrow> bool" where
  "blocks_ok ps \<longleftrightarrow>
     (\<forall>p \<in> set ps. \<forall>c \<in> set (pr_Containers p). \<forall>b \<in> set (cr_Memory c). uint64 (cm_Size b))"

lemma dev_count_container:
  "legal_order ord \<Longrightarrow> \<forall>b \<in> set (cr_Memory c). uint64 (cm_Size b) \<Longrightarrow>
   dev_count (NormalizeContainerDevices ord (cr_Devices c) (cr_Memory c) (cr_CpuIds c) cm) node res =
   container_use cm node res c"
  by (simp add: dev_count_normalize container_use_def)

lemma dev_count_container_devices:
  "legal_order ord \<Longrightarrow> \<forall>c \<in> set cs. \<forall>b \<in> set (cr_Memory c). uint64 (cm_Size b) \<Longrightarrow>
   dev_count (container_devices ord cm cs) node res = sum_list (map (container_use cm node res) cs)"
  by (induction cs) (simp_all add: dev_count_container)

lemma dev_count_all:
  assumes "legal_order ord"
  shows "blocks_ok ps \<Longrightarrow>
    dev_count (GetAllContainerDevices ord ps ns cm) node res = pods_use ns cm ps node res"
proof (induction ps)
  case Nil
  then show ?case by (simp add: pods_use_def)
next
  case (Cons p ps)
  have "dev_count (container_devices ord cm (pr_Containers p)) node res = pod_use cm node res p"
    using Cons.prems
    by (simp add: pod_use_def blocks_ok_def dev_count_container_devices [OF assms])
  with Cons show ?case by (auto simp: pods_use_def blocks_ok_def)
qed

lemma mset_normalize:
  "legal_order ord \<Longrightarrow> legal_order ord' \<Longrightarrow>
   mset (NormalizeContainerDevices ord ds bs cpus cm) = mset (NormalizeContainerDevices ord' ds bs cpus cm)"
  by (simp add: NormalizeContainerDevices_def legal_order_def)

lemma mset_container_devices:
  "legal_order ord \<Longrightarrow> legal_order ord' \<Longrightarrow>
   mset (container_devices ord cm cs) = mset (container_devices ord' cm cs)"
  by (induction cs) (simp_all add: mset_normalize [of ord ord'])

lemma mset_all_devices:
  "legal_order ord \<Longrightarrow> legal_order ord' \<Longrightarrow>
   mset (GetAllContainerDevices ord ps ns cm) = mset (GetAllContainerDevices ord' ps ns cm)"
  by (induction ps) (auto simp: mset_container_devices [of ord ord'])

section \<open>Filtered pods use less\<close>

definition amounts_ok :: "PodResources list \<Rightarrow> bool" where
  "amounts_ok ps \<longleftrightarrow>
     (\<forall>p \<in> set ps. \<forall>c \<in> set (pr_Containers p).
        (\<forall>d \<in> set (cr_Devices c). 0 \<le> device_amount d) \<and>
        (\<forall>b \<in> set (cr_Memory c). 0 \<le> cm_Size b))"

lemma dev_count_nonneg: "(\<And>d. d \<in> set ds \<Longrightarrow> 0 \<le> device_amount d) \<Longrightarrow> 0 \<le> dev_count ds node res"
  by (induction ds) (auto simp: dev_contrib_def)

lemma block_contrib_nonneg: "0 \<le> cm_Size b \<Longrightarrow> 0 \<le> block_contrib node res b"
  by (simp add: block_contrib_def block_amount_def)

lemma container_use_nonneg:
  "(\<And>d. d \<in> set (cr_Devices c) \<Longrightarrow> 0 \<le> device_amount d) \<Longrightarrow>
   (\<And>b. b \<in> set (cr_Memory c) \<Longrightarrow> 0 \<le> cm_Size b) \<Longrightarrow> 0 \<le> container_use cm node res c"
  unfolding container_use_def cpus_on_def
  by (intro add_nonneg_nonneg dev_count_nonneg sum_list_nonneg)
    (auto intro: block_contrib_nonneg)

lemma pod_use_nonneg: "amounts_ok [p] \<Longrightarrow> 0 \<le> pod_use cm node res p"
  by (auto simp: pod_use_def amounts_ok_def intro!: sum_list_nonneg container_use_nonneg)

lemma pods_use_nonneg: "amounts_ok ps \<Longrightarrow> 0 \<le> pods_use ns cm ps node res"
  by (auto simp: pods_use_def amounts_ok_def intro!: sum_list_nonneg pod_use_nonneg)

lemma cpus_on_mono: "mset xs \<subseteq># mset ys \<Longrightarrow> cpus_on cm xs node \<le> cpus_on cm ys node"
  unfolding cpus_on_def
  by (metis multiset_filter_mono mset_filter of_nat_le_iff size_mset size_mset_mono)

lemma container_use_mono: "container_le c d \<Longrightarrow> container_use cm node res c \<le> container_use cm node res d"
  by (simp add: container_le_def container_use_def cpus_on_mono)

lemma pod_use_mono: "pod_le p q \<Longrightarrow> pod_use cm node res p \<le> pod_use cm node res q"
proof -
  have "list_all2 container_le cs ds \<Longrightarrow>
      sum_list (map (container_use cm node res) cs) \<le> sum_list (map (container_use cm node res) ds)"
    for cs ds by (induction rule: list_all2_induct) (auto intro: add_mono container_use_mono)
  then show "pod_le p q \<Longrightarrow> ?thesis" by (simp add: pod_le_def pod_use_def)
qed

lemma pods_use_list_all2:
  "list_all2 pod_le ps rs \<Longrightarrow> pods_use ns cm ps node res \<le> pods_use ns cm rs node res"
  by (induction rule: list_all2_induct)
    (auto simp: pods_use_def pod_le_def intro: add_mono pod_use_mono [unfolded pod_le_def])

lemma pods_use_subseq:
  "subseq rs qs \<Longrightarrow> amounts_ok qs \<Longrightarrow> pods_use ns cm rs node res \<le> pods_use ns cm qs node res"
proof (induction rule: list_emb.induct)
  case (list_emb_Nil ys)
  then show ?case using pods_use_nonneg [of ys] by (simp add: pods_use_def)
next
  case (list_emb_Cons xs ys y)
  then have "0 \<le> pod_use cm node res y" by (auto intro!: pod_use_nonneg simp: amounts_ok_def)
  with list_emb_Cons show ?case by (auto simp: pods_use_def amounts_ok_def)
next
  case (list_emb_Cons2 x y xs ys)
  then show ?case by (auto simp: pods_use_def amounts_ok_def)
qed

lemma pods_use_mono:
  "pods_le ps qs \<Longrightarrow> amounts_ok qs \<Longrightarrow> pods_use ns cm ps node res \<le> pods_use ns cm qs node res"
  unfolding pods_le_def by (meson order_trans pods_use_list_all2 pods_use_subseq)

section \<open>One published resource\<close>

lemma resource_info_cong:
  "gm_get0 u (fst e) = gm_get0 u' (fst e) \<Longrightarrow>
   resource_info ex nn cap u e = resource_info ex nn cap u' e"
  by (cases e) (simp add: resource_info_def)

lemma resource_info_names:
  "map ri_Name (concat (map (resource_info ex nn cap u) es)) =
   filter (\<lambda>r. \<not> inExcludeSet ex r nn) (map fst es)"
  by (induction es) (auto simp: resource_info_def Let_def)

lemma resource_info_values:
  "ri \<in> set (resource_info ex nn cap u (r, a)) \<Longrightarrow>
   ri_Name ri = r \<and> ri_Allocatable ri = NewQuantity a DecimalSI \<and>
   ri_Available ri = NewQuantity (max 0 (w64 (a - gm_get0 u r))) DecimalSI \<and>
   ri_Capacity ri = NewQuantity (if gm_get0 cap r = 0 then a else max a (gm_get0 cap r)) DecimalSI"
  by (auto simp: resource_info_def Let_def gm_get0_def split: if_splits option.splits)

section \<open>Zones\<close>

lemma z_Name_scan_zone [simp]: "z_Name (scan_zone ordR rm ex alloc i) = makeZoneName i"
  by (simp add: scan_zone_def Let_def)

lemma makeZoneName_inj [simp]: "makeZoneName i = makeZoneName j \<longleftrightarrow> i = j"
  by (simp add: makeZoneName_def)

lemma length_node_indexes [simp]: "length (node_indexes topo) = length topo"
  by (simp add: node_indexes_def)

lemma nth_node_indexes [simp]: "i < length topo \<Longrightarrow> node_indexes topo ! i = int i"
  by (simp add: node_indexes_def)

lemma distinct_node_indexes [simp]: "distinct (node_indexes topo)"
  by (simp add: node_indexes_def distinct_map)

lemma set_node_indexes: "n \<in> set (node_indexes topo) \<longleftrightarrow> 0 \<le> n \<and> n < int (length topo)"
  by (auto simp: node_indexes_def image_iff intro: bexI [of _ "nat n"])

lemma Scan_Inr:
  assumes "Scan P ord ordR rm excl (Inr ps) ms = (ms', sts, r)"
  obtains sr where "r = Inr sr" "ms' = ms"
    "sr_Zones sr = map (scan_zone ordR rm (ToMapSet excl)
       (ContainerDevicesToPerNUMAResourceCounters
          (GetAllContainerDevices ord ps (ra_Namespace (rm_args rm)) (rm_coreIDToNodeIDMap rm))))
       (node_indexes (rm_topo rm))"
  using assms by (auto simp: Scan_def Let_def split: prod.splits)

lemma ToMapSet_lookup:
  "(case map_of (ToMapSet m) k of Some s \<Rightarrow> r \<in> set s | None \<Rightarrow> False) \<longleftrightarrow>
   (case map_of m k of Some s \<Rightarrow> r \<in> set s | None \<Rightarrow> False)"
  by (induction m rule: ToMapSet.induct) auto

lemma inExcludeSet_ToMapSet:
  "inExcludeSet (ToMapSet m) r nn \<longleftrightarrow>
   (\<exists>k s. (k = ''*'' \<or> k = nn) \<and> map_of m k = Some s \<and> r \<in> set s)"
  by (auto simp: inExcludeSet_def ToMapSet_lookup split: option.splits)

text \<open>The counters that a zone reports: those of the node, or no CPU when it has none.\<close>

definition zone_counters :: "resourceMonitor \<Rightarrow> int \<Rightarrow> resourceCounter" where
  "zone_counters rm n =
     (case map_of (rm_nodeAllocatable rm) n of None \<Rightarrow> [(ResourceCPU, 0)] | Some m \<Rightarrow> m)"

lemma z_Resources_scan_zone:
  "z_Resources (scan_zone ordR rm ex alloc n) =
   concat (map (resource_info ex (rm_nodeName rm) (gm_getm (rm_nodeCapacity rm) n) (gm_getm alloc n))
     (ordR n (zone_counters rm n)))"
  by (simp add: scan_zone_def Let_def zone_counters_def)

lemma wf_zone_counters: "wf_counters (rm_nodeAllocatable rm) \<Longrightarrow> wf_gomap (zone_counters rm n)"
  by (auto simp: zone_counters_def wf_gomap_def [of "[_]"] intro: wf_counters_inner split: option.splits)

lemma sort_key_perm:
  assumes "mset xs = mset ys" "distinct (map f xs)"
  shows "sort_key f xs = sort_key f ys"
proof (rule sort_key_inj_key_eq)
  show "mset xs = mset (sort_key f ys)" using assms(1) by simp
  show "inj_on f (set xs)" using assms(2) by (simp add: distinct_map)
  show "sorted (map f (sort_key f ys))" by simp
qed

lemma mset_concat_map: "mset xs = mset ys \<Longrightarrow> mset (concat (map f xs)) = mset (concat (map f ys))"
proof -
  assume "mset xs = mset ys"
  then have "(\<Sum>x \<in># mset xs. mset (f x)) = (\<Sum>y \<in># mset ys. mset (f y))" by simp
  moreover have "mset (concat (map f zs)) = (\<Sum>z \<in># mset zs. mset (f z))" for zs
    by (induction zs) auto
  ultimately show ?thesis by simp
qed

end
