(* ===== verification/NodeResources.thy ===== *)
theory NodeResources
  imports MonitorFacts
begin

text \<open>
  Refreshing the resources of the node: the capacity of each NUMA node, the capacity of devices,
  and exactly when the refresh panics.
\<close>

section \<open>CPU topology\<close>

lemma findNodeByID_Some: "findNodeByID topo n = Some nd \<Longrightarrow> nd \<in> set topo \<and> tn_ID nd = n"
  by (induction topo) (auto split: if_splits)

lemma findNodeByID_None: "findNodeByID topo n = None \<longleftrightarrow> n \<notin> tn_ID ` set topo"
  by (induction topo) auto

definition node_procs :: "TopoNode \<Rightarrow> int list" where
  "node_procs nd = concat (map tc_LogicalProcessors (tn_Cores nd))"

lemma cpuCapacity_eq:
  "findNodeByID topo n = Some nd \<Longrightarrow> cpuCapacity topo n = Ret (w64 (int (length (node_procs nd))))"
proof -
  have "foldl (\<lambda>n core. w64 (n + int (length (tc_LogicalProcessors core)))) (w64 a) cs =
      w64 (a + int (length (concat (map tc_LogicalProcessors cs))))" for a cs
    by (induction cs arbitrary: a) (simp_all add: w64_simps add.assoc)
  from this [of 0] show "findNodeByID topo n = Some nd \<Longrightarrow> ?thesis"
    by (simp add: cpuCapacity_def node_procs_def)
qed

lemma core_procs_map: "map_of (core_procs n ps m) p = (if p \<in> set ps then Some n else map_of m p)"
  by (induction ps arbitrary: m) auto

lemma node_cores_map:
  "map_of (node_cores n cs m) p =
     (if p \<in> set (concat (map tc_LogicalProcessors cs)) then Some n else map_of m p)"
  by (induction cs arbitrary: m) (auto simp: core_procs_map)

lemma topo_cores_map:
  "map_of (topo_cores topo m) p =
     (case find (\<lambda>nd. p \<in> set (node_procs nd)) (rev topo) of
        Some nd \<Rightarrow> Some (tn_ID nd) | None \<Rightarrow> map_of m p)"
proof (induction topo arbitrary: m)
  case Nil
  then show ?case by simp
next
  case (Cons nd topo)
  have "find Q (xs @ [x]) = (case find Q xs of Some y \<Rightarrow> Some y | None \<Rightarrow> if Q x then Some x else None)"
    for Q :: "TopoNode \<Rightarrow> bool" and xs x by (induction xs) auto
  with Cons show ?case by (auto simp: node_cores_map node_procs_def split: option.splits)
qed

lemma core_map_node:
  "map_of (MakeCoreIDToNodeIDMap topo) p = Some n \<Longrightarrow>
   \<exists>nd \<in> set topo. tn_ID nd = n \<and> p \<in> set (node_procs nd)"
  by (auto simp: MakeCoreIDToNodeIDMap_def topo_cores_map find_Some_iff split: option.splits)
    (metis length_rev nth_mem set_rev)

section \<open>Rows of the capacity\<close>

lemma capacity_rows_Ret:
  "(\<And>n. n \<in> set ns \<Longrightarrow> findNodeByID topo n \<noteq> None) \<Longrightarrow>
   \<exists>m. capacity_rows h2 h1 topo mc ns rc = Ret m \<and> fst ` set m = fst ` set rc \<union> set ns"
proof (induction ns arbitrary: rc)
  case Nil
  then show ?case by simp
next
  case (Cons n ns)
  from Cons.prems [of n] obtain nd where "findNodeByID topo n = Some nd" by auto
  then obtain row where row: "capacity_row h2 h1 topo mc n = Ret row"
    by (simp add: capacity_row_def cpuCapacity_eq)
  from Cons.prems have "\<And>k. k \<in> set ns \<Longrightarrow> findNodeByID topo k \<noteq> None" by simp
  from Cons.IH [OF this, of "AList.update n row rc"] row show ?case by auto
qed

lemma capacity_rows_Panic:
  "n \<in> set ns \<Longrightarrow> findNodeByID topo n = None \<Longrightarrow>
   capacity_rows h2 h1 topo mc ns rc = Panic NilDeref"
proof (induction ns arbitrary: rc)
  case Nil
  then show ?case by simp
next
  case (Cons k ns)
  show ?case
  proof (cases "findNodeByID topo k")
    case None
    then show ?thesis by (simp add: capacity_row_def cpuCapacity_def)
  next
    case (Some nd)
    with Cons.prems have "n \<in> set ns" by auto
    from Cons.IH [OF this Cons.prems(2)] Some show ?thesis
      by (simp add: capacity_row_def cpuCapacity_eq)
  qed
qed

section \<open>Capacity of devices\<close>

definition has_device :: "resourceCounter \<Rightarrow> bool" where
  "has_device rc \<longleftrightarrow> (\<exists>r \<in> fst ` set rc. \<not> isNativeResource r)"

lemma dev_cap_resources_native: "\<not> has_device rc \<Longrightarrow> dev_cap_resources n rc cap = Ret cap"
  by (induction n rc cap rule: dev_cap_resources.induct) (auto simp: has_device_def)

lemma dev_cap_resources_nil:
  "has_device rc \<Longrightarrow> n \<notin> fst ` set cap \<Longrightarrow> dev_cap_resources n rc cap = Panic NilMapWrite"
  by (induction n rc cap rule: dev_cap_resources.induct)
    (auto simp: has_device_def map_of_eq_None_iff [symmetric])

text \<open>After the loop over one node its counters hold the allocatable amount of every device.\<close>

lemma dev_cap_resources_Ret:
  "n \<in> fst ` set cap \<Longrightarrow> wf_gomap rc \<Longrightarrow>
   \<exists>cap'. dev_cap_resources n rc cap = Ret cap' \<and> fst ` set cap' = fst ` set cap \<and>
     (\<forall>k r. cnt cap' k r =
        (if k = n \<and> \<not> isNativeResource r \<and> r \<in> fst ` set rc then gm_get0 rc r else cnt cap k r))"
proof (induction n rc cap rule: dev_cap_resources.induct)
  case (1 n cap)
  then show ?case by simp
next
  case (2 n r q rc cap)
  then have wf: "wf_gomap rc" and fresh: "r \<notin> fst ` set rc" by (auto simp: wf_gomap_def)
  have get: "gm_get0 ((r, q) # rc) k = (if k = r then q else gm_get0 rc k)" for k
    by (simp add: gm_get0_def)
  show ?case
  proof (cases "isNativeResource r")
    case True
    with 2 wf obtain cap' where "dev_cap_resources n rc cap = Ret cap'"
      "fst ` set cap' = fst ` set cap"
      "\<forall>k s. cnt cap' k s =
         (if k = n \<and> \<not> isNativeResource s \<and> s \<in> fst ` set rc then gm_get0 rc s else cnt cap k s)"
      by blast
    with True show ?thesis by (auto simp: get)
  next
    case False
    from "2.prems" obtain c where c: "map_of cap n = Some c"
      by (metis domIff dom_map_of_conv_image_fst not_None_eq)
    then have gc: "gm_getm cap n = c" by (simp add: gm_getm_def)
    let ?cap = "AList.update n (AList.update r q c) cap"
    have ins: "insert n (fst ` set cap) = fst ` set cap" using "2.prems"(1) by auto
    have "n \<in> fst ` set ?cap" by simp
    from "2.IH"(2) [OF False c this wf] ins obtain cap' where cap': "dev_cap_resources n rc ?cap = Ret cap'"
      "fst ` set cap' = fst ` set cap"
      "\<forall>k s. cnt cap' k s =
         (if k = n \<and> \<not> isNativeResource s \<and> s \<in> fst ` set rc then gm_get0 rc s else cnt ?cap k s)"
      unfolding keys_update by metis
    with False c fresh gc show ?thesis by (auto simp: get)
  qed
qed

lemma dev_cap_nodes_Panic:
  "(n, rc) \<in> set al \<Longrightarrow> has_device rc \<Longrightarrow> n \<notin> fst ` set cap \<Longrightarrow>
   \<forall>(k, m) \<in> set al. wf_gomap m \<Longrightarrow> dev_cap_nodes al cap = Panic NilMapWrite"
proof (induction al cap rule: dev_cap_nodes.induct)
  case (1 cap)
  then show ?case by simp
next
  case (2 k m al cap)
  show ?case
  proof (cases "has_device m")
    case False
    with 2 show ?thesis by (auto simp: dev_cap_resources_native)
  next
    case True
    show ?thesis
    proof (cases "k \<in> fst ` set cap")
      case False
      with True show ?thesis by (simp add: dev_cap_resources_nil)
    next
      case in_cap: True
      from "2.prems" have "wf_gomap m" by auto
      from dev_cap_resources_Ret [OF in_cap this] obtain cap'
        where cap': "dev_cap_resources k m cap = Ret cap'" "fst ` set cap' = fst ` set cap" by blast
      have "dev_cap_nodes al cap' = Panic NilMapWrite"
        using 2 cap' in_cap by auto
      with cap' show ?thesis by simp
    qed
  qed
qed

lemma dev_cap_nodes_Ret:
  "\<forall>(k, m) \<in> set al. wf_gomap m \<and> (has_device m \<longrightarrow> k \<in> fst ` set cap) \<Longrightarrow> wf_gomap al \<Longrightarrow>
   \<exists>cap'. dev_cap_nodes al cap = Ret cap' \<and> fst ` set cap' = fst ` set cap \<and>
     (\<forall>k r. cnt cap' k r =
        (if \<not> isNativeResource r \<and> r \<in> fst ` set (gm_getm al k) then cnt al k r else cnt cap k r))"
proof (induction al cap rule: dev_cap_nodes.induct)
  case (1 cap)
  then show ?case by simp
next
  case (2 n m al cap)
  from "2.prems" have wf: "wf_gomap m" "wf_gomap al" and fresh: "map_of al n = None"
    by (auto simp: wf_gomap_def map_of_eq_None_iff)
  have getm: "gm_getm ((n, m) # al) k = (if k = n then m else gm_getm al k)" for k
    by (simp add: gm_getm_def)
  have nil: "gm_getm al n = []" using fresh by (simp add: gm_getm_def)
  obtain cap1 where cap1: "dev_cap_resources n m cap = Ret cap1" "fst ` set cap1 = fst ` set cap"
    "\<forall>k r. cnt cap1 k r =
       (if k = n \<and> \<not> isNativeResource r \<and> r \<in> fst ` set m then gm_get0 m r else cnt cap k r)"
  proof (cases "has_device m")
    case False
    then have "\<forall>k r. cnt cap k r =
       (if k = n \<and> \<not> isNativeResource r \<and> r \<in> fst ` set m then gm_get0 m r else cnt cap k r)"
      by (auto simp: has_device_def)
    with that [of cap] False show ?thesis by (simp add: dev_cap_resources_native)
  next
    case True
    with "2.prems" have "n \<in> fst ` set cap" by auto
    from dev_cap_resources_Ret [OF this wf(1)] that show ?thesis by blast
  qed
  from "2.prems" cap1(2) have "\<forall>(k, m) \<in> set al. wf_gomap m \<and> (has_device m \<longrightarrow> k \<in> fst ` set cap1)"
    by auto
  from "2.IH" [OF this wf(2)] obtain cap2 where "dev_cap_nodes al cap1 = Ret cap2"
    "fst ` set cap2 = fst ` set cap1"
    "\<forall>k r. cnt cap2 k r =
       (if \<not> isNativeResource r \<and> r \<in> fst ` set (gm_getm al k) then cnt al k r else cnt cap1 k r)"
    by blast
  with cap1 show ?case by (auto simp: getm nil)
qed

end
