(* ===== verification/Samples.thy ===== *)
theory Samples
  imports ResourceMonitor
begin

text \<open>Small concrete inputs, at which theorems with hypotheses are instantiated.\<close>

definition sample_pfp :: "(string list, string list) pfp_lib" where
  "sample_pfp =
     \<lparr>pfp_MethodAll = ''all'',
      pfp_MethodWithExclusiveResources = ''with-exclusive-resources'',
      pfp_Attribute = ''nodeTopologyPodsFingerprint'',
      pfp_AttributeMethod = ''nodeTopologyPodsFingerprintMethod'',
      pfp_Annotation = ''topology.node.k8s.io/fingerprint'',
      pfp_New = (\<lambda>n k. []),
      pfp_AddPod = (\<lambda>fp pr. pr_Name pr # fp),
      pfp_Sign = (\<lambda>fp. (fp, concat fp)),
      pfp_Status = (\<lambda>fp. fp)\<rparr>"

definition sample_args :: rm_Args where
  "sample_args =
     \<lparr>ra_Namespace = [], ra_SysfsRoot = ''/sys'', ra_ResourceExclude = [],
      ra_RefreshNodeResources = False, ra_PodSetFingerprint = True,
      ra_PodSetFingerprintMethod = ''all'', ra_ExposeTiming = False,
      ra_PodSetFingerprintStatusFile = [], ra_PodExclude = [], ra_ExcludeTerminalPods = False\<rparr>"

text \<open>Two NUMA nodes with two CPUs each; CPU 0 is reserved and has no memory block.\<close>

definition sample_topo :: "TopoNode list" where
  "sample_topo =
     [\<lparr>tn_ID = 0, tn_Cores = [\<lparr>tc_LogicalProcessors = [0, 1]\<rparr>], tn_Distances = [10, 20]\<rparr>,
      \<lparr>tn_ID = 1, tn_Cores = [\<lparr>tc_LogicalProcessors = [2, 3]\<rparr>], tn_Distances = [20, 10]\<rparr>]"

definition sample_nic :: "int \<Rightarrow> string list \<Rightarrow> ContainerDevices" where
  "sample_nic n ids =
     \<lparr>cd_ResourceName = ''vendor/nic'', cd_DeviceIds = ids, cd_Topology = numa_topology n\<rparr>"

definition sample_block :: "int \<Rightarrow> int \<Rightarrow> ContainerMemory" where
  "sample_block n sz =
     \<lparr>cm_MemoryType = ''memory'', cm_Size = sz, cm_Topology = numa_topology n\<rparr>"

definition sample_alloc :: AllocatableResources where
  "sample_alloc =
     \<lparr>al_Devices = [sample_nic 1 [''a'', ''b'']], al_CpuIds = [1, 2, 3],
      al_Memory = [sample_block 1 8192]\<rparr>"

definition sample_rm :: resourceMonitor where
  "sample_rm =
     \<lparr>rm_nodeName = ''worker'', rm_args = sample_args, rm_topo = sample_topo,
      rm_coreIDToNodeIDMap = MakeCoreIDToNodeIDMap sample_topo,
      rm_nodeCapacity = [(0, [(''cpu'', 2)]), (1, [(''cpu'', 2), (''vendor/nic'', 2)])],
      rm_nodeAllocatable =
        [(0, [(''cpu'', 1)]), (1, [(''cpu'', 2), (''memory'', 8192), (''vendor/nic'', 2)])]\<rparr>"

definition sample_pods :: "PodResources list" where
  "sample_pods =
     [\<lparr>pr_Name = ''dpdk'', pr_Namespace = ''telco'',
       pr_Containers =
         [\<lparr>cr_Name = ''app'', cr_Devices = [sample_nic 1 [''a'']], cr_CpuIds = [2],
           cr_Memory = [sample_block 1 4096]\<rparr>]\<rparr>,
      \<lparr>pr_Name = ''web'', pr_Namespace = ''default'',
       pr_Containers = [\<lparr>cr_Name = ''srv'', cr_Devices = [], cr_CpuIds = [], cr_Memory = []\<rparr>]\<rparr>]"

definition sample_ms :: metrics_state where
  "sample_ms = \<lparr>ms_nodeName = ''worker'', ms_calls = []\<rparr>"

text \<open>One NUMA node in sysfs, with 64 kB of memory and three huge pages.\<close>

definition sample_fs :: filesystem where
  "sample_fs =
     \<lparr>fs_ReadDir = (\<lambda>p. if p = ''/sys/devices/system/node'' then Inr [(''node0'', True), (''online'', False)]
        else if p = ''/sys/devices/system/node/node0/hugepages'' then Inr [(''hugepages-2048kB'', True)]
        else Inl (Errorf ''no such directory'')),
      fs_ReadFile = (\<lambda>p. if p = ''/sys/devices/system/node/node0/meminfo''
        then Inr (''Node 0 MemTotal: 64 kB'' @ [CHR 0x0A])
        else if p = ''/sys/devices/system/node/node0/hugepages/hugepages-2048kB/nr_hugepages''
        then Inr (''3'' @ [CHR 0x0A]) else Inl (Errorf ''no such file'')),
      fs_EvalSymlinks = Inr\<rparr>"

definition sample_qs :: "Quantity \<Rightarrow> string" where
  "sample_qs q = (case q of NewQuantity v f \<Rightarrow> show_int v)"

lemma sample_memory:
  "GetMemoryResourceCounters sample_qs sample_fs \<lparr>hnd_Root = []\<rparr> =
   Inr [(''memory'', [(0, 65536)]), (''hugepages-2097152'', [(0, 6291456)])]"
  by code_simp

lemmas sample_defs =
  sample_pfp_def sample_args_def sample_topo_def sample_nic_def sample_block_def sample_alloc_def
  sample_rm_def sample_pods_def sample_ms_def

end
