(* ===== verification/MonitorProps.thy ===== *)
theory MonitorProps
  imports NodeResources Samples
begin

text \<open>The properties of the resource monitor.\<close>

section \<open>Counting\<close>

text \<open>
  C14. The per-NUMA counters are exact: a resource has an entry on a node precisely when some device
  of that name lists the node, and the entry is the sum of the device amounts, once for every time
  the node is listed, wrapped to 64 bits.
\<close>

theorem counters_exact:
  "map_of (gm_getm (ContainerDevicesToPerNUMAResourceCounters ds) n) r =
     (if \<exists>d \<in> set ds. r = cd_ResourceName d \<and> n \<in> set (topo_nodes (cd_Topology d))
      then Some (w64 (sum_list (map (\<lambda>d. if cd_ResourceName d = r
             then device_amount d * int (count_list (topo_nodes (cd_Topology d)) n) else 0) ds)))
      else None)"
  using counters_lookup [of ds n r] by (simp add: dev_count_def dev_contrib_def [abs_def])

text \<open>
  C15. Normalising the devices of a container keeps the books: on every node, the counters of the
  normalised list are the device amounts, plus the number of CPUs whose core maps to the node, plus
  the memory blocks on the node, where a block above the largest int64 counts as that maximum. The
  order in which the map of CPUs is visited does not matter.
\<close>

theorem normalize_amounts:
  assumes "legal_order ord" "\<forall>b \<in> set bs. uint64 (cm_Size b)"
  shows "cnt (ContainerDevicesToPerNUMAResourceCounters
            (NormalizeContainerDevices ord ds bs cpus cm)) node res =
     w64 (dev_count ds node res +
          (if res = ResourceCPU
           then int (length (filter (\<lambda>c. map_of cm c = Some node) cpus)) else 0) +
          sum_list (map (block_contrib node res) bs))"
  using dev_count_normalize [OF assms(1), of bs ds cpus cm node res] assms(2)
  by (simp add: counters_value cpus_on_def)

theorem normalize_amounts_witness:
  "legal_order rev \<and> uint64 (cm_Size (sample_block 1 8192)) \<and>
   cnt (ContainerDevicesToPerNUMAResourceCounters
          (NormalizeContainerDevices rev [sample_nic 1 [''a'', ''b'']] [sample_block 1 8192]
             [1, 2, 3] (MakeCoreIDToNodeIDMap sample_topo))) 1 ''cpu'' = 2"
proof -
  have b: "\<forall>b \<in> set [sample_block 1 8192]. uint64 (cm_Size b)"
    by (simp add: sample_block_def uint64_def)
  have "w64 (dev_count [sample_nic 1 [''a'', ''b'']] 1 ''cpu'' +
      (if ''cpu'' = ResourceCPU
       then int (length (filter (\<lambda>c. map_of (MakeCoreIDToNodeIDMap sample_topo) c = Some 1) [1, 2, 3]))
       else 0) + sum_list (map (block_contrib 1 ''cpu'') [sample_block 1 8192])) = 2"
    by code_simp
  with normalize_amounts [OF legal_order_rev b, of "[sample_nic 1 [''a'', ''b'']]" "[1, 2, 3]"
      "MakeCoreIDToNodeIDMap sample_topo" 1 "''cpu''"] b
  show ?thesis by simp
qed

text \<open>
  C28. CPUs are never over-reported: when the node identifiers of the topology are distinct and the
  allocatable CPU list has no duplicates, the allocatable CPUs of a node are at most its logical
  processors, which is what its CPU capacity counts.
\<close>

theorem cpu_allocatable_le_capacity:
  assumes "distinct (map tn_ID topo)" "distinct cpus" "findNodeByID topo n = Some nd"
    "length (node_procs nd) < 2 ^ 63"
  shows "cpuCapacity topo n = Ret (int (length (node_procs nd))) \<and>
     cpus_on (MakeCoreIDToNodeIDMap topo) cpus n \<le> int (length (node_procs nd))"
proof
  show "cpuCapacity topo n = Ret (int (length (node_procs nd)))"
    using assms(3,4) by (simp add: cpuCapacity_eq w64_id int64_def)
  let ?f = "filter (\<lambda>c. map_of (MakeCoreIDToNodeIDMap topo) c = Some n) cpus"
  have "set ?f \<subseteq> set (node_procs nd)"
  proof
    fix c assume "c \<in> set ?f"
    then obtain nd' where nd': "nd' \<in> set topo" "tn_ID nd' = n" "c \<in> set (node_procs nd')"
      by (auto dest: core_map_node)
    with findNodeByID_Some [OF assms(3)] assms(1) have "nd' = nd"
      by (auto simp: distinct_map dest: inj_onD)
    with nd' show "c \<in> set (node_procs nd)" by simp
  qed
  then have "card (set ?f) \<le> card (set (node_procs nd))" by (simp add: card_mono)
  also have "card (set ?f) = length ?f" by (rule distinct_card) (simp add: assms(2))
  also have "card (set (node_procs nd)) \<le> length (node_procs nd)" by (rule card_length)
  finally show "cpus_on (MakeCoreIDToNodeIDMap topo) cpus n \<le> int (length (node_procs nd))"
    by (simp add: cpus_on_def)
qed

theorem cpu_allocatable_le_capacity_witness:
  "cpuCapacity sample_topo 1 = Ret 2 \<and> cpus_on (MakeCoreIDToNodeIDMap sample_topo) [1, 2, 3] 1 \<le> 2"
  using cpu_allocatable_le_capacity [of sample_topo "[1, 2, 3]" 1
      "\<lparr>tn_ID = 1, tn_Cores = [\<lparr>tc_LogicalProcessors = [2, 3]\<rparr>], tn_Distances = [20, 10]\<rparr>"]
  by (simp add: sample_topo_def node_procs_def)

section \<open>Scanning\<close>

text \<open>
  A successful scan reports every NUMA node of the topology, in order and without holes: zone
  number i is named node-i, the names are pairwise distinct, and every zone has the type Node.
\<close>

lemma scan_zones_no_holes:
  assumes "Scan P ord ordR rm excl (Inr ps) ms = (ms', sts, r)"
  shows "\<exists>sr. r = Inr sr \<and> ms' = ms \<and>
     map z_Name (sr_Zones sr) = map (\<lambda>i. ''node-'' @ show_int (int i)) [0..<length (rm_topo rm)] \<and>
     distinct (map z_Name (sr_Zones sr)) \<and> (\<forall>z \<in> set (sr_Zones sr). z_Type z = ''Node'')"
proof -
  from Scan_Inr [OF assms] obtain sr where sr: "r = Inr sr" "ms' = ms"
    "sr_Zones sr = map (scan_zone ordR rm (ToMapSet excl)
       (ContainerDevicesToPerNUMAResourceCounters
          (GetAllContainerDevices ord ps (ra_Namespace (rm_args rm)) (rm_coreIDToNodeIDMap rm))))
       (node_indexes (rm_topo rm))" .
  then have names: "map z_Name (sr_Zones sr) = map makeZoneName (node_indexes (rm_topo rm))"
    by simp
  moreover have "distinct (map makeZoneName (node_indexes (rm_topo rm)))"
    by (simp add: distinct_map inj_on_def)
  moreover have "map makeZoneName (node_indexes (rm_topo rm)) =
      map (\<lambda>i. ''node-'' @ show_int (int i)) [0..<length (rm_topo rm)]"
    by (simp add: node_indexes_def makeZoneName_def)
  ultimately show ?thesis using sr by (auto simp: scan_zone_def Let_def)
qed

end
