(* ===== verification/ScanProps.thy ===== *)
theory ScanProps
  imports NodeResources Samples
begin

text \<open>What a scan publishes: which resources, which amounts, and how little the order matters.\<close>

section \<open>Reading a zone of a scan\<close>

lemma scan_zone_nth:
  assumes "Scan P ord ordR rm excl (Inr ps) ms = (ms', sts, Inr sr)" "i < length (rm_topo rm)"
  shows "sr_Zones sr ! i = scan_zone ordR rm (ToMapSet excl)
     (ContainerDevicesToPerNUMAResourceCounters
        (GetAllContainerDevices ord ps (ra_Namespace (rm_args rm)) (rm_coreIDToNodeIDMap rm))) (int i)"
proof -
  from Scan_Inr [OF assms(1)] have "sr_Zones sr = map (scan_zone ordR rm (ToMapSet excl)
     (ContainerDevicesToPerNUMAResourceCounters
        (GetAllContainerDevices ord ps (ra_Namespace (rm_args rm)) (rm_coreIDToNodeIDMap rm))))
     (node_indexes (rm_topo rm))" by blast
  with assms(2) show ?thesis by simp
qed

lemma scan_resource:
  assumes "ri \<in> set (z_Resources (scan_zone ordR rm ex alloc n))" "legal_order (ordR n)"
    "wf_counters (rm_nodeAllocatable rm)"
  obtains a where "map_of (zone_counters rm n) (ri_Name ri) = Some a"
    "ri_Allocatable ri = NewQuantity a DecimalSI"
    "ri_Available ri = NewQuantity (max 0 (w64 (a - cnt alloc n (ri_Name ri)))) DecimalSI"
    "ri_Capacity ri = NewQuantity
       (if cnt (rm_nodeCapacity rm) n (ri_Name ri) = 0 then a
        else max a (cnt (rm_nodeCapacity rm) n (ri_Name ri))) DecimalSI"
proof -
  have "set (ordR n (zone_counters rm n)) = set (zone_counters rm n)"
    using assms(2) by (metis legal_order_def mset_eq_setD)
  with assms(1) obtain r a where ra: "(r, a) \<in> set (zone_counters rm n)"
    and ri: "ri \<in> set (resource_info ex (rm_nodeName rm) (gm_getm (rm_nodeCapacity rm) n)
      (gm_getm alloc n) (r, a))"
    unfolding z_Resources_scan_zone by auto
  from ra wf_zone_counters [OF assms(3)] have "map_of (zone_counters rm n) r = Some a"
    by (auto simp: wf_gomap_def)
  with resource_info_values [OF ri] that [of a] show thesis by simp
qed

section \<open>Which resources, which amounts\<close>

text \<open>
  C4. A zone lists precisely the allocatable resources of its NUMA node that are not excluded for
  all nodes or for this node, each once; a node without allocatable resources lists its CPUs, as
  zero. An empty exclude list hides nothing.
\<close>

theorem scan_resources_listed:
  assumes "Scan P ord ordR rm excl (Inr ps) ms = (ms', sts, Inr sr)" "i < length (rm_topo rm)"
    "legal_order (ordR (int i))" "wf_counters (rm_nodeAllocatable rm)"
  shows "set (map ri_Name (z_Resources (sr_Zones sr ! i))) =
      {r \<in> (case map_of (rm_nodeAllocatable rm) (int i) of
              None \<Rightarrow> {''cpu''} | Some m \<Rightarrow> fst ` set m).
         \<not> (\<exists>k s. (k = ''*'' \<or> k = rm_nodeName rm) \<and> map_of excl k = Some s \<and> r \<in> set s)} \<and>
    distinct (map ri_Name (z_Resources (sr_Zones sr ! i)))"
proof -
  let ?z = "zone_counters rm (int i)"
  have m: "mset (ordR (int i) ?z) = mset ?z" using assms(3) by (simp add: legal_order_def)
  then have s: "set (ordR (int i) ?z) = set ?z" by (rule mset_eq_setD)
  have names: "map ri_Name (z_Resources (sr_Zones sr ! i)) =
      filter (\<lambda>r. \<not> inExcludeSet (ToMapSet excl) r (rm_nodeName rm)) (map fst (ordR (int i) ?z))"
    by (simp only: scan_zone_nth [OF assms(1,2)] z_Resources_scan_zone resource_info_names)
  have "mset (map fst (ordR (int i) ?z)) = mset (map fst ?z)" using m by simp
  with wf_zone_counters [OF assms(4)] have "distinct (map fst (ordR (int i) ?z))"
    unfolding wf_gomap_def by (metis mset_eq_imp_distinct_iff)
  moreover have "fst ` set ?z =
      (case map_of (rm_nodeAllocatable rm) (int i) of None \<Rightarrow> {''cpu''} | Some m \<Rightarrow> fst ` set m)"
    by (simp add: zone_counters_def ResourceCPU_def split: option.splits)
  ultimately show ?thesis
    unfolding names set_filter set_map s inExcludeSet_ToMapSet by simp
qed

theorem scan_resources_listed_witness:
  "\<exists>sr. Scan sample_pfp id (\<lambda>_. rev) sample_rm [(''*'', [''memory''])] (Inr sample_pods) sample_ms =
      (sample_ms, [[''web'', ''dpdk'']], Inr sr) \<and>
     set (map ri_Name (z_Resources (sr_Zones sr ! 1))) = {''cpu'', ''vendor/nic''}"
proof -
  let ?S = "Scan sample_pfp id (\<lambda>_. rev) sample_rm [(''*'', [''memory''])] (Inr sample_pods) sample_ms"
  obtain ms' sts r where scan: "?S = (ms', sts, r)" by (cases ?S) auto
  from Scan_Inr [OF this] obtain sr where sr: "r = Inr sr" "ms' = sample_ms" by blast
  have "fst (snd ?S) = [[''web'', ''dpdk'']]" by code_simp
  with scan sr have scan': "?S = (sample_ms, [[''web'', ''dpdk'']], Inr sr)" by simp
  have wf: "wf_counters (rm_nodeAllocatable sample_rm)"
    by (auto simp: sample_rm_def wf_counters_def wf_gomap_def gm_getm_def)
  have "1 < length (rm_topo sample_rm)" by code_simp
  from scan_resources_listed [OF scan' this _ wf] scan' show ?thesis
    by (auto simp: sample_rm_def)
qed

lemma scan_amounts:
  assumes "Scan P ord ordR rm excl (Inr ps) ms = (ms', sts, Inr sr)" "i < length (rm_topo rm)"
    "legal_order ord" "legal_order (ordR (int i))" "wf_counters (rm_nodeAllocatable rm)"
    "blocks_ok ps" "amounts_ok ps" "ri \<in> set (z_Resources (sr_Zones sr ! i))"
    "pods_use (ra_Namespace (rm_args rm)) (rm_coreIDToNodeIDMap rm) ps (int i) (ri_Name ri) < 2 ^ 63"
    "map_of (zone_counters rm (int i)) (ri_Name ri) = Some a" "0 \<le> a" "a < 2 ^ 63"
  shows "ri_Allocatable ri = NewQuantity a DecimalSI \<and>
     ri_Available ri = NewQuantity (max 0
       (a - pods_use (ra_Namespace (rm_args rm)) (rm_coreIDToNodeIDMap rm) ps (int i) (ri_Name ri)))
       DecimalSI \<and>
     (\<exists>c \<ge> a. ri_Capacity ri = NewQuantity c DecimalSI)"
proof -
  let ?u = "pods_use (ra_Namespace (rm_args rm)) (rm_coreIDToNodeIDMap rm) ps (int i) (ri_Name ri)"
  let ?alloc = "ContainerDevicesToPerNUMAResourceCounters
        (GetAllContainerDevices ord ps (ra_Namespace (rm_args rm)) (rm_coreIDToNodeIDMap rm))"
  from assms(8) have "ri \<in> set (z_Resources (scan_zone ordR rm (ToMapSet excl) ?alloc (int i)))"
    by (simp only: scan_zone_nth [OF assms(1,2)])
  from scan_resource [OF this assms(4,5)] obtain b where b:
    "map_of (zone_counters rm (int i)) (ri_Name ri) = Some b"
    "ri_Allocatable ri = NewQuantity b DecimalSI"
    "ri_Available ri = NewQuantity (max 0 (w64 (b - cnt ?alloc (int i) (ri_Name ri)))) DecimalSI"
    "ri_Capacity ri = NewQuantity
       (if cnt (rm_nodeCapacity rm) (int i) (ri_Name ri) = 0 then b
        else max b (cnt (rm_nodeCapacity rm) (int i) (ri_Name ri))) DecimalSI" .
  have u: "0 \<le> ?u" by (rule pods_use_nonneg) (rule assms(7))
  with assms(9) have "w64 ?u = ?u" by (intro w64_id) (simp add: int64_def)
  then have "cnt ?alloc (int i) (ri_Name ri) = ?u"
    by (simp add: counters_value dev_count_all [OF assms(3,6)])
  moreover have "w64 (a - ?u) = a - ?u"
    using u assms(9,11,12) by (intro w64_id) (simp add: int64_def)
  ultimately show ?thesis using b assms(10) by auto
qed

text \<open>
  C2. The accounting of a scan: where sizes are in range and the pods use less than two to the 63,
  a resource is published with its allocatable amount, with what the pods leave of it as available
  (never below zero), and with a capacity not below the allocatable amount.
\<close>

theorem scan_accounting:
  assumes "Scan P ord ordR rm excl (Inr ps) ms = (ms', sts, Inr sr)" "i < length (rm_topo rm)"
    "legal_order ord" "legal_order (ordR (int i))" "wf_counters (rm_nodeAllocatable rm)"
    "blocks_ok ps" "amounts_ok ps" "ri \<in> set (z_Resources (sr_Zones sr ! i))"
    "pods_use (ra_Namespace (rm_args rm)) (rm_coreIDToNodeIDMap rm) ps (int i) (ri_Name ri) < 2 ^ 63"
    "map_of (zone_counters rm (int i)) (ri_Name ri) = Some a" "0 \<le> a" "a < 2 ^ 63"
  shows "ri_Allocatable ri = NewQuantity a DecimalSI \<and>
     ri_Available ri = NewQuantity (max 0
       (a - pods_use (ra_Namespace (rm_args rm)) (rm_coreIDToNodeIDMap rm) ps (int i) (ri_Name ri)))
       DecimalSI \<and>
     (\<exists>c \<ge> a. ri_Capacity ri = NewQuantity c DecimalSI)"
  by (rule scan_amounts) (fact assms)+

theorem scan_accounting_witness:
  "\<exists>sr ri. Scan sample_pfp id (\<lambda>_. rev) sample_rm [] (Inr sample_pods) sample_ms =
      (sample_ms, [[''web'', ''dpdk'']], Inr sr) \<and> ri \<in> set (z_Resources (sr_Zones sr ! 1)) \<and>
     ri_Name ri = ''memory'' \<and> ri_Allocatable ri = NewQuantity 8192 DecimalSI \<and>
     ri_Available ri = NewQuantity 4096 DecimalSI"
proof -
  let ?S = "Scan sample_pfp id (\<lambda>_. rev) sample_rm [] (Inr sample_pods) sample_ms"
  obtain ms' sts r where scan: "?S = (ms', sts, r)" by (cases ?S) auto
  from Scan_Inr [OF this] obtain sr where sr: "r = Inr sr" "ms' = sample_ms" by blast
  have "fst (snd ?S) = [[''web'', ''dpdk'']]" by code_simp
  with scan sr have scan': "?S = (sample_ms, [[''web'', ''dpdk'']], Inr sr)" by simp
  have "case snd (snd ?S) of Inr q \<Rightarrow> ''memory'' \<in> set (map ri_Name (z_Resources (sr_Zones q ! 1))) | _ \<Rightarrow> False"
    by code_simp
  with scan' obtain ri where ri: "ri \<in> set (z_Resources (sr_Zones sr ! 1))" "ri_Name ri = ''memory''"
    by auto
  have wf: "wf_counters (rm_nodeAllocatable sample_rm)"
    by (auto simp: sample_rm_def wf_counters_def wf_gomap_def gm_getm_def)
  have one: "1 < length (rm_topo sample_rm)" by code_simp
  have ok: "blocks_ok sample_pods" "amounts_ok sample_pods" by code_simp+
  have u: "pods_use (ra_Namespace (rm_args sample_rm)) (rm_coreIDToNodeIDMap sample_rm) sample_pods
      (int 1) (ri_Name ri) = 4096" unfolding ri by code_simp
  have a: "map_of (zone_counters sample_rm (int 1)) (ri_Name ri) = Some 8192" unfolding ri by code_simp
  from scan_accounting [OF scan' one legal_order_id legal_order_rev wf ok ri(1) _ a] u ri scan'
  show ?thesis by auto
qed

section \<open>The order of map iteration\<close>

lemma insort_key_map: "insort_key f (g x) (map g xs) = map g (insort_key (f \<circ> g) x xs)"
  by (induction xs) auto

lemma sort_key_map: "sort_key f (map g xs) = map g (sort_key (f \<circ> g) xs)"
  by (induction xs) (auto simp: insort_key_map comp_def)

lemma scan_zone_perm:
  assumes "\<And>n r. cnt u n r = cnt u' n r" "legal_order (ordR n)" "legal_order (ordR' n)"
    "wf_counters (rm_nodeAllocatable rm)"
  shows "sort_key ri_Name (z_Resources (scan_zone ordR rm ex u n)) =
     sort_key ri_Name (z_Resources (scan_zone ordR' rm ex u' n))"
proof (rule sort_key_perm)
  let ?z = "zone_counters rm n"
  let ?info = "\<lambda>u. resource_info ex (rm_nodeName rm) (gm_getm (rm_nodeCapacity rm) n) (gm_getm u n)"
  have m: "mset (ordR n ?z) = mset ?z" "mset (ordR' n ?z) = mset ?z"
    using assms(2,3) by (simp_all add: legal_order_def)
  have "?info u = ?info u'" by (rule ext, rule resource_info_cong) (rule assms(1))
  then show "mset (z_Resources (scan_zone ordR rm ex u n)) =
      mset (z_Resources (scan_zone ordR' rm ex u' n))"
    unfolding z_Resources_scan_zone by (simp add: m mset_concat_map [of "ordR n ?z" "ordR' n ?z"])
  have "mset (map fst (ordR n ?z)) = mset (map fst ?z)" using m by simp
  with wf_zone_counters [OF assms(4)] have "distinct (map fst (ordR n ?z))"
    unfolding wf_gomap_def by (metis mset_eq_imp_distinct_iff)
  then show "distinct (map ri_Name (z_Resources (scan_zone ordR rm ex u n)))"
    unfolding z_Resources_scan_zone resource_info_names by (rule distinct_filter)
qed

lemma SortedZones_scan:
  "SortedZones \<lparr>sr_Zones = map (scan_zone ordR rm ex u) ns, sr_Attributes = at, sr_Annotations = an\<rparr> =
   map (\<lambda>n. \<lparr>z_Name = makeZoneName n, z_Type = ''Node'',
              z_Costs = sort_key co_Name
                (case makeCostsPerNumaNode (rm_topo rm) n of Inl e \<Rightarrow> [] | Inr c \<Rightarrow> c),
              z_Resources = sort_key ri_Name (z_Resources (scan_zone ordR rm ex u n))\<rparr>)
     (sort_key makeZoneName ns)"
proof -
  have "z_Name \<circ> scan_zone ordR rm ex u = makeZoneName" by (simp add: comp_def)
  then show ?thesis by (simp add: SortedZones_def sort_key_map) (simp add: scan_zone_def Let_def)
qed

text \<open>
  C8. The published zones do not depend on the order in which Go visits its maps: for any two legal
  orders of the CPU map and of the counters, the sorted zones of the two scans are equal.
\<close>

theorem scan_order_irrelevant:
  assumes "legal_order ord" "legal_order ord'" "\<forall>n. legal_order (ordR n)" "\<forall>n. legal_order (ordR' n)"
    "wf_counters (rm_nodeAllocatable rm)"
  shows "map_sum id SortedZones (snd (snd (Scan P ord ordR rm excl resp ms))) =
     map_sum id SortedZones (snd (snd (Scan P ord' ordR' rm excl resp ms)))"
proof (cases resp)
  case (Inl e)
  then show ?thesis by (simp add: Scan_def)
next
  case (Inr ps)
  let ?u = "\<lambda>ord. ContainerDevicesToPerNUMAResourceCounters
    (GetAllContainerDevices ord ps (ra_Namespace (rm_args rm)) (rm_coreIDToNodeIDMap rm))"
  have "cnt (?u ord) n r = cnt (?u ord') n r" for n r
    by (simp only: counters_value dev_count_perm [OF mset_all_devices [OF assms(1,2)]])
  then have "sort_key ri_Name (z_Resources (scan_zone ordR rm ex (?u ord) n)) =
      sort_key ri_Name (z_Resources (scan_zone ordR' rm ex (?u ord') n))" for ex n
    using assms(3-5) by (intro scan_zone_perm) auto
  with Inr show ?thesis by (simp add: Scan_def Let_def SortedZones_scan split: prod.split)
qed

theorem scan_order_irrelevant_witness:
  "map_sum id SortedZones (snd (snd (Scan sample_pfp id (\<lambda>_. id) sample_rm [] (Inr sample_pods) sample_ms))) =
   map_sum id SortedZones (snd (snd (Scan sample_pfp rev (\<lambda>_. rev) sample_rm [] (Inr sample_pods) sample_ms))) \<and>
   snd (snd (Scan sample_pfp id (\<lambda>_. id) sample_rm [] (Inr sample_pods) sample_ms)) \<noteq>
   snd (snd (Scan sample_pfp rev (\<lambda>_. rev) sample_rm [] (Inr sample_pods) sample_ms))"
proof
  have wf: "wf_counters (rm_nodeAllocatable sample_rm)"
    by (auto simp: sample_rm_def wf_counters_def wf_gomap_def gm_getm_def)
  show "map_sum id SortedZones (snd (snd (Scan sample_pfp id (\<lambda>_. id) sample_rm [] (Inr sample_pods) sample_ms))) =
   map_sum id SortedZones (snd (snd (Scan sample_pfp rev (\<lambda>_. rev) sample_rm [] (Inr sample_pods) sample_ms)))"
    by (rule scan_order_irrelevant) (simp_all add: wf)
  show "snd (snd (Scan sample_pfp id (\<lambda>_. id) sample_rm [] (Inr sample_pods) sample_ms)) \<noteq>
   snd (snd (Scan sample_pfp rev (\<lambda>_. rev) sample_rm [] (Inr sample_pods) sample_ms))"
    by code_simp
qed

end
