(* ===== verification/RefreshProps.thy ===== *)
theory RefreshProps
  imports NodeResources Samples
begin

text \<open>Refreshing the node resources: when it panics, and what it leaves in the monitor.\<close>

section \<open>The three outcomes\<close>

definition node_devices ::
    "((int \<times> string list) list \<Rightarrow> (int \<times> string list) list) \<Rightarrow> AllocatableResources \<Rightarrow>
     resourceMonitor \<Rightarrow> ContainerDevices list" where
  "node_devices ord al rm =
     NormalizeContainerDevices ord (al_Devices al) (al_Memory al) (al_CpuIds al)
       (rm_coreIDToNodeIDMap rm)"

definition topo_complete :: "TopoNode list \<Rightarrow> bool" where
  "topo_complete topo \<longleftrightarrow> (\<forall>n \<in> set (node_indexes topo). findNodeByID topo n \<noteq> None)"

definition stray_device :: "TopoNode list \<Rightarrow> ContainerDevices list \<Rightarrow> bool" where
  "stray_device topo ds \<longleftrightarrow>
     (\<exists>d \<in> set ds. \<not> isNativeResource (cd_ResourceName d) \<and>
        (\<exists>n \<in> set (topo_nodes (cd_Topology d)). n \<notin> set (node_indexes topo)))"

lemma counters_entry:
  "wf_counters rc \<Longrightarrow> (n, m) \<in> set rc \<Longrightarrow> gm_getm rc n = m \<and> wf_gomap m"
  by (metis gm_getm_def map_of_is_SomeI option.simps(5) wf_counters_def wf_gomap_def)

lemma has_device_counters:
  "has_device (gm_getm (ContainerDevicesToPerNUMAResourceCounters ds) n) \<longleftrightarrow>
   (\<exists>d \<in> set ds. \<not> isNativeResource (cd_ResourceName d) \<and> n \<in> set (topo_nodes (cd_Topology d)))"
  unfolding has_device_def ContainerDevicesToPerNUMAResourceCounters_def
  by (auto simp: Bex_def reskeys_count_devices)

lemma counters_keys:
  "n \<in> fst ` set (ContainerDevicesToPerNUMAResourceCounters ds) \<longleftrightarrow>
   (\<exists>d \<in> set ds. n \<in> set (topo_nodes (cd_Topology d)))"
  unfolding ContainerDevicesToPerNUMAResourceCounters_def by (simp add: keys_count_devices)

lemma dev_cap_stray:
  assumes "stray_device topo ds" "fst ` set cap = set (node_indexes topo)"
  shows "dev_cap_nodes (ContainerDevicesToPerNUMAResourceCounters ds) cap = Panic NilMapWrite"
proof -
  let ?rc = "ContainerDevicesToPerNUMAResourceCounters ds"
  from assms(1) obtain d n where d: "d \<in> set ds" "\<not> isNativeResource (cd_ResourceName d)"
    "n \<in> set (topo_nodes (cd_Topology d))" "n \<notin> set (node_indexes topo)"
    by (auto simp: stray_device_def)
  then have "n \<in> fst ` set ?rc" by (auto simp: counters_keys)
  then obtain m where m: "(n, m) \<in> set ?rc" by auto
  moreover have "has_device m"
    using d has_device_counters [of ds n] counters_entry [OF _ m] by auto
  moreover have "\<forall>(k, m) \<in> set ?rc. wf_gomap m" using counters_entry [of ?rc] by auto
  ultimately show ?thesis using d(4) assms(2) by (intro dev_cap_nodes_Panic) auto
qed

lemma dev_cap_fits:
  assumes "\<not> stray_device topo ds" "fst ` set cap = set (node_indexes topo)"
  shows "\<exists>cap'. dev_cap_nodes (ContainerDevicesToPerNUMAResourceCounters ds) cap = Ret cap' \<and>
     (\<forall>k r. cnt cap' k r =
        (if \<not> isNativeResource r \<and> r \<in> fst ` set (gm_getm (ContainerDevicesToPerNUMAResourceCounters ds) k)
         then cnt (ContainerDevicesToPerNUMAResourceCounters ds) k r else cnt cap k r))"
proof -
  let ?rc = "ContainerDevicesToPerNUMAResourceCounters ds"
  have "wf_gomap m \<and> (has_device m \<longrightarrow> k \<in> fst ` set cap)" if "(k, m) \<in> set ?rc" for k m
    using counters_entry [OF _ that] has_device_counters [of ds k] assms
    by (auto simp: stray_device_def)
  then have "\<forall>(k, m) \<in> set ?rc. wf_gomap m \<and> (has_device m \<longrightarrow> k \<in> fst ` set cap)" by auto
  from dev_cap_nodes_Ret [OF this] show ?thesis
    using wf_counters_of_devices [of ds] by (auto simp: wf_counters_def)
qed

lemma capacity_rows_value:
  "capacity_rows h2 h1 topo mc ns rc = Ret m \<Longrightarrow>
   gm_getm m k = (if k \<in> set ns then (case capacity_row h2 h1 topo mc k of Ret row \<Rightarrow> row | _ \<Rightarrow> [])
                  else gm_getm rc k)"
proof (induction ns arbitrary: rc)
  case Nil
  then show ?case by simp
next
  case (Cons n ns)
  then obtain row where row: "capacity_row h2 h1 topo mc n = Ret row"
    "capacity_rows h2 h1 topo mc ns (AList.update n row rc) = Ret m"
    by (auto simp: go_bind_Ret_iff)
  from Cons.IH [OF row(2)] row(1) show ?case by simp
qed

lemma native_capacity:
  "isNativeResource (HugepageResourceNameFromSize qs sz)" "isNativeResource ResourceMemory"
  "isNativeResource ResourceCPU"
  by (simp_all add: isNativeResource_def HugepageResourceNameFromSize_def HasPrefix_iff
      ResourceHugePagesPrefix_def)

text \<open>The capacity that is read from the machine has no devices.\<close>

lemma capacity_device:
  assumes "capacity_rows (HugepageResourceNameFromSize qs sz2) (HugepageResourceNameFromSize qs sz1)
      topo mc ns [] = Ret cap" "\<not> isNativeResource r"
  shows "cnt cap n r = 0"
  using assms(2) native_capacity capacity_rows_value [OF assms(1), of n]
  by (auto simp: capacity_row_def cpuCapacity_def gm_get0_def split: option.splits)

lemma capacity_rows_keys:
  "capacity_rows h2 h1 topo mc ns rc = Ret m \<Longrightarrow> fst ` set m = fst ` set rc \<union> set ns"
proof (induction ns arbitrary: rc)
  case (Cons n ns)
  then obtain row where "capacity_rows h2 h1 topo mc ns (AList.update n row rc) = Ret m"
    by (auto simp: go_bind_Ret_iff)
  from Cons.IH [OF this] show ?case by simp
qed simp

lemma updateNodeCapacity_complete:
  assumes "GetMemoryResourceCounters qs fs \<lparr>hnd_Root = []\<rparr> = Inr mc" "topo_complete (rm_topo rm)"
  obtains cap where "updateNodeCapacity qs fs rm = Ret (rm\<lparr>rm_nodeCapacity := cap\<rparr>, None)"
    "fst ` set cap = set (node_indexes (rm_topo rm))"
    "capacity_rows (HugepageResourceNameFromSize qs HugepageSize2Mi)
       (HugepageResourceNameFromSize qs HugepageSize1Gi) (rm_topo rm) mc
       (node_indexes (rm_topo rm)) [] = Ret cap"
proof -
  from capacity_rows_Ret [of "node_indexes (rm_topo rm)" "rm_topo rm"
      "HugepageResourceNameFromSize qs HugepageSize2Mi"
      "HugepageResourceNameFromSize qs HugepageSize1Gi" mc "[]"] assms(2)
  obtain cap where "capacity_rows (HugepageResourceNameFromSize qs HugepageSize2Mi)
       (HugepageResourceNameFromSize qs HugepageSize1Gi) (rm_topo rm) mc
       (node_indexes (rm_topo rm)) [] = Ret cap" "fst ` set cap = set (node_indexes (rm_topo rm))"
    by (auto simp: topo_complete_def)
  with assms(1) that show thesis by (simp add: updateNodeCapacity_def)
qed

lemma updateNodeCapacity_incomplete:
  assumes "GetMemoryResourceCounters qs fs \<lparr>hnd_Root = []\<rparr> = Inr mc" "\<not> topo_complete (rm_topo rm)"
  shows "updateNodeCapacity qs fs rm = Panic NilDeref"
  using assms by (auto simp: updateNodeCapacity_def topo_complete_def capacity_rows_Panic)

lemma refresh_fits:
  assumes "GetMemoryResourceCounters qs fs \<lparr>hnd_Root = []\<rparr> = Inr mc" "topo_complete (rm_topo rm)"
    "\<not> stray_device (rm_topo rm) (node_devices ord al rm)"
  shows "\<exists>rm'. updateNodeResources qs fs ord (Inr al) rm ms = Ret ((rm', None), ms)"
proof -
  obtain cap where cap:
    "updateNodeCapacity qs fs rm = Ret (rm\<lparr>rm_nodeCapacity := cap\<rparr>, None)"
    "fst ` set cap = set (node_indexes (rm_topo rm))" by (rule updateNodeCapacity_complete [OF assms(1,2)])
  from dev_cap_fits [OF assms(3) cap(2)] obtain cap'
    where "dev_cap_nodes (ContainerDevicesToPerNUMAResourceCounters (node_devices ord al rm)) cap =
      Ret cap'" by (elim exE conjE)
  then show ?thesis
    by (simp add: updateNodeResources_def updateNodeAllocatable_def updateDevicesCapacity_def
        node_devices_def cap(1) Let_def)
qed

section \<open>Properties\<close>

text \<open>
  C7. When a refresh panics: with the memory read and the allocatable resources answered, it
  dereferences nil precisely when the identifiers of the topology leave out an index below their
  number, and otherwise writes into a nil map precisely when a device that is not CPU, memory or
  huge pages sits on a NUMA node outside the topology, such as node -1.
\<close>

theorem refresh_panics:
  assumes "GetMemoryResourceCounters qs fs \<lparr>hnd_Root = []\<rparr> = Inr mc"
  shows "updateNodeResources qs fs ord (Inr al) rm ms = Panic p \<longleftrightarrow>
     (if topo_complete (rm_topo rm)
      then p = NilMapWrite \<and> stray_device (rm_topo rm) (node_devices ord al rm)
      else p = NilDeref)"
proof (cases "topo_complete (rm_topo rm)")
  case False
  from updateNodeCapacity_incomplete [OF assms False]
  have "updateNodeResources qs fs ord (Inr al) rm ms = Panic NilDeref"
    by (simp add: updateNodeResources_def)
  with False show ?thesis by auto
next
  case True
  obtain cap where cap:
    "updateNodeCapacity qs fs rm = Ret (rm\<lparr>rm_nodeCapacity := cap\<rparr>, None)"
    "fst ` set cap = set (node_indexes (rm_topo rm))" by (rule updateNodeCapacity_complete [OF assms True])
  show ?thesis
  proof (cases "stray_device (rm_topo rm) (node_devices ord al rm)")
    case stray: True
    from dev_cap_stray [OF this cap(2)]
    have "updateNodeResources qs fs ord (Inr al) rm ms = Panic NilMapWrite"
      by (simp add: updateNodeResources_def updateNodeAllocatable_def updateDevicesCapacity_def
          node_devices_def cap(1))
    with True stray show ?thesis by auto
  next
    case no_stray: False
    from refresh_fits [OF assms True this, of ms] have "\<exists>x. updateNodeResources qs fs ord (Inr al) rm ms = Ret x"
      by blast
    with True no_stray show ?thesis by auto
  qed
qed

text \<open>
  C17. What a successful refresh leaves: the allocatable counters of the answer, for each NUMA node
  a CPU capacity that counts its logical processors, and for every device resource a capacity equal
  to its allocatable amount.
\<close>

theorem refresh_capacity:
  assumes "GetMemoryResourceCounters qs fs \<lparr>hnd_Root = []\<rparr> = Inr mc" "topo_complete (rm_topo rm)"
    "\<not> stray_device (rm_topo rm) (node_devices ord al rm)"
  shows "\<exists>rm'. updateNodeResources qs fs ord (Inr al) rm ms = Ret ((rm', None), ms) \<and>
     rm_nodeAllocatable rm' = ContainerDevicesToPerNUMAResourceCounters (node_devices ord al rm) \<and>
     (\<forall>n nd. 0 \<le> n \<and> n < int (length (rm_topo rm)) \<and> findNodeByID (rm_topo rm) n = Some nd \<longrightarrow>
        cnt (rm_nodeCapacity rm') n ''cpu'' = w64 (int (length (node_procs nd)))) \<and>
     (\<forall>n r. \<not> isNativeResource r \<longrightarrow>
        cnt (rm_nodeCapacity rm') n r = cnt (rm_nodeAllocatable rm') n r)"
proof -
  let ?rc = "ContainerDevicesToPerNUMAResourceCounters (node_devices ord al rm)"
  let ?h2 = "HugepageResourceNameFromSize qs HugepageSize2Mi"
  let ?h1 = "HugepageResourceNameFromSize qs HugepageSize1Gi"
  from updateNodeCapacity_complete [OF assms(1,2)] obtain cap where cap:
    "updateNodeCapacity qs fs rm = Ret (rm\<lparr>rm_nodeCapacity := cap\<rparr>, None)"
    "fst ` set cap = set (node_indexes (rm_topo rm))"
    "capacity_rows ?h2 ?h1 (rm_topo rm) mc (node_indexes (rm_topo rm)) [] = Ret cap" .
  from dev_cap_fits [OF assms(3) cap(2)] obtain cap' where cap':
    "dev_cap_nodes ?rc cap = Ret cap'"
    "\<forall>k r. cnt cap' k r =
        (if \<not> isNativeResource r \<and> r \<in> fst ` set (gm_getm ?rc k) then cnt ?rc k r else cnt cap k r)"
    by blast
  have row: "cnt cap n r = (if n \<in> set (node_indexes (rm_topo rm)) then
      gm_get0 (case capacity_row ?h2 ?h1 (rm_topo rm) mc n of Ret row \<Rightarrow> row | _ \<Rightarrow> []) r else 0)" for n r
    using capacity_rows_value [OF cap(3), of n] by simp
  have cpu: "cnt cap n ''cpu'' = w64 (int (length (node_procs nd)))"
    if "n \<in> set (node_indexes (rm_topo rm))" "findNodeByID (rm_topo rm) n = Some nd" for n nd
    using that unfolding row by (simp add: capacity_row_def cpuCapacity_eq ResourceCPU_def ResourceMemory_def
        HugepageResourceNameFromSize_def gm_get0_def)
  note dev = capacity_device [OF cap(3)]
  let ?rm = "rm\<lparr>rm_nodeCapacity := cap', rm_nodeAllocatable := ?rc\<rparr>"
  have "updateNodeResources qs fs ord (Inr al) rm ms = Ret ((?rm, None), ms)"
    using cap(1) cap'(1) by (simp add: updateNodeResources_def updateNodeAllocatable_def
        updateDevicesCapacity_def node_devices_def Let_def)
  moreover have "cnt cap' n r = cnt ?rc n r" if "\<not> isNativeResource r" for n r
    using that cap'(2) dev [OF that] gm_get0_absent [of r "gm_getm ?rc n"] by auto
  moreover have "cnt cap' n ''cpu'' = cnt cap n ''cpu''" for n
    using cap'(2) native_capacity(3) by (simp add: ResourceCPU_def)
  ultimately show ?thesis using cpu by (auto simp: set_node_indexes)
qed

theorem refresh_panics_witness:
  "updateNodeResources sample_qs sample_fs id
     (Inr \<lparr>al_Devices = [sample_nic (- 1) [''a'']], al_CpuIds = [], al_Memory = []\<rparr>) sample_rm sample_ms =
   Panic NilMapWrite"
  unfolding refresh_panics [OF sample_memory] by code_simp

theorem refresh_capacity_witness:
  "\<exists>rm'. updateNodeResources sample_qs sample_fs id (Inr sample_alloc) sample_rm sample_ms =
      Ret ((rm', None), sample_ms) \<and> cnt (rm_nodeCapacity rm') 1 ''vendor/nic'' = 2"
proof -
  have "topo_complete (rm_topo sample_rm)"
    "\<not> stray_device (rm_topo sample_rm) (node_devices id sample_alloc sample_rm)" by code_simp+
  from refresh_capacity [OF sample_memory this, of sample_ms] obtain rm' where
    rm': "updateNodeResources sample_qs sample_fs id (Inr sample_alloc) sample_rm sample_ms =
      Ret ((rm', None), sample_ms)"
    "rm_nodeAllocatable rm' =
      ContainerDevicesToPerNUMAResourceCounters (node_devices id sample_alloc sample_rm)"
    "\<forall>n r. \<not> isNativeResource r \<longrightarrow>
        cnt (rm_nodeCapacity rm') n r = cnt (rm_nodeAllocatable rm') n r" by (elim exE conjE)
  have "\<not> isNativeResource ''vendor/nic''" by code_simp
  moreover have "cnt (ContainerDevicesToPerNUMAResourceCounters
      (node_devices id sample_alloc sample_rm)) 1 ''vendor/nic'' = 2" by code_simp
  ultimately show ?thesis using rm' by auto
qed

end
