(* ===== verification/SharedCPUsPool.thy ===== *)
theory SharedCPUsPool
  imports PodRes
begin

text \<open>
  \<^verbatim>\<open>pkg/podres/middleware/sharedcpuspool\<close>: the client that takes the CPUs of the shared pool away
  from every container. The pool is what the reference container may run on. The set type
  \<^verbatim>\<open>cpuset.CPUSet\<close> comes from \<^verbatim>\<open>k8s.io/utils\<close>; its operations are the argument \<open>L\<close>, and
  \<open>cpuset_spec\<close> states what its documentation promises.
\<close>

record 'cs cpuset_lib =
  cs_zero :: 'cs
  cs_New :: "int list \<Rightarrow> 'cs"
  cs_Difference :: "'cs \<Rightarrow> 'cs \<Rightarrow> 'cs"
  cs_Equals :: "'cs \<Rightarrow> 'cs \<Rightarrow> bool"
  cs_List :: "'cs \<Rightarrow> int list"

definition cpuset_spec :: "'cs cpuset_lib \<Rightarrow> bool" where
  "cpuset_spec L \<longleftrightarrow>
     set (cs_List L (cs_zero L)) = {} \<and>
     (\<forall>xs. set (cs_List L (cs_New L xs)) = set xs) \<and>
     (\<forall>a b. set (cs_List L (cs_Difference L a b)) = set (cs_List L a) - set (cs_List L b)) \<and>
     (\<forall>a. sorted (cs_List L a) \<and> distinct (cs_List L a))"

section \<open>The identity of a container\<close>

record ContainerIdent =
  ci_Namespace :: string
  ci_PodName :: string
  ci_ContainerName :: string

text \<open>A nil pointer is \<open>None\<close>.\<close>

definition ci_Clone :: "ContainerIdent option \<Rightarrow> ContainerIdent option" where
  "ci_Clone ci =
     (case ci of
        None \<Rightarrow> Some \<lparr>ci_Namespace = [], ci_PodName = [], ci_ContainerName = []\<rparr>
      | Some c \<Rightarrow> Some \<lparr>ci_Namespace = ci_Namespace c, ci_PodName = ci_PodName c,
                        ci_ContainerName = ci_ContainerName c\<rparr>)"

definition ci_String :: "ContainerIdent option \<Rightarrow> string" where
  "ci_String ci =
     (case ci of
        None \<Rightarrow> []
      | Some c \<Rightarrow> ci_Namespace c @ ''/'' @ ci_PodName c @ ''/'' @ ci_ContainerName c)"

definition ci_ToString :: "ContainerIdent option \<Rightarrow> string" where
  "ci_ToString ci =
     (case ci of
        None \<Rightarrow> ''<nil>''
      | Some c \<Rightarrow>
          if ci_Namespace c = [] \<or> ci_PodName c = [] then ''NONE''
          else
            let ident = ci_Namespace c @ ''/'' @ ci_PodName c
            in if ci_ContainerName c = [] then ident else ident @ ''/'' @ ci_ContainerName c)"

definition ci_IsEmpty :: "ContainerIdent option \<Rightarrow> bool" where
  "ci_IsEmpty ci =
     (case ci of
        None \<Rightarrow> True
      | Some c \<Rightarrow> ci_Namespace c = [] \<or> ci_PodName c = [] \<or> ci_ContainerName c = [])"

definition ContainerIdentFromEnv :: "(string \<Rightarrow> string) \<Rightarrow> ContainerIdent option" where
  "ContainerIdentFromEnv getenv =
     (let cntIdent = \<lparr>ci_Namespace = getenv ''REFERENCE_NAMESPACE'',
                      ci_PodName = getenv ''REFERENCE_POD_NAME'',
                      ci_ContainerName = getenv ''REFERENCE_CONTAINER_NAME''\<rparr>
      in if ci_IsEmpty (Some cntIdent) then None else Some cntIdent)"

definition ContainerIdentFromString :: "string \<Rightarrow> gerr + ContainerIdent option" where
  "ContainerIdentFromString ident =
     (if ident = [] then Inr None
      else
        case Split ident (CHR ''/'') of
          [a, b, c] \<Rightarrow>
            Inr (Some \<lparr>ci_Namespace = TrimSpace a, ci_PodName = TrimSpace b,
                       ci_ContainerName = TrimSpace c\<rparr>)
        | _ \<Rightarrow> Inl (Errorf (''malformed ident: '' @ ident)))"

section \<open>The filter\<close>

fun find_in_containers :: "string \<Rightarrow> ContainerResources list \<Rightarrow> int list option" where
  "find_in_containers cname [] = None"
| "find_in_containers cname (cntRes # rest) =
     (if cr_Name cntRes \<noteq> cname then find_in_containers cname rest
      else Some (cr_CpuIds cntRes))"

fun find_in_pods :: "ContainerIdent \<Rightarrow> PodResources list \<Rightarrow> int list option" where
  "find_in_pods ref [] = None"
| "find_in_pods ref (podRes # rest) =
     (if pr_Namespace podRes \<noteq> ci_Namespace ref then find_in_pods ref rest
      else if pr_Name podRes \<noteq> ci_PodName ref then find_in_pods ref rest
      else
        case find_in_containers (ci_ContainerName ref) (pr_Containers podRes) of
          Some cpus \<Rightarrow> Some cpus
        | None \<Rightarrow> find_in_pods ref rest)"

text \<open>The conversions between \<^verbatim>\<open>int64\<close> and \<^verbatim>\<open>int\<close> are the identity on 64-bit platforms.\<close>

definition newCPUSetInt64 :: "'cs cpuset_lib \<Rightarrow> int list \<Rightarrow> 'cs" where
  "newCPUSetInt64 L cpus = cs_New L cpus"

definition findSharedPoolCPUsInListResponse ::
    "'cs cpuset_lib \<Rightarrow> ContainerIdent option \<Rightarrow> PodResources list \<Rightarrow> 'cs" where
  "findSharedPoolCPUsInListResponse L refCnt podResources =
     (case refCnt of
        None \<Rightarrow> cs_zero L
      | Some ref \<Rightarrow>
          (case find_in_pods ref podResources of
             Some cpus \<Rightarrow> newCPUSetInt64 L cpus
           | None \<Rightarrow> cs_zero L))"

definition removeCPUs :: "'cs cpuset_lib \<Rightarrow> int list \<Rightarrow> 'cs \<Rightarrow> int list" where
  "removeCPUs L cpuIDs toRemove =
     (let cs = newCPUSetInt64 L cpuIDs;
          res = cs_Difference L cs toRemove
      in cs_List L res)"

record 'cs sharedcpus_client =
  sc_debug :: bool
  sc_refCnt :: "ContainerIdent option"
  sc_sharedPoolCPUs :: 'cs

definition sc_container :: "'cs cpuset_lib \<Rightarrow> 'cs \<Rightarrow> ContainerResources \<Rightarrow> ContainerResources" where
  "sc_container L shared cntRes = cntRes\<lparr>cr_CpuIds := removeCPUs L (cr_CpuIds cntRes) shared\<rparr>"

definition sc_pod :: "'cs cpuset_lib \<Rightarrow> 'cs \<Rightarrow> PodResources \<Rightarrow> PodResources" where
  "sc_pod L shared podRes =
     podRes\<lparr>pr_Containers := map (sc_container L shared) (pr_Containers podRes)\<rparr>"

text \<open>
  The response is changed in place; the client remembers the pool it saw last, for its log only.
\<close>

definition sc_FilterListResponse ::
    "'cs cpuset_lib \<Rightarrow> 'cs sharedcpus_client \<Rightarrow> PodResources list \<Rightarrow>
     'cs sharedcpus_client \<times> PodResources list" where
  "sc_FilterListResponse L fc podResources =
     (let sharedPoolCPUs = findSharedPoolCPUsInListResponse L (sc_refCnt fc) podResources;
          fc' = (if \<not> cs_Equals L (sc_sharedPoolCPUs fc) sharedPoolCPUs
                 then fc\<lparr>sc_sharedPoolCPUs := sharedPoolCPUs\<rparr> else fc)
      in (fc', map (sc_pod L sharedPoolCPUs) podResources))"

definition sc_List ::
    "'cs cpuset_lib \<Rightarrow> 'cs sharedcpus_client \<Rightarrow> list_result \<Rightarrow> 'cs sharedcpus_client \<times> list_result" where
  "sc_List L fc r =
     (case r of
        Inl e \<Rightarrow> (fc, Inl e)
      | Inr resp \<Rightarrow> (case sc_FilterListResponse L fc resp of (fc', resp') \<Rightarrow> (fc', Inr resp')))"

definition sc_NewFromLister ::
    "'cs cpuset_lib \<Rightarrow> bool \<Rightarrow> ContainerIdent option \<Rightarrow> 'cs sharedcpus_client" where
  "sc_NewFromLister L debug referenceContainer =
     \<lparr>sc_debug = debug, sc_refCnt = referenceContainer, sc_sharedPoolCPUs = cs_zero L\<rparr>"

text \<open>The other two calls are passed through.\<close>

definition sc_FilterAllocatableResponse :: "AllocatableResources \<Rightarrow> AllocatableResources" where
  "sc_FilterAllocatableResponse resp = resp"

definition sc_FilterGetResponse :: "PodResources \<Rightarrow> PodResources" where
  "sc_FilterGetResponse resp = resp"

definition sc_GetAllocatableResources :: "gerr + AllocatableResources \<Rightarrow> gerr + AllocatableResources" where
  "sc_GetAllocatableResources r = (case r of Inl e \<Rightarrow> Inl e | Inr resp \<Rightarrow> Inr (sc_FilterAllocatableResponse resp))"

definition sc_Get :: "gerr + PodResources \<Rightarrow> gerr + PodResources" where
  "sc_Get r = (case r of Inl e \<Rightarrow> Inl e | Inr resp \<Rightarrow> Inr (sc_FilterGetResponse resp))"

section \<open>Facts about the filter\<close>

lemma removeCPUs_set:
  "cpuset_spec L \<Longrightarrow> set (removeCPUs L xs shared) = set xs - set (cs_List L shared)"
  by (simp add: cpuset_spec_def removeCPUs_def newCPUSetInt64_def)

lemma removeCPUs_sorted:
  "cpuset_spec L \<Longrightarrow> sorted (removeCPUs L xs shared) \<and> distinct (removeCPUs L xs shared)"
  by (simp add: cpuset_spec_def removeCPUs_def newCPUSetInt64_def)

lemma removeCPUs_mset:
  assumes "cpuset_spec L"
  shows "mset (removeCPUs L xs shared) \<subseteq># mset xs"
proof -
  from removeCPUs_sorted [OF assms] have d: "distinct (removeCPUs L xs shared)" by blast
  have "set (removeCPUs L xs shared) \<subseteq> set xs" using removeCPUs_set [OF assms] by blast
  then have "mset_set (set (removeCPUs L xs shared)) \<subseteq># mset_set (set xs)"
    by (simp add: msubset_mset_set_iff)
  also have "mset_set (set xs) \<subseteq># mset xs" by (rule mset_set_set_mset_msubset [of "mset xs", simplified])
  finally show ?thesis using d by (simp add: mset_set_set)
qed

text \<open>
  The containers that an identity denotes, in the order of the response, and the CPUs of the first of
  them; no CPU when there is none.
\<close>

definition denoted :: "ContainerIdent \<Rightarrow> PodResources list \<Rightarrow> ContainerResources list" where
  "denoted ref ps =
     [c. p \<leftarrow> ps, pr_Namespace p = ci_Namespace ref \<and> pr_Name p = ci_PodName ref,
         c \<leftarrow> pr_Containers p, cr_Name c = ci_ContainerName ref]"

definition pool_cpus :: "ContainerIdent option \<Rightarrow> PodResources list \<Rightarrow> int set" where
  "pool_cpus refCnt ps =
     (case refCnt of
        None \<Rightarrow> {}
      | Some ref \<Rightarrow> (case denoted ref ps of [] \<Rightarrow> {} | c # _ \<Rightarrow> set (cr_CpuIds c)))"

lemma find_in_containers_denoted:
  "find_in_containers cname cs =
     (case filter (\<lambda>c. cr_Name c = cname) cs of [] \<Rightarrow> None | c # _ \<Rightarrow> Some (cr_CpuIds c))"
  by (induction cs) auto

lemma find_in_pods_denoted:
  "find_in_pods ref ps = (case denoted ref ps of [] \<Rightarrow> None | c # _ \<Rightarrow> Some (cr_CpuIds c))"
proof (induction ps)
  case Nil
  then show ?case by (simp add: denoted_def)
next
  case (Cons p ps)
  let ?cs = "filter (\<lambda>c. cr_Name c = ci_ContainerName ref) (pr_Containers p)"
  have "concat (map (\<lambda>c. if cr_Name c = ci_ContainerName ref then [c] else []) xs) =
      filter (\<lambda>c. cr_Name c = ci_ContainerName ref) xs" for xs :: "ContainerResources list"
    by (induction xs) auto
  then have "denoted ref (p # ps) =
      (if pr_Namespace p = ci_Namespace ref \<and> pr_Name p = ci_PodName ref then ?cs else []) @ denoted ref ps"
    by (simp add: denoted_def)
  with Cons show ?case
    by (simp add: find_in_containers_denoted split: list.split)
qed

lemma pool_cpus_found:
  "pool_cpus refCnt ps =
     (case refCnt of
        None \<Rightarrow> {}
      | Some ref \<Rightarrow> (case find_in_pods ref ps of None \<Rightarrow> {} | Some cpus \<Rightarrow> set cpus))"
  by (simp add: pool_cpus_def find_in_pods_denoted split: option.split list.split)

lemma findSharedPool_set:
  "cpuset_spec L \<Longrightarrow>
   set (cs_List L (findSharedPoolCPUsInListResponse L refCnt ps)) = pool_cpus refCnt ps"
  by (auto simp: findSharedPoolCPUsInListResponse_def pool_cpus_found newCPUSetInt64_def
      cpuset_spec_def split: option.splits)

lemma sc_pod_le: "cpuset_spec L \<Longrightarrow> pod_le (sc_pod L shared p) p"
  by (auto simp: pod_le_def sc_pod_def sc_container_def container_le_def list_all2_map1
      removeCPUs_mset intro!: list.rel_refl_strong)

lemma sc_FilterListResponse_le:
  "cpuset_spec L \<Longrightarrow> pods_le (snd (sc_FilterListResponse L fc ps)) ps"
  by (simp add: sc_FilterListResponse_def Let_def pods_le_map sc_pod_le)

lemma find_in_containers_map:
  "find_in_containers c (map (sc_container L shared) cs) =
     map_option (\<lambda>xs. removeCPUs L xs shared) (find_in_containers c cs)"
  by (induction cs) (auto simp: sc_container_def)

lemma find_in_pods_map:
  "find_in_pods ref (map (sc_pod L shared) ps) =
     map_option (\<lambda>xs. removeCPUs L xs shared) (find_in_pods ref ps)"
  by (induction ps) (auto simp: sc_pod_def find_in_containers_map split: option.splits)

lemma pool_cpus_filtered:
  assumes "cpuset_spec L"
  shows "pool_cpus (sc_refCnt fc) (snd (sc_FilterListResponse L fc ps)) = {}"
  using findSharedPool_set [OF assms, of "sc_refCnt fc" ps]
  by (auto simp: sc_FilterListResponse_def Let_def pool_cpus_found find_in_pods_map
      removeCPUs_set [OF assms] split: option.splits)

lemma removeCPUs_again:
  assumes "cpuset_spec L" "set (cs_List L shared') = {}"
  shows "removeCPUs L (removeCPUs L xs shared) shared' = removeCPUs L xs shared"
proof (rule sorted_distinct_set_unique)
  show "set (removeCPUs L (removeCPUs L xs shared) shared') = set (removeCPUs L xs shared)"
    using removeCPUs_set [OF assms(1), of "removeCPUs L xs shared" shared'] assms(2) by simp
qed (use removeCPUs_sorted [OF assms(1)] in auto)

lemma sc_refCnt_FilterListResponse [simp]:
  "sc_refCnt (fst (sc_FilterListResponse L fc ps)) = sc_refCnt fc"
  by (simp add: sc_FilterListResponse_def Let_def)

end
