(* ===== verification/TerminalPods.thy ===== *)
theory TerminalPods
  imports PodRes
begin

text \<open>
  \<^verbatim>\<open>pkg/podres/middleware/terminalpods\<close>: the client that hides the pods the informer cache lists.
  The cache belongs to \<^verbatim>\<open>client-go\<close>; what its lister returns is an argument.
\<close>

record pod_key =
  pk_Namespace :: string
  pk_Name :: string

text \<open>The inner loop stops at the first pod with the same namespace and name.\<close>

fun tp_found :: "pod_key list \<Rightarrow> PodResources \<Rightarrow> bool" where
  "tp_found [] pr = False"
| "tp_found (pod # pods) pr =
     (if pk_Namespace pod = pr_Namespace pr \<and> pk_Name pod = pr_Name pr then True
      else tp_found pods pr)"

fun FilterFrom :: "PodResources list \<Rightarrow> pod_key list \<Rightarrow> PodResources list" where
  "FilterFrom [] pods = []"
| "FilterFrom (pr # prs) pods =
     (if \<not> tp_found pods pr then pr # FilterFrom prs pods else FilterFrom prs pods)"

definition tp_List :: "list_result \<Rightarrow> gerr + pod_key list \<Rightarrow> list_result" where
  "tp_List r lister =
     (case r of
        Inl e \<Rightarrow> Inl e
      | Inr resp \<Rightarrow> (case lister of Inl e \<Rightarrow> Inl e | Inr pods \<Rightarrow> Inr (FilterFrom resp pods)))"

definition tp_GetAllocatableResources :: "gerr + AllocatableResources \<Rightarrow> gerr + AllocatableResources" where
  "tp_GetAllocatableResources r = r"

definition tp_Get :: "gerr + PodResources \<Rightarrow> gerr + PodResources" where
  "tp_Get r = r"

definition terminalFieldSelector :: string where
  "terminalFieldSelector = ''status.phase==Failed,status.phase==Succeeded''"

record terminalpods_client =
  tpc_debug :: bool
  tpc_resyncPeriod :: int
  tpc_selector :: string

text \<open>
  \<open>waitForCacheSync\<close> is what the informer factory answers for a resync period and a selector: a map
  from the informers to whether they are in sync, in the order of its iteration.
\<close>

definition tp_NewFromLister ::
    "(int \<Rightarrow> string \<Rightarrow> (string \<times> bool) list) \<Rightarrow> int \<Rightarrow> bool \<Rightarrow> gerr + terminalpods_client" where
  "tp_NewFromLister waitForCacheSync resyncPeriod debug =
     (case find (\<lambda>(v, ok). \<not> ok) (waitForCacheSync resyncPeriod terminalFieldSelector) of
        Some (v, _) \<Rightarrow> Inl (Errorf (''caches failed to sync: '' @ v))
      | None \<Rightarrow> Inr \<lparr>tpc_debug = debug, tpc_resyncPeriod = resyncPeriod, tpc_selector = terminalFieldSelector\<rparr>)"

definition pod_key_of :: "PodResources \<Rightarrow> pod_key" where
  "pod_key_of pr = \<lparr>pk_Namespace = pr_Namespace pr, pk_Name = pr_Name pr\<rparr>"

lemma tp_found_iff: "tp_found pods pr \<longleftrightarrow> pod_key_of pr \<in> set pods"
  by (induction pods) (auto simp: pod_key_of_def)

lemma FilterFrom_filter: "FilterFrom prs pods = filter (\<lambda>pr. pod_key_of pr \<notin> set pods) prs"
  by (induction prs) (auto simp: tp_found_iff)

interpretation tp: podres_filter "\<lambda>prs. FilterFrom prs pods" for pods
  by unfold_locales (simp add: FilterFrom_filter)

end
