(* ===== verification/Middleware.thy ===== *)
theory Middleware
  imports SharedCPUsPool PodExclude TerminalPods
begin

text \<open>
  The chain of clients that \<^verbatim>\<open>cmd/resource-topology-exporter/main.go\<close> builds around the podresources
  client: the shared pool is always taken away, pods are excluded when patterns are configured, and
  terminal pods are hidden on request.
\<close>

definition podres_client_List ::
    "'cs cpuset_lib \<Rightarrow> bool \<Rightarrow> Item list \<Rightarrow> bool \<Rightarrow> gerr + pod_key list \<Rightarrow> 'cs sharedcpus_client \<Rightarrow>
     list_result \<Rightarrow> 'cs sharedcpus_client \<times> list_result" where
  "podres_client_List L debug podExclude excludeTerminalPods lister sc r =
     (case sc_List L sc r of (sc', r1) \<Rightarrow>
        let r2 = (if length podExclude > 0 then px_List (px_NewFromLister debug podExclude) r1 else r1);
            r3 = (if excludeTerminalPods then tp_List r2 lister else r2)
        in (sc', r3))"

text \<open>The same chain for the allocatable resources, from which the capacities are computed.\<close>

definition podres_client_GetAllocatable ::
    "Item list \<Rightarrow> bool \<Rightarrow> gerr + AllocatableResources \<Rightarrow> gerr + AllocatableResources" where
  "podres_client_GetAllocatable podExclude excludeTerminalPods r =
     (let r1 = sc_GetAllocatableResources r;
          r2 = (if length podExclude > 0 then px_GetAllocatableResources r1 else r1)
      in if excludeTerminalPods then tp_GetAllocatableResources r2 else r2)"

lemma podres_client_GetAllocatable_id: "podres_client_GetAllocatable podExclude terminal r = r"
  by (cases r) (simp_all add: podres_client_GetAllocatable_def sc_GetAllocatableResources_def
      sc_FilterAllocatableResponse_def px_GetAllocatableResources_def px_FilterAllocatableResponse_def
      tp_GetAllocatableResources_def Let_def)

text \<open>Two of the filters stacked, in the order of the chain, are again a filter.\<close>

interpretation px_tp: podres_filter2 "px_FilterListResponse fc" "\<lambda>prs. FilterFrom prs pods" for fc pods
  by unfold_locales

interpretation px_then_tp: podres_filter "(\<lambda>prs. FilterFrom prs pods) \<circ> px_FilterListResponse fc" for fc pods
  by (rule px_tp.stacked)

lemma podres_client_List_le:
  assumes "cpuset_spec L"
    "podres_client_List L debug podExclude terminal lister sc (Inr ps) = (sc', Inr qs)"
  shows "pods_le qs ps"
proof -
  obtain sc1 ps1 where sc: "sc_FilterListResponse L sc ps = (sc1, ps1)"
    by (cases "sc_FilterListResponse L sc ps")
  with sc_FilterListResponse_le [OF assms(1), of sc ps] have le: "pods_le ps1 ps" by simp
  let ?fc = "px_NewFromLister debug podExclude"
  have "pods_le qs ps1"
  proof (cases terminal)
    case False
    with assms(2) sc px.shrinks [of ?fc ps1] show ?thesis
      by (auto simp: podres_client_List_def sc_List_def px_List_def client_List_def split: if_splits)
  next
    case True
    with assms(2) sc obtain pods where pods: "lister = Inr pods"
      "qs = FilterFrom (if podExclude = [] then ps1 else px_FilterListResponse ?fc ps1) pods"
      by (auto simp: podres_client_List_def sc_List_def px_List_def client_List_def tp_List_def
          split: if_splits sum.splits)
    with tp.shrinks [where pods = pods and ps = ps1]
      px_then_tp.shrinks [where pods = pods and fc = ?fc and ps = ps1] show ?thesis by simp
  qed
  then show ?thesis using le by (rule pods_le_trans)
qed

end
