(* ===== verification/FilterProps.thy ===== *)
theory FilterProps
  imports Middleware ScanProps
begin

text \<open>The properties of the filtering clients.\<close>

section \<open>The whole chain and what is published\<close>

lemma amounts_ok_le:
  assumes "pods_le qs ps" "amounts_ok ps"
  shows "amounts_ok qs"
  unfolding amounts_ok_def
proof (intro ballI)
  fix q c assume "q \<in> set qs" "c \<in> set (pr_Containers q)"
  from pods_le_container [OF assms(1) this] obtain p d
    where "p \<in> set ps" "d \<in> set (pr_Containers p)" "container_le c d" by auto
  with assms(2) show "(\<forall>d \<in> set (cr_Devices c). 0 \<le> device_amount d) \<and>
      (\<forall>b \<in> set (cr_Memory c). 0 \<le> cm_Size b)"
    by (auto simp: amounts_ok_def container_le_def)
qed

lemma blocks_ok_le:
  assumes "pods_le qs ps" "blocks_ok ps"
  shows "blocks_ok qs"
  unfolding blocks_ok_def
proof (intro ballI)
  fix q c b assume b: "b \<in> set (cr_Memory c)" and "q \<in> set qs" "c \<in> set (pr_Containers q)"
  then obtain p d
    where "p \<in> set ps" "d \<in> set (pr_Containers p)" "container_le c d"
    using pods_le_container [OF assms(1), of q c] by auto
  with assms(2) show "uint64 (cm_Size b)"
    using b by (auto simp: blocks_ok_def container_le_def)
qed

text \<open>
  C16. Filtering never hides free resources: whatever the chain of clients removes, a resource of a
  zone is published as available at least as much as without the chain, and never above what is
  allocatable.
\<close>

theorem middleware_keeps_availability:
  assumes "cpuset_spec L"
    "podres_client_List L debug podExclude terminal lister sc (Inr ps) = (sc', Inr qs)"
    "Scan P ord ordR rm excl (Inr ps) ms = (ms1, sts1, Inr sr1)"
    "Scan P ord ordR rm excl (Inr qs) ms = (ms2, sts2, Inr sr2)"
    "i < length (rm_topo rm)" "legal_order ord" "legal_order (ordR (int i))"
    "wf_counters (rm_nodeAllocatable rm)" "blocks_ok ps" "amounts_ok ps"
    "r1 \<in> set (z_Resources (sr_Zones sr1 ! i))" "r2 \<in> set (z_Resources (sr_Zones sr2 ! i))"
    "ri_Name r1 = r" "ri_Name r2 = r"
    "pods_use (ra_Namespace (rm_args rm)) (rm_coreIDToNodeIDMap rm) ps (int i) r < 2 ^ 63"
    "map_of (zone_counters rm (int i)) r = Some a" "0 \<le> a" "a < 2 ^ 63"
  shows "\<exists>v1 v2. ri_Available r1 = NewQuantity v1 DecimalSI \<and>
     ri_Available r2 = NewQuantity v2 DecimalSI \<and> 0 \<le> v1 \<and> v1 \<le> v2 \<and> v2 \<le> a"
proof -
  let ?u = "\<lambda>ps. pods_use (ra_Namespace (rm_args rm)) (rm_coreIDToNodeIDMap rm) ps (int i) r"
  from podres_client_List_le [OF assms(1,2)] have le: "pods_le qs ps" .
  from amounts_ok_le [OF le assms(10)] have am: "amounts_ok qs" .
  have u: "?u qs \<le> ?u ps" by (rule pods_use_mono [OF le assms(10)])
  have n: "0 \<le> ?u qs" by (rule pods_use_nonneg [OF am])
  have "ri_Available r1 = NewQuantity (max 0 (a - ?u ps)) DecimalSI"
    using scan_amounts [OF assms(3,5-11), of a] assms(13,15-18) by simp
  moreover have "ri_Available r2 = NewQuantity (max 0 (a - ?u qs)) DecimalSI"
    using scan_amounts [OF assms(4-8) blocks_ok_le [OF le assms(9)] am assms(12), of a]
      assms(14-18) u by simp
  ultimately show ?thesis using u n assms(17) by auto
qed

definition sample_cpusets :: "int list cpuset_lib" where
  "sample_cpusets =
     \<lparr>cs_zero = [], cs_New = (\<lambda>xs. sort (remdups xs)),
      cs_Difference = (\<lambda>a b. sort (remdups (filter (\<lambda>x. x \<notin> set b) a))),
      cs_Equals = (\<lambda>a b. set a = set b), cs_List = (\<lambda>a. sort (remdups a))\<rparr>"

lemma sample_cpusets_spec: "cpuset_spec sample_cpusets"
  by (auto simp: cpuset_spec_def sample_cpusets_def)

definition sample_sc :: "int list sharedcpus_client" where
  "sample_sc = sc_NewFromLister sample_cpusets False
     (Some \<lparr>ci_Namespace = ''telco'', ci_PodName = ''dpdk'', ci_ContainerName = ''app''\<rparr>)"

definition sample_exclude :: "Item list" where
  "sample_exclude = [\<lparr>NamespacePattern = ''telco'', NamePattern = ''*''\<rparr>]"

lemma sample_scan_Inr:
  obtains sr where "Scan sample_pfp id (\<lambda>_. id) sample_rm [] (Inr ps) sample_ms =
    (sample_ms, fst (snd (Scan sample_pfp id (\<lambda>_. id) sample_rm [] (Inr ps) sample_ms)), Inr sr)"
proof -
  obtain ms' sts r where scan: "Scan sample_pfp id (\<lambda>_. id) sample_rm [] (Inr ps) sample_ms = (ms', sts, r)"
    by (cases "Scan sample_pfp id (\<lambda>_. id) sample_rm [] (Inr ps) sample_ms")
  then obtain sr where "r = Inr sr" "ms' = sample_ms" by (rule Scan_Inr)
  with scan that [of sr] show thesis by simp
qed

theorem middleware_keeps_availability_witness:
  "\<exists>sc' qs sr1 sr2 r1 r2 v1 v2 sts1 sts2.
     podres_client_List sample_cpusets False sample_exclude False (Inr []) sample_sc (Inr sample_pods) =
       (sc', Inr qs) \<and> length qs < length sample_pods \<and>
     Scan sample_pfp id (\<lambda>_. id) sample_rm [] (Inr sample_pods) sample_ms = (sample_ms, sts1, Inr sr1) \<and>
     Scan sample_pfp id (\<lambda>_. id) sample_rm [] (Inr qs) sample_ms = (sample_ms, sts2, Inr sr2) \<and>
     r1 \<in> set (z_Resources (sr_Zones sr1 ! 1)) \<and> r2 \<in> set (z_Resources (sr_Zones sr2 ! 1)) \<and>
     ri_Name r1 = ''cpu'' \<and> ri_Name r2 = ''cpu'' \<and> ri_Available r1 = NewQuantity v1 DecimalSI \<and>
     ri_Available r2 = NewQuantity v2 DecimalSI \<and> v1 \<le> v2 \<and> v2 \<le> 2"
proof -
  let ?qs = "tl sample_pods"
  have "map_sum id id (snd (podres_client_List sample_cpusets False sample_exclude False (Inr []) sample_sc
      (Inr sample_pods))) = Inr ?qs" by code_simp
  then obtain sc' where chain: "podres_client_List sample_cpusets False sample_exclude False (Inr [])
      sample_sc (Inr sample_pods) = (sc', Inr ?qs)"
    by (cases "podres_client_List sample_cpusets False sample_exclude False (Inr []) sample_sc
      (Inr sample_pods)") (simp add: sum.map_id)
  obtain sr1 where s1: "Scan sample_pfp id (\<lambda>_. id) sample_rm [] (Inr sample_pods) sample_ms =
    (sample_ms, fst (snd (Scan sample_pfp id (\<lambda>_. id) sample_rm [] (Inr sample_pods) sample_ms)), Inr sr1)"
    by (rule sample_scan_Inr)
  obtain sr2 where s2: "Scan sample_pfp id (\<lambda>_. id) sample_rm [] (Inr ?qs) sample_ms =
    (sample_ms, fst (snd (Scan sample_pfp id (\<lambda>_. id) sample_rm [] (Inr ?qs) sample_ms)), Inr sr2)"
    by (rule sample_scan_Inr)
  have "case snd (snd (Scan sample_pfp id (\<lambda>_. id) sample_rm [] (Inr sample_pods) sample_ms)) of
      Inr q \<Rightarrow> ''cpu'' \<in> set (map ri_Name (z_Resources (sr_Zones q ! 1))) | _ \<Rightarrow> False"
    "case snd (snd (Scan sample_pfp id (\<lambda>_. id) sample_rm [] (Inr ?qs) sample_ms)) of
      Inr q \<Rightarrow> ''cpu'' \<in> set (map ri_Name (z_Resources (sr_Zones q ! 1))) | _ \<Rightarrow> False"
    by code_simp+
  then obtain r1 r2 where r: "r1 \<in> set (z_Resources (sr_Zones sr1 ! 1))"
    "r2 \<in> set (z_Resources (sr_Zones sr2 ! 1))" "ri_Name r1 = ''cpu''" "ri_Name r2 = ''cpu''"
    by (subst (asm) s1, subst (asm) s2) auto
  have wf: "wf_counters (rm_nodeAllocatable sample_rm)"
    by (auto simp: sample_rm_def wf_counters_def wf_gomap_def gm_getm_def)
  have facts: "1 < length (rm_topo sample_rm)" "blocks_ok sample_pods" "amounts_ok sample_pods"
    "pods_use (ra_Namespace (rm_args sample_rm)) (rm_coreIDToNodeIDMap sample_rm) sample_pods
      (int 1) ''cpu'' < 2 ^ 63" "map_of (zone_counters sample_rm (int 1)) ''cpu'' = Some 2"
    "length ?qs < length sample_pods" by code_simp+
  from middleware_keeps_availability [OF sample_cpusets_spec chain s1 s2 facts(1) legal_order_id
      legal_order_id wf facts(2,3) r facts(4,5)] obtain v1 v2
    where v: "ri_Available r1 = NewQuantity v1 DecimalSI" "ri_Available r2 = NewQuantity v2 DecimalSI"
      "v1 \<le> v2" "v2 \<le> 2" by auto
  show ?thesis by (intro exI conjI) (rule chain facts(6) s1 s2 r v)+
qed

section \<open>Single filters\<close>

text \<open>
  A pod counts for the fingerprint of exclusive resources precisely when one of its containers
  has a CPU, or memory or a device with identifiers on a NUMA node that is not negative; the first
  such container names the answer.
\<close>

lemma verify_exclusive:
  "Verify (Some p) =
     (case find numa_bound (pr_Containers p) of
        None \<Rightarrow> \<lparr>res_Allow = False, res_Ident = [], res_Reason = []\<rparr>
      | Some c \<Rightarrow>
          \<lparr>res_Allow = True, res_Ident = cr_Name c,
           res_Reason =
             (if cr_CpuIds c \<noteq> [] then ''cpu''
              else if \<exists>m \<in> set (cr_Memory c). \<exists>n \<in> set (topo_nodes (cm_Topology m)). 0 \<le> n
              then ''memory'' else ''device'')\<rparr>)"
  by (simp add: Verify_def verify_containers_find accept_def reject_def nl_CPU_def nl_Memory_def
      nl_Device_def IsPresent_iff split: option.splits)

text \<open>
  C33. Excluding pods by pattern: the client keeps the pods that no item matches in both namespace
  and name, in order and unchanged. Debug mode and malformed patterns change nothing.
\<close>

theorem podexclude_keeps:
  "px_List \<lparr>px_debug = debug, px_podExcludes = items\<rparr> (Inr ps) =
     Inr (filter (\<lambda>p. \<not> (\<exists>item \<in> set items.
        Match (NamespacePattern item) (pr_Namespace p) = Some True \<and>
        Match (NamePattern item) (pr_Name p) = Some True)) ps)"
  by (simp add: px_List_def client_List_def px_FilterListResponse_filter ShouldExclude_iff)

text \<open>
  C32. The two common forms of an item: a namespace written literally with a star for the name hides
  precisely that namespace, and a literal prefix before the star hides the names with that prefix
  (names have no slash).
\<close>

theorem podexclude_globs:
  assumes "literal ns" "literal pre" "CHR ''/'' \<notin> set (pr_Name p)"
  shows "(ShouldExclude [\<lparr>NamespacePattern = ns, NamePattern = ''*''\<rparr>] (pr_Namespace p) (pr_Name p) debug \<longleftrightarrow>
       pr_Namespace p = ns) \<and>
     (ShouldExclude [\<lparr>NamespacePattern = ns, NamePattern = pre @ ''*''\<rparr>] (pr_Namespace p) (pr_Name p) debug \<longleftrightarrow>
       pr_Namespace p = ns \<and> (\<exists>rest. pr_Name p = pre @ rest))"
proof -
  have "CHR ''/'' \<notin> set (drop (length pre) (pr_Name p))" using assms(3) by (meson in_set_dropD)
  then show ?thesis
    by (simp add: ShouldExclude_iff Match_literal [OF assms(1)] Match_star
        Match_prefix_star [OF assms(2)] HasPrefix_iff assms(3))
qed

theorem podexclude_globs_witness:
  "ShouldExclude [\<lparr>NamespacePattern = ''default'', NamePattern = ''we*''\<rparr>] ''default'' ''web'' True"
  using podexclude_globs [of "''default''" "''we''" "sample_pods ! 1" True]
  by (simp add: sample_pods_def)

text \<open>
  C31. The shared pool: take as pool the CPUs of the first container of the response that has the
  namespace, pod name and container name of the reference container. After the filter no container
  holds a CPU of the pool, each container keeps its other CPUs, sorted and without duplicates, and
  filtering again changes nothing.
\<close>

theorem sharedpool_removed:
  assumes "cpuset_spec L" "sc_FilterListResponse L fc ps = (fc', qs)"
  shows "length qs = length ps \<and>
     (\<forall>i < length ps. \<forall>j < length (pr_Containers (ps ! i)).
        length (pr_Containers (qs ! i)) = length (pr_Containers (ps ! i)) \<and>
        set (cr_CpuIds (pr_Containers (qs ! i) ! j)) =
          set (cr_CpuIds (pr_Containers (ps ! i) ! j)) - pool_cpus (sc_refCnt fc) ps \<and>
        sorted (cr_CpuIds (pr_Containers (qs ! i) ! j)) \<and>
        distinct (cr_CpuIds (pr_Containers (qs ! i) ! j))) \<and>
     snd (sc_FilterListResponse L fc' qs) = qs"
proof -
  let ?pool = "findSharedPoolCPUsInListResponse L (sc_refCnt fc) ps"
  from assms(2) have qs: "qs = map (sc_pod L ?pool) ps" and fc': "sc_refCnt fc' = sc_refCnt fc"
    by (auto simp: sc_FilterListResponse_def Let_def)
  have "snd (sc_FilterListResponse L fc ps) = qs" using assms(2) by simp
  with pool_cpus_filtered [OF assms(1), of fc ps]
  have "set (cs_List L (findSharedPoolCPUsInListResponse L (sc_refCnt fc') qs)) = {}"
    by (simp add: findSharedPool_set [OF assms(1)] fc')
  from removeCPUs_again [OF assms(1) this]
  have "snd (sc_FilterListResponse L fc' qs) = qs"
    by (simp add: sc_FilterListResponse_def Let_def qs sc_pod_def sc_container_def)
  then show ?thesis
    using removeCPUs_sorted [OF assms(1)]
    by (simp add: qs sc_pod_def sc_container_def removeCPUs_set [OF assms(1)]
        findSharedPool_set [OF assms(1)])
qed

theorem sharedpool_removed_witness:
  "cpuset_spec sample_cpusets \<and>
   length (snd (sc_FilterListResponse sample_cpusets sample_sc sample_pods)) = 2 \<and>
   set (cr_CpuIds (pr_Containers (snd (sc_FilterListResponse sample_cpusets sample_sc sample_pods) ! 0) ! 0)) = {}"
proof -
  obtain fc' qs where f: "sc_FilterListResponse sample_cpusets sample_sc sample_pods = (fc', qs)"
    by (cases "sc_FilterListResponse sample_cpusets sample_sc sample_pods")
  have e: "length sample_pods = 2" "length (pr_Containers (sample_pods ! 0)) = 1"
    "set (cr_CpuIds (pr_Containers (sample_pods ! 0) ! 0)) = {2}"
    "pool_cpus (sc_refCnt sample_sc) sample_pods = {2}"
    by (simp_all add: sample_pods_def sample_sc_def sc_NewFromLister_def pool_cpus_def denoted_def)
  with sharedpool_removed [OF sample_cpusets_spec f] f show ?thesis
    by (simp add: sample_cpusets_spec)
qed

lemma terminalpods_keeps:
  "tp_List r lister =
     (case (r, lister) of
        (Inl e, _) \<Rightarrow> Inl e
      | (Inr ps, Inl e) \<Rightarrow> Inl e
      | (Inr ps, Inr keys) \<Rightarrow>
          Inr (filter (\<lambda>p. \<lparr>pk_Namespace = pr_Namespace p, pk_Name = pr_Name p\<rparr> \<notin> set keys) ps))"
  by (simp add: tp_List_def FilterFrom_filter pod_key_of_def split: sum.splits)

lemma TrimSpace_subset: "set (TrimSpace w) \<subseteq> set w"
  by (auto simp: TrimSpace_def trim_by_def dest!: set_dropWhileD)

lemma ident_parts:
  assumes "ContainerIdentFromString s = Inr (Some c)"
  shows "CHR ''/'' \<notin> set (ci_Namespace c) \<and> CHR ''/'' \<notin> set (ci_PodName c) \<and>
    CHR ''/'' \<notin> set (ci_ContainerName c)"
proof -
  from assms obtain x y z where sp: "Split s (CHR ''/'') = [x, y, z]"
    and c: "c = \<lparr>ci_Namespace = TrimSpace x, ci_PodName = TrimSpace y, ci_ContainerName = TrimSpace z\<rparr>"
    by (auto simp: ContainerIdentFromString_def split: if_splits list.splits)
  from Split_parts [of _ s "CHR ''/''"] have "CHR ''/'' \<notin> set x \<union> set y \<union> set z" unfolding sp by auto
  with TrimSpace_subset show ?thesis unfolding c by auto
qed

text \<open>
  C34. When a container identity is read back from its texts. From \<^verbatim>\<open>String\<close> exactly when no part has a
  slash or white space at its ends, empty parts included, and the nil identity. From \<^verbatim>\<open>ToString\<close>, the
  text of the log, exactly when in addition no part is empty; without a container name it is the text
  of a pod, which is refused.
\<close>

theorem containerident_roundtrip:
  "(ContainerIdentFromString (ci_String ci) = Inr ci \<longleftrightarrow>
      (case ci of
         None \<Rightarrow> True
       | Some c \<Rightarrow> \<forall>w \<in> {ci_Namespace c, ci_PodName c, ci_ContainerName c}. CHR ''/'' \<notin> set w \<and> TrimSpace w = w)) \<and>
   (ContainerIdentFromString (ci_ToString ci) = Inr ci \<longleftrightarrow>
      (case ci of
         None \<Rightarrow> False
       | Some c \<Rightarrow> \<forall>w \<in> {ci_Namespace c, ci_PodName c, ci_ContainerName c}.
           w \<noteq> [] \<and> CHR ''/'' \<notin> set w \<and> TrimSpace w = w)) \<and>
   (case ci of
      None \<Rightarrow> True
    | Some c \<Rightarrow> ci_ContainerName c = [] \<and> CHR ''/'' \<notin> set (ci_Namespace c @ ci_PodName c) \<longrightarrow>
        (\<exists>e. ContainerIdentFromString (ci_ToString ci) = Inl e))"
proof (cases ci)
  case None
  then show ?thesis by (simp add: ci_String_def ci_ToString_def ContainerIdentFromString_def)
next
  case (Some c)
  let ?n = "ci_Namespace c" and ?p = "ci_PodName c" and ?c = "ci_ContainerName c"
  have short: "\<exists>e. ContainerIdentFromString (ci_ToString ci) = Inl e"
    if "?n = [] \<or> ?p = [] \<or> ?c = []" "CHR ''/'' \<notin> set ?n" "CHR ''/'' \<notin> set ?p"
    using that Some by (auto simp: ContainerIdentFromString_def ci_ToString_def Split_append_sep Split_no_sep)
  have long: "ci_ToString ci = ci_String ci" if "?n \<noteq> []" "?p \<noteq> []" "?c \<noteq> []"
    using that Some by (simp add: ci_ToString_def ci_String_def)
  have parts: "CHR ''/'' \<notin> set ?n \<and> CHR ''/'' \<notin> set ?p \<and> CHR ''/'' \<notin> set ?c"
    if "ContainerIdentFromString s = Inr ci" for s
    using ident_parts [OF that [unfolded Some]] .
  have S: "ContainerIdentFromString (ci_String ci) = Inr ci \<longleftrightarrow>
      (\<forall>w \<in> {?n, ?p, ?c}. CHR ''/'' \<notin> set w \<and> TrimSpace w = w)" (is "?l \<longleftrightarrow> ?r")
  proof -
    have "?l \<longleftrightarrow> TrimSpace ?n = ?n \<and> TrimSpace ?p = ?p \<and> TrimSpace ?c = ?c"
      if "CHR ''/'' \<notin> set ?n" "CHR ''/'' \<notin> set ?p" "CHR ''/'' \<notin> set ?c"
      using that Some by (cases c) (auto simp: ContainerIdentFromString_def ci_String_def Split_append_sep Split_no_sep)
    with parts [of "ci_String ci"] show ?thesis by auto
  qed
  have "ContainerIdentFromString (ci_ToString ci) = Inr ci \<longleftrightarrow>
      (\<forall>w \<in> {?n, ?p, ?c}. w \<noteq> [] \<and> CHR ''/'' \<notin> set w \<and> TrimSpace w = w)"
  proof (cases "?n = [] \<or> ?p = [] \<or> ?c = []")
    case True
    with short [OF True] parts [of "ci_ToString ci"] show ?thesis by auto
  next
    case False
    with S long show ?thesis by simp
  qed
  with S short Some show ?thesis by simp
qed

theorem containerident_roundtrip_witness:
  "ContainerIdentFromString (ci_String (Some \<lparr>ci_Namespace = ''ns'', ci_PodName = ''pod'', ci_ContainerName = []\<rparr>)) =
   Inr (Some \<lparr>ci_Namespace = ''ns'', ci_PodName = ''pod'', ci_ContainerName = []\<rparr>) \<and>
   ContainerIdentFromString (ci_ToString (Some \<lparr>ci_Namespace = ''ns'', ci_PodName = ''pod'', ci_ContainerName = ''c''\<rparr>)) =
   Inr (Some \<lparr>ci_Namespace = ''ns'', ci_PodName = ''pod'', ci_ContainerName = ''c''\<rparr>)"
  using containerident_roundtrip [of "Some \<lparr>ci_Namespace = ''ns'', ci_PodName = ''pod'', ci_ContainerName = []\<rparr>"]
    containerident_roundtrip [of "Some \<lparr>ci_Namespace = ''ns'', ci_PodName = ''pod'', ci_ContainerName = ''c''\<rparr>"]
  by (simp add: TrimSpace_def trim_by_def is_space_def)

end
