(* ===== verification/SysinfoProps.thy ===== *)
theory SysinfoProps
  imports Samples
begin

text \<open>The properties of the sysfs readers: what they find in the files the kernel writes.\<close>

section \<open>Lines of a file\<close>

lemma Split_Join:
  "ls \<noteq> [] \<Longrightarrow> (\<And>l. l \<in> set ls \<Longrightarrow> c \<notin> set l) \<Longrightarrow> Split (Join ls [c]) c = ls"
proof (induction ls rule: induct_list012)
  case (3 x y zs)
  then show ?case by (simp add: Split_append_sep)
qed (auto simp: Split_no_sep)

lemma Contains_append: "Contains (pre @ w @ post) w"
proof (induction pre)
  case Nil
  then show ?case by (cases "w @ post") (auto, metis HasPrefix_append)
next
  case (Cons c pre)
  then show ?case by simp
qed

lemma meminfo_lines_skip:
  "(\<And>l. l \<in> set ls \<Longrightarrow> \<not> Contains l ''MemTotal'') \<Longrightarrow>
   meminfo_lines path (ls @ rest) = meminfo_lines path rest"
  by (induction ls) auto

lemma trim_by_around:
  assumes "\<And>c. c \<in> set a \<Longrightarrow> p c" "\<And>c. c \<in> set b \<Longrightarrow> p c" "w \<noteq> []" "\<And>c. c \<in> set w \<Longrightarrow> \<not> p c"
  shows "trim_by p (a @ w @ b) = w"
proof -
  have "dropWhile p (a @ w @ b) = w @ b"
    using assms by (cases w) (simp_all add: dropWhile_append)
  moreover have "dropWhile p (rev b @ rev w) = rev w"
    using assms by (cases w rule: rev_cases) (simp_all add: dropWhile_append)
  ultimately show ?thesis by (simp add: trim_by_def)
qed

text \<open>
  C30. Reading the memory of a node: in a meminfo file whose first line with \<^verbatim>\<open>MemTotal\<close> gives the
  total in kB, as the kernel writes it, the result is the total in bytes.
\<close>

theorem meminfo_total:
  assumes "fs_ReadFile fs path = Inr (Join (before @ (label @ ''MemTotal:'' @ replicate k (CHR '' '') @
      show_uint v @ '' kB'') # after) [CHR 0x0A])"
    "\<forall>l \<in> set before. \<not> Contains l ''MemTotal'' \<and> CHR 0x0A \<notin> set l"
    "\<forall>l \<in> set after. CHR 0x0A \<notin> set l" "CHR 0x0A \<notin> set label" "CHR '':'' \<notin> set label"
    "0 \<le> v" "v < 2 ^ 53"
  shows "readTotalMemoryFromMeminfo fs path = Inr (1024 * v)"
proof -
  let ?val = "replicate k (CHR '' '') @ show_uint v @ '' kB''"
  let ?line = "label @ ''MemTotal:'' @ ?val"
  let ?cut = "[CHR 0x09, CHR 0x0A, CHR '' '', CHR ''k'', CHR ''B'']"
  have digits: "is_digit c" if "c \<in> set (show_uint v)" for c using show_uint_digits [OF assms(6) that] .
  then have nl: "c \<notin> {CHR 0x09, CHR 0x0A, CHR '' '', CHR ''k'', CHR ''B'', CHR '':''}"
    if "c \<in> set (show_uint v)" for c using that by (fastforce simp: is_digit_def)
  have "Contains ?line ''MemTotal''"
    using Contains_append [of label "''MemTotal''" "'':'' @ ?val"] by simp
  moreover have "Split ?val (CHR '':'') = [?val]" by (rule Split_no_sep) (use nl in auto)
  then have "Split ?line (CHR '':'') = [label @ ''MemTotal'', ?val]"
    using Split_append_sep [of "CHR '':''" "label @ ''MemTotal''" ?val] assms(5) by simp
  moreover have "Trim ?val ?cut = show_uint v"
    unfolding Trim_def by (rule trim_by_around) (use nl in auto)
  moreover have "ParseInt (show_uint v) = (v, None)"
    using ParseInt_show_uint [of v] assms(6,7) by simp
  moreover have "w64 (1024 * v) = 1024 * v"
    using assms(6,7) by (intro w64_id) (simp add: int64_def)
  ultimately have line: "meminfo_lines path (?line # after) = Inr (1024 * v)" by simp
  have "Split (Join (before @ ?line # after) [CHR 0x0A]) (CHR 0x0A) = before @ ?line # after"
    by (rule Split_Join) (use assms(2-4) nl [of "CHR 0x0A"] in auto)
  then show ?thesis
    unfolding readTotalMemoryFromMeminfo_def assms(1)
    using meminfo_lines_skip [of before path "?line # after"] assms(2) line by simp
qed

theorem meminfo_total_witness:
  "readTotalMemoryFromMeminfo
     \<lparr>fs_ReadDir = (\<lambda>_. Inr []), fs_ReadFile = (\<lambda>_. Inr (''Node 0 MemTotal:   64 kB'' @ [CHR 0x0A])),
      fs_EvalSymlinks = Inr\<rparr> ''meminfo'' = Inr 65536"
proof -
  have "''Node 0 MemTotal:   64 kB'' @ [CHR 0x0A] = Join ([] @ (''Node 0 '' @ ''MemTotal:'' @
      replicate 3 (CHR '' '') @ show_uint 64 @ '' kB'') # [[]]) [CHR 0x0A]" by code_simp
  then show ?thesis
    using meminfo_total [of "\<lparr>fs_ReadDir = (\<lambda>_. Inr []),
        fs_ReadFile = (\<lambda>_. Inr (''Node 0 MemTotal:   64 kB'' @ [CHR 0x0A])), fs_EvalSymlinks = Inr\<rparr>"
        "''meminfo''" "[]" "''Node 0 ''" 3 64 "[[]]"] by simp
qed

section \<open>Counters\<close>

lemma memory_counters_value:
  "wf_gomap mem \<Longrightarrow> gm_get0 (gm_getm (memory_counters mem nc) r) n =
     (if r = ResourceMemory \<and> n \<in> fst ` set mem then gm_get0 mem n else gm_get0 (gm_getm nc r) n)"
proof (induction mem arbitrary: nc)
  case Nil
  then show ?case by simp
next
  case (Cons e mem)
  then show ?case by (cases e) (auto simp: wf_gomap_def gm_get0_def)
qed

definition hp_key :: "(Quantity \<Rightarrow> string) \<Rightarrow> Hugepages \<Rightarrow> int \<times> string" where
  "hp_key qs h = (hp_NodeID h, HugepageResourceNameFromSize qs (hp_SizeKB h))"

lemma hugepages_counters_other:
  "(n, r) \<notin> hp_key qs ` set hs \<Longrightarrow>
   gm_get0 (gm_getm (hugepages_counters qs hs nc) r) n = gm_get0 (gm_getm nc r) n"
  by (induction qs hs nc rule: hugepages_counters.induct)
    (auto simp: Let_def hp_key_def gm_getm_def split: option.splits)

lemma hugepages_counters_value:
  "distinct (map (hp_key qs) hs) \<Longrightarrow> h \<in> set hs \<Longrightarrow>
   gm_get0 (gm_getm (hugepages_counters qs hs nc) (HugepageResourceNameFromSize qs (hp_SizeKB h)))
     (hp_NodeID h) = w64 (w64 (hp_Total h * hp_SizeKB h) * 1024)"
proof (induction qs hs nc rule: hugepages_counters.induct)
  case (2 qs g hs nc)
  show ?case
  proof (cases "h = g")
    case True
    with "2.prems" have "(hp_NodeID h, HugepageResourceNameFromSize qs (hp_SizeKB h)) \<notin> hp_key qs ` set hs"
      by (auto simp: hp_key_def)
    with True show ?thesis by (simp add: Let_def hugepages_counters_other)
  next
    case False
    with 2 show ?thesis by (auto simp: Let_def)
  qed
qed simp

lemma hugepages_not_memory: "HugepageResourceNameFromSize qs s \<noteq> ResourceMemory"
  by (simp add: HugepageResourceNameFromSize_def ResourceMemory_def)

text \<open>
  C29. The memory counters: each node has its memory under \<^verbatim>\<open>memory\<close>, and each huge page size found
  on a node has, under its own name, the number of pages times the page size in bytes. Both hold
  for every node, and no node without memory is invented.
\<close>

theorem memory_counters_exact:
  assumes "GetHugepages fs hnd = Inr hps" "GetMemory fs hnd = Inr mem" "wf_gomap mem"
    "distinct (map (hp_key qs) hps)"
    "\<forall>h \<in> set hps. 0 \<le> hp_Total h * hp_SizeKB h \<and> hp_Total h * hp_SizeKB h < 2 ^ 53"
  shows "\<exists>mc. GetMemoryResourceCounters qs fs hnd = Inr mc \<and>
     (\<forall>n. gm_get0 (gm_getm mc ''memory'') n = gm_get0 mem n) \<and>
     (\<forall>h \<in> set hps. gm_get0 (gm_getm mc (HugepageResourceNameFromSize qs (hp_SizeKB h))) (hp_NodeID h) =
        hp_Total h * hp_SizeKB h * 1024)"
proof -
  let ?nc = "hugepages_counters qs hps [(ResourceMemory, [])]"
  have "gm_get0 (gm_getm ?nc ResourceMemory) n = 0" for n
  proof -
    have "(n, ResourceMemory) \<notin> hp_key qs ` set hps"
      using hugepages_not_memory [of qs, THEN not_sym] by (auto simp: hp_key_def)
    from hugepages_counters_other [OF this, of "[(ResourceMemory, [])]"] show ?thesis
      by (simp add: gm_getm_def [of "[_]"])
  qed
  then have "gm_get0 (gm_getm (memory_counters mem ?nc) ResourceMemory) n = gm_get0 mem n" for n
    using memory_counters_value [OF assms(3), of ?nc ResourceMemory n] gm_get0_absent [of n mem]
    by auto
  moreover have "gm_get0 (gm_getm (memory_counters mem ?nc) (HugepageResourceNameFromSize qs (hp_SizeKB h)))
      (hp_NodeID h) = hp_Total h * hp_SizeKB h * 1024" if "h \<in> set hps" for h
  proof -
    from assms(5) that have "0 \<le> hp_Total h * hp_SizeKB h" "hp_Total h * hp_SizeKB h < 2 ^ 53" by auto
    then have "int64 (hp_Total h * hp_SizeKB h)" "int64 (hp_Total h * hp_SizeKB h * 1024)"
      by (auto simp: int64_def mult.commute)
    then have "w64 (w64 (hp_Total h * hp_SizeKB h) * 1024) = hp_Total h * hp_SizeKB h * 1024"
      by (simp only: w64_id)
    then show ?thesis
      using hugepages_counters_value [OF assms(4) that]
      by (simp add: memory_counters_value [OF assms(3)] hugepages_not_memory)
  qed
  ultimately show ?thesis
    by (simp add: GetMemoryResourceCounters_def assms(1,2) ResourceMemory_def)
qed

theorem memory_counters_exact_witness:
  "\<exists>mc. GetMemoryResourceCounters sample_qs sample_fs \<lparr>hnd_Root = []\<rparr> = Inr mc \<and>
     gm_get0 (gm_getm mc ''memory'') 0 = 65536 \<and> gm_get0 (gm_getm mc ''memory'') 7 = 0"
proof -
  have h: "GetHugepages sample_fs \<lparr>hnd_Root = []\<rparr> = Inr [\<lparr>hp_NodeID = 0, hp_SizeKB = 2048, hp_Total = 3\<rparr>]"
    "GetMemory sample_fs \<lparr>hnd_Root = []\<rparr> = Inr [(0, 65536)]" by code_simp+
  show ?thesis
    using memory_counters_exact [OF h, of sample_qs] by (auto simp: wf_gomap_def gm_get0_def [of "[_]"])
qed

end
