(* ===== verification/PodReadiness.thy ===== *)
theory PodReadiness
  imports Prelude
begin

text \<open>
  \<^verbatim>\<open>pkg/podreadiness\<close>: the conditions the exporter reports about itself, and the injector that
  writes them into the status of its own pod. The API server is the argument \<open>cs\<close>, with the state
  \<open>'w\<close> of the world; \<open>now\<close> is \<^verbatim>\<open>time.Now\<close>.
\<close>

record PodCondition =
  pc_Type :: string
  pc_Status :: string
  pc_LastTransitionTime :: int
  pc_Reason :: string
  pc_Message :: string

definition PodresourcesFetched :: string where
  "PodresourcesFetched = ''PodresourcesFetched''"

definition NodeTopologyUpdated :: string where
  "NodeTopologyUpdated = ''NodeTopologyUpdated''"

definition ConditionTrue :: string where
  "ConditionTrue = ''True''"

definition ConditionFalse :: string where
  "ConditionFalse = ''False''"

definition newConditionTemplate :: "int \<Rightarrow> string \<Rightarrow> string \<Rightarrow> PodCondition" where
  "newConditionTemplate now condType status =
     \<lparr>pc_Type = condType, pc_Status = status, pc_LastTransitionTime = now,
      pc_Reason = [], pc_Message = []\<rparr>"

text \<open>What is sent on the channel; \<open>chan\<close> tells whether there is one.\<close>

definition SetCondition :: "bool \<Rightarrow> int \<Rightarrow> string \<Rightarrow> string \<Rightarrow> PodCondition list" where
  "SetCondition chan now condType condStatus =
     (if \<not> chan then []
      else
        let cond = newConditionTemplate now condType condStatus;
            cond' = (if condStatus = ConditionFalse then
                       (if condType = PodresourcesFetched
                        then cond\<lparr>pc_Reason := ''ScanFailed'',
                                  pc_Message := ''failed to scan pod resources''\<rparr>
                        else if condType = NodeTopologyUpdated
                        then cond\<lparr>pc_Reason := ''UpdateFailed'',
                                  pc_Message := ''failed to update noderesourcetopology object''\<rparr>
                        else cond)
                     else cond)
        in [cond'])"

section \<open>The injector\<close>

record v1_Pod =
  pod_Namespace :: string
  pod_Name :: string
  pod_Conditions :: "PodCondition list"

record 'w pods_api =
  pods_Get :: "string \<Rightarrow> string \<Rightarrow> 'w \<Rightarrow> 'w \<times> (gerr + v1_Pod)"
  pods_UpdateStatus :: "string \<Rightarrow> v1_Pod \<Rightarrow> 'w \<Rightarrow> 'w \<times> (gerr + v1_Pod)"

record ConditionInjector =
  inj_ns :: string
  inj_podName :: string
  inj_lastUpdate :: "(string, PodCondition) gomap"

definition NewConditionInjectorWithIdentity :: "string \<Rightarrow> string \<Rightarrow> ConditionInjector" where
  "NewConditionInjectorWithIdentity ns podName =
     \<lparr>inj_ns = ns, inj_podName = podName, inj_lastUpdate = []\<rparr>"

definition NewConditionInjector :: "(string \<Rightarrow> string option) \<Rightarrow> gerr + ConditionInjector" where
  "NewConditionInjector lookupEnv =
     (case lookupEnv ''REFERENCE_NAMESPACE'' of
        None \<Rightarrow> Inl (Errorf ''the env REFERENCE_NAMESPACE doesn't exist'')
      | Some nsVal \<Rightarrow>
          (case lookupEnv ''REFERENCE_POD_NAME'' of
             None \<Rightarrow> Inl (Errorf ''the env REFERENCE_POD_NAME doesn't exist'')
           | Some podVal \<Rightarrow> Inr (NewConditionInjectorWithIdentity nsVal podVal)))"

definition equalPodCondition :: "PodCondition \<Rightarrow> PodCondition \<Rightarrow> bool" where
  "equalPodCondition a b \<longleftrightarrow>
     pc_Type a = pc_Type b \<and> pc_Status a = pc_Status b \<and> pc_Reason a = pc_Reason b \<and>
     pc_Message a = pc_Message b"

text \<open>The condition replaces the first one of its type, or is appended.\<close>

fun put_condition :: "PodCondition \<Rightarrow> PodCondition list \<Rightarrow> PodCondition list" where
  "put_condition cond [] = [cond]"
| "put_condition cond (c # cs) =
     (if pc_Type c = pc_Type cond then cond # cs else c # put_condition cond cs)"

definition Inject ::
    "'w pods_api \<Rightarrow> PodCondition \<Rightarrow> ConditionInjector \<Rightarrow> 'w \<Rightarrow>
     ConditionInjector \<times> 'w \<times> gerr option" where
  "Inject cs cond ci w =
     (if (case map_of (inj_lastUpdate ci) (pc_Type cond) of
            Some oldCond \<Rightarrow> equalPodCondition oldCond cond | None \<Rightarrow> False)
      then (ci, w, None)
      else
        case pods_Get cs (inj_ns ci) (inj_podName ci) w of
          (w1, Inl err) \<Rightarrow> (ci, w1, Some err)
        | (w1, Inr pod) \<Rightarrow>
            (case pods_UpdateStatus cs (inj_ns ci)
                    (pod\<lparr>pod_Conditions := put_condition cond (pod_Conditions pod)\<rparr>) w1 of
               (w2, Inl err) \<Rightarrow> (ci, w2, Some err)
             | (w2, Inr _) \<Rightarrow>
                 (ci\<lparr>inj_lastUpdate := AList.update (pc_Type cond) cond (inj_lastUpdate ci)\<rparr>, w2, None)))"

text \<open>The loop over the conditions received until the context ends; errors are only logged.\<close>

fun inj_Run ::
    "'w pods_api \<Rightarrow> PodCondition list \<Rightarrow> ConditionInjector \<Rightarrow> 'w \<Rightarrow> ConditionInjector \<times> 'w" where
  "inj_Run cs [] ci w = (ci, w)"
| "inj_Run cs (cond # conds) ci w =
     (case Inject cs cond ci w of (ci', w', err) \<Rightarrow> inj_Run cs conds ci' w')"

end
