(* ===== verification/NRTUpdater.thy ===== *)
theory NRTUpdater
  imports GoStd NRTApi Metrics PodReadiness
begin

text \<open>
  \<^verbatim>\<open>pkg/nrtupdater\<close> and \<^verbatim>\<open>pkg/k8sannotations\<close>: publishing what was monitored, either by reading and
  writing the whole object or by sending a patch against the object seen last. The API server is
  the argument \<open>api\<close> over the state \<open>'w\<close> of the world; JSON and the computation of a merge patch are
  the argument \<open>js\<close>.
\<close>

section \<open>Annotations\<close>

definition RTEUpdate :: string where
  "RTEUpdate = ''k8stopoawareschedwg/rte-update''"

definition SleepDuration :: string where
  "SleepDuration = ''k8stopoawareschedwg/sleep-duration''"

definition UpdateInterval :: string where
  "UpdateInterval = ''k8stopoawareschedwg/update-interval''"

fun merge_one :: "(string, string) gomap \<Rightarrow> (string, string) gomap \<Rightarrow> (string, string) gomap" where
  "merge_one ret [] = ret"
| "merge_one ret ((key, value) # kv) = merge_one (AList.update key value ret) kv"

definition Merge :: "(string, string) gomap list \<Rightarrow> (string, string) gomap" where
  "Merge kvs = foldl merge_one [] kvs"

section \<open>Node getters\<close>

definition NotConfigured :: gerr where
  "NotConfigured = Sentinel ''unconfigured feature''"

definition NotFound_Error :: "string \<Rightarrow> string" where
  "NotFound_Error nodeName = ''node '' @ nodeName @ '' Not Found''"

datatype NodeGetter =
  DisabledNodeGetter
| CachedNodeGetter "(string, v1_Node) gomap"

fun cache_nodes :: "v1_Node list \<Rightarrow> (string, v1_Node) gomap \<Rightarrow> (string, v1_Node) gomap" where
  "cache_nodes [] nodes = nodes"
| "cache_nodes (node # rest) nodes = cache_nodes rest (AList.update (vn_Name node) node nodes)"

definition NewCachedNodeGetter :: "gerr + v1_Node list \<Rightarrow> gerr + NodeGetter" where
  "NewCachedNodeGetter nodelist =
     (case nodelist of
        Inl err \<Rightarrow> Inl (Wrapf ''unable to get node list information'' err)
      | Inr items \<Rightarrow> Inr (CachedNodeGetter (cache_nodes items [])))"

fun ng_Get :: "NodeGetter \<Rightarrow> string \<Rightarrow> gerr + v1_Node" where
  "ng_Get DisabledNodeGetter nodeName = Inl (Wrapf [] NotConfigured)"
| "ng_Get (CachedNodeGetter nodes) nodeName =
     (case map_of nodes nodeName of
        Some node \<Rightarrow> Inr node
      | None \<Rightarrow> Inl (Wrapf [] (Errorf (NotFound_Error nodeName))))"

section \<open>Data\<close>

definition RTEUpdatePeriodic :: string where
  "RTEUpdatePeriodic = ''periodic''"

definition RTEUpdateReactive :: string where
  "RTEUpdateReactive = ''reactive''"

definition ErrMissingPreviousNRT :: gerr where
  "ErrMissingPreviousNRT = Sentinel ''missing previous NRT data''"

record upd_Args =
  ua_NoPublish :: bool
  ua_Oneshot :: bool
  ua_Hostname :: string
  ua_KubeConfig :: string
  ua_PatchMode :: bool
  ua_PatchResync :: int

definition upd_Args_Clone :: "upd_Args \<Rightarrow> upd_Args" where
  "upd_Args_Clone args =
     \<lparr>ua_NoPublish = ua_NoPublish args, ua_Oneshot = ua_Oneshot args,
      ua_Hostname = ua_Hostname args, ua_KubeConfig = [],
      ua_PatchMode = ua_PatchMode args, ua_PatchResync = ua_PatchResync args\<rparr>"

record TMConfig =
  tm_Policy :: string
  tm_Scope :: string

definition tm_IsValid :: "TMConfig \<Rightarrow> bool" where
  "tm_IsValid conf \<longleftrightarrow> tm_Policy conf \<noteq> [] \<and> tm_Scope conf \<noteq> []"

record OwnerReference =
  or_APIVersion :: string
  or_Kind :: string
  or_Name :: string
  or_UID :: string

text \<open>\<open>nrt_Rest\<close> stands for the fields that the program copies and never reads.\<close>

record NRT =
  nrt_Name :: string
  nrt_Annotations :: "(string, string) gomap"
  nrt_OwnerReferences :: "OwnerReference list"
  nrt_Attributes :: "AttributeInfo list"
  nrt_Zones :: "Zone list"
  nrt_Rest :: string

record MonitorInfo =
  mi_Timer :: bool
  mi_Zones :: "Zone list"
  mi_Attributes :: "AttributeInfo list"
  mi_Annotations :: "(string, string) gomap"

definition UpdateReason :: "MonitorInfo \<Rightarrow> string" where
  "UpdateReason mi = (if mi_Timer mi then RTEUpdatePeriodic else RTEUpdateReactive)"

record 'w nrt_api =
  api_Get :: "string \<Rightarrow> 'w \<Rightarrow> 'w \<times> (gerr + NRT)"
  api_Create :: "NRT \<Rightarrow> 'w \<Rightarrow> 'w \<times> (gerr + NRT)"
  api_Update :: "NRT \<Rightarrow> 'w \<Rightarrow> 'w \<times> (gerr + NRT)"
  api_Patch :: "string \<Rightarrow> string \<Rightarrow> 'w \<Rightarrow> 'w \<times> (gerr + NRT)"
  api_IsNotFound :: "gerr \<Rightarrow> bool"

record json_lib =
  js_Marshal :: "NRT \<Rightarrow> gerr + string"
  js_CreateThreeWayJSONMergePatch :: "string \<Rightarrow> string \<Rightarrow> string \<Rightarrow> gerr + string"

text \<open>The method stored in the field \<^verbatim>\<open>sendObject\<close>.\<close>

datatype sendObject_method = m_sendObjectPatch | m_sendObjectUpdate

record NRTUpdater =
  te_args :: upd_Args
  te_tmConfig :: TMConfig
  te_nodeGetter :: NodeGetter
  te_sendObject :: sendObject_method
  te_prevNRT :: "NRT option"
  te_patchCount :: int

text \<open>\<open>hasCli\<close> tells whether the client passed in is not nil.\<close>

definition NewNRTUpdater ::
    "NodeGetter \<Rightarrow> bool \<Rightarrow> upd_Args \<Rightarrow> TMConfig \<Rightarrow> gerr + NRTUpdater" where
  "NewNRTUpdater nodeGetter hasCli args tmconf =
     (if \<not> hasCli then Inl (Errorf ''missing NRT client interface'')
      else
        Inr \<lparr>te_args = args, te_tmConfig = tmconf, te_nodeGetter = nodeGetter,
             te_sendObject = (if ua_PatchMode args then m_sendObjectPatch else m_sendObjectUpdate),
             te_prevNRT = None, te_patchCount = 0\<rparr>)"

section \<open>Filling in the object\<close>

definition makeAttributes :: "NRTUpdater \<Rightarrow> AttributeInfo list" where
  "makeAttributes te =
     [\<lparr>at_Name = ''topologyManagerScope'', at_Value = tm_Scope (te_tmConfig te)\<rparr>,
      \<lparr>at_Name = ''topologyManagerPolicy'', at_Value = tm_Policy (te_tmConfig te)\<rparr>]"

definition updateNRTInfo :: "NRTUpdater \<Rightarrow> MonitorInfo \<Rightarrow> NRT \<Rightarrow> NRT" where
  "updateNRTInfo te info nrt =
     (let annotations = Merge [nrt_Annotations nrt, mi_Annotations info] in
      nrt\<lparr>nrt_Annotations := AList.update RTEUpdate (UpdateReason info) annotations,
          nrt_Zones := mi_Zones info,
          nrt_Attributes := mi_Attributes info @ makeAttributes te\<rparr>)"

definition updateOwnerReferences :: "NRTUpdater \<Rightarrow> NRT \<Rightarrow> NRT" where
  "updateOwnerReferences te nrt =
     (case ng_Get (te_nodeGetter te) (nrt_Name nrt) of
        Inl err \<Rightarrow> nrt
      | Inr node \<Rightarrow>
          nrt\<lparr>nrt_OwnerReferences :=
                [\<lparr>or_APIVersion = ''v1'', or_Kind = ''Node'', or_Name = vn_Name node,
                  or_UID = vn_UID node\<rparr>]\<rparr>)"

section \<open>Patches\<close>

record NRTPatchInfo =
  pi_Patch :: string
  pi_FullObjBytes :: int

text \<open>The ratio as a fraction.\<close>

definition SizeRatio :: "NRTPatchInfo \<Rightarrow> int \<times> int" where
  "SizeRatio pinfo =
     (if pi_FullObjBytes pinfo = 0 then (1, 1)
      else (int (length (pi_Patch pinfo)), pi_FullObjBytes pinfo))"

definition MakeNRTPatch :: "json_lib \<Rightarrow> NRT \<Rightarrow> NRT \<Rightarrow> (string \<times> gerr) + NRTPatchInfo" where
  "MakeNRTPatch js nrtOld nrtNew =
     (case js_Marshal js nrtOld of
        Inl err \<Rightarrow> Inl (''marshal_previous'', err)
      | Inr nrtOldJSON \<Rightarrow>
          (case js_Marshal js nrtNew of
             Inl err \<Rightarrow> Inl (''marshal_current'', err)
           | Inr nrtNewJSON \<Rightarrow>
               (case js_CreateThreeWayJSONMergePatch js nrtOldJSON nrtNewJSON nrtOldJSON of
                  Inl err \<Rightarrow> Inl (''make_patch'', err)
                | Inr patch \<Rightarrow>
                    Inr \<lparr>pi_Patch = patch, pi_FullObjBytes = int (length nrtNewJSON)\<rparr>)))"

type_synonym 'w sent = "NRTUpdater \<times> metrics_state \<times> 'w \<times> (gerr + NRT)"

definition patchNRT ::
    "json_lib \<Rightarrow> 'w nrt_api \<Rightarrow> MonitorInfo \<Rightarrow> NRTUpdater \<Rightarrow> metrics_state \<Rightarrow> 'w \<Rightarrow> 'w sent" where
  "patchNRT js api info te ms w =
     (case te_prevNRT te of
        None \<Rightarrow> (te, ms, w, Inl ErrMissingPreviousNRT)
      | Some prev \<Rightarrow>
          let nrtNew = updateOwnerReferences te (updateNRTInfo te info prev) in
          (case MakeNRTPatch js prev nrtNew of
             Inl (reason, err) \<Rightarrow>
               (te, UpdateNodeResourceTopologyPatchFailuresMetric reason ms, w, Inl err)
           | Inr patchInfo \<Rightarrow>
               let ms1 = UpdateNodeResourceTopologyPatchSizeRatioMetric (SizeRatio patchInfo) ms in
               (case api_Patch api (nrt_Name prev) (pi_Patch patchInfo) w of
                  (w', Inl err) \<Rightarrow>
                    (te, UpdateNodeResourceTopologyPatchFailuresMetric ''send_patch'' ms1, w', Inl err)
                | (w', Inr nrtUpdated) \<Rightarrow>
                    (te\<lparr>te_prevNRT := Some nrtUpdated\<rparr>, ms1, w', Inr nrtUpdated))))"

definition needsResync :: "NRTUpdater \<Rightarrow> bool" where
  "needsResync te \<longleftrightarrow>
     (if ua_PatchResync (te_args te) \<le> 0 then False
      else te_patchCount te \<ge> ua_PatchResync (te_args te))"

section \<open>Sending\<close>

definition sendObjectUpdate ::
    "'w nrt_api \<Rightarrow> MonitorInfo \<Rightarrow> NRTUpdater \<Rightarrow> metrics_state \<Rightarrow> 'w \<Rightarrow>
     metrics_state \<times> 'w \<times> (gerr + NRT)" where
  "sendObjectUpdate api info te ms w =
     (case api_Get api (ua_Hostname (te_args te)) w of
        (w1, Inl err) \<Rightarrow>
          if api_IsNotFound api err then
            let nrtNew = updateOwnerReferences te (updateNRTInfo te info
                  \<lparr>nrt_Name = ua_Hostname (te_args te), nrt_Annotations = [],
                   nrt_OwnerReferences = [], nrt_Attributes = [], nrt_Zones = [], nrt_Rest = []\<rparr>)
            in (case api_Create api nrtNew w1 of
                  (w2, Inl err) \<Rightarrow> (ms, w2, Inl (Wrapf ''update failed for NRT instance'' err))
                | (w2, Inr nrtCreated) \<Rightarrow>
                    (UpdateNodeResourceTopologyWritesMetric ''create'' (UpdateReason info) ms, w2,
                     Inr nrtCreated))
          else (ms, w1, Inl err)
      | (w1, Inr nrt) \<Rightarrow>
          let nrtMutated = updateOwnerReferences te (updateNRTInfo te info nrt) in
          (case api_Update api nrtMutated w1 of
             (w2, Inl err) \<Rightarrow> (ms, w2, Inl (Wrapf ''update failed for NRT instance'' err))
           | (w2, Inr nrtUpdated) \<Rightarrow>
               (UpdateNodeResourceTopologyWritesMetric ''update'' (UpdateReason info) ms, w2,
                Inr nrtUpdated)))"

text \<open>The second half of \<^verbatim>\<open>sendObjectPatch\<close>: the whole object, and a fresh budget of patches.\<close>

definition resync ::
    "'w nrt_api \<Rightarrow> MonitorInfo \<Rightarrow> NRTUpdater \<Rightarrow> metrics_state \<Rightarrow> 'w \<Rightarrow> 'w sent" where
  "resync api info te ms w =
     (case sendObjectUpdate api info te ms w of
        (ms', w', Inl err) \<Rightarrow> (te, ms', w', Inl err)
      | (ms', w', Inr nrtObj) \<Rightarrow>
          (te\<lparr>te_prevNRT := Some nrtObj, te_patchCount := 0\<rparr>, ms', w', Inr nrtObj))"

definition sendObjectPatch ::
    "json_lib \<Rightarrow> 'w nrt_api \<Rightarrow> MonitorInfo \<Rightarrow> NRTUpdater \<Rightarrow> metrics_state \<Rightarrow> 'w \<Rightarrow> 'w sent" where
  "sendObjectPatch js api info te ms w =
     (if \<not> needsResync te then
        (case patchNRT js api info te ms w of
           (te', ms', w', Inr nrtObj) \<Rightarrow>
             (te'\<lparr>te_patchCount := w64 (te_patchCount te' + 1)\<rparr>, ms', w', Inr nrtObj)
         | (te', ms', w', Inl err) \<Rightarrow> resync api info te' ms' w')
      else resync api info te ms w)"

definition sendData ::
    "json_lib \<Rightarrow> 'w nrt_api \<Rightarrow> MonitorInfo \<Rightarrow> NRTUpdater \<Rightarrow> metrics_state \<Rightarrow> 'w \<Rightarrow>
     NRTUpdater \<times> metrics_state \<times> 'w \<times> gerr option" where
  "sendData js api info te ms w =
     (if ua_NoPublish (te_args te) then (te, ms, w, None)
      else
        (case (case te_sendObject te of
                 m_sendObjectPatch \<Rightarrow> sendObjectPatch js api info te ms w
               | m_sendObjectUpdate \<Rightarrow>
                   (case sendObjectUpdate api info te ms w of (ms', w', r) \<Rightarrow> (te, ms', w', r))) of
           (te', ms', w', Inl err) \<Rightarrow> (te', ms', w', Some err)
         | (te', ms', w', Inr _) \<Rightarrow> (te', ms', w', None)))"

definition upd_Update ::
    "json_lib \<Rightarrow> 'w nrt_api \<Rightarrow> MonitorInfo \<Rightarrow> NRTUpdater \<Rightarrow> metrics_state \<Rightarrow> 'w \<Rightarrow>
     NRTUpdater \<times> metrics_state \<times> 'w \<times> gerr option" where
  "upd_Update js api info te ms w = sendData js api info te ms w"

section \<open>The loop\<close>

text \<open>
  What the loop receives: monitored data, with the milliseconds that the update takes and the time
  it ends, or the request to stop. In oneshot mode the \<^verbatim>\<open>break\<close> leaves the \<^verbatim>\<open>select\<close> only, so the
  loop goes on and no condition is sent.
\<close>

datatype upd_msg = upd_Info MonitorInfo int int | upd_Stop

definition upd_handle ::
    "json_lib \<Rightarrow> 'w nrt_api \<Rightarrow> bool \<Rightarrow> MonitorInfo \<Rightarrow> int \<Rightarrow> int \<Rightarrow> NRTUpdater \<Rightarrow> metrics_state \<Rightarrow> 'w \<Rightarrow>
     NRTUpdater \<times> metrics_state \<times> 'w \<times> PodCondition list" where
  "upd_handle js api condChan info tsDiff now te ms w =
     (case upd_Update js api info te ms w of
        (te', ms', w', err) \<Rightarrow>
          let condStatus = (case err of None \<Rightarrow> ConditionTrue | Some _ \<Rightarrow> ConditionFalse);
              ms'' = UpdateOperationDelayMetric ''node_resource_object_update'' RTEUpdateReactive
                       tsDiff ms'
          in (te', ms'', w',
              if ua_Oneshot (te_args te) then []
              else SetCondition condChan now NodeTopologyUpdated condStatus))"

fun upd_Run ::
    "json_lib \<Rightarrow> 'w nrt_api \<Rightarrow> bool \<Rightarrow> upd_msg list \<Rightarrow> NRTUpdater \<Rightarrow> metrics_state \<Rightarrow> 'w \<Rightarrow>
     NRTUpdater \<times> metrics_state \<times> 'w \<times> PodCondition list" where
  "upd_Run js api condChan [] te ms w = (te, ms, w, [])"
| "upd_Run js api condChan (upd_Stop # msgs) te ms w = (te, ms, w, [])"
| "upd_Run js api condChan (upd_Info info tsDiff now # msgs) te ms w =
     (case upd_handle js api condChan info tsDiff now te ms w of
        (te', ms', w', conds) \<Rightarrow>
          (case upd_Run js api condChan msgs te' ms' w' of
             (te'', ms'', w'', conds') \<Rightarrow> (te'', ms'', w'', conds @ conds')))"

end
