(* ===== verification/UpdaterProps.thy ===== *)
theory UpdaterProps
  imports NRTUpdater
begin

text \<open>
  The properties of the updater: the object the server holds after an update, the budget of
  patches, and the conditions the loop reports.
\<close>

section \<open>Annotations\<close>

lemma map_of_merge_one: "map_of (merge_one ret kv) = map_of ret ++ map_of (rev kv)"
  by (induction ret kv rule: merge_one.induct) (auto simp: map_add_def split: option.splits)

lemma map_of_rev: "wf_gomap m \<Longrightarrow> map_of (rev m) = map_of m"
  by (rule map_of_perm) simp_all

lemma map_of_Merge2: "map_of (Merge [a, b]) = map_of (rev a) ++ map_of (rev b)"
  by (simp add: Merge_def map_of_merge_one)

section \<open>The object that is sent\<close>

definition desired :: "NRTUpdater \<Rightarrow> MonitorInfo \<Rightarrow> NRT \<Rightarrow> NRT" where
  "desired te info base = updateOwnerReferences te (updateNRTInfo te info base)"

lemma nrt_Name_desired [simp]: "nrt_Name (desired te info n) = nrt_Name n"
  by (simp add: desired_def updateOwnerReferences_def updateNRTInfo_def Let_def split: sum.split)

text \<open>An object carries the monitored data.\<close>

definition carries :: "NRTUpdater \<Rightarrow> MonitorInfo \<Rightarrow> NRT \<Rightarrow> bool" where
  "carries te info n \<longleftrightarrow>
     nrt_Zones n = mi_Zones info \<and>
     nrt_Attributes n = mi_Attributes info @ makeAttributes te \<and>
     map_of (nrt_Annotations n) RTEUpdate = Some (UpdateReason info) \<and>
     (\<forall>k v. k \<noteq> RTEUpdate \<and> map_of (mi_Annotations info) k = Some v \<longrightarrow>
        map_of (nrt_Annotations n) k = Some v) \<and>
     (\<forall>node. ng_Get (te_nodeGetter te) (nrt_Name n) = Inr node \<longrightarrow>
        nrt_OwnerReferences n =
          [\<lparr>or_APIVersion = ''v1'', or_Kind = ''Node'', or_Name = vn_Name node, or_UID = vn_UID node\<rparr>])"

definition same_content :: "NRT \<Rightarrow> NRT \<Rightarrow> bool" where
  "same_content a b \<longleftrightarrow>
     nrt_Name a = nrt_Name b \<and> map_of (nrt_Annotations a) = map_of (nrt_Annotations b) \<and>
     nrt_OwnerReferences a = nrt_OwnerReferences b \<and> nrt_Attributes a = nrt_Attributes b \<and>
     nrt_Zones a = nrt_Zones b"

lemma carries_desired: "wf_gomap (mi_Annotations info) \<Longrightarrow> carries te info (desired te info n)"
  by (auto simp: carries_def desired_def updateOwnerReferences_def updateNRTInfo_def Let_def
      map_of_Merge2 map_of_rev split: sum.split)

lemma carries_same: "carries te info n \<Longrightarrow> same_content m n \<Longrightarrow> carries te info m"
  by (simp add: carries_def same_content_def)

lemma carries_cong:
  "te_tmConfig te = te_tmConfig te' \<Longrightarrow> te_nodeGetter te = te_nodeGetter te' \<Longrightarrow>
   carries te info n = carries te' info n"
  by (simp add: carries_def makeAttributes_def)

section \<open>What is expected of the API server\<close>

text \<open>
  \<open>obj w\<close> gives the objects stored in the world \<open>w\<close>, by name. A read returns the stored object; a
  write that is accepted stores the content it was given, and one that is refused changes nothing;
  a merge patch, computed against the object that is stored, gives the content it was computed for.
\<close>

definition stores :: "('w \<Rightarrow> string \<rightharpoonup> NRT) \<Rightarrow> NRT \<Rightarrow> 'w \<Rightarrow> 'w \<times> (gerr + NRT) \<Rightarrow> bool" where
  "stores obj n w out \<longleftrightarrow>
     (case out of
        (w', Inl e) \<Rightarrow> obj w' = obj w
      | (w', Inr m) \<Rightarrow> same_content m n \<and> obj w' = (obj w)(nrt_Name n \<mapsto> m))"

definition nrt_api_spec :: "json_lib \<Rightarrow> 'w nrt_api \<Rightarrow> ('w \<Rightarrow> string \<rightharpoonup> NRT) \<Rightarrow> bool" where
  "nrt_api_spec js api obj \<longleftrightarrow>
     (\<forall>name w. case api_Get api name w of
        (w', Inl e) \<Rightarrow> obj w' = obj w
      | (w', Inr n) \<Rightarrow> obj w' = obj w \<and> obj w name = Some n \<and> nrt_Name n = name) \<and>
     (\<forall>n w. stores obj n w (api_Create api n w)) \<and>
     (\<forall>n w. stores obj n w (api_Update api n w)) \<and>
     (\<forall>old new p w. obj w (nrt_Name old) = Some old \<and> nrt_Name new = nrt_Name old \<and>
        MakeNRTPatch js old new = Inr p \<longrightarrow>
        stores obj new w (api_Patch api (nrt_Name old) (pi_Patch p) w))"

lemma storesE:
  assumes "stores obj n w (w', r)"
  obtains e where "r = Inl e" "obj w' = obj w"
  | m where "r = Inr m" "same_content m n" "obj w' = (obj w)(nrt_Name n \<mapsto> m)"
  using assms by (cases r) (auto simp: stores_def)

text \<open>The updater and the server agree: the object seen last is the one stored.\<close>

definition in_sync :: "('w \<Rightarrow> string \<rightharpoonup> NRT) \<Rightarrow> NRTUpdater \<Rightarrow> 'w \<Rightarrow> bool" where
  "in_sync obj te w \<longleftrightarrow>
     (case te_prevNRT te of
        None \<Rightarrow> True
      | Some p \<Rightarrow>
          te_sendObject te = m_sendObjectPatch \<and> nrt_Name p = ua_Hostname (te_args te) \<and>
          obj w (ua_Hostname (te_args te)) = Some p)"

definition same_config :: "NRTUpdater \<Rightarrow> NRTUpdater \<Rightarrow> bool" where
  "same_config te te' \<longleftrightarrow>
     te_args te' = te_args te \<and> te_tmConfig te' = te_tmConfig te \<and>
     te_nodeGetter te' = te_nodeGetter te \<and> te_sendObject te' = te_sendObject te"

lemma same_config_refl [simp]: "same_config te te"
  by (simp add: same_config_def)

section \<open>One update\<close>

text \<open>The outcome of a call: an error that changed nothing, or the object stored under the host name.\<close>

definition outcome ::
    "('w \<Rightarrow> string \<rightharpoonup> NRT) \<Rightarrow> NRTUpdater \<Rightarrow> MonitorInfo \<Rightarrow> 'w \<Rightarrow> 'w \<Rightarrow> gerr + NRT \<Rightarrow> bool" where
  "outcome obj te info w w' r \<longleftrightarrow>
     (case r of
        Inl e \<Rightarrow> obj w' = obj w
      | Inr n \<Rightarrow> nrt_Name n = ua_Hostname (te_args te) \<and> carries te info n \<and>
                 obj w' = (obj w)(ua_Hostname (te_args te) \<mapsto> n))"

lemma outcome_stores:
  assumes "stores obj (desired te info b) w1 (w', r)" "obj w1 = obj w"
    "nrt_Name b = ua_Hostname (te_args te)" "wf_gomap (mi_Annotations info)"
  shows "outcome obj te info w w' r"
  using assms(1)
proof (rule storesE)
  fix m assume m: "r = Inr m" "same_content m (desired te info b)"
    "obj w' = (obj w1)(nrt_Name (desired te info b) \<mapsto> m)"
  with carries_same [OF carries_desired [OF assms(4)] m(2)] assms(2,3) show ?thesis
    by (simp add: outcome_def same_content_def)
qed (simp add: outcome_def assms(2))

lemma outcome_Inl: "outcome obj te info w w' (Inl e) \<longleftrightarrow> obj w' = obj w"
  by (simp add: outcome_def)

lemma spec_Get:
  assumes "nrt_api_spec js api obj" "api_Get api name w = (w', r)"
  shows "obj w' = obj w" "r = Inr n \<Longrightarrow> obj w name = Some n \<and> nrt_Name n = name"
proof -
  have "case api_Get api name w of (w', Inl e) \<Rightarrow> obj w' = obj w
      | (w', Inr n) \<Rightarrow> obj w' = obj w \<and> obj w name = Some n \<and> nrt_Name n = name"
    using assms(1) by (simp add: nrt_api_spec_def)
  with assms(2) show "obj w' = obj w" "r = Inr n \<Longrightarrow> obj w name = Some n \<and> nrt_Name n = name"
    by (cases r; simp)+
qed

lemma spec_write:
  assumes "nrt_api_spec js api obj"
  shows "stores obj n w (api_Create api n w)" "stores obj n w (api_Update api n w)"
  using assms by (simp_all add: nrt_api_spec_def)

lemma spec_Patch:
  "nrt_api_spec js api obj \<Longrightarrow> obj w (nrt_Name old) = Some old \<Longrightarrow> nrt_Name new = nrt_Name old \<Longrightarrow>
   MakeNRTPatch js old new = Inr p \<Longrightarrow> stores obj new w (api_Patch api (nrt_Name old) (pi_Patch p) w)"
  by (simp add: nrt_api_spec_def)

lemma sendObjectUpdate_outcome:
  assumes spec: "nrt_api_spec js api obj" and wf: "wf_gomap (mi_Annotations info)"
    and send: "sendObjectUpdate api info te ms w = (ms', w', r)"
  shows "outcome obj te info w w' r"
proof -
  let ?host = "ua_Hostname (te_args te)"
  obtain w1 g where get: "api_Get api ?host w = (w1, g)" by (cases "api_Get api ?host w")
  note w1 = spec_Get(1) [OF spec get]
  show ?thesis
  proof (cases g)
    case (Inr n)
    obtain w2 u where u: "api_Update api (desired te info n) w1 = (w2, u)"
      by (cases "api_Update api (desired te info n) w1")
    have name: "nrt_Name n = ?host" using spec_Get(2) [OF spec get Inr] by simp
    from outcome_stores [OF spec_write(2) [OF spec, of "desired te info n" w1, unfolded u] w1 name wf]
    have out: "outcome obj te info w w2 u" .
    from send get Inr u out show ?thesis
      by (cases u) (auto simp: sendObjectUpdate_def Let_def desired_def outcome_Inl)
  next
    case (Inl e)
    let ?new = "\<lparr>nrt_Name = ?host, nrt_Annotations = [], nrt_OwnerReferences = [],
      nrt_Attributes = [], nrt_Zones = [], nrt_Rest = []\<rparr>"
    obtain w2 u where u: "api_Create api (desired te info ?new) w1 = (w2, u)"
      by (cases "api_Create api (desired te info ?new) w1")
    from outcome_stores [OF spec_write(1) [OF spec, of "desired te info ?new" w1, unfolded u] w1 _ wf]
    have out: "outcome obj te info w w2 u" by simp
    from send get Inl u out w1 show ?thesis
      by (cases u) (auto simp: sendObjectUpdate_def Let_def desired_def outcome_Inl split: if_splits)
  qed
qed

lemma patchNRT_outcome:
  assumes spec: "nrt_api_spec js api obj" and wf: "wf_gomap (mi_Annotations info)"
    and sync: "in_sync obj te w" and patch: "patchNRT js api info te ms w = (te', ms', w', r)"
  shows "outcome obj te info w w' r"
    and "te' = (case r of Inl e \<Rightarrow> te | Inr n \<Rightarrow> te\<lparr>te_prevNRT := Some n\<rparr>)"
proof -
  have "outcome obj te info w w' r \<and>
     te' = (case r of Inl e \<Rightarrow> te | Inr n \<Rightarrow> te\<lparr>te_prevNRT := Some n\<rparr>)"
  proof (cases "te_prevNRT te")
    case None
    with patch show ?thesis by (auto simp: patchNRT_def outcome_Inl)
  next
    case (Some prev)
    with sync have prev: "nrt_Name prev = ua_Hostname (te_args te)" "obj w (nrt_Name prev) = Some prev"
      by (simp_all add: in_sync_def)
    show ?thesis
    proof (cases "MakeNRTPatch js prev (desired te info prev)")
      case (Inl re)
      with Some patch show ?thesis by (cases re) (auto simp: patchNRT_def desired_def outcome_Inl)
    next
      case (Inr p)
      obtain w1 u where u: "api_Patch api (nrt_Name prev) (pi_Patch p) w = (w1, u)"
        by (cases "api_Patch api (nrt_Name prev) (pi_Patch p) w")
      have "outcome obj te info w w1 u"
        using outcome_stores [OF spec_Patch [OF spec prev(2) _ Inr, unfolded u] refl prev(1) wf] by simp
      with Some Inr u patch show ?thesis
        by (cases u) (auto simp: patchNRT_def desired_def Let_def outcome_Inl)
    qed
  qed
  then show "outcome obj te info w w' r"
    "te' = (case r of Inl e \<Rightarrow> te | Inr n \<Rightarrow> te\<lparr>te_prevNRT := Some n\<rparr>)" by blast+
qed

lemma resync_outcome:
  assumes "nrt_api_spec js api obj" "wf_gomap (mi_Annotations info)"
    "resync api info te ms w = (te', ms', w', r)"
  shows "outcome obj te info w w' r"
    and "te' = (case r of Inl e \<Rightarrow> te | Inr n \<Rightarrow> te\<lparr>te_prevNRT := Some n, te_patchCount := 0\<rparr>)"
proof -
  obtain ms1 w1 u where u: "sendObjectUpdate api info te ms w = (ms1, w1, u)"
    by (cases "sendObjectUpdate api info te ms w")
  with sendObjectUpdate_outcome [OF assms(1,2) u] assms(3)
  show "outcome obj te info w w' r"
    "te' = (case r of Inl e \<Rightarrow> te | Inr n \<Rightarrow> te\<lparr>te_prevNRT := Some n, te_patchCount := 0\<rparr>)"
    by (cases u; auto simp: resync_def)+
qed

lemma outcome_trans: "obj w1 = obj w \<Longrightarrow> outcome obj te info w1 w' r = outcome obj te info w w' r"
  by (simp add: outcome_def split: sum.split)

lemma sendObjectPatch_outcome:
  assumes spec: "nrt_api_spec js api obj" and wf: "wf_gomap (mi_Annotations info)"
    and sync: "in_sync obj te w" and send: "sendObjectPatch js api info te ms w = (te', ms', w', r)"
  shows "outcome obj te info w w' r \<and>
     (case r of Inl e \<Rightarrow> te' = te
      | Inr n \<Rightarrow> same_config te te' \<and> te_prevNRT te' = Some n)"
proof -
  obtain te1 ms1 w1 p where p: "patchNRT js api info te ms w = (te1, ms1, w1, p)"
    by (cases "patchNRT js api info te ms w")
  note out = patchNRT_outcome [OF spec wf sync p]
  show ?thesis
  proof (cases "\<not> needsResync te \<and> (\<exists>n. p = Inr n)")
    case True
    with send p out show ?thesis by (auto simp: sendObjectPatch_def same_config_def)
  next
    case False
    obtain ms2 w2 where r: "resync api info te ms2 w2 = (te', ms', w', r)" "obj w2 = obj w"
    proof (cases "needsResync te")
      case True
      with send that [of ms w] show thesis by (simp add: sendObjectPatch_def)
    next
      case no: False
      with False obtain e where "p = Inl e" by (cases p) auto
      with send p no out that [of ms1 w1] show thesis by (simp add: sendObjectPatch_def outcome_Inl)
    qed
    from resync_outcome [OF spec wf r(1)] outcome_trans [OF r(2)] show ?thesis
      by (cases r) (auto simp: same_config_def)
  qed
qed

lemma sendData_outcome:
  assumes spec: "nrt_api_spec js api obj" and wf: "wf_gomap (mi_Annotations info)"
    and sync: "in_sync obj te w" and pub: "\<not> ua_NoPublish (te_args te)"
    and send: "sendData js api info te ms w = (te', ms', w', err)"
  shows "same_config te te' \<and> in_sync obj te' w' \<and>
     (case err of
        Some e \<Rightarrow> obj w' = obj w
      | None \<Rightarrow> \<exists>n. nrt_Name n = ua_Hostname (te_args te) \<and> carries te info n \<and>
                  obj w' = (obj w)(ua_Hostname (te_args te) \<mapsto> n))"
proof (cases "te_sendObject te")
  case m_sendObjectUpdate
  with sync have none: "te_prevNRT te = None" by (auto simp: in_sync_def split: option.splits)
  obtain ms1 w1 r where r: "sendObjectUpdate api info te ms w = (ms1, w1, r)"
    by (cases "sendObjectUpdate api info te ms w")
  from sendObjectUpdate_outcome [OF spec wf r] m_sendObjectUpdate r send pub none show ?thesis
    by (cases r) (auto simp: sendData_def outcome_def in_sync_def)
next
  case m_sendObjectPatch
  obtain te1 ms1 w1 r where r: "sendObjectPatch js api info te ms w = (te1, ms1, w1, r)"
    by (cases "sendObjectPatch js api info te ms w")
  from sendObjectPatch_outcome [OF spec wf sync r] m_sendObjectPatch r send pub sync show ?thesis
    by (cases r) (auto simp: sendData_def outcome_def in_sync_def same_config_def split: option.splits)
qed

text \<open>
  C1. Publishing refines writing the object: with a server that stores what it accepts, an update
  that succeeds leaves, under the host name, an object with the zones, the attributes followed by
  the topology manager's, the annotations, the update reason, and the node as only owner where it is
  known; no other object changes. An update that fails changes no object. Both hold for whole
  objects and for patches, and the object remembered for the next patch stays the stored one.
\<close>

theorem update_publishes:
  assumes "nrt_api_spec js api obj" "wf_gomap (mi_Annotations info)" "in_sync obj te w"
    "\<not> ua_NoPublish (te_args te)" "upd_Update js api info te ms w = (te', ms', w', err)"
  shows "in_sync obj te' w' \<and>
     (case err of
        Some e \<Rightarrow> obj w' = obj w
      | None \<Rightarrow> \<exists>n. carries te info n \<and> obj w' = (obj w)(ua_Hostname (te_args te) \<mapsto> n))"
  using sendData_outcome [OF assms(1-4) assms(5) [unfolded upd_Update_def]]
  by (auto split: option.splits)

lemma no_publish_no_effect:
  "ua_NoPublish (te_args te) \<Longrightarrow> upd_Update js api info te ms w = (te, ms, w, None)"
  by (simp add: upd_Update_def sendData_def)

section \<open>The loop\<close>

abbreviation infos :: "(MonitorInfo \<times> int \<times> int) list \<Rightarrow> upd_msg list" where
  "infos xs \<equiv> map (\<lambda>(info, d, t). upd_Info info d t) xs"

lemma upd_Run_append:
  "upd_Run js api ch (infos xs @ msgs) te ms w =
     (case upd_Run js api ch (infos xs) te ms w of (te1, ms1, w1, c1) \<Rightarrow>
        (case upd_Run js api ch msgs te1 ms1 w1 of (te2, ms2, w2, c2) \<Rightarrow> (te2, ms2, w2, c1 @ c2)))"
proof (induction xs arbitrary: te ms w)
  case Nil
  then show ?case by (simp split: prod.split)
next
  case (Cons x xs)
  obtain info d t where x: "x = (info, d, t)" by (cases x)
  show ?case by (simp add: x Cons.IH split: prod.split)
qed

lemma SetCondition_chan:
  "\<exists>c. SetCondition True now ty st = [c] \<and> pc_Type c = ty \<and> pc_Status c = st"
  by (auto simp: SetCondition_def newConditionTemplate_def Let_def)

text \<open>
  What one condition says of the update that it reports: \<open>w\<close> and \<open>w'\<close> are the server before and
  after.
\<close>

definition condition_of ::
    "('w \<Rightarrow> string \<rightharpoonup> NRT) \<Rightarrow> NRTUpdater \<Rightarrow> MonitorInfo \<Rightarrow> 'w \<Rightarrow> 'w \<Rightarrow> PodCondition \<Rightarrow> bool" where
  "condition_of obj te info w w' c \<longleftrightarrow>
     pc_Type c = ''NodeTopologyUpdated'' \<and>
     (if ua_NoPublish (te_args te) then pc_Status c = ''True''
      else pc_Status c = ''True'' \<and> (\<exists>n. obj w' (ua_Hostname (te_args te)) = Some n \<and> carries te info n) \<or>
           pc_Status c = ''False'' \<and> obj w' = obj w)"

lemma upd_handle_outcome:
  assumes spec: "nrt_api_spec js api obj" and wf: "wf_gomap (mi_Annotations info)"
    and sync: "in_sync obj te w"
    and handle: "upd_handle js api ch info d t te ms w = (te', ms', w', conds)"
  shows "same_config te te' \<and> in_sync obj te' w' \<and> (ua_NoPublish (te_args te) \<longrightarrow> w' = w) \<and>
     (if ua_Oneshot (te_args te) \<or> \<not> ch then conds = [] else \<exists>c. conds = [c] \<and> condition_of obj te info w w' c)"
proof -
  obtain te1 ms1 w1 err where u: "sendData js api info te ms w = (te1, ms1, w1, err)"
    by (cases "sendData js api info te ms w")
  let ?st = "case err of None \<Rightarrow> ConditionTrue | Some _ \<Rightarrow> ConditionFalse"
  from handle u have h: "te' = te1" "w' = w1"
    "conds = (if ua_Oneshot (te_args te) then [] else SetCondition ch t NodeTopologyUpdated ?st)"
    by (auto simp: upd_handle_def upd_Update_def Let_def)
  obtain c where c: "SetCondition True t NodeTopologyUpdated ?st = [c]" "pc_Type c = NodeTopologyUpdated"
    "pc_Status c = ?st" using SetCondition_chan by blast
  have conds: "conds = (if ua_Oneshot (te_args te) \<or> \<not> ch then [] else [c])"
    using c(1) h(3) by (auto simp: SetCondition_def)
  show ?thesis
  proof (cases "ua_NoPublish (te_args te)")
    case True
    with u have "te1 = te" "w1 = w" "err = None" by (simp_all add: sendData_def)
    with True sync h(1,2) conds c show ?thesis
      by (simp add: condition_of_def same_config_def ConditionTrue_def NodeTopologyUpdated_def)
  next
    case False
    from sendData_outcome [OF spec wf sync False u] False h(1,2) conds c show ?thesis
      by (cases err) (auto simp: condition_of_def ConditionTrue_def ConditionFalse_def NodeTopologyUpdated_def)
  qed
qed

lemma condition_of_cong: "same_config te te1 \<Longrightarrow> condition_of obj te1 = condition_of obj te"
  by (intro ext) (simp add: condition_of_def same_config_def carries_cong [of te1 te])

lemma upd_Run_in_sync:
  assumes spec: "nrt_api_spec js api obj"
  shows "\<forall>(info, d, t) \<in> set xs. wf_gomap (mi_Annotations info) \<Longrightarrow> in_sync obj te w \<Longrightarrow>
    upd_Run js api ch (infos xs) te ms w = (te', ms', w', conds) \<Longrightarrow>
    same_config te te' \<and> in_sync obj te' w' \<and> (ua_NoPublish (te_args te) \<longrightarrow> w' = w) \<and>
    length conds = (if ua_Oneshot (te_args te) \<or> \<not> ch then 0 else length xs)"
proof (induction xs arbitrary: te ms w te' ms' w' conds)
  case Nil
  then show ?case by auto
next
  case (Cons x xs)
  obtain info d t where x: "x = (info, d, t)" by (cases x)
  obtain te1 ms1 w1 c1 where h: "upd_handle js api ch info d t te ms w = (te1, ms1, w1, c1)"
    by (cases "upd_handle js api ch info d t te ms w")
  obtain te2 ms2 w2 c2 where r: "upd_Run js api ch (infos xs) te1 ms1 w1 = (te2, ms2, w2, c2)"
    by (cases "upd_Run js api ch (infos xs) te1 ms1 w1")
  have wf: "wf_gomap (mi_Annotations info)" "\<forall>(info, d, t) \<in> set xs. wf_gomap (mi_Annotations info)"
    using Cons.prems(1) x by auto
  note one = upd_handle_outcome [OF spec wf(1) Cons.prems(2) h]
  from one have "in_sync obj te1 w1" by blast
  from Cons.IH [OF wf(2) this r] one h r x Cons.prems(3) show ?case
    by (auto simp: same_config_def split: if_splits)
qed

text \<open>
  C9. The reported conditions are truthful. Take any run of the updater's loop over at least one
  update. In oneshot mode, and without a channel, no condition is reported. Otherwise there is one per
  update, and the last one is about the last update: when publishing is off it is true and the
  server is left alone; when publishing is on, true means that the server holds the data of that
  update, and false that the update has left the objects of the server as they were.
\<close>

theorem run_condition_truthful:
  assumes "nrt_api_spec js api obj" "in_sync obj te w"
    "\<forall>(info, d, t) \<in> set (xs @ [(info, d, t)]). wf_gomap (mi_Annotations info)"
    "upd_Run js api ch (infos (xs @ [(info, d, t)])) te ms w = (te', ms', w', conds)"
  shows "if ua_Oneshot (te_args te) \<or> \<not> ch then conds = []
     else length conds = length xs + 1 \<and> pc_Type (last conds) = ''NodeTopologyUpdated'' \<and>
       (if ua_NoPublish (te_args te) then pc_Status (last conds) = ''True'' \<and> w' = w
        else pc_Status (last conds) = ''True'' \<and>
               (\<exists>n. obj w' (ua_Hostname (te_args te)) = Some n \<and> carries te info n) \<or>
             pc_Status (last conds) = ''False'' \<and>
               obj w' = obj (fst (snd (snd (upd_Run js api ch (infos xs) te ms w)))))"
proof -
  obtain te1 ms1 w1 c1 where r: "upd_Run js api ch (infos xs) te ms w = (te1, ms1, w1, c1)"
    by (cases "upd_Run js api ch (infos xs) te ms w")
  from assms(3) have wf: "\<forall>(info, d, t) \<in> set xs. wf_gomap (mi_Annotations info)"
    "wf_gomap (mi_Annotations info)" by auto
  note s = upd_Run_in_sync [OF assms(1) wf(1) assms(2) r]
  obtain te2 ms2 w2 c2 where h: "upd_handle js api ch info d t te1 ms1 w1 = (te2, ms2, w2, c2)"
    by (cases "upd_handle js api ch info d t te1 ms1 w1")
  from s have "in_sync obj te1 w1" and cfg: "same_config te te1" by blast+
  note out = upd_handle_outcome [OF assms(1) wf(2) this(1) h, unfolded condition_of_cong [OF cfg]]
  from assms(4) r h have "conds = c1 @ c2" "w' = w2" by (auto simp: upd_Run_append)
  with out s cfg r show ?thesis
    by (auto simp: condition_of_def same_config_def split: if_splits)
qed

end
