(* ===== verification/UpdaterBudget.thy ===== *)
theory UpdaterBudget
  imports UpdaterProps
begin

text \<open>
  The budget of patches: how many patches go out before the whole object is written again. Then the
  instances of the updater's properties on a small server.
\<close>

section \<open>Reachable updaters\<close>

inductive upd_reachable :: "json_lib \<Rightarrow> 'w nrt_api \<Rightarrow> NRTUpdater \<Rightarrow> NRTUpdater \<Rightarrow> bool"
  for js api te0 where
  upd_start: "upd_reachable js api te0 te0"
| upd_step: "upd_reachable js api te0 te \<Longrightarrow> sendData js api info te ms w = (te', ms', w', err) \<Longrightarrow>
    upd_reachable js api te0 te'"

definition patch_budget :: "NRTUpdater \<Rightarrow> bool" where
  "patch_budget te \<longleftrightarrow>
     0 \<le> te_patchCount te \<and>
     (0 < ua_PatchResync (te_args te) \<longrightarrow> te_patchCount te \<le> ua_PatchResync (te_args te)) \<and>
     (0 < te_patchCount te \<longrightarrow> te_prevNRT te \<noteq> None)"

text \<open>The number of whole objects written, according to the metrics.\<close>

definition writes :: "metrics_state \<Rightarrow> nat" where
  "writes ms =
     length (filter (\<lambda>c. case c of
         CounterInc name labels \<Rightarrow> name = ''rte_noderesourcetopology_writes_total''
       | _ \<Rightarrow> False) (ms_calls ms))"

lemma writes_simps [simp]:
  "writes (UpdateNodeResourceTopologyWritesMetric op tr ms) = writes ms + 1"
  "writes (UpdateNodeResourceTopologyPatchFailuresMetric tr ms) = writes ms"
  "writes (UpdateNodeResourceTopologyPatchSizeRatioMetric r ms) = writes ms"
  "writes (UpdateOperationDelayMetric op tr x ms) = writes ms"
  by (simp_all add: writes_def metric_defs)

lemma sendObjectUpdate_writes:
  "sendObjectUpdate api info te ms w = (ms', w', r) \<Longrightarrow>
   writes ms' = writes ms + (case r of Inl e \<Rightarrow> 0 | Inr n \<Rightarrow> 1)"
  by (auto simp: sendObjectUpdate_def Let_def split: prod.splits sum.splits if_splits)

lemma patchNRT_writes:
  assumes "patchNRT js api info te ms w = (te', ms', w', r)"
  shows "writes ms' = writes ms \<and>
     te' = (case r of Inl e \<Rightarrow> te | Inr n \<Rightarrow> te\<lparr>te_prevNRT := Some n\<rparr>)"
  using assms by (auto simp: patchNRT_def Let_def split: option.splits sum.splits prod.splits)

lemma resync_writes:
  assumes "resync api info te ms w = (te', ms', w', r)"
  shows "(case r of Inl e \<Rightarrow> te' = te \<and> writes ms' = writes ms
          | Inr n \<Rightarrow> te' = te\<lparr>te_prevNRT := Some n, te_patchCount := 0\<rparr> \<and> writes ms' = writes ms + 1)"
  using assms sendObjectUpdate_writes [of api info te ms w]
  by (auto simp: resync_def split: prod.splits sum.splits)

text \<open>One patch-mode update: a patch within the budget, or a whole object that resets it.\<close>

lemma sendObjectPatch_cases:
  assumes "sendObjectPatch js api info te ms w = (te', ms', w', r)"
  shows "(case r of
      Inl e \<Rightarrow> te' = te \<and> writes ms' = writes ms
    | Inr n \<Rightarrow>
        \<not> needsResync te \<and> writes ms' = writes ms \<and>
        te' = te\<lparr>te_prevNRT := Some n, te_patchCount := w64 (te_patchCount te + 1)\<rparr> \<or>
        writes ms' = writes ms + 1 \<and> te' = te\<lparr>te_prevNRT := Some n, te_patchCount := 0\<rparr>)"
proof (cases "needsResync te")
  case True
  with assms have "resync api info te ms w = (te', ms', w', r)" by (simp add: sendObjectPatch_def)
  from resync_writes [OF this] show ?thesis by (auto split: sum.splits)
next
  case False
  obtain te1 ms1 w1 p where p: "patchNRT js api info te ms w = (te1, ms1, w1, p)"
    by (cases "patchNRT js api info te ms w")
  note pw = patchNRT_writes [OF p]
  show ?thesis
  proof (cases p)
    case (Inr n)
    with False assms p pw show ?thesis by (auto simp: sendObjectPatch_def)
  next
    case (Inl e)
    with False assms p pw have "resync api info te ms1 w1 = (te', ms', w', r)"
      by (simp add: sendObjectPatch_def)
    from resync_writes [OF this] pw show ?thesis by (auto split: sum.splits)
  qed
qed

lemma sendData_cases:
  assumes "sendData js api info te ms w = (te', ms', w', err)"
  shows "te' = te \<or>
    (\<exists>n. te' = te\<lparr>te_prevNRT := Some n, te_patchCount := 0\<rparr>) \<or>
    (\<exists>n. \<not> needsResync te \<and>
       te' = te\<lparr>te_prevNRT := Some n, te_patchCount := w64 (te_patchCount te + 1)\<rparr>)"
proof -
  obtain te1 ms1 w1 r where r: "sendObjectPatch js api info te ms w = (te1, ms1, w1, r)"
    by (cases "sendObjectPatch js api info te ms w")
  from sendObjectPatch_cases [OF r] r assms show ?thesis
    by (cases r) (auto simp: sendData_def split: if_splits sendObject_method.splits prod.splits sum.splits)
qed

lemma w64_succ: "0 \<le> x \<Longrightarrow> x < 2 ^ 63 - 1 \<Longrightarrow> w64 (x + 1) = x + 1"
  by (rule w64_id) (simp add: int64_def)

lemma patch_budget_step:
  assumes "patch_budget te" "sendData js api info te ms w = (te', ms', w', err)"
    "0 < ua_PatchResync (te_args te)" "ua_PatchResync (te_args te) < 2 ^ 63"
  shows "patch_budget te' \<and> te_args te' = te_args te"
  using sendData_cases [OF assms(2)]
proof (elim disjE exE conjE)
  fix n assume "\<not> needsResync te"
    and te': "te' = te\<lparr>te_prevNRT := Some n, te_patchCount := w64 (te_patchCount te + 1)\<rparr>"
  then have lt: "te_patchCount te < ua_PatchResync (te_args te)" using assms(3) by (simp add: needsResync_def)
  with assms(1,4) have "w64 (te_patchCount te + 1) = te_patchCount te + 1"
    by (intro w64_succ) (simp_all add: patch_budget_def)
  with assms(1) te' lt show ?thesis by (simp add: patch_budget_def)
qed (use assms(1) in \<open>auto simp: patch_budget_def\<close>)

text \<open>
  C10. The budget of patches is an invariant: in every reachable updater with a positive resync
  limit, the number of patches since the last whole object is between zero and the limit, and is
  positive only when there is an object to patch.
\<close>

theorem patch_budget_invariant:
  assumes "NewNRTUpdater ng True args tmconf = Inr te0" "upd_reachable js api te0 te"
    "0 < ua_PatchResync args" "ua_PatchResync args < 2 ^ 63"
  shows "0 \<le> te_patchCount te \<and> te_patchCount te \<le> ua_PatchResync args \<and>
     (0 < te_patchCount te \<longrightarrow> te_prevNRT te \<noteq> None)"
proof -
  from assms(1) have te0: "te_args te0 = args" "patch_budget te0"
    by (auto simp: NewNRTUpdater_def patch_budget_def)
  from assms(2) have "patch_budget te \<and> te_args te = args"
  proof induction
    case upd_start
    then show ?case using te0 by simp
  next
    case (upd_step te info ms w te' ms' w' err)
    with patch_budget_step [OF _ upd_step.hyps(2)] assms(3,4) show ?case by auto
  qed
  with assms(3) show ?thesis by (auto simp: patch_budget_def)
qed

section \<open>The whole object is written again\<close>

lemma upd_handle_step:
  assumes "upd_handle js api True info d t te ms w = (te', ms', w', conds)"
    "\<forall>c \<in> set conds. pc_Status c = ConditionTrue" "\<not> ua_Oneshot (te_args te)"
    "\<not> ua_NoPublish (te_args te)" "te_sendObject te = m_sendObjectPatch"
  shows "te_args te' = te_args te \<and> te_sendObject te' = te_sendObject te \<and>
    (\<not> needsResync te \<and> writes ms' = writes ms \<and> te_patchCount te' = w64 (te_patchCount te + 1) \<or>
     writes ms' = writes ms + 1 \<and> te_patchCount te' = 0)"
proof -
  obtain te1 ms1 w1 r where r: "sendObjectPatch js api info te ms w = (te1, ms1, w1, r)"
    by (cases "sendObjectPatch js api info te ms w")
  show ?thesis
  proof (cases r)
    case (Inl e)
    with r assms have "conds = SetCondition True t NodeTopologyUpdated ConditionFalse"
      by (auto simp: upd_handle_def upd_Update_def sendData_def Let_def)
    with SetCondition_chan [of t NodeTopologyUpdated ConditionFalse] assms(2) show ?thesis
      by (auto simp: ConditionTrue_def ConditionFalse_def)
  next
    case (Inr n)
    with r assms(1,3-5) have "te' = te1" "writes ms' = writes ms1"
      by (auto simp: upd_handle_def upd_Update_def sendData_def Let_def)
    with sendObjectPatch_cases [OF r] Inr show ?thesis by auto
  qed
qed

lemma run_patches_bounded:
  "upd_Run js api True (infos xs) te ms w = (te', ms', w', conds) \<Longrightarrow>
   \<forall>c \<in> set conds. pc_Status c = ConditionTrue \<Longrightarrow> \<not> ua_Oneshot (te_args te) \<Longrightarrow>
   \<not> ua_NoPublish (te_args te) \<Longrightarrow> te_sendObject te = m_sendObjectPatch \<Longrightarrow>
   0 < ua_PatchResync (te_args te) \<Longrightarrow> ua_PatchResync (te_args te) < 2 ^ 63 \<Longrightarrow>
   0 \<le> te_patchCount te \<Longrightarrow>
   writes ms \<le> writes ms' \<and>
   (writes ms' = writes ms \<longrightarrow> xs = [] \<or> te_patchCount te + int (length xs) \<le> ua_PatchResync (te_args te))"
proof (induction xs arbitrary: te ms w te' ms' w' conds)
  case Nil
  then show ?case by auto
next
  case (Cons x xs)
  obtain info d t where x: "x = (info, d, t)" by (cases x)
  obtain te1 ms1 w1 c1 where h: "upd_handle js api True info d t te ms w = (te1, ms1, w1, c1)"
    by (cases "upd_handle js api True info d t te ms w")
  obtain te2 ms2 w2 c2 where r: "upd_Run js api True (infos xs) te1 ms1 w1 = (te2, ms2, w2, c2)"
    by (cases "upd_Run js api True (infos xs) te1 ms1 w1")
  from Cons.prems(1) x h r have eq: "te' = te2" "ms' = ms2" "conds = c1 @ c2" by auto
  with Cons.prems(2) have c: "\<forall>c \<in> set c1. pc_Status c = ConditionTrue"
    "\<forall>c \<in> set c2. pc_Status c = ConditionTrue" by auto
  note st = upd_handle_step [OF h c(1) Cons.prems(3-5)]
  then have cfg: "\<not> ua_Oneshot (te_args te1)" "\<not> ua_NoPublish (te_args te1)"
    "te_sendObject te1 = m_sendObjectPatch" "0 < ua_PatchResync (te_args te1)"
    "ua_PatchResync (te_args te1) < 2 ^ 63" "te_args te1 = te_args te"
    using Cons.prems by auto
  have succ: "w64 (te_patchCount te + 1) = te_patchCount te + 1 \<and>
      te_patchCount te < ua_PatchResync (te_args te)" if "\<not> needsResync te"
    using that Cons.prems(6-8) w64_succ [of "te_patchCount te"] by (auto simp: needsResync_def)
  with st Cons.prems(8) have nn: "0 \<le> te_patchCount te1" by auto
  from Cons.IH [OF r c(2) cfg(1-5) nn] st succ eq cfg(6) show ?case by auto
qed

text \<open>
  C11. Drift is bounded: any sequence of successful updates longer than the resync limit writes the
  whole object at least once, whatever the server answers to the patches.
\<close>

theorem resync_happens:
  assumes "upd_Run js api True (infos xs) te ms w = (te', ms', w', conds)"
    "\<forall>c \<in> set conds. pc_Status c = ''True''" "\<not> ua_Oneshot (te_args te)"
    "\<not> ua_NoPublish (te_args te)" "te_sendObject te = m_sendObjectPatch"
    "0 < ua_PatchResync (te_args te)" "ua_PatchResync (te_args te) < 2 ^ 63"
    "0 \<le> te_patchCount te" "ua_PatchResync (te_args te) < int (length xs)"
  shows "writes ms < writes ms'"
  using run_patches_bounded [OF assms(1) _ assms(3-8)] assms(2,6,8,9)
  by (auto simp: ConditionTrue_def)

section \<open>Instances\<close>

text \<open>A server that keeps a list of objects, the newest first, and knows the JSON of two of them.\<close>

definition sample_upd_args :: upd_Args where
  "sample_upd_args = \<lparr>ua_NoPublish = False, ua_Oneshot = False, ua_Hostname = ''n1'',
     ua_KubeConfig = [], ua_PatchMode = True, ua_PatchResync = 1\<rparr>"

definition sample_te :: NRTUpdater where
  "sample_te = \<lparr>te_args = sample_upd_args,
     te_tmConfig = \<lparr>tm_Policy = ''single-numa-node'', tm_Scope = ''pod''\<rparr>,
     te_nodeGetter = CachedNodeGetter [(''n1'', \<lparr>vn_Name = ''n1'', vn_UID = ''u1'',
        vn_Capacity = [], vn_Allocatable = []\<rparr>)],
     te_sendObject = m_sendObjectPatch, te_prevNRT = None, te_patchCount = 0\<rparr>"

definition sample_info :: "string \<Rightarrow> MonitorInfo" where
  "sample_info z = \<lparr>mi_Timer = False,
     mi_Zones = [\<lparr>z_Name = z, z_Type = ''Node'', z_Costs = [], z_Resources = []\<rparr>],
     mi_Attributes = [], mi_Annotations = [(''fp'', z)]\<rparr>"

definition sample_nrt1 :: NRT where
  "sample_nrt1 = desired sample_te (sample_info ''node-0'')
     \<lparr>nrt_Name = ''n1'', nrt_Annotations = [], nrt_OwnerReferences = [], nrt_Attributes = [],
      nrt_Zones = [], nrt_Rest = []\<rparr>"

definition sample_nrt2 :: NRT where
  "sample_nrt2 = desired sample_te (sample_info ''node-1'') sample_nrt1"

definition sample_js :: json_lib where
  "sample_js =
     \<lparr>js_Marshal = (\<lambda>n. if n = sample_nrt1 then Inr ''1'' else if n = sample_nrt2 then Inr ''2''
        else Inl (Errorf ''unknown'')),
      js_CreateThreeWayJSONMergePatch = (\<lambda>a b c. Inr b)\<rparr>"

definition sample_obj :: "NRT list \<Rightarrow> string \<rightharpoonup> NRT" where
  "sample_obj w k = find (\<lambda>n. nrt_Name n = k) w"

definition sample_api :: "NRT list nrt_api" where
  "sample_api =
     \<lparr>api_Get = (\<lambda>k w. (w, case find (\<lambda>n. nrt_Name n = k) w of
        Some n \<Rightarrow> Inr n | None \<Rightarrow> Inl (Errorf ''not found''))),
      api_Create = (\<lambda>n w. (n # w, Inr n)),
      api_Update = (\<lambda>n w. (n # w, Inr n)),
      api_Patch = (\<lambda>k p w. if p = ''1'' then (sample_nrt1 # w, Inr sample_nrt1)
        else if p = ''2'' then (sample_nrt2 # w, Inr sample_nrt2) else (w, Inl (Errorf ''bad patch''))),
      api_IsNotFound = (\<lambda>e. e = Errorf ''not found'')\<rparr>"

lemma same_content_refl [simp]: "same_content n n"
  by (simp add: same_content_def)

lemma sample_obj_Cons: "sample_obj (n # w) = (sample_obj w)(nrt_Name n \<mapsto> n)"
  by (auto simp: sample_obj_def)

lemma sample_api_spec: "nrt_api_spec sample_js sample_api sample_obj"
  unfolding nrt_api_spec_def
proof (intro conjI allI impI)
  show "case api_Get sample_api name w of (w', Inl e) \<Rightarrow> sample_obj w' = sample_obj w
      | (w', Inr n) \<Rightarrow> sample_obj w' = sample_obj w \<and> sample_obj w name = Some n \<and> nrt_Name n = name"
    for name w
    by (auto simp: sample_api_def sample_obj_def find_Some_iff split: option.splits)
  show "stores sample_obj n w (api_Create sample_api n w)" "stores sample_obj n w (api_Update sample_api n w)"
    for n w by (simp_all add: stores_def sample_api_def sample_obj_Cons)
  fix old new p w
  assume "sample_obj w (nrt_Name old) = Some old \<and> nrt_Name new = nrt_Name old \<and>
    MakeNRTPatch sample_js old new = Inr p"
  then have "pi_Patch p = ''1'' \<and> new = sample_nrt1 \<or> pi_Patch p = ''2'' \<and> new = sample_nrt2"
    by (auto simp: MakeNRTPatch_def sample_js_def split: sum.splits if_splits)
  then show "stores sample_obj new w (api_Patch sample_api (nrt_Name old) (pi_Patch p) w)"
    by (auto simp: stores_def sample_api_def sample_obj_Cons)
qed

definition sample_te1 :: NRTUpdater where
  "sample_te1 = sample_te\<lparr>te_prevNRT := Some sample_nrt1\<rparr>"

definition sample_ms0 :: metrics_state where
  "sample_ms0 = \<lparr>ms_nodeName = ''n1'', ms_calls = []\<rparr>"

definition sample_te2 :: NRTUpdater where
  "sample_te2 = sample_te\<lparr>te_prevNRT := Some sample_nrt2, te_patchCount := 1\<rparr>"

lemma sample_in_sync: "in_sync sample_obj sample_te1 [sample_nrt1]"
  by code_simp

lemma sample_te_config:
  "\<not> ua_NoPublish (te_args sample_te1)" "\<not> ua_Oneshot (te_args sample_te1)"
  "te_sendObject sample_te1 = m_sendObjectPatch" "ua_PatchResync (te_args sample_te1) = 1"
  "te_patchCount sample_te1 = 0"
  by (simp_all add: sample_te1_def sample_te_def sample_upd_args_def)

lemma wf_sample_info: "wf_gomap (mi_Annotations (sample_info z))"
  by (simp add: sample_info_def wf_gomap_def)

lemma sample_patch:
  "fst (upd_Update sample_js sample_api (sample_info ''node-1'') sample_te1 sample_ms0 [sample_nrt1]) = sample_te2"
  "snd (snd (upd_Update sample_js sample_api (sample_info ''node-1'') sample_te1 sample_ms0 [sample_nrt1])) =
     ([sample_nrt2, sample_nrt1], None)"
  by code_simp+

theorem update_publishes_witness:
  "\<exists>te' ms' w' n. upd_Update sample_js sample_api (sample_info ''node-1'') sample_te1 sample_ms0 [sample_nrt1] =
      (te', ms', w', None) \<and> te_patchCount te' = 1 \<and> carries sample_te1 (sample_info ''node-1'') n \<and>
     sample_obj w' ''n1'' = Some n"
proof -
  obtain ms' where u: "upd_Update sample_js sample_api (sample_info ''node-1'') sample_te1 sample_ms0
      [sample_nrt1] = (sample_te2, ms', [sample_nrt2, sample_nrt1], None)"
    using sample_patch
    by (cases "upd_Update sample_js sample_api (sample_info ''node-1'') sample_te1 sample_ms0 [sample_nrt1]") auto
  from update_publishes [OF sample_api_spec wf_sample_info sample_in_sync sample_te_config(1) u]
  obtain n where "carries sample_te1 (sample_info ''node-1'') n"
    "sample_obj [sample_nrt2, sample_nrt1] = (sample_obj [sample_nrt1])(ua_Hostname (te_args sample_te1) \<mapsto> n)"
    by auto
  with u show ?thesis
    by (auto simp: sample_te2_def sample_te1_def sample_te_def sample_upd_args_def)
qed

abbreviation sample_updates :: "(MonitorInfo \<times> int \<times> int) list" where
  "sample_updates \<equiv> [(sample_info ''node-1'', 4, 100), (sample_info ''node-0'', 5, 200)]"

lemma sample_run:
  "case upd_Run sample_js sample_api True (infos sample_updates) sample_te1 sample_ms0 [sample_nrt1] of
     (te', ms', w', conds) \<Rightarrow> map pc_Status conds = [''True'', ''True'']"
  by code_simp

theorem run_condition_truthful_witness:
  "\<exists>te' ms' w' conds n.
     upd_Run sample_js sample_api True (infos sample_updates) sample_te1 sample_ms0 [sample_nrt1] =
       (te', ms', w', conds) \<and> length conds = 2 \<and> sample_obj w' ''n1'' = Some n \<and>
     carries sample_te1 (sample_info ''node-0'') n"
proof -
  obtain te' ms' w' conds where run: "upd_Run sample_js sample_api True
      (infos ([(sample_info ''node-1'', 4, 100)] @ [(sample_info ''node-0'', 5, 200)]))
      sample_te1 sample_ms0 [sample_nrt1] = (te', ms', w', conds)"
    by (cases "upd_Run sample_js sample_api True
      (infos ([(sample_info ''node-1'', 4, 100)] @ [(sample_info ''node-0'', 5, 200)]))
      sample_te1 sample_ms0 [sample_nrt1]")
  with sample_run have st: "map pc_Status conds = [''True'', ''True'']" by simp
  then have "pc_Status (last conds) = ''True''" by (cases conds rule: rev_cases) auto
  with run_condition_truthful [OF sample_api_spec sample_in_sync _ run] run st
  show ?thesis by (auto simp: wf_sample_info sample_te1_def sample_te_def sample_upd_args_def)
qed

theorem patch_budget_invariant_witness:
  "NewNRTUpdater (te_nodeGetter sample_te) True sample_upd_args (te_tmConfig sample_te) = Inr sample_te \<and>
   (\<exists>te'. upd_reachable sample_js sample_api sample_te te' \<and> te_patchCount te' = 1 \<and>
      te_patchCount te' \<le> ua_PatchResync sample_upd_args)"
proof -
  have new: "NewNRTUpdater (te_nodeGetter sample_te) True sample_upd_args (te_tmConfig sample_te) = Inr sample_te"
    by (simp add: NewNRTUpdater_def sample_te_def sample_upd_args_def)
  have "fst (sendData sample_js sample_api (sample_info ''node-0'') sample_te sample_ms0 []) = sample_te1"
    by code_simp
  then have r1: "upd_reachable sample_js sample_api sample_te sample_te1"
    by (metis prod.collapse upd_start upd_step)
  have "upd_reachable sample_js sample_api sample_te sample_te2"
    using sample_patch(1) unfolding upd_Update_def by (metis prod.collapse r1 upd_step)
  moreover from patch_budget_invariant [OF new this] have
    "te_patchCount sample_te2 \<le> ua_PatchResync sample_upd_args"
    by (simp add: sample_upd_args_def)
  ultimately show ?thesis using new by (auto simp: sample_te2_def)
qed

theorem resync_happens_witness:
  "\<exists>te' ms' w' conds.
     upd_Run sample_js sample_api True (infos sample_updates) sample_te1 sample_ms0 [sample_nrt1] =
       (te', ms', w', conds) \<and> writes sample_ms0 < writes ms'"
proof -
  obtain te' ms' w' conds where run: "upd_Run sample_js sample_api True (infos sample_updates)
      sample_te1 sample_ms0 [sample_nrt1] = (te', ms', w', conds)"
    by (cases "upd_Run sample_js sample_api True (infos sample_updates) sample_te1 sample_ms0 [sample_nrt1]")
  with sample_run have "map pc_Status conds = [''True'', ''True'']" by simp
  then have "\<forall>c \<in> set conds. pc_Status c = ''True''" by auto
  from resync_happens [OF run this sample_te_config(2,1,3)] run show ?thesis
    by (auto simp: sample_te_config)
qed

end
