(* ===== verification/ReadinessProps.thy ===== *)
theory ReadinessProps
  imports PodReadiness
begin

text \<open>The properties of the condition injector.\<close>

text \<open>
  What is expected of the API server about the pod of the exporter: a read returns it, an accepted
  update of its own status replaces the conditions, and a refused request changes nothing.
\<close>

definition pods_api_spec :: "'w pods_api \<Rightarrow> string \<Rightarrow> string \<Rightarrow> ('w \<Rightarrow> v1_Pod) \<Rightarrow> bool" where
  "pods_api_spec cs ns name pod_of \<longleftrightarrow>
     (\<forall>w. case pods_Get cs ns name w of
        (w', Inl e) \<Rightarrow> pod_of w' = pod_of w
      | (w', Inr p) \<Rightarrow> pod_of w' = pod_of w \<and> p = pod_of w) \<and>
     (\<forall>conds w. case pods_UpdateStatus cs ns ((pod_of w)\<lparr>pod_Conditions := conds\<rparr>) w of
        (w', Inl e) \<Rightarrow> pod_of w' = pod_of w
      | (w', Inr q) \<Rightarrow> pod_of w' = (pod_of w)\<lparr>pod_Conditions := conds\<rparr>)"

abbreviation condition_of :: "v1_Pod \<Rightarrow> string \<Rightarrow> PodCondition option" where
  "condition_of p ty \<equiv> find (\<lambda>d. pc_Type d = ty) (pod_Conditions p)"

definition shows_condition :: "v1_Pod \<Rightarrow> PodCondition \<Rightarrow> bool" where
  "shows_condition p c \<longleftrightarrow>
     (case condition_of p (pc_Type c) of None \<Rightarrow> False | Some d \<Rightarrow> equalPodCondition d c)"

text \<open>Every condition in the cache is shown by the pod.\<close>

definition cache_ok :: "ConditionInjector \<Rightarrow> v1_Pod \<Rightarrow> bool" where
  "cache_ok ci p \<longleftrightarrow>
     (\<forall>ty c. map_of (inj_lastUpdate ci) ty = Some c \<longrightarrow> pc_Type c = ty \<and> shows_condition p c)"

lemma equalPodCondition_refl [simp]: "equalPodCondition c c"
  by (simp add: equalPodCondition_def)

lemma equalPodCondition_trans:
  "equalPodCondition a b \<Longrightarrow> equalPodCondition b c \<Longrightarrow> equalPodCondition a c"
  by (simp add: equalPodCondition_def)

lemma find_put_condition:
  "find (\<lambda>d. pc_Type d = ty) (put_condition c cs) =
     (if ty = pc_Type c then Some c else find (\<lambda>d. pc_Type d = ty) cs)"
  by (induction cs) auto

lemma filter_put_condition:
  "ty \<noteq> pc_Type c \<Longrightarrow>
   filter (\<lambda>d. pc_Type d = ty) (put_condition c cs) = filter (\<lambda>d. pc_Type d = ty) cs"
  by (induction cs) auto

lemma shows_put_condition:
  "shows_condition (p\<lparr>pod_Conditions := put_condition c (pod_Conditions p)\<rparr>) d \<longleftrightarrow>
     (if pc_Type d = pc_Type c then equalPodCondition c d else shows_condition p d)"
  by (simp add: shows_condition_def find_put_condition)

lemma cached_shown:
  assumes "cache_ok ci p" "map_of (inj_lastUpdate ci) (pc_Type c) = Some old" "equalPodCondition old c"
  shows "shows_condition p c"
proof -
  from assms(1,2) have "pc_Type old = pc_Type c" "shows_condition p old" by (auto simp: cache_ok_def)
  then show ?thesis using equalPodCondition_trans [OF _ assms(3)]
    by (simp add: shows_condition_def split: option.splits)
qed

text \<open>The two ways through the injector: the cache, or a read followed by a write.\<close>

lemma Inject_cases:
  assumes spec: "pods_api_spec cs (inj_ns ci) (inj_podName ci) pod_of"
    and inject: "Inject cs cond ci w = (ci', w', err)"
  obtains
    (cached) old where "map_of (inj_lastUpdate ci) (pc_Type cond) = Some old"
      "equalPodCondition old cond" "ci' = ci" "w' = w" "err = None"
  | (failed) e where "err = Some e" "ci' = ci" "pod_of w' = pod_of w"
  | (written) "err = None"
      "ci' = ci\<lparr>inj_lastUpdate := AList.update (pc_Type cond) cond (inj_lastUpdate ci)\<rparr>"
      "pod_of w' = (pod_of w)\<lparr>pod_Conditions := put_condition cond (pod_Conditions (pod_of w))\<rparr>"
proof (cases "\<exists>old. map_of (inj_lastUpdate ci) (pc_Type cond) = Some old \<and> equalPodCondition old cond")
  case True
  then obtain old where old: "map_of (inj_lastUpdate ci) (pc_Type cond) = Some old"
    "equalPodCondition old cond" by blast
  with inject have "ci' = ci" "w' = w" "err = None" by (simp_all add: Inject_def)
  with old show thesis by (rule cached)
next
  case False
  then have no: "\<not> (case map_of (inj_lastUpdate ci) (pc_Type cond) of
      Some oldCond \<Rightarrow> equalPodCondition oldCond cond | None \<Rightarrow> False)"
    by (auto split: option.splits)
  obtain w1 g where get: "pods_Get cs (inj_ns ci) (inj_podName ci) w = (w1, g)"
    by (cases "pods_Get cs (inj_ns ci) (inj_podName ci) w")
  have "case pods_Get cs (inj_ns ci) (inj_podName ci) w of (w', Inl e) \<Rightarrow> pod_of w' = pod_of w
      | (w', Inr p) \<Rightarrow> pod_of w' = pod_of w \<and> p = pod_of w"
    using spec by (simp add: pods_api_spec_def)
  with get have g: "pod_of w1 = pod_of w" "\<And>p. g = Inr p \<Longrightarrow> p = pod_of w" by (cases g; simp)+
  show thesis
  proof (cases g)
    case (Inl e)
    with inject no get have "err = Some e" "ci' = ci" "w' = w1" by (auto simp: Inject_def)
    with g(1) show thesis by (intro failed [of e]) simp_all
  next
    case (Inr p)
    let ?p = "(pod_of w)\<lparr>pod_Conditions := put_condition cond (pod_Conditions (pod_of w))\<rparr>"
    obtain w2 u where u: "pods_UpdateStatus cs (inj_ns ci) ?p w1 = (w2, u)"
      by (cases "pods_UpdateStatus cs (inj_ns ci) ?p w1")
    have "case pods_UpdateStatus cs (inj_ns ci) ?p w1 of (w', Inl e) \<Rightarrow> pod_of w' = pod_of w1
        | (w', Inr q) \<Rightarrow> pod_of w' = ?p"
      using spec [unfolded pods_api_spec_def, THEN conjunct2, rule_format, of w1] unfolding g(1) .
    with u have wu: "case u of Inl e \<Rightarrow> pod_of w2 = pod_of w1 | Inr q \<Rightarrow> pod_of w2 = ?p"
      by (cases u) simp_all
    from inject no get g(2) [OF Inr] Inr u have out:
      "w' = w2" "err = (case u of Inl e \<Rightarrow> Some e | Inr q \<Rightarrow> None)"
      "ci' = (case u of Inl e \<Rightarrow> ci
        | Inr q \<Rightarrow> ci\<lparr>inj_lastUpdate := AList.update (pc_Type cond) cond (inj_lastUpdate ci)\<rparr>)"
      by (auto simp: Inject_def split: sum.splits)
    show thesis
    proof (cases u)
      case (Inl e)
      with wu out g(1) show thesis by (intro failed [of e]) simp_all
    next
      case (Inr q)
      with wu out show thesis by (intro written) simp_all
    qed
  qed
qed

text \<open>
  C24. Injecting a condition: when it succeeds the pod shows the condition, up to its timestamp, and
  its conditions of other types are untouched; when it fails neither the pod nor the cache change.
  In both cases every cached condition is one that the pod shows.
\<close>

theorem inject_effective:
  assumes "pods_api_spec cs (inj_ns ci) (inj_podName ci) pod_of" "cache_ok ci (pod_of w)"
    "Inject cs cond ci w = (ci', w', err)"
  shows "cache_ok ci' (pod_of w') \<and>
     (case err of
        Some e \<Rightarrow> ci' = ci \<and> pod_of w' = pod_of w
      | None \<Rightarrow> shows_condition (pod_of w') cond) \<and>
     (\<forall>ty. ty \<noteq> pc_Type cond \<longrightarrow>
        filter (\<lambda>d. pc_Type d = ty) (pod_Conditions (pod_of w')) =
        filter (\<lambda>d. pc_Type d = ty) (pod_Conditions (pod_of w)))"
  using assms(1,3)
proof (cases rule: Inject_cases)
  case (cached old)
  with assms(2) cached_shown [OF assms(2) cached(1,2)] show ?thesis by simp
next
  case (failed e)
  with assms(2) show ?thesis by simp
next
  case written
  with assms(2) show ?thesis
    by (auto simp: cache_ok_def shows_put_condition filter_put_condition split: if_splits)
qed

text \<open>
  C25. At steady state the server is left alone: once a condition has been injected, injecting one
  that differs in its timestamp only makes no request and changes nothing, in any later world.
\<close>

theorem inject_steady:
  assumes "pods_api_spec cs (inj_ns ci) (inj_podName ci) pod_of"
    "Inject cs cond ci w = (ci', w', None)" "equalPodCondition cond cond'"
  shows "Inject cs cond' ci' v = (ci', v, None)"
  using assms(1,2)
proof (cases rule: Inject_cases)
  case (cached old)
  with assms(3) equalPodCondition_trans [of old cond cond'] show ?thesis
    by (simp add: Inject_def equalPodCondition_def)
next
  case written
  with assms(3) show ?thesis by (simp add: Inject_def equalPodCondition_def)
qed simp

section \<open>Instances\<close>

definition sample_pods_api :: "v1_Pod pods_api" where
  "sample_pods_api = \<lparr>pods_Get = (\<lambda>ns name w. (w, Inr w)), pods_UpdateStatus = (\<lambda>ns p w. (p, Inr p))\<rparr>"

definition sample_pod :: v1_Pod where
  "sample_pod = \<lparr>pod_Namespace = ''ns'', pod_Name = ''rte'', pod_Conditions =
     [\<lparr>pc_Type = ''Ready'', pc_Status = ''True'', pc_LastTransitionTime = 1, pc_Reason = [], pc_Message = []\<rparr>]\<rparr>"

definition sample_cond :: "int \<Rightarrow> PodCondition" where
  "sample_cond t = newConditionTemplate t PodresourcesFetched ConditionTrue"

lemma sample_pods_api_spec: "pods_api_spec sample_pods_api ns name (\<lambda>w. w)"
  by (simp add: pods_api_spec_def sample_pods_api_def)

lemma sample_inject:
  "Inject sample_pods_api (sample_cond 5) (NewConditionInjectorWithIdentity ''ns'' ''rte'') sample_pod =
     (\<lparr>inj_ns = ''ns'', inj_podName = ''rte'', inj_lastUpdate = [(''PodresourcesFetched'', sample_cond 5)]\<rparr>,
      sample_pod\<lparr>pod_Conditions := pod_Conditions sample_pod @ [sample_cond 5]\<rparr>, None)"
  by (simp add: Inject_def sample_pods_api_def NewConditionInjectorWithIdentity_def sample_cond_def
      newConditionTemplate_def PodresourcesFetched_def sample_pod_def)

theorem inject_effective_witness:
  "\<exists>ci' w'. Inject sample_pods_api (sample_cond 5) (NewConditionInjectorWithIdentity ''ns'' ''rte'') sample_pod =
     (ci', w', None) \<and> shows_condition w' (sample_cond 5)"
proof -
  have "cache_ok (NewConditionInjectorWithIdentity ''ns'' ''rte'') sample_pod"
    by (simp add: cache_ok_def NewConditionInjectorWithIdentity_def)
  from inject_effective [OF sample_pods_api_spec this sample_inject] sample_inject show ?thesis by simp
qed

theorem inject_steady_witness:
  "\<exists>ci' w'. Inject sample_pods_api (sample_cond 5) (NewConditionInjectorWithIdentity ''ns'' ''rte'') sample_pod =
     (ci', w', None) \<and> Inject sample_pods_api (sample_cond 9) ci' w' = (ci', w', None)"
proof -
  have "equalPodCondition (sample_cond 5) (sample_cond 9)"
    by (simp add: equalPodCondition_def sample_cond_def newConditionTemplate_def)
  from inject_steady [OF sample_pods_api_spec sample_inject this] sample_inject show ?thesis by blast
qed

end
