(* ===== verification/Notification.thy ===== *)
theory Notification
  imports GoStd
begin

text \<open>
  \<^verbatim>\<open>pkg/notification/notification.go\<close>: the source of wake-up events. The file watcher is the library
  \<^verbatim>\<open>fsnotify\<close>; what it reports arrives as input, and the bits of its operations are arguments. Times
  and durations are nanoseconds.
\<close>

record Event =
  ev_Timestamp :: int
  ev_TimerInterval :: int

definition IsTimer :: "Event \<Rightarrow> bool" where
  "IsTimer ev \<longleftrightarrow> ev_TimerInterval ev > 0"

record fsnotify_ops =
  op_Write :: "32 word"
  op_Chmod :: "32 word"

record fsnotify_Event =
  fe_Name :: string
  fe_Op :: "32 word"

text \<open>A filter is the closure that \<^verbatim>\<open>AddFile\<close> appends, given by its path, or one of the two constants.\<close>

datatype FilterEvent = FilterFile string | FilterNothing | FilterEverything

unbundle bit_operations_syntax

fun run_filter :: "fsnotify_ops \<Rightarrow> FilterEvent \<Rightarrow> fsnotify_Event \<Rightarrow> bool" where
  "run_filter ops (FilterFile notifyFilePath) event =
     (if fe_Name event = notifyFilePath then
        (if fe_Op event AND op_Chmod ops = op_Chmod ops then True
         else if fe_Op event AND op_Write ops = op_Write ops then True
         else False)
      else False)"
| "run_filter ops FilterNothing event = False"
| "run_filter ops FilterEverything event = True"

fun AnyFilter :: "fsnotify_ops \<Rightarrow> FilterEvent list \<Rightarrow> fsnotify_Event \<Rightarrow> bool" where
  "AnyFilter ops [] event = False"
| "AnyFilter ops (filt # filters) event =
     (if run_filter ops filt event then True else AnyFilter ops filters event)"

text \<open>Of the watcher the source keeps the paths it watches.\<close>

record UnlimitedEventSource =
  es_sleepInterval :: int
  es_filters :: "FilterEvent list"
  es_watched :: "string list"

definition NewUnlimitedEventSource :: "gerr option \<Rightarrow> gerr + UnlimitedEventSource" where
  "NewUnlimitedEventSource watcherErr =
     (case watcherErr of
        Some err \<Rightarrow> Inl (Wrapf ''failed to create the watcher'' err)
      | None \<Rightarrow> Inr \<lparr>es_sleepInterval = 0, es_filters = [], es_watched = []\<rparr>)"

definition SetInterval :: "int \<Rightarrow> UnlimitedEventSource \<Rightarrow> UnlimitedEventSource \<times> gerr option" where
  "SetInterval interval es =
     (if interval < 0 then (es, Some (Errorf ''interval cannot be negative''))
      else if es_sleepInterval es > 0
      then (es, Some (Errorf ''interval already set, and only one time-based source supported''))
      else (es\<lparr>es_sleepInterval := interval\<rparr>, None))"

text \<open>
  The file that is watched is created, unless it exists with content or is not a regular file.
  \<open>st\<close> is what \<^verbatim>\<open>os.Stat\<close> finds: a size and whether the file is regular.
\<close>

record notify_fs =
  nf_MkdirAll :: "string \<Rightarrow> gerr option"
  nf_Stat :: "string \<Rightarrow> (int \<times> bool) option"
  nf_Create :: "string \<Rightarrow> gerr option"
  nf_Close :: "string \<Rightarrow> gerr option"
  nf_Watch :: "string \<Rightarrow> gerr option"

text \<open>\<^verbatim>\<open>filepath.Dir\<close>: everything up to the last slash, cleaned.\<close>

definition PathDir :: "string \<Rightarrow> string" where
  "PathDir path = Clean (rev (dropWhile (\<lambda>c. c \<noteq> CHR ''/'') (rev path)))"

definition ensureNotifyFilePath :: "notify_fs \<Rightarrow> string \<Rightarrow> gerr option" where
  "ensureNotifyFilePath fs notifyFilePath0 =
     (let notifyFilePath = Clean notifyFilePath0 in
      case nf_MkdirAll fs (PathDir notifyFilePath) of
        Some err \<Rightarrow> Some err
      | None \<Rightarrow>
          let create = (case nf_Create fs notifyFilePath of
                          Some err \<Rightarrow> Some err | None \<Rightarrow> nf_Close fs notifyFilePath)
          in (case nf_Stat fs notifyFilePath of
                Some (sz, isReg) \<Rightarrow>
                  if sz > 0 \<or> \<not> isReg
                  then Some (Errorf (''cannot use '' @ notifyFilePath @ '': already exists''))
                  else create
              | None \<Rightarrow> create))"

text \<open>A watch that cannot be added is logged only; \<open>nf_Watch\<close> is the watcher's \<^verbatim>\<open>Add\<close>.\<close>

definition tryToWatch :: "notify_fs \<Rightarrow> string \<Rightarrow> UnlimitedEventSource \<Rightarrow> UnlimitedEventSource" where
  "tryToWatch fs fsPath es =
     (case nf_Watch fs fsPath of
        Some err \<Rightarrow> es
      | None \<Rightarrow> es\<lparr>es_watched := es_watched es @ [fsPath]\<rparr>)"

definition AddFile ::
    "notify_fs \<Rightarrow> string \<Rightarrow> UnlimitedEventSource \<Rightarrow> UnlimitedEventSource \<times> gerr option" where
  "AddFile fs notifyFilePath es =
     (if notifyFilePath = [] then (es, None)
      else
        case ensureNotifyFilePath fs notifyFilePath of
          Some err \<Rightarrow> (es, Some err)
        | None \<Rightarrow>
            ((tryToWatch fs notifyFilePath es)\<lparr>es_filters := es_filters es @ [FilterFile notifyFilePath]\<rparr>,
             None))"

text \<open>Closing the watcher ends all watches.\<close>

definition es_Close :: "UnlimitedEventSource \<Rightarrow> UnlimitedEventSource" where
  "es_Close es = es\<lparr>es_watched := []\<rparr>"

section \<open>The loop\<close>

text \<open>
  What the loop's \<^verbatim>\<open>select\<close> receives. A file event comes with the time it is handled. Without an
  interval the channel of ticks never fires, so a tick is not received.
\<close>

datatype es_input = es_Tick int | es_FsEvent fsnotify_Event int | es_Error | es_Stop

fun es_loop :: "fsnotify_ops \<Rightarrow> UnlimitedEventSource \<Rightarrow> es_input list \<Rightarrow> Event list \<times> bool" where
  "es_loop ops es [] = ([], False)"
| "es_loop ops es (es_Tick tickTs # rest) =
     (case es_loop ops es rest of (evs, done) \<Rightarrow>
        if es_sleepInterval es > 0
        then (\<lparr>ev_Timestamp = tickTs, ev_TimerInterval = es_sleepInterval es\<rparr> # evs, done)
        else (evs, done))"
| "es_loop ops es (es_FsEvent event now # rest) =
     (case es_loop ops es rest of (evs, done) \<Rightarrow>
        if AnyFilter ops (es_filters es) event
        then (\<lparr>ev_Timestamp = now, ev_TimerInterval = 0\<rparr> # evs, done)
        else (evs, done))"
| "es_loop ops es (es_Error # rest) = es_loop ops es rest"
| "es_loop ops es (es_Stop # rest) = ([], True)"

text \<open>The events sent, and whether the end was signalled on \<^verbatim>\<open>doneChan\<close>.\<close>

definition es_Run ::
    "fsnotify_ops \<Rightarrow> UnlimitedEventSource \<Rightarrow> int \<Rightarrow> es_input list \<Rightarrow> Event list \<times> bool" where
  "es_Run ops es now inputs =
     (case es_loop ops es inputs of (evs, done) \<Rightarrow>
        (\<lparr>ev_Timestamp = now, ev_TimerInterval = 0\<rparr> # evs, done))"

section \<open>Facts\<close>

lemma tryToWatch_simps [simp]:
  "es_sleepInterval (tryToWatch fs p es) = es_sleepInterval es" "es_filters (tryToWatch fs p es) = es_filters es"
  by (simp_all add: tryToWatch_def split: option.split)

text \<open>Adding a file that can be created succeeds also when it cannot be watched.\<close>

lemma AddFile_unwatched:
  assumes "path \<noteq> []" "ensureNotifyFilePath fs path = None" "nf_Watch fs path = Some e"
  shows "AddFile fs path es = (es\<lparr>es_filters := es_filters es @ [FilterFile path]\<rparr>, None)"
  using assms by (simp add: AddFile_def tryToWatch_def)

lemma AnyFilter_iff: "AnyFilter ops fs ev \<longleftrightarrow> (\<exists>f \<in> set fs. run_filter ops f ev)"
  by (induction fs) auto

text \<open>The inputs that wake the exporter up, and the event each gives.\<close>

fun es_event :: "fsnotify_ops \<Rightarrow> UnlimitedEventSource \<Rightarrow> es_input \<Rightarrow> Event list" where
  "es_event ops es (es_Tick ts) =
     (if es_sleepInterval es > 0 then [\<lparr>ev_Timestamp = ts, ev_TimerInterval = es_sleepInterval es\<rparr>] else [])"
| "es_event ops es (es_FsEvent ev now) =
     (if \<exists>f \<in> set (es_filters es). run_filter ops f ev
      then [\<lparr>ev_Timestamp = now, ev_TimerInterval = 0\<rparr>] else [])"
| "es_event ops es es_Error = []"
| "es_event ops es es_Stop = []"

lemma es_loop_events:
  "es_loop ops es ins =
     (concat (map (es_event ops es) (takeWhile (\<lambda>i. i \<noteq> es_Stop) ins)), es_Stop \<in> set ins)"
  by (induction ops es ins rule: es_loop.induct) (auto simp: AnyFilter_iff)

text \<open>
  C39. The event source wakes the exporter up once at the start, then once for every tick and for
  every file event that a filter accepts, in the order received and up to the stop request; only
  ticks are marked as timer events. It signals its end precisely when it was told to stop.
\<close>

theorem event_source_wakeups:
  "es_Run ops es now ins =
     (\<lparr>ev_Timestamp = now, ev_TimerInterval = 0\<rparr> #
        concat (map (es_event ops es) (takeWhile (\<lambda>i. i \<noteq> es_Stop) ins)),
      es_Stop \<in> set ins) \<and>
   filter IsTimer (fst (es_Run ops es now ins)) =
     concat (map (\<lambda>i. case i of es_Tick ts \<Rightarrow> es_event ops es i | _ \<Rightarrow> [])
       (takeWhile (\<lambda>i. i \<noteq> es_Stop) ins))"
proof -
  have "filter IsTimer (concat (map (es_event ops es) zs)) =
      concat (map (\<lambda>i. case i of es_Tick ts \<Rightarrow> es_event ops es i | _ \<Rightarrow> []) zs)" for zs
    by (induction zs) (auto simp: IsTimer_def split: es_input.splits)
  then show ?thesis by (simp add: es_Run_def es_loop_events IsTimer_def)
qed

end
