(* ===== verification/Observer.thy ===== *)
theory Observer
  imports ResourceMonitor NRTUpdater Notification
begin

text \<open>
  \<^verbatim>\<open>pkg/resourcetopologyexporter/resourceobserver.go\<close>: on every event the monitor scans and the result
  goes to the updater. Durations are nanoseconds in 64 bits; their text and rounding are those of
  Go's package \<^verbatim>\<open>time\<close>.
\<close>

section \<open>Durations\<close>

definition minDuration :: int where
  "minDuration = - (2 ^ 63)"

definition maxDuration :: int where
  "maxDuration = 2 ^ 63 - 1"

text \<open>The difference of two times saturates.\<close>

definition Time_Sub :: "int \<Rightarrow> int \<Rightarrow> int" where
  "Time_Sub t u = max minDuration (min maxDuration (t - u))"

definition Milliseconds :: "int \<Rightarrow> int" where
  "Milliseconds d = (if d < 0 then - ((- d) div 1000000) else d div 1000000)"

definition Second :: int where
  "Second = 1000000000"

text \<open>Rounding to a positive unit, halves away from zero, saturating at the extremes.\<close>

definition Round :: "int \<Rightarrow> int \<Rightarrow> int" where
  "Round d m =
     (let r = (if d < 0 then (- d) mod m else d mod m) in
      if d < 0 then
        (if r + r < m then d + r
         else if d - m + r \<ge> minDuration then d - m + r else minDuration)
      else if r + r < m then d - r
      else if d + m - r \<le> maxDuration then d + m - r else maxDuration)"

text \<open>The fraction of a number in units of ten to the \<open>prec\<close>, without trailing zeros.\<close>

definition frac_text :: "int \<Rightarrow> nat \<Rightarrow> string" where
  "frac_text v prec =
     (let digits = show_uint (v mod 10 ^ prec);
          padded = replicate (prec - length digits) (CHR ''0'') @ digits;
          ds = rev (dropWhile (\<lambda>c. c = CHR ''0'') (rev (if prec = 0 then [] else padded)))
      in if ds = [] then [] else CHR ''.'' # ds)"

definition Duration_String :: "int \<Rightarrow> string" where
  "Duration_String d =
     (let u = \<bar>d\<bar>;
          text =
            (if u < Second then
               (if u = 0 then ''0s''
                else if u < 1000 then show_uint u @ ''ns''
                else if u < 1000000
                then show_uint (u div 1000) @ frac_text u 3 @ [CHR 0xC2, CHR 0xB5, CHR ''s'']
                else show_uint (u div 1000000) @ frac_text u 6 @ ''ms'')
             else
               let secs = u div Second;
                   s = show_uint (secs mod 60) @ frac_text u 9 @ ''s'';
                   mins = secs div 60;
                   ms = (if mins > 0 then show_uint (mins mod 60) @ ''m'' @ s else s);
                   hours = mins div 60
               in if hours > 0 then show_uint hours @ ''h'' @ ms else ms)
      in if d < 0 then CHR ''-'' # text else text)"

definition clampTime :: "int \<Rightarrow> int" where
  "clampTime t = (if t < 0 then 0 else t)"

section \<open>The observer\<close>

text \<open>
  The body of the first case of \<^verbatim>\<open>Run\<close>: \<open>scan\<close> is the monitor's method applied to the exclude list,
  \<open>tsDiff\<close> the time it takes in milliseconds and \<open>now\<close> the time at its end. A scan that fails comes
  with an empty response, whose map of annotations is nil; a nil map is \<open>None\<close>.
\<close>

definition obs_annotations ::
    "bool \<Rightarrow> Event \<Rightarrow> int \<Rightarrow> (string, string) gomap option \<Rightarrow> (string, string) gomap option go" where
  "obs_annotations exposeTiming ev tsWakeupDiff annotations =
     (if exposeTiming then
        (case annotations of
           None \<Rightarrow> Panic NilMapWrite
         | Some m \<Rightarrow>
             Ret (Some (AList.update UpdateInterval (Duration_String (clampTime (ev_TimerInterval ev)))
               (AList.update SleepDuration (Duration_String (clampTime (Round tsWakeupDiff Second))) m))))
      else Ret annotations)"

definition obs_handle ::
    "bool \<Rightarrow> bool \<Rightarrow> (metrics_state \<Rightarrow> metrics_state \<times> (gerr + ScanResponse)) \<Rightarrow> int \<Rightarrow> int \<Rightarrow>
     Event \<Rightarrow> int \<Rightarrow> metrics_state \<Rightarrow> (metrics_state \<times> MonitorInfo list \<times> PodCondition list) go" where
  "obs_handle exposeTiming condChan scan tsDiff now ev lastWakeup ms =
     (let info0 = \<lparr>mi_Timer = IsTimer ev, mi_Zones = [], mi_Attributes = [], mi_Annotations = []\<rparr>;
          tsWakeupDiff = Time_Sub (ev_Timestamp ev) lastWakeup;
          ms1 = UpdateWakeupDelayMetric (UpdateReason info0) (Milliseconds tsWakeupDiff) ms
      in case scan ms1 of
           (ms2, r) \<Rightarrow>
             go_bind (obs_annotations exposeTiming ev tsWakeupDiff
                        (case r of Inl e \<Rightarrow> None | Inr sr \<Rightarrow> Some (sr_Annotations sr)))
               (\<lambda>annotations.
                  case r of
                    Inl err \<Rightarrow> Ret (ms2, [], SetCondition condChan now PodresourcesFetched ConditionFalse)
                  | Inr sr \<Rightarrow>
                      let info = info0\<lparr>mi_Zones := sr_Zones sr, mi_Attributes := sr_Attributes sr,
                                   mi_Annotations := (case annotations of None \<Rightarrow> [] | Some m \<Rightarrow> m)\<rparr>
                      in Ret (UpdateOperationDelayMetric ''podresources_scan'' (UpdateReason info) tsDiff ms2,
                              [info], SetCondition condChan now PodresourcesFetched ConditionTrue)))"

text \<open>
  The loop. Every event comes with the answers of its environment: the list of pods, the time the
  scan takes and the time at its end.
\<close>

datatype 'a obs_msg = obs_Event Event 'a int int | obs_Stop

fun obs_Run ::
    "bool \<Rightarrow> bool \<Rightarrow> ('a \<Rightarrow> metrics_state \<Rightarrow> metrics_state \<times> (gerr + ScanResponse)) \<Rightarrow> 'a obs_msg list \<Rightarrow>
     int \<Rightarrow> metrics_state \<Rightarrow> (metrics_state \<times> MonitorInfo list \<times> PodCondition list) go" where
  "obs_Run exposeTiming condChan scan [] lastWakeup ms = Ret (ms, [], [])"
| "obs_Run exposeTiming condChan scan (obs_Stop # msgs) lastWakeup ms = Ret (ms, [], [])"
| "obs_Run exposeTiming condChan scan (obs_Event ev env tsDiff now # msgs) lastWakeup ms =
     go_bind (obs_handle exposeTiming condChan (scan env) tsDiff now ev lastWakeup ms) (\<lambda>(ms1, infos, conds).
       go_bind (obs_Run exposeTiming condChan scan msgs (ev_Timestamp ev) ms1) (\<lambda>(ms2, infos', conds').
         Ret (ms2, infos @ infos', conds @ conds')))"

text \<open>The scan that the observer calls, without the statuses of the fingerprint.\<close>

definition obs_scan ::
    "('fp, 'st) pfp_lib \<Rightarrow> ((int \<times> string list) list \<Rightarrow> (int \<times> string list) list) \<Rightarrow>
     (int \<Rightarrow> (string \<times> int) list \<Rightarrow> (string \<times> int) list) \<Rightarrow> resourceMonitor \<Rightarrow> ResourceExclude \<Rightarrow>
     list_result \<Rightarrow> metrics_state \<Rightarrow> metrics_state \<times> (gerr + ScanResponse)" where
  "obs_scan P ord ordR rm resourceExclude resp ms =
     (case Scan P ord ordR rm resourceExclude resp ms of (ms', sts, r) \<Rightarrow> (ms', r))"

section \<open>Facts\<close>

lemma clampTime_nonneg [simp]: "0 \<le> clampTime t"
  by (simp add: clampTime_def)

lemma Round_bounds: "int64 d \<Longrightarrow> int64 (Round d Second)"
  by (auto simp: Round_def Let_def int64_def minDuration_def maxDuration_def Second_def)

text \<open>Rounding gives a whole number of seconds, at most half a second away.\<close>

lemma duration_round:
  assumes "- (2 ^ 62) \<le> d" "d \<le> 2 ^ 62"
  shows "Round d Second mod Second = 0 \<and> 2 * \<bar>Round d Second - d\<bar> \<le> Second"
proof -
  define q r where "q = \<bar>d\<bar> div Second" and "r = \<bar>d\<bar> mod Second"
  then have d: "\<bar>d\<bar> = Second * q + r" by simp
  have r: "0 \<le> r" "r < Second" by (simp_all add: r_def Second_def)
  show ?thesis
  proof (cases "d < 0")
    case False
    with d have eq: "d - r = Second * q" "d + Second - r = Second * (q + 1)" by (simp_all add: algebra_simps)
    have "Round d Second = (if r + r < Second then Second * q else Second * (q + 1))"
      unfolding eq [symmetric] using False assms r
      by (simp add: Round_def Let_def r_def [symmetric] maxDuration_def) (simp add: r_def Second_def)
    with eq r show ?thesis by (auto simp: abs_if)
  next
    case True
    with d have eq: "d + r = Second * (- q)" "d - Second + r = Second * (- q - 1)" by (simp_all add: algebra_simps)
    have "Round d Second = (if r + r < Second then Second * (- q) else Second * (- q - 1))"
      unfolding eq [symmetric] using True assms r
      by (simp add: Round_def Let_def r_def [symmetric] minDuration_def) (simp add: r_def Second_def)
    with eq r show ?thesis by (auto simp: abs_if)
  qed
qed

lemma SetCondition_statuses:
  "map pc_Status (SetCondition chan now ty st) = (if chan then [st] else [])"
  by (simp add: SetCondition_def newConditionTemplate_def Let_def)

text \<open>
  C23. The observer crashes on a failed scan when timings are exposed, and only then: it writes the
  timing annotations into the nil map of the empty response before it looks at the error.
\<close>

theorem observer_panics:
  "(\<exists>p. obs_handle exposeTiming condChan scan tsDiff now ev lastWakeup ms = Panic p) \<longleftrightarrow>
   exposeTiming \<and>
   (\<exists>e. snd (scan (UpdateWakeupDelayMetric (if IsTimer ev then ''periodic'' else ''reactive'')
           (Milliseconds (Time_Sub (ev_Timestamp ev) lastWakeup)) ms)) = Inl e)"
proof -
  let ?ms = "UpdateWakeupDelayMetric (if IsTimer ev then ''periodic'' else ''reactive'')
    (Milliseconds (Time_Sub (ev_Timestamp ev) lastWakeup)) ms"
  obtain ms2 r where r: "scan ?ms = (ms2, r)" by (cases "scan ?ms")
  then show ?thesis
    by (cases r; cases exposeTiming; cases "IsTimer ev")
      (simp_all add: obs_handle_def obs_annotations_def Let_def UpdateReason_def RTEUpdatePeriodic_def
        RTEUpdateReactive_def)
qed

section \<open>Runs of the observer\<close>

lemma obs_scan_result:
  "snd (obs_scan P ord ordR rm excl resp ms) = snd (snd (Scan P ord ordR rm excl resp ms'))"
  by (cases resp) (auto simp: obs_scan_def Scan_def Let_def split: prod.splits)

lemma obs_scan_fails: "(\<exists>e. snd (obs_scan P ord ordR rm excl resp ms) = Inl e) \<longleftrightarrow> (\<exists>e. resp = Inl e)"
  by (cases resp) (auto simp: obs_scan_def Scan_def Let_def split: prod.splits)

definition obs_info :: "Event \<Rightarrow> gerr + ScanResponse \<Rightarrow> MonitorInfo list" where
  "obs_info ev r =
     (case r of
        Inl e \<Rightarrow> []
      | Inr sr \<Rightarrow> [\<lparr>mi_Timer = IsTimer ev, mi_Zones = sr_Zones sr,
                   mi_Attributes = sr_Attributes sr, mi_Annotations = sr_Annotations sr\<rparr>])"

lemma obs_handle_quiet:
  "\<exists>ms' conds. obs_handle False True scan d t ev lw ms =
     Ret (ms', obs_info ev (snd (scan (UpdateWakeupDelayMetric (if IsTimer ev then ''periodic'' else ''reactive'')
        (Milliseconds (Time_Sub (ev_Timestamp ev) lw)) ms))), conds) \<and>
     map pc_Status conds = [case snd (scan (UpdateWakeupDelayMetric (if IsTimer ev then ''periodic'' else ''reactive'')
        (Milliseconds (Time_Sub (ev_Timestamp ev) lw)) ms)) of Inl e \<Rightarrow> ''False'' | Inr sr \<Rightarrow> ''True'']"
proof -
  let ?ms = "UpdateWakeupDelayMetric (if IsTimer ev then ''periodic'' else ''reactive'')
    (Milliseconds (Time_Sub (ev_Timestamp ev) lw)) ms"
  obtain ms2 r where r: "scan ?ms = (ms2, r)" by (cases "scan ?ms")
  then show ?thesis
    by (cases r; cases "IsTimer ev")
      (simp_all add: obs_handle_def obs_annotations_def Let_def UpdateReason_def RTEUpdatePeriodic_def
        RTEUpdateReactive_def obs_info_def SetCondition_statuses ConditionTrue_def ConditionFalse_def)
qed

abbreviation events :: "(Event \<times> 'a \<times> int \<times> int) list \<Rightarrow> 'a obs_msg list" where
  "events xs \<equiv> map (\<lambda>(ev, env, d, t). obs_Event ev env d t) xs"

text \<open>
  C22. Without exposed timings the observer survives every sequence of events: it reports one
  condition per event, true precisely when the list of pods was obtained, and hands on, in order,
  the result of every successful scan with the trigger of its event.
\<close>

theorem observer_run:
  "\<exists>ms' conds. obs_Run False True (obs_scan P ord ordR rm excl) (events xs) lastWakeup ms =
     Ret (ms', concat (map (\<lambda>(ev, resp, d, t).
       obs_info ev (snd (snd (Scan P ord ordR rm excl resp ms0)))) xs), conds) \<and>
     map pc_Status conds =
       map (\<lambda>(ev, resp, d, t). case resp of Inl e \<Rightarrow> ''False'' | Inr ps \<Rightarrow> ''True'') xs"
proof (induction xs arbitrary: lastWakeup ms)
  case Nil
  then show ?case by simp
next
  case (Cons x xs)
  obtain ev resp d t where x: "x = (ev, resp, d, t)" by (cases x)
  let ?ms = "UpdateWakeupDelayMetric (if IsTimer ev then ''periodic'' else ''reactive'')
    (Milliseconds (Time_Sub (ev_Timestamp ev) lastWakeup)) ms"
  from obs_handle_quiet [of "obs_scan P ord ordR rm excl resp" d t ev lastWakeup ms]
  obtain ms1 c1 where h: "obs_handle False True (obs_scan P ord ordR rm excl resp) d t ev lastWakeup ms =
      Ret (ms1, obs_info ev (snd (snd (Scan P ord ordR rm excl resp ms0))), c1)"
    "map pc_Status c1 = [case snd (snd (Scan P ord ordR rm excl resp ms0)) of Inl e \<Rightarrow> ''False'' | Inr sr \<Rightarrow> ''True'']"
    unfolding obs_scan_result [of P ord ordR rm excl resp ?ms ms0] by (elim exE conjE) (rule that)
  have "(case snd (snd (Scan P ord ordR rm excl resp ms0)) of Inl e \<Rightarrow> ''False'' | Inr sr \<Rightarrow> ''True'') =
      (case resp of Inl e \<Rightarrow> ''False'' | Inr ps \<Rightarrow> ''True'')"
    by (cases resp) (auto simp: Scan_def Let_def split: prod.splits)
  with h Cons.IH [of "ev_Timestamp ev" ms1] x show ?case by auto
qed

end
