(* ===== verification/RateLimiter.thy ===== *)
theory RateLimiter
  imports Notification "HOL-Library.Sublist"
begin

text \<open>
  \<^verbatim>\<open>pkg/ratelimiter/ratelimiter.go\<close>: the event source wrapped by a bounded buffer and a sender that
  takes from it no faster than the limiter allows. The goroutines are a step relation: the receiver
  moves an event of the wrapped source into the buffer or drops it, the sender takes one event, waits
  for the limiter and delivers it to a reader, and a caller of \<^verbatim>\<open>Stop\<close> goes through its four blocking
  steps. The channel of the sender has no buffer, so it delivers only while somebody reads; whether
  somebody does is an argument of the step. Events are of any type, so that they can carry data along.
  The waiting of \<^verbatim>\<open>go.uber.org/ratelimit\<close> only delays the delivery and has no state here.
\<close>

definition bufferSize :: nat where
  "bufferSize = 5"

text \<open>Where the caller of \<^verbatim>\<open>Stop\<close> is, in the order of the code.\<close>

datatype stop_pc = NotStopping | SourceStopping | SourceWaiting | ReceiverStopping | SenderStopping | StopDone

text \<open>
  \<open>rl_bufferCh\<close> is the buffered channel, \<open>rl_held\<close> the event the sender has taken and not delivered.
  \<open>rl_source\<close>, \<open>rl_receiver\<close> and \<open>rl_sender\<close> tell whether the goroutine still runs its loop;
  \<open>rl_doneReceiverCh\<close> and \<open>rl_doneSenderCh\<close> are the tokens for \<^verbatim>\<open>Wait\<close>. The last three fields are
  history: the events read from the source, the events put into the buffer, the events delivered.
\<close>

record 'e RateLimitedEventSource =
  rl_bufferCh :: "'e list"
  rl_held :: "'e option"
  rl_source :: bool
  rl_receiver :: bool
  rl_sender :: bool
  rl_doneReceiverCh :: nat
  rl_doneSenderCh :: nat
  rl_stop :: stop_pc
  rl_offered :: "'e list"
  rl_accepted :: "'e list"
  rl_delivered :: "'e list"

definition NewRateLimitedEventSource :: "'e RateLimitedEventSource" where
  "NewRateLimitedEventSource =
     \<lparr>rl_bufferCh = [], rl_held = None, rl_source = True, rl_receiver = True, rl_sender = True,
      rl_doneReceiverCh = 0, rl_doneSenderCh = 0, rl_stop = NotStopping,
      rl_offered = [], rl_accepted = [], rl_delivered = []\<rparr>"

text \<open>The body of the first case of the receiver: a send that does not block.\<close>

definition rl_receive :: "'e \<Rightarrow> 'e RateLimitedEventSource \<Rightarrow> 'e RateLimitedEventSource" where
  "rl_receive incomingEvent s =
     (if length (rl_bufferCh s) < bufferSize
      then s\<lparr>rl_bufferCh := rl_bufferCh s @ [incomingEvent],
             rl_accepted := rl_accepted s @ [incomingEvent],
             rl_offered := rl_offered s @ [incomingEvent]\<rparr>
      else s\<lparr>rl_offered := rl_offered s @ [incomingEvent]\<rparr>)"

text \<open>The sender takes an event from the buffer, and sends it on.\<close>

definition rl_take :: "'e RateLimitedEventSource \<Rightarrow> 'e RateLimitedEventSource option" where
  "rl_take s =
     (if rl_sender s \<and> rl_held s = None then
        (case rl_bufferCh s of
           [] \<Rightarrow> None
         | event # rest \<Rightarrow> Some (s\<lparr>rl_bufferCh := rest, rl_held := Some event\<rparr>))
      else None)"

definition rl_deliver :: "'e RateLimitedEventSource \<Rightarrow> ('e \<times> 'e RateLimitedEventSource) option" where
  "rl_deliver s =
     (if rl_sender s then
        (case rl_held s of
           None \<Rightarrow> None
         | Some event \<Rightarrow> Some (event, s\<lparr>rl_held := None, rl_delivered := rl_delivered s @ [event]\<rparr>))
      else None)"

inductive rl_step :: "bool \<Rightarrow> 'e RateLimitedEventSource \<Rightarrow> 'e RateLimitedEventSource \<Rightarrow> bool" for reader where
  rl_receives: "rl_source s \<Longrightarrow> rl_receiver s \<Longrightarrow> rl_step reader s (rl_receive e s)"
| rl_takes: "rl_take s = Some s' \<Longrightarrow> rl_step reader s s'"
| rl_delivers: "reader \<Longrightarrow> rl_deliver s = Some (e, s') \<Longrightarrow> rl_step reader s s'"
| rl_call_stop: "rl_stop s = NotStopping \<Longrightarrow> rl_step reader s (s\<lparr>rl_stop := SourceStopping\<rparr>)"
| rl_source_stop: "rl_stop s = SourceStopping \<Longrightarrow> rl_source s \<Longrightarrow>
    rl_step reader s (s\<lparr>rl_stop := SourceWaiting, rl_source := False\<rparr>)"
| rl_source_wait: "rl_stop s = SourceWaiting \<Longrightarrow> \<not> rl_source s \<Longrightarrow>
    rl_step reader s (s\<lparr>rl_stop := ReceiverStopping\<rparr>)"
| rl_receiver_stop: "rl_stop s = ReceiverStopping \<Longrightarrow> rl_receiver s \<Longrightarrow>
    rl_step reader s (s\<lparr>rl_stop := SenderStopping, rl_receiver := False,
                 rl_doneReceiverCh := rl_doneReceiverCh s + 1\<rparr>)"
| rl_sender_stop: "rl_stop s = SenderStopping \<Longrightarrow> rl_sender s \<Longrightarrow> rl_held s = None \<Longrightarrow>
    rl_step reader s (s\<lparr>rl_stop := StopDone, rl_sender := False,
                 rl_doneSenderCh := rl_doneSenderCh s + 1\<rparr>)"

inductive_cases rl_stepE: "rl_step reader s s'"

lemmas rl_sender_defs = rl_take_def rl_deliver_def

text \<open>A state of some run, with readers coming and going.\<close>

inductive rl_reachable :: "'e RateLimitedEventSource \<Rightarrow> bool" where
  rl_init: "rl_reachable NewRateLimitedEventSource"
| rl_next: "rl_reachable s \<Longrightarrow> rl_step reader s s' \<Longrightarrow> rl_reachable s'"

section \<open>Invariants\<close>

definition rl_fifo :: "'e RateLimitedEventSource \<Rightarrow> bool" where
  "rl_fifo s \<longleftrightarrow>
     length (rl_bufferCh s) \<le> bufferSize \<and>
     rl_accepted s = rl_delivered s @ (case rl_held s of None \<Rightarrow> [] | Some e \<Rightarrow> [e]) @ rl_bufferCh s \<and>
     subseq (rl_accepted s) (rl_offered s)"

lemma rl_fifo_receive:
  assumes "rl_fifo s"
  shows "rl_fifo (rl_receive e s)"
proof -
  from assms have "subseq (rl_accepted s) (rl_offered s)" unfolding rl_fifo_def by blast
  then have "subseq (rl_accepted s @ [e]) (rl_offered s @ [e])" "subseq (rl_accepted s) (rl_offered s @ [e])"
    by (auto intro: list_emb_append_mono list_emb_append2)
  with assms show ?thesis by (auto simp: rl_fifo_def rl_receive_def)
qed

lemma rl_fifo_step: "rl_step reader s s' \<Longrightarrow> rl_fifo s \<Longrightarrow> rl_fifo s'"
  by (induction rule: rl_step.induct)
    (simp_all add: rl_fifo_receive, auto simp: rl_fifo_def rl_sender_defs split: if_splits list.splits option.splits)

text \<open>The stop protocol: which goroutines run at each point of \<^verbatim>\<open>Stop\<close>.\<close>

definition rl_protocol :: "'e RateLimitedEventSource \<Rightarrow> bool" where
  "rl_protocol s \<longleftrightarrow>
     rl_source s = (rl_stop s \<in> {NotStopping, SourceStopping}) \<and>
     rl_receiver s = (rl_stop s \<notin> {SenderStopping, StopDone}) \<and>
     rl_sender s = (rl_stop s \<noteq> StopDone) \<and>
     rl_doneReceiverCh s = (if rl_receiver s then 0 else 1) \<and>
     rl_doneSenderCh s = (if rl_sender s then 0 else 1) \<and>
     (\<not> rl_sender s \<longrightarrow> rl_held s = None)"

lemma rl_protocol_step: "rl_step reader s s' \<Longrightarrow> rl_protocol s \<Longrightarrow> rl_protocol s'"
  by (induction rule: rl_step.induct)
    (auto simp: rl_protocol_def rl_receive_def rl_sender_defs split: if_splits list.splits option.splits)

lemma rl_reachable_invariants: "rl_reachable s \<Longrightarrow> rl_fifo s \<and> rl_protocol s"
  by (induction rule: rl_reachable.induct)
    (auto simp: rl_fifo_step rl_protocol_step,
     auto simp: rl_fifo_def rl_protocol_def NewRateLimitedEventSource_def)

text \<open>The buffer has room for the first five events, so these are never dropped.\<close>

lemma rl_first_accepted:
  assumes "rl_reachable s"
  shows "take 5 (rl_accepted s) = take 5 (rl_offered s)"
  using assms
proof induction
  case rl_init
  then show ?case by (simp add: NewRateLimitedEventSource_def)
next
  case (rl_next s reader s')
  from rl_reachable_invariants [OF rl_next.hyps(1)] have "length (rl_bufferCh s) \<le> length (rl_accepted s)"
    by (simp add: rl_fifo_def)
  moreover from arg_cong [OF rl_next.IH, of length]
  have l: "min (length (rl_accepted s)) 5 = min (length (rl_offered s)) 5" by simp
  moreover from l rl_next.IH have "rl_accepted s = rl_offered s" if "length (rl_accepted s) < 5"
    using that by (auto simp: min_def split: if_splits)
  ultimately have "take 5 (rl_accepted (rl_receive e s)) = take 5 (rl_offered (rl_receive e s))" for e
    using rl_next.IH by (cases "length (rl_accepted s) < 5") (auto simp: rl_receive_def bufferSize_def)
  with rl_next.hyps(2) rl_next.IH show ?case
    by cases (auto simp: rl_sender_defs split: if_splits list.splits option.splits)
qed

section \<open>Properties\<close>

text \<open>
  C19. Bounded and in order: in every reachable state the buffer holds at most five events, the
  events put into it are, in order and without loss, those delivered, the one the sender holds and
  those still in the buffer, and they are a subsequence of the events of the source. An event is
  dropped only when the buffer is full.
\<close>

theorem ratelimiter_fifo:
  assumes "rl_reachable s"
  shows "length (rl_bufferCh s) \<le> 5 \<and>
     rl_accepted s = rl_delivered s @ (case rl_held s of None \<Rightarrow> [] | Some e \<Rightarrow> [e]) @ rl_bufferCh s \<and>
     subseq (rl_delivered s) (rl_offered s) \<and>
     (rl_accepted (rl_receive e s) = rl_accepted s @ [e] \<or>
      length (rl_bufferCh s) = 5 \<and> rl_accepted (rl_receive e s) = rl_accepted s)"
proof -
  from rl_reachable_invariants [OF assms] have f: "length (rl_bufferCh s) \<le> bufferSize"
    "rl_accepted s = rl_delivered s @ (case rl_held s of None \<Rightarrow> [] | Some e \<Rightarrow> [e]) @ rl_bufferCh s"
    "subseq (rl_accepted s) (rl_offered s)" unfolding rl_fifo_def by blast+
  from f(2,3) have "subseq (rl_delivered s) (rl_offered s)"
    by (metis list_emb_append2 list_emb_prefix subseq_append_le_same_iff subseq_order.order_refl
        subseq_order.order_trans subseq_rev_drop_many append.right_neutral)
  with f(1,2) show ?thesis by (auto simp: rl_receive_def bufferSize_def)
qed

text \<open>
  C20. Stopping: the receiver is stopped only after the source has ended, so the source never waits on
  a channel that nobody reads. Until \<^verbatim>\<open>Stop\<close> has returned some step is possible, with one exception
  that is stated exactly: when \<^verbatim>\<open>Stop\<close> is about to stop the sender, the sender holds an event, and
  nobody reads, everything is blocked. When \<^verbatim>\<open>Stop\<close> has returned, both tokens that \<^verbatim>\<open>Wait\<close> expects are
  there, no event is half-delivered, and nothing moves any more.
\<close>

theorem ratelimiter_stop_safe:
  assumes "rl_reachable s"
  shows "(rl_source s \<longrightarrow> rl_receiver s) \<and>
     ((\<exists>s'. rl_step reader s s') \<longleftrightarrow>
        rl_stop s \<noteq> StopDone \<and> \<not> (rl_stop s = SenderStopping \<and> rl_held s \<noteq> None \<and> \<not> reader)) \<and>
     (rl_stop s = StopDone \<longrightarrow>
        rl_doneReceiverCh s = 1 \<and> rl_doneSenderCh s = 1 \<and> rl_held s = None)"
proof -
  from rl_reachable_invariants [OF assms] have p: "rl_protocol s" by blast
  have "\<exists>s'. rl_step reader s s'"
    if "rl_stop s \<noteq> StopDone" "\<not> (rl_stop s = SenderStopping \<and> rl_held s \<noteq> None \<and> \<not> reader)"
  proof (cases "rl_stop s = SenderStopping \<and> rl_held s \<noteq> None")
    case True
    with p that obtain e where "rl_deliver s = Some (e, s\<lparr>rl_held := None, rl_delivered := rl_delivered s @ [e]\<rparr>)"
      by (auto simp: rl_protocol_def rl_deliver_def)
    with True that show ?thesis by (blast intro: rl_delivers)
  next
    case False
    with p that show ?thesis
      by (cases "rl_stop s") (auto simp: rl_protocol_def intro: rl_step.intros)
  qed
  moreover have "rl_stop s \<noteq> StopDone \<and> \<not> (rl_stop s = SenderStopping \<and> rl_held s \<noteq> None \<and> \<not> reader)"
    if "rl_step reader s s'" for s'
    using that p by cases (auto simp: rl_protocol_def rl_sender_defs split: if_splits)
  ultimately show ?thesis using p by (auto simp: rl_protocol_def)
qed

text \<open>Once the stop has begun, and no matter what the scheduler does, it comes to an end.\<close>

definition stop_rank :: "stop_pc \<Rightarrow> nat" where
  "stop_rank pc =
     (case pc of NotStopping \<Rightarrow> 5 | SourceStopping \<Rightarrow> 4 | SourceWaiting \<Rightarrow> 3 | ReceiverStopping \<Rightarrow> 2
      | SenderStopping \<Rightarrow> 1 | StopDone \<Rightarrow> 0)"

definition rl_measure :: "'e RateLimitedEventSource \<Rightarrow> nat" where
  "rl_measure s =
     2 * length (rl_bufferCh s) + (case rl_held s of None \<Rightarrow> 0 | Some _ \<Rightarrow> 1) + stop_rank (rl_stop s)"

text \<open>
  C21. Stopping terminates: once the source has ended, every step of the goroutines brings the system
  closer to its end, so at most fourteen steps remain, whatever the order in which they are scheduled.
\<close>

theorem ratelimiter_stop_terminates:
  assumes "rl_reachable s" "\<not> rl_source s" "rl_step reader s s'"
  shows "rl_measure s' < rl_measure s \<and> \<not> rl_source s' \<and> rl_measure s \<le> 14"
proof -
  from rl_reachable_invariants [OF assms(1)] have inv: "rl_protocol s" "length (rl_bufferCh s) \<le> bufferSize"
    unfolding rl_fifo_def by blast+
  have "rl_measure s' < rl_measure s \<and> \<not> rl_source s'"
    using assms(3,2) inv(1)
    by (cases rule: rl_step.cases)
      (auto simp: rl_measure_def stop_rank_def rl_protocol_def rl_sender_defs
        split: if_splits list.splits option.splits)
  moreover have "stop_rank (rl_stop s) \<le> 3"
    using inv(1) assms(2) by (cases "rl_stop s") (auto simp: rl_protocol_def stop_rank_def)
  then have "rl_measure s \<le> 14"
    using inv(2) by (simp add: rl_measure_def bufferSize_def split: option.split)
  ultimately show ?thesis by blast
qed

section \<open>Instances\<close>

definition sample_event :: "int \<Rightarrow> Event" where
  "sample_event t = \<lparr>ev_Timestamp = t, ev_TimerInterval = 0\<rparr>"

definition sample_stopping :: "Event RateLimitedEventSource" where
  "sample_stopping = (rl_receive (sample_event 1) NewRateLimitedEventSource)
     \<lparr>rl_stop := SourceWaiting, rl_source := False\<rparr>"

lemma sample_received: "rl_reachable (rl_receive (sample_event 1) NewRateLimitedEventSource)"
  by (rule rl_next [OF rl_init rl_receives]) (simp_all add: NewRateLimitedEventSource_def)

lemma sample_stopping_reachable: "rl_reachable sample_stopping"
proof -
  let ?s = "rl_receive (sample_event 1) NewRateLimitedEventSource"
  have "rl_step True ?s (?s\<lparr>rl_stop := SourceStopping\<rparr>)"
    by (rule rl_call_stop) (simp add: rl_receive_def NewRateLimitedEventSource_def)
  moreover have "rl_step True (?s\<lparr>rl_stop := SourceStopping\<rparr>)
      ((?s\<lparr>rl_stop := SourceStopping\<rparr>)\<lparr>rl_stop := SourceWaiting, rl_source := False\<rparr>)"
    by (rule rl_source_stop) (simp_all add: rl_receive_def NewRateLimitedEventSource_def)
  ultimately have "rl_reachable ((?s\<lparr>rl_stop := SourceStopping\<rparr>)\<lparr>rl_stop := SourceWaiting, rl_source := False\<rparr>)"
    using sample_received by (blast intro: rl_next)
  then show ?thesis by (simp add: sample_stopping_def)
qed

theorem ratelimiter_fifo_witness:
  "rl_accepted (rl_receive (sample_event 2) (rl_receive (sample_event 1) NewRateLimitedEventSource)) =
   [sample_event 1, sample_event 2]"
  using ratelimiter_fifo [OF sample_received, of "sample_event 2"]
  by (auto simp: rl_receive_def NewRateLimitedEventSource_def bufferSize_def)

theorem ratelimiter_stop_safe_witness: "\<exists>s'. rl_stop sample_stopping = SourceWaiting \<and> rl_step False sample_stopping s'"
  using ratelimiter_stop_safe [OF sample_stopping_reachable, of False] by (simp add: sample_stopping_def)

theorem ratelimiter_stop_terminates_witness:
  "rl_measure (sample_stopping\<lparr>rl_stop := ReceiverStopping\<rparr>) < rl_measure sample_stopping"
proof -
  have "rl_step False sample_stopping (sample_stopping\<lparr>rl_stop := ReceiverStopping\<rparr>)"
    by (rule rl_source_wait) (simp_all add: sample_stopping_def)
  moreover have "\<not> rl_source sample_stopping" by (simp add: sample_stopping_def)
  ultimately show ?thesis using ratelimiter_stop_terminates [OF sample_stopping_reachable] by blast
qed

end
