(* ===== verification/MetricsServer.thy ===== *)
theory MetricsServer
  imports GoStd
begin

text \<open>
  \<^verbatim>\<open>pkg/metrics/server\<close>: how the metrics endpoint is configured. The server itself and the parsers of
  TLS version and cipher names are libraries; what they answer are arguments.
\<close>

definition PortDefault :: int where
  "PortDefault = 2112"

definition AddressDefault :: string where
  "AddressDefault = ''0.0.0.0''"

definition TLSRootDir :: string where
  "TLSRootDir = ''/etc/secrets/rte''"

definition TLSCert :: string where
  "TLSCert = ''tls.crt''"

definition TLSKey :: string where
  "TLSKey = ''tls.key''"

definition ServingDisabled :: string where
  "ServingDisabled = ''disabled''"

definition ServingDefault :: string where
  "ServingDefault = ServingDisabled"

definition ServingHTTP :: string where
  "ServingHTTP = ''http''"

definition ServingHTTPTLS :: string where
  "ServingHTTPTLS = ''httptls''"

record TLSConfig =
  tls_CertsDir :: string
  tls_CertFile :: string
  tls_KeyFile :: string
  tls_WantCliAuth :: bool
  tls_MinTLSVersion :: string
  tls_CipherSuites :: string

definition NewDefaultTLSConfig :: TLSConfig where
  "NewDefaultTLSConfig =
     \<lparr>tls_CertsDir = TLSRootDir, tls_CertFile = TLSCert, tls_KeyFile = TLSKey,
      tls_WantCliAuth = False, tls_MinTLSVersion = [], tls_CipherSuites = []\<rparr>"

definition TLSConfig_Clone :: "TLSConfig \<Rightarrow> TLSConfig" where
  "TLSConfig_Clone conf =
     \<lparr>tls_CertsDir = tls_CertsDir conf, tls_CertFile = tls_CertFile conf,
      tls_KeyFile = tls_KeyFile conf, tls_WantCliAuth = tls_WantCliAuth conf,
      tls_MinTLSVersion = tls_MinTLSVersion conf, tls_CipherSuites = tls_CipherSuites conf\<rparr>"

record srv_Config =
  srv_IP :: string
  srv_Port :: int
  srv_TLS :: TLSConfig

definition srv_NewConfig :: "string \<Rightarrow> int \<Rightarrow> TLSConfig \<Rightarrow> srv_Config" where
  "srv_NewConfig ip port tlsConf = \<lparr>srv_IP = ip, srv_Port = port, srv_TLS = tlsConf\<rparr>"

definition srv_NewDefaultConfig :: srv_Config where
  "srv_NewDefaultConfig = srv_NewConfig AddressDefault PortDefault NewDefaultTLSConfig"

definition srv_Validate :: "srv_Config \<Rightarrow> gerr option" where
  "srv_Validate conf =
     (if srv_Port conf \<le> 0 then Some (Errorf (''invalid port: '' @ show_int (srv_Port conf))) else None)"

definition BindAddress :: "srv_Config \<Rightarrow> string" where
  "BindAddress conf = srv_IP conf @ '':'' @ show_int (srv_Port conf)"

definition ServingModeIsSupported :: "string \<Rightarrow> string \<times> gerr option" where
  "ServingModeIsSupported value =
     (let val = ToLower value in
      if val = ServingDisabled then (val, None)
      else if val = ServingHTTP then (val, None)
      else if val = ServingHTTPTLS then (val, None)
      else (val, Some (Errorf (''unsupported method  '' @ value))))"

definition ServingModeSupported :: string where
  "ServingModeSupported = Join [ServingDisabled, ServingHTTP, ServingHTTPTLS] '',''"

definition PortFromEnv :: "(string \<Rightarrow> string option) \<Rightarrow> int" where
  "PortFromEnv env =
     (case env ''METRICS_PORT'' of
        None \<Rightarrow> 0
      | Some envValue \<Rightarrow> (case Atoi envValue of (port, None) \<Rightarrow> port | (_, Some err) \<Rightarrow> 0))"

definition AddressFromEnv :: "(string \<Rightarrow> string option) \<Rightarrow> string" where
  "AddressFromEnv env = (case env ''METRICS_ADDRESS'' of None \<Rightarrow> [] | Some ip \<Rightarrow> ip)"

section \<open>TLS options\<close>

datatype ClientAuthType = NoClientCert | RequireAndVerifyClientCert

text \<open>The fields of \<^verbatim>\<open>tls.Config\<close> that the options set; version numbers are those on the wire.\<close>

record tls_Config =
  tc_MinVersion :: int
  tc_MaxVersion :: int
  tc_CipherSuites :: "int list"
  tc_NextProtos :: "string list"
  tc_ClientAuth :: ClientAuthType

definition VersionTLS13 :: int where
  "VersionTLS13 = 0x0304"

record cliflag_lib =
  cf_TLSVersion :: "string \<Rightarrow> gerr + int"
  cf_TLSCipherSuites :: "string list \<Rightarrow> gerr + int list"

definition splitNonEmptyCSV :: "string \<Rightarrow> string list" where
  "splitNonEmptyCSV s = filter (\<lambda>p. p \<noteq> []) (map TrimSpace (Split s (CHR '','')))"

definition tls13PolicyOpt :: "tls_Config \<Rightarrow> tls_Config" where
  "tls13PolicyOpt cfg =
     cfg\<lparr>tc_MinVersion := VersionTLS13, tc_MaxVersion := VersionTLS13, tc_CipherSuites := []\<rparr>"

definition tls12AndEarlierPolicyOpt :: "int \<Rightarrow> int list \<Rightarrow> tls_Config \<Rightarrow> tls_Config" where
  "tls12AndEarlierPolicyOpt minVer cipherIDs cfg =
     cfg\<lparr>tc_MinVersion := minVer, tc_CipherSuites := cipherIDs\<rparr>"

definition metricsTLSPolicyOpts ::
    "cliflag_lib \<Rightarrow> string \<Rightarrow> string \<Rightarrow> gerr + (tls_Config \<Rightarrow> tls_Config) list" where
  "metricsTLSPolicyOpts cf minTLSVersion cipherSuitesCSV =
     (let minName = TrimSpace minTLSVersion;
          cipherNames = splitNonEmptyCSV cipherSuitesCSV
      in if minName = [] \<and> length cipherNames = 0 then Inr []
         else
           case cf_TLSVersion cf minName of
             Inl err \<Rightarrow> Inl err
           | Inr minVer \<Rightarrow>
               (case cf_TLSCipherSuites cf cipherNames of
                  Inl err \<Rightarrow> Inl err
                | Inr cipherIDs \<Rightarrow>
                    if minVer = VersionTLS13 then Inr [tls13PolicyOpt]
                    else Inr [tls12AndEarlierPolicyOpt minVer cipherIDs]))"

definition withHTTP11 :: "tls_Config \<Rightarrow> tls_Config" where
  "withHTTP11 cfg = cfg\<lparr>tc_NextProtos := [''http/1.1'']\<rparr>"

definition WithClientAuth :: "bool \<Rightarrow> tls_Config \<Rightarrow> tls_Config" where
  "WithClientAuth cliAuth tlscfg =
     (if \<not> cliAuth then tlscfg\<lparr>tc_ClientAuth := NoClientCert\<rparr>
      else tlscfg\<lparr>tc_ClientAuth := RequireAndVerifyClientCert\<rparr>)"

definition buildSecureMetricsTLSOpts ::
    "cliflag_lib \<Rightarrow> TLSConfig \<Rightarrow> gerr + (tls_Config \<Rightarrow> tls_Config) list" where
  "buildSecureMetricsTLSOpts cf tlsConf =
     (case metricsTLSPolicyOpts cf (tls_MinTLSVersion tlsConf) (tls_CipherSuites tlsConf) of
        Inl err \<Rightarrow> Inl (Wrapf ''metrics TLS policy'' err)
      | Inr policyOpts \<Rightarrow> Inr ([withHTTP11] @ policyOpts @ [WithClientAuth (tls_WantCliAuth tlsConf)]))"

record srv_Options =
  so_SecureServing :: bool
  so_BindAddress :: string
  so_CertDir :: string
  so_CertName :: string
  so_KeyName :: string
  so_TLSOpts :: "(tls_Config \<Rightarrow> tls_Config) list"

text \<open>\<open>NewServer\<close> is the library's constructor; the answer names the options of the server started.\<close>

definition srv_Setup ::
    "cliflag_lib \<Rightarrow> (srv_Options \<Rightarrow> gerr option) \<Rightarrow> string \<Rightarrow> srv_Config \<Rightarrow> gerr + srv_Options option" where
  "srv_Setup cf NewServer mode conf =
     (if mode = ServingDisabled then Inr None
      else
        case srv_Validate conf of
          Some err \<Rightarrow> Inl err
        | None \<Rightarrow>
            if mode \<noteq> ServingHTTP \<and> mode \<noteq> ServingHTTPTLS
            then Inl (Errorf (''unknown mode: '' @ mode))
            else
              let secureServing = (mode = ServingHTTPTLS) in
              (case (if secureServing then buildSecureMetricsTLSOpts cf (srv_TLS conf) else Inr []) of
                 Inl err \<Rightarrow> Inl err
               | Inr tlsOpts \<Rightarrow>
                   let opts = \<lparr>so_SecureServing = secureServing, so_BindAddress = BindAddress conf,
                               so_CertDir = tls_CertsDir (srv_TLS conf),
                               so_CertName = tls_CertFile (srv_TLS conf),
                               so_KeyName = tls_KeyFile (srv_TLS conf), so_TLSOpts = tlsOpts\<rparr>
                   in (case NewServer opts of
                         Some err \<Rightarrow> Inl (Wrapf (''failed to build server with port '' @
                            show_int (srv_Port conf)) err)
                       | None \<Rightarrow> Inr (Some opts))))"

section \<open>Properties\<close>

definition apply_opts :: "(tls_Config \<Rightarrow> tls_Config) list \<Rightarrow> tls_Config \<Rightarrow> tls_Config" where
  "apply_opts opts cfg = fold (\<lambda>f c. f c) opts cfg"

text \<open>
  The TLS settings that a configuration asks for, on top of the library's own \<open>cfg\<close>: HTTP/1.1 only; a
  client certificate required or not; and, when a version or a cipher suite is named, that minimum
  version with those suites, or TLS 1.3 alone, whose suites are fixed.
\<close>

definition tls_asked :: "cliflag_lib \<Rightarrow> TLSConfig \<Rightarrow> tls_Config \<Rightarrow> tls_Config \<Rightarrow> bool" where
  "tls_asked cf conf cfg c \<longleftrightarrow>
     (let v = TrimSpace (tls_MinTLSVersion conf);
          names = [p \<leftarrow> map TrimSpace (Split (tls_CipherSuites conf) (CHR '','')). p \<noteq> []]
      in tc_NextProtos c = [''http/1.1''] \<and>
         tc_ClientAuth c = (if tls_WantCliAuth conf then RequireAndVerifyClientCert else NoClientCert) \<and>
         (if v = [] \<and> names = []
          then tc_MinVersion c = tc_MinVersion cfg \<and> tc_MaxVersion c = tc_MaxVersion cfg \<and>
               tc_CipherSuites c = tc_CipherSuites cfg
          else cf_TLSVersion cf v = Inr (tc_MinVersion c) \<and>
               (\<exists>ids. cf_TLSCipherSuites cf names = Inr ids \<and>
                 (if tc_MinVersion c = 0x0304 then tc_MaxVersion c = 0x0304 \<and> tc_CipherSuites c = []
                  else tc_MaxVersion c = tc_MaxVersion cfg \<and> tc_CipherSuites c = ids))))"

lemma buildSecureMetricsTLSOpts_asked:
  assumes "buildSecureMetricsTLSOpts cf conf = Inr opts"
  shows "tls_asked cf conf cfg (apply_opts opts cfg)"
proof -
  from assms obtain pol where
    "metricsTLSPolicyOpts cf (tls_MinTLSVersion conf) (tls_CipherSuites conf) = Inr pol"
    "opts = [withHTTP11] @ pol @ [WithClientAuth (tls_WantCliAuth conf)]"
    by (auto simp: buildSecureMetricsTLSOpts_def split: sum.splits)
  then show ?thesis
    by (auto simp: tls_asked_def metricsTLSPolicyOpts_def splitNonEmptyCSV_def Let_def apply_opts_def
        withHTTP11_def WithClientAuth_def tls13PolicyOpt_def tls12AndEarlierPolicyOpt_def VersionTLS13_def
        split: if_splits sum.splits)
qed

text \<open>
  C36. The metrics endpoint is as secure as it was configured. In the mode \<^verbatim>\<open>disabled\<close> there is no
  server and no error. A server is built only in the modes \<^verbatim>\<open>http\<close> and \<^verbatim>\<open>httptls\<close>, with a positive port, at
  the configured address and with the configured certificate directory, certificate and key; it
  serves securely precisely in the second mode, and then with the protocol, the client
  authentication, the minimum version and the cipher suites that the configuration asks for. In every
  other case there is an error and no server.
\<close>

theorem metrics_server_tls:
  "case srv_Setup cf NewServer mode conf of
     Inr None \<Rightarrow> mode = ''disabled''
   | Inl e \<Rightarrow> mode \<noteq> ''disabled''
   | Inr (Some opts) \<Rightarrow>
       mode \<in> {''http'', ''httptls''} \<and> 0 < srv_Port conf \<and> NewServer opts = None \<and>
       so_BindAddress opts = srv_IP conf @ '':'' @ show_int (srv_Port conf) \<and>
       so_CertDir opts = tls_CertsDir (srv_TLS conf) \<and>
       so_CertName opts = tls_CertFile (srv_TLS conf) \<and> so_KeyName opts = tls_KeyFile (srv_TLS conf) \<and>
       (if mode = ''httptls''
        then so_SecureServing opts \<and> tls_asked cf (srv_TLS conf) cfg (apply_opts (so_TLSOpts opts) cfg)
        else \<not> so_SecureServing opts \<and> so_TLSOpts opts = [])"
proof -
  have "tls_asked cf (srv_TLS conf) cfg (apply_opts opts cfg)"
    if "buildSecureMetricsTLSOpts cf (srv_TLS conf) = Inr opts" for opts
    using that by (rule buildSecureMetricsTLSOpts_asked)
  then show ?thesis
    by (auto simp: srv_Setup_def srv_Validate_def Let_def ServingHTTP_def ServingHTTPTLS_def
        ServingDisabled_def BindAddress_def split: sum.split option.split if_split_asm)
qed

definition sample_cliflag :: cliflag_lib where
  "sample_cliflag =
     \<lparr>cf_TLSVersion = (\<lambda>n. if n = ''VersionTLS13'' then Inr 0x0304
        else if n = ''VersionTLS12'' \<or> n = [] then Inr 0x0303 else Inl (Errorf ''unknown tls version'')),
      cf_TLSCipherSuites = (\<lambda>names. if names = [''TLS_RSA_WITH_AES_128_CBC_SHA''] then Inr [0x002f]
        else if names = [] then Inr [] else Inl (Errorf ''unknown cipher suite''))\<rparr>"

definition sample_srv :: srv_Config where
  "sample_srv = srv_NewConfig ''0.0.0.0'' 2112
     (NewDefaultTLSConfig\<lparr>tls_WantCliAuth := True, tls_MinTLSVersion := ''VersionTLS12'',
        tls_CipherSuites := '' TLS_RSA_WITH_AES_128_CBC_SHA,''\<rparr>)"

abbreviation sample_tls_cfg :: tls_Config where
  "sample_tls_cfg \<equiv> \<lparr>tc_MinVersion = 0, tc_MaxVersion = 0, tc_CipherSuites = [], tc_NextProtos = [],
     tc_ClientAuth = NoClientCert\<rparr>"

theorem metrics_server_tls_witness:
  "\<exists>opts. srv_Setup sample_cliflag (\<lambda>_. None) ''httptls'' sample_srv = Inr (Some opts) \<and>
     so_KeyName opts = ''tls.key'' \<and>
     tc_MinVersion (apply_opts (so_TLSOpts opts) sample_tls_cfg) = 0x0303 \<and>
     tc_CipherSuites (apply_opts (so_TLSOpts opts) sample_tls_cfg) = [0x002f]"
proof -
  have "case srv_Setup sample_cliflag (\<lambda>_. None) ''httptls'' sample_srv of
      Inr (Some opts) \<Rightarrow> True | _ \<Rightarrow> False" by code_simp
  then obtain opts where opts: "srv_Setup sample_cliflag (\<lambda>_. None) ''httptls'' sample_srv = Inr (Some opts)"
    by (auto split: sum.splits option.splits)
  have t: "TrimSpace (tls_MinTLSVersion (srv_TLS sample_srv)) = ''VersionTLS12''"
    "[p \<leftarrow> map TrimSpace (Split (tls_CipherSuites (srv_TLS sample_srv)) (CHR '','')). p \<noteq> []] =
       [''TLS_RSA_WITH_AES_128_CBC_SHA'']"
    "tls_KeyFile (srv_TLS sample_srv) = ''tls.key''" by code_simp+
  have v: "cf_TLSVersion sample_cliflag ''VersionTLS12'' = Inr 0x0303"
    "cf_TLSCipherSuites sample_cliflag [''TLS_RSA_WITH_AES_128_CBC_SHA''] = Inr [0x002f]"
    by (simp_all add: sample_cliflag_def)
  from metrics_server_tls [where cf = sample_cliflag and NewServer = "\<lambda>_. None"
      and mode = "''httptls''" and conf = sample_srv and cfg = sample_tls_cfg] opts t v
  show ?thesis by (auto simp: tls_asked_def Let_def)
qed

end
