(* ===== verification/Exporter.thy ===== *)
theory Exporter
  imports Observer RateLimiter Middleware MetricsServer
begin

text \<open>
  \<^verbatim>\<open>pkg/resourcetopologyexporter/resourcetopologyexporter.go\<close>: how the parts are put together. The
  answers of the environment (the kubelet's configuration file, the list of nodes, the environment
  variables, the file system) are arguments; the result names what was started.
\<close>

record rte_Args =
  re_ReferenceContainer :: "ContainerIdent option"
  re_TopologyManagerPolicy :: string
  re_TopologyManagerScope :: string
  re_KubeletConfigFile :: string
  re_PodResourcesSocketPath :: string
  re_SleepInterval :: int
  re_PodReadinessEnable :: bool
  re_NotifyFilePath :: string
  re_MaxEventsPerTimeUnit :: int
  re_TimeUnitToLimitEvents :: int
  re_AddNRTOwnerEnable :: bool
  re_MetricsMode :: string
  re_MetricsPort :: int
  re_MetricsAddress :: string
  re_MetricsTLSCfg :: TLSConfig

definition rte_Args_Clone :: "rte_Args \<Rightarrow> rte_Args" where
  "rte_Args_Clone args =
     \<lparr>re_ReferenceContainer = ci_Clone (re_ReferenceContainer args),
      re_TopologyManagerPolicy = re_TopologyManagerPolicy args,
      re_TopologyManagerScope = re_TopologyManagerScope args,
      re_KubeletConfigFile = re_KubeletConfigFile args,
      re_PodResourcesSocketPath = re_PodResourcesSocketPath args,
      re_SleepInterval = re_SleepInterval args,
      re_PodReadinessEnable = re_PodReadinessEnable args,
      re_NotifyFilePath = re_NotifyFilePath args,
      re_MaxEventsPerTimeUnit = re_MaxEventsPerTimeUnit args,
      re_TimeUnitToLimitEvents = re_TimeUnitToLimitEvents args,
      re_AddNRTOwnerEnable = re_AddNRTOwnerEnable args,
      re_MetricsMode = re_MetricsMode args,
      re_MetricsPort = re_MetricsPort args,
      re_MetricsAddress = re_MetricsAddress args,
      re_MetricsTLSCfg = TLSConfig_Clone (re_MetricsTLSCfg args)\<rparr>"

text \<open>\<open>kubelet\<close> is \<^verbatim>\<open>GetKubeletConfigFromLocalFile\<close>, reduced to the policy and the scope it finds.\<close>

definition getTopologyManagerSettings ::
    "(string \<Rightarrow> gerr + TMConfig) \<Rightarrow> rte_Args \<Rightarrow> gerr + TMConfig" where
  "getTopologyManagerSettings kubelet rteArgs =
     (if re_TopologyManagerPolicy rteArgs \<noteq> [] \<and> re_TopologyManagerScope rteArgs \<noteq> []
      then Inr \<lparr>tm_Policy = re_TopologyManagerPolicy rteArgs, tm_Scope = re_TopologyManagerScope rteArgs\<rparr>
      else if re_KubeletConfigFile rteArgs \<noteq> [] then
        (case kubelet (re_KubeletConfigFile rteArgs) of
           Inl err \<Rightarrow> Inl (Wrapf ''error getting topology Manager Policy'' err)
         | Inr klConfig \<Rightarrow> Inr klConfig)
      else Inl (Errorf ''cannot find the kubelet Topology Manager policy''))"

text \<open>The event source, with the rate and the time unit when it is limited.\<close>

datatype EventSource =
  Unlimited UnlimitedEventSource
| RateLimited UnlimitedEventSource int int

definition createEventSource :: "gerr option \<Rightarrow> notify_fs \<Rightarrow> rte_Args \<Rightarrow> gerr + EventSource" where
  "createEventSource watcherErr fs rteArgs =
     (case NewUnlimitedEventSource watcherErr of
        Inl err \<Rightarrow> Inl err
      | Inr es0 \<Rightarrow>
          (case SetInterval (re_SleepInterval rteArgs) es0 of
             (_, Some err) \<Rightarrow> Inl err
           | (es1, None) \<Rightarrow>
               (case AddFile fs (re_NotifyFilePath rteArgs) es1 of
                  (_, Some err) \<Rightarrow> Inl err
                | (es2, None) \<Rightarrow>
                    if re_MaxEventsPerTimeUnit rteArgs > 0 \<and> re_TimeUnitToLimitEvents rteArgs > 0
                    then Inr (RateLimited es2 (re_MaxEventsPerTimeUnit rteArgs)
                                (re_TimeUnitToLimitEvents rteArgs))
                    else Inr (Unlimited es2))))"

text \<open>
  The observer, without its channels. \<open>newMonitor\<close> is \<^verbatim>\<open>NewResourceMonitor\<close> on its own handle, which may
  panic.
\<close>

record ResourceObserver =
  ro_resMon :: resourceMonitor
  ro_resourceExclude :: ResourceExclude
  ro_exposeTiming :: bool

definition NewResourceObserver ::
    "(rm_Args \<Rightarrow> (gerr + resourceMonitor) go) \<Rightarrow> rm_Args \<Rightarrow> (gerr + ResourceObserver) go" where
  "NewResourceObserver newMonitor args =
     go_bind (newMonitor args) (\<lambda>m.
       case m of
         Inl err \<Rightarrow> Ret (Inl (Wrapf ''failed to initialize ResourceMonitor'' err))
       | Inr resMon \<Rightarrow>
           Ret (Inr \<lparr>ro_resMon = resMon, ro_resourceExclude = ra_ResourceExclude args,
                     ro_exposeTiming = ra_ExposeTiming args\<rparr>))"

record rte_started =
  rs_injector :: "ConditionInjector option"
  rs_source :: EventSource
  rs_observer :: ResourceObserver
  rs_updater :: NRTUpdater

text \<open>
  \<^verbatim>\<open>Execute\<close> up to the point where it waits forever.
\<close>

definition Execute ::
    "(string \<Rightarrow> gerr + TMConfig) \<Rightarrow> gerr + v1_Node list \<Rightarrow> (string \<Rightarrow> string option) \<Rightarrow> gerr option \<Rightarrow>
     notify_fs \<Rightarrow> (rm_Args \<Rightarrow> (gerr + resourceMonitor) go) \<Rightarrow> bool \<Rightarrow> upd_Args \<Rightarrow> rm_Args \<Rightarrow> rte_Args \<Rightarrow>
     (gerr + rte_started) go" where
  "Execute kubelet nodes lookupEnv watcherErr fs newMonitor hasNRTCli nrtupdaterArgs resourcemonitorArgs
     rteArgs =
     (case getTopologyManagerSettings kubelet rteArgs of
        Inl err \<Rightarrow> Ret (Inl err)
      | Inr tmConf \<Rightarrow>
          (case (if re_AddNRTOwnerEnable rteArgs then NewCachedNodeGetter nodes
                 else Inr DisabledNodeGetter) of
             Inl err \<Rightarrow> Ret (Inl (Wrapf ''Cannot enable 'add-nrt-owner'.'' err))
           | Inr nodeGetter \<Rightarrow>
               (case (if re_PodReadinessEnable rteArgs then map_sum id Some (NewConditionInjector lookupEnv)
                      else Inr None) of
                  Inl err \<Rightarrow> Ret (Inl err)
                | Inr condIn \<Rightarrow>
                    (case createEventSource watcherErr fs rteArgs of
                       Inl err \<Rightarrow> Ret (Inl err)
                     | Inr eventSource \<Rightarrow>
                         go_bind (NewResourceObserver newMonitor resourcemonitorArgs) (\<lambda>m.
                           case m of
                             Inl err \<Rightarrow> Ret (Inl err)
                           | Inr resObs \<Rightarrow>
                               (case NewNRTUpdater nodeGetter hasNRTCli nrtupdaterArgs tmConf of
                                  Inl err \<Rightarrow> Ret (Inl err)
                                | Inr upd \<Rightarrow>
                                    Ret (Inr \<lparr>rs_injector = condIn, rs_source = eventSource,
                                              rs_observer = resObs, rs_updater = upd\<rparr>)))))))"

section \<open>Properties\<close>

text \<open>
  C35. What a successful start guarantees: the topology manager settings published are the configured
  ones, or the kubelet's when either is missing; owner references are added precisely on request;
  the event source has the configured interval and is limited precisely when both limits are
  positive; the observer has the configured exclusions; the updater starts in the configured mode
  with nothing to patch.
\<close>

theorem execute_starts:
  assumes "Execute kubelet nodes lookupEnv watcherErr fs newMonitor cli ua ra rteArgs = Ret (Inr st)"
  shows "te_tmConfig (rs_updater st) =
       (if re_TopologyManagerPolicy rteArgs \<noteq> [] \<and> re_TopologyManagerScope rteArgs \<noteq> []
        then \<lparr>tm_Policy = re_TopologyManagerPolicy rteArgs, tm_Scope = re_TopologyManagerScope rteArgs\<rparr>
        else projr (kubelet (re_KubeletConfigFile rteArgs))) \<and>
     (te_nodeGetter (rs_updater st) = DisabledNodeGetter \<longleftrightarrow> \<not> re_AddNRTOwnerEnable rteArgs) \<and>
     (case rs_source st of
        Unlimited es \<Rightarrow> es_sleepInterval es = re_SleepInterval rteArgs \<and>
          \<not> (0 < re_MaxEventsPerTimeUnit rteArgs \<and> 0 < re_TimeUnitToLimitEvents rteArgs)
      | RateLimited es n u \<Rightarrow> es_sleepInterval es = re_SleepInterval rteArgs \<and>
          n = re_MaxEventsPerTimeUnit rteArgs \<and> u = re_TimeUnitToLimitEvents rteArgs \<and> 0 < n \<and> 0 < u) \<and>
     0 \<le> re_SleepInterval rteArgs \<and>
     ro_resourceExclude (rs_observer st) = ra_ResourceExclude ra \<and>
     ro_exposeTiming (rs_observer st) = ra_ExposeTiming ra \<and>
     te_args (rs_updater st) = ua \<and> te_prevNRT (rs_updater st) = None \<and> te_patchCount (rs_updater st) = 0 \<and>
     (te_sendObject (rs_updater st) = m_sendObjectPatch \<longleftrightarrow> ua_PatchMode ua)"
proof -
  obtain tm ng es upd where parts:
    "getTopologyManagerSettings kubelet rteArgs = Inr tm"
    "(if re_AddNRTOwnerEnable rteArgs then NewCachedNodeGetter nodes else Inr DisabledNodeGetter) = Inr ng"
    "createEventSource watcherErr fs rteArgs = Inr es"
    "NewNRTUpdater ng cli ua tm = Inr upd" "rs_source st = es" "rs_updater st = upd"
    "ro_resourceExclude (rs_observer st) = ra_ResourceExclude ra"
    "ro_exposeTiming (rs_observer st) = ra_ExposeTiming ra"
    using assms by (cases "newMonitor ra") (auto simp: Execute_def NewResourceObserver_def split: sum.splits)
  have "ng = DisabledNodeGetter \<longleftrightarrow> \<not> re_AddNRTOwnerEnable rteArgs"
    using parts(2) by (auto simp: NewCachedNodeGetter_def split: if_splits sum.splits)
  moreover have "tm = (if re_TopologyManagerPolicy rteArgs \<noteq> [] \<and> re_TopologyManagerScope rteArgs \<noteq> []
        then \<lparr>tm_Policy = re_TopologyManagerPolicy rteArgs, tm_Scope = re_TopologyManagerScope rteArgs\<rparr>
        else projr (kubelet (re_KubeletConfigFile rteArgs)))"
    using parts(1) by (auto simp: getTopologyManagerSettings_def split: if_splits sum.splits)
  moreover have "case es of
        Unlimited es \<Rightarrow> es_sleepInterval es = re_SleepInterval rteArgs \<and>
          \<not> (0 < re_MaxEventsPerTimeUnit rteArgs \<and> 0 < re_TimeUnitToLimitEvents rteArgs)
      | RateLimited es n u \<Rightarrow> es_sleepInterval es = re_SleepInterval rteArgs \<and>
          n = re_MaxEventsPerTimeUnit rteArgs \<and> u = re_TimeUnitToLimitEvents rteArgs \<and> 0 < n \<and> 0 < u"
    "0 \<le> re_SleepInterval rteArgs"
    using parts(3)
    by (auto simp: createEventSource_def NewUnlimitedEventSource_def SetInterval_def AddFile_def
        split: if_splits option.splits)
  moreover have "te_args upd = ua" "te_tmConfig upd = tm" "te_nodeGetter upd = ng" "te_prevNRT upd = None"
    "te_patchCount upd = 0" "te_sendObject upd = m_sendObjectPatch \<longleftrightarrow> ua_PatchMode ua"
    using parts(4) by (auto simp: NewNRTUpdater_def split: if_splits)
  ultimately show ?thesis using parts(5-8) by simp
qed

definition sample_rte :: rte_Args where
  "sample_rte =
     \<lparr>re_ReferenceContainer = None, re_TopologyManagerPolicy = [], re_TopologyManagerScope = ''pod'',
      re_KubeletConfigFile = ''/podresources/config.yaml'', re_PodResourcesSocketPath = [],
      re_SleepInterval = 60000000000, re_PodReadinessEnable = False, re_NotifyFilePath = [],
      re_MaxEventsPerTimeUnit = 1, re_TimeUnitToLimitEvents = 1000000000,
      re_AddNRTOwnerEnable = False, re_MetricsMode = ServingDefault, re_MetricsPort = PortDefault,
      re_MetricsAddress = AddressDefault, re_MetricsTLSCfg = NewDefaultTLSConfig\<rparr>"

definition sample_kubelet :: "string \<Rightarrow> gerr + TMConfig" where
  "sample_kubelet path = Inr \<lparr>tm_Policy = ''restricted'', tm_Scope = ''container''\<rparr>"

definition sample_notify_fs :: notify_fs where
  "sample_notify_fs = \<lparr>nf_MkdirAll = (\<lambda>_. None), nf_Stat = (\<lambda>_. None), nf_Create = (\<lambda>_. None),
     nf_Close = (\<lambda>_. None), nf_Watch = (\<lambda>_. None)\<rparr>"

theorem execute_starts_witness:
  "\<exists>rm ra ua st. Execute sample_kubelet (Inr []) (\<lambda>_. None) None sample_notify_fs (\<lambda>_. Ret (Inr rm)) True ua ra
     sample_rte = Ret (Inr st) \<and> te_tmConfig (rs_updater st) = \<lparr>tm_Policy = ''restricted'', tm_Scope = ''container''\<rparr>"
proof -
  fix rm ra ua
  have "\<exists>st. Execute sample_kubelet (Inr []) (\<lambda>_. None) None sample_notify_fs (\<lambda>_. Ret (Inr rm)) True ua ra
      sample_rte = Ret (Inr st)"
    by (simp add: Execute_def getTopologyManagerSettings_def sample_rte_def sample_kubelet_def
        createEventSource_def NewUnlimitedEventSource_def SetInterval_def AddFile_def
        NewResourceObserver_def NewNRTUpdater_def)
  then obtain st where st: "Execute sample_kubelet (Inr []) (\<lambda>_. None) None sample_notify_fs
      (\<lambda>_. Ret (Inr rm)) True ua ra sample_rte = Ret (Inr st)" by blast
  from execute_starts [OF st] have "te_tmConfig (rs_updater st) = \<lparr>tm_Policy = ''restricted'', tm_Scope = ''container''\<rparr>"
    by (simp add: sample_rte_def sample_kubelet_def)
  with st show ?thesis by blast
qed

end
