(* ===== verification/Config.thy ===== *)
theory Config
  imports Exporter
begin

text \<open>
  \<^verbatim>\<open>pkg/config\<close>: the program's arguments, their defaults, what the environment fills in, the validation,
  and the paths from which configuration may be read. \<open>env\<close> is \<^verbatim>\<open>os.LookupEnv\<close>.
\<close>

record GlobalArgs =
  ga_KubeConfig :: string
  ga_Debug :: bool
  ga_Verbose :: int

definition GlobalArgs_Clone :: "GlobalArgs \<Rightarrow> GlobalArgs" where
  "GlobalArgs_Clone args =
     \<lparr>ga_KubeConfig = ga_KubeConfig args, ga_Debug = ga_Debug args, ga_Verbose = ga_Verbose args\<rparr>"

record ProgArgs =
  pa_Global :: GlobalArgs
  pa_NRTupdater :: upd_Args
  pa_Resourcemonitor :: rm_Args
  pa_RTE :: rte_Args
  pa_Version :: bool
  pa_DumpConfig :: string

definition ProgArgs_Clone :: "ProgArgs \<Rightarrow> ProgArgs" where
  "ProgArgs_Clone pa =
     \<lparr>pa_Global = GlobalArgs_Clone (pa_Global pa), pa_NRTupdater = upd_Args_Clone (pa_NRTupdater pa),
      pa_Resourcemonitor = rm_Args_Clone (pa_Resourcemonitor pa), pa_RTE = rte_Args_Clone (pa_RTE pa),
      pa_Version = pa_Version pa, pa_DumpConfig = pa_DumpConfig pa\<rparr>"

definition SetDefaults :: "('fp, 'st) pfp_lib \<Rightarrow> ProgArgs \<Rightarrow> ProgArgs" where
  "SetDefaults P pArgs =
     pArgs\<lparr>pa_Global := (pa_Global pArgs)\<lparr>ga_Verbose := 2\<rparr>,
       pa_NRTupdater := (pa_NRTupdater pArgs)\<lparr>ua_PatchMode := True, ua_PatchResync := 10\<rparr>,
       pa_Resourcemonitor := (pa_Resourcemonitor pArgs)
         \<lparr>ra_SysfsRoot := ''/sys'', ra_PodSetFingerprint := True,
          ra_PodSetFingerprintMethod := pfp_MethodWithExclusiveResources P\<rparr>,
       pa_RTE := (pa_RTE pArgs)
         \<lparr>re_SleepInterval := 60 * Second,
          re_KubeletConfigFile := ''/podresources/config.yaml'',
          re_PodResourcesSocketPath := ''unix:///podresources/kubelet.sock'',
          re_PodReadinessEnable := True, re_AddNRTOwnerEnable := True,
          re_MetricsMode := ServingDefault, re_MetricsPort := PortDefault,
          re_MetricsAddress := AddressDefault, re_MetricsTLSCfg := NewDefaultTLSConfig,
          re_MaxEventsPerTimeUnit := 1, re_TimeUnitToLimitEvents := Second\<rparr>\<rparr>"

section \<open>The environment\<close>

definition env_or_empty :: "(string \<Rightarrow> string option) \<Rightarrow> string \<Rightarrow> string" where
  "env_or_empty env name = (case env name of Some val \<Rightarrow> val | None \<Rightarrow> [])"

definition HostNameFromEnv :: "(string \<Rightarrow> string option) \<Rightarrow> string" where
  "HostNameFromEnv env = env_or_empty env ''NODE_NAME''"

definition TopologyManagerPolicyFromEnv :: "(string \<Rightarrow> string option) \<Rightarrow> string" where
  "TopologyManagerPolicyFromEnv env = env_or_empty env ''TOPOLOGY_MANAGER_POLICY''"

definition TopologyManagerScopeFromEnv :: "(string \<Rightarrow> string option) \<Rightarrow> string" where
  "TopologyManagerScopeFromEnv env = env_or_empty env ''TOPOLOGY_MANAGER_SCOPE''"

definition PodSetFingerprintStatusFileFromEnv :: "(string \<Rightarrow> string option) \<Rightarrow> string" where
  "PodSetFingerprintStatusFileFromEnv env = env_or_empty env ''PFP_STATUS_FILE''"

definition rte_FromEnv :: "(string \<Rightarrow> string option) \<Rightarrow> rte_Args \<Rightarrow> rte_Args" where
  "rte_FromEnv env rte =
     rte\<lparr>re_TopologyManagerPolicy :=
           (if re_TopologyManagerPolicy rte = [] then TopologyManagerPolicyFromEnv env
            else re_TopologyManagerPolicy rte),
         re_TopologyManagerScope :=
           (if re_TopologyManagerScope rte = [] then TopologyManagerScopeFromEnv env
            else re_TopologyManagerScope rte),
         re_ReferenceContainer :=
           (if ci_IsEmpty (re_ReferenceContainer rte) then ContainerIdentFromEnv (env_or_empty env)
            else re_ReferenceContainer rte),
         re_MetricsPort := (if re_MetricsPort rte = 0 then PortFromEnv env else re_MetricsPort rte),
         re_MetricsAddress :=
           (if re_MetricsAddress rte = [] then AddressFromEnv env else re_MetricsAddress rte)\<rparr>"

definition FromEnv :: "(string \<Rightarrow> string option) \<Rightarrow> ProgArgs \<Rightarrow> ProgArgs" where
  "FromEnv env pArgs =
     pArgs\<lparr>pa_NRTupdater := (pa_NRTupdater pArgs)
             \<lparr>ua_Hostname := (if ua_Hostname (pa_NRTupdater pArgs) = [] then HostNameFromEnv env
                             else ua_Hostname (pa_NRTupdater pArgs))\<rparr>,
           pa_RTE := rte_FromEnv env (pa_RTE pArgs),
           pa_Resourcemonitor := (pa_Resourcemonitor pArgs)
             \<lparr>ra_PodSetFingerprintStatusFile :=
                (if ra_PodSetFingerprintStatusFile (pa_Resourcemonitor pArgs) = []
                 then PodSetFingerprintStatusFileFromEnv env
                 else ra_PodSetFingerprintStatusFile (pa_Resourcemonitor pArgs))\<rparr>\<rparr>"

section \<open>Validation\<close>

text \<open>The fields are replaced by their normalised values also when the validation fails.\<close>

definition Validate :: "('fp, 'st) pfp_lib \<Rightarrow> ProgArgs \<Rightarrow> ProgArgs \<times> gerr option" where
  "Validate P pArgs =
     (case ServingModeIsSupported (re_MetricsMode (pa_RTE pArgs)) of
        (mode, err) \<Rightarrow>
          let pArgs1 = pArgs\<lparr>pa_RTE := (pa_RTE pArgs)\<lparr>re_MetricsMode := mode\<rparr>\<rparr> in
          case err of
            Some e \<Rightarrow> (pArgs1, Some e)
          | None \<Rightarrow>
              (case PFPMethodIsSupported P (ra_PodSetFingerprintMethod (pa_Resourcemonitor pArgs)) of
                 (meth, err) \<Rightarrow>
                   (pArgs1\<lparr>pa_Resourcemonitor := (pa_Resourcemonitor pArgs)
                       \<lparr>ra_PodSetFingerprintMethod := meth\<rparr>\<rparr>, err)))"

section \<open>Where configuration may be read from\<close>

definition SkipDirectory :: gerr where
  "SkipDirectory = Sentinel ''skip config directory''"

definition UserRunDir :: "int \<Rightarrow> gerr + string" where
  "UserRunDir uid = Inr (PathJoin [''/run'', ''user'', show_int uid, ''rte''])"

definition UserHomeDir :: "(string \<Rightarrow> string option) \<Rightarrow> gerr + string" where
  "UserHomeDir env =
     (case env ''HOME'' of
        None \<Rightarrow> Inl SkipDirectory
      | Some homeDir \<Rightarrow>
          if homeDir = [] then Inl SkipDirectory else Inr (PathJoin [homeDir, ''.rte'']))"

definition allowedPatterns :: "string list" where
  "allowedPatterns =
     [''/etc/rte'', ''/run/rte'', ''/var/rte'', ''/usr/local/etc/rte'',
      ''/etc/resource-topology-exporter'']"

fun add_dirs :: "(gerr + string) list \<Rightarrow> string list \<Rightarrow> gerr + string list" where
  "add_dirs [] patterns = Inr patterns"
| "add_dirs (Inl err # rest) patterns =
     (if errors_is err SkipDirectory then add_dirs rest patterns else Inl err)"
| "add_dirs (Inr userDir # rest) patterns = add_dirs rest (patterns @ [userDir])"

fun first_pattern :: "string \<Rightarrow> string list \<Rightarrow> string" where
  "first_pattern cfgPath [] = []"
| "first_pattern cfgPath (pattern # rest) =
     (if HasPrefix cfgPath pattern then pattern else first_pattern cfgPath rest)"

definition IsConfigRootAllowed :: "string \<Rightarrow> (gerr + string) list \<Rightarrow> gerr + string" where
  "IsConfigRootAllowed cfgPath addDirs =
     (case add_dirs addDirs allowedPatterns of
        Inl err \<Rightarrow> Inl err
      | Inr patterns \<Rightarrow> Inr (first_pattern cfgPath patterns))"

text \<open>
  Both readers share the same steps before the final call, which is the argument \<open>read\<close>:
  \<^verbatim>\<open>os.ReadFile\<close> or \<^verbatim>\<open>os.ReadDir\<close>. \<open>evalSymlinks\<close> is \<^verbatim>\<open>filepath.EvalSymlinks\<close>.
\<close>

definition ErrNotExist :: gerr where
  "ErrNotExist = Sentinel ''file does not exist''"

definition ReadConfiglet ::
    "(string \<Rightarrow> gerr + string) \<Rightarrow> (string \<Rightarrow> gerr + 'a) \<Rightarrow> int \<Rightarrow> (string \<Rightarrow> string option) \<Rightarrow> string \<Rightarrow>
     gerr + 'a" where
  "ReadConfiglet evalSymlinks read uid env configPath =
     (let configRoot = Clean configPath in
      case (case evalSymlinks configRoot of
              Inl err \<Rightarrow> if errors_is err ErrNotExist then Inr configRoot
                         else Inl (Wrapf ''failed to validate config path'' err)
            | Inr p \<Rightarrow> Inr p) of
        Inl err \<Rightarrow> Inl err
      | Inr cfgRoot \<Rightarrow>
          (case IsConfigRootAllowed cfgRoot [UserRunDir uid, UserHomeDir env] of
             Inl err \<Rightarrow> Inl err
           | Inr pattern \<Rightarrow>
               if pattern = []
               then Inl (Errorf (''failed to validate configRoot path '' @ cfgRoot @
                      '': does not match any allowed pattern''))
               else read cfgRoot))"

end
