(* ===== verification/ConfigProps.thy ===== *)
theory ConfigProps
  imports Config Samples
begin

text \<open>The properties of the configuration.\<close>

section \<open>Validation\<close>

lemma to_lower_char_idem: "to_lower_char (to_lower_char c) = to_lower_char c"
proof (cases "CHR ''A'' \<le> c \<and> c \<le> CHR ''Z''")
  case True
  then have "(65::nat) \<le> of_char c" "of_char c \<le> (90::nat)" by (simp_all add: less_eq_char_def)
  then have "of_char (char_of (of_char c + (32::nat))) = of_char c + (32::nat)"
    "of_char c + (32::nat) > 90" by simp_all
  then have "\<not> char_of (of_char c + (32::nat)) \<le> CHR ''Z''" by (simp add: less_eq_char_def)
  with True show ?thesis by (simp add: to_lower_char_def)
next
  case False
  then have "to_lower_char c = c" unfolding to_lower_char_def by (rule if_not_P)
  then show ?thesis by simp
qed

lemma ToLower_idem: "ToLower (ToLower s) = ToLower s"
  by (simp add: ToLower_def to_lower_char_idem)

text \<open>
  C38. A validated configuration is normal: the metrics mode and the fingerprint method are among the
  supported ones, in lower case, nothing else changed, and validating again changes nothing.
\<close>

theorem validate_normal:
  assumes "Validate P pArgs = (pArgs', None)"
  shows "re_MetricsMode (pa_RTE pArgs') \<in> {''disabled'', ''http'', ''httptls''} \<and>
     ra_PodSetFingerprintMethod (pa_Resourcemonitor pArgs') \<in>
       {pfp_MethodAll P, pfp_MethodWithExclusiveResources P} \<and>
     pArgs' = pArgs\<lparr>
       pa_RTE := (pa_RTE pArgs)\<lparr>re_MetricsMode := ToLower (re_MetricsMode (pa_RTE pArgs))\<rparr>,
       pa_Resourcemonitor := (pa_Resourcemonitor pArgs)\<lparr>ra_PodSetFingerprintMethod :=
         ToLower (ra_PodSetFingerprintMethod (pa_Resourcemonitor pArgs))\<rparr>\<rparr> \<and>
     Validate P pArgs' = (pArgs', None)"
proof -
  let ?m = "ToLower (re_MetricsMode (pa_RTE pArgs))"
  let ?f = "ToLower (ra_PodSetFingerprintMethod (pa_Resourcemonitor pArgs))"
  from assms have m: "?m \<in> {''disabled'', ''http'', ''httptls''}"
    by (auto simp: Validate_def ServingModeIsSupported_def Let_def ServingDisabled_def ServingHTTP_def
        ServingHTTPTLS_def split: if_splits)
  then have mode: "ServingModeIsSupported (re_MetricsMode (pa_RTE pArgs)) = (?m, None)"
    "ServingModeIsSupported ?m = (?m, None)"
    by (auto simp: ServingModeIsSupported_def Let_def ToLower_idem ServingDisabled_def ServingHTTP_def
        ServingHTTPTLS_def)
  with assms have f: "?f \<in> {pfp_MethodAll P, pfp_MethodWithExclusiveResources P}"
    by (auto simp: Validate_def PFPMethodIsSupported_def Let_def split: if_splits)
  then have meth: "PFPMethodIsSupported P (ra_PodSetFingerprintMethod (pa_Resourcemonitor pArgs)) = (?f, None)"
    "PFPMethodIsSupported P ?f = (?f, None)"
    by (auto simp: PFPMethodIsSupported_def Let_def ToLower_idem)
  from assms mode meth have eq: "pArgs' = pArgs\<lparr>pa_RTE := (pa_RTE pArgs)\<lparr>re_MetricsMode := ?m\<rparr>,
       pa_Resourcemonitor := (pa_Resourcemonitor pArgs)\<lparr>ra_PodSetFingerprintMethod := ?f\<rparr>\<rparr>"
    by (simp add: Validate_def)
  with m f mode meth show ?thesis by (simp add: Validate_def)
qed

section \<open>The environment\<close>

text \<open>
  The environment only fills gaps: a setting that is given keeps its value, and reading the
  environment again changes nothing.
\<close>

lemma env_fills_gaps:
  "FromEnv env (FromEnv env p) = FromEnv env p \<and>
   ua_Hostname (pa_NRTupdater (FromEnv env p)) =
     (if ua_Hostname (pa_NRTupdater p) = [] then env_or_empty env ''NODE_NAME''
      else ua_Hostname (pa_NRTupdater p)) \<and>
   re_ReferenceContainer (pa_RTE (FromEnv env p)) =
     (if ci_IsEmpty (re_ReferenceContainer (pa_RTE p)) then ContainerIdentFromEnv (env_or_empty env)
      else re_ReferenceContainer (pa_RTE p)) \<and>
   re_MetricsPort (pa_RTE (FromEnv env p)) =
     (if re_MetricsPort (pa_RTE p) = 0 then PortFromEnv env else re_MetricsPort (pa_RTE p)) \<and>
   pa_Global (FromEnv env p) = pa_Global p"
proof -
  have "rte_FromEnv env (rte_FromEnv env r) = rte_FromEnv env r" for r
    by (auto simp: rte_FromEnv_def intro: rte_Args.equality)
  then show ?thesis by (simp add: FromEnv_def HostNameFromEnv_def) (simp add: rte_FromEnv_def)
qed

section \<open>Paths\<close>

definition allowed_roots :: "int \<Rightarrow> (string \<Rightarrow> string option) \<Rightarrow> string set" where
  "allowed_roots uid env =
     set allowedPatterns \<union> {PathJoin [''/run'', ''user'', show_int uid, ''rte'']} \<union>
     {PathJoin [h, ''.rte''] | h. env ''HOME'' = Some h \<and> h \<noteq> []}"

lemma first_pattern_in:
  "first_pattern p ps \<noteq> [] \<Longrightarrow> first_pattern p ps \<in> set ps \<and> HasPrefix p (first_pattern p ps)"
  by (induction ps) auto

lemma add_dirs_user:
  "\<exists>ps. add_dirs [UserRunDir uid, UserHomeDir env] allowedPatterns = Inr ps \<and> set ps = allowed_roots uid env"
  by (auto simp: UserRunDir_def UserHomeDir_def allowed_roots_def SkipDirectory_def split: option.splits)

text \<open>
  C37. Configuration is read from allowed places only: whatever the readers return was read from a
  path, with symbolic links resolved, that starts with one of the allowed directories.
\<close>

theorem configlet_confined:
  assumes "ReadConfiglet evalSymlinks rd uid env path = Inr x"
  shows "\<exists>q. rd q = Inr x \<and> (\<exists>root \<in> allowed_roots uid env. \<exists>rest. q = root @ rest) \<and>
     (evalSymlinks (Clean path) = Inr q \<or>
      q = Clean path \<and> (\<exists>e. evalSymlinks (Clean path) = Inl e \<and> errors_is e ErrNotExist))"
proof -
  from assms obtain q where q: "evalSymlinks (Clean path) = Inr q \<or>
      q = Clean path \<and> (\<exists>e. evalSymlinks (Clean path) = Inl e \<and> errors_is e ErrNotExist)"
    and rest: "(case IsConfigRootAllowed q [UserRunDir uid, UserHomeDir env] of
      Inl err \<Rightarrow> Inl err
    | Inr pattern \<Rightarrow> if pattern = [] then Inl (Errorf (''failed to validate configRoot path '' @ q @
            '': does not match any allowed pattern'')) else rd q) = Inr x"
    by (auto simp: ReadConfiglet_def Let_def split: sum.splits if_splits)
  obtain ps where ps: "add_dirs [UserRunDir uid, UserHomeDir env] allowedPatterns = Inr ps"
    "set ps = allowed_roots uid env" using add_dirs_user by blast
  with rest have "first_pattern q ps \<noteq> []" "rd q = Inr x"
    by (auto simp: IsConfigRootAllowed_def split: if_splits)
  with first_pattern_in [of q ps] ps(2) q show ?thesis by (auto simp: HasPrefix_iff)
qed

text \<open>The check compares text, not directories: a sibling whose name extends an allowed one passes.\<close>

lemma sibling_directory_allowed:
  "IsConfigRootAllowed ''/etc/rte-other/config.yaml'' [] = Inr ''/etc/rte''"
  by (simp add: IsConfigRootAllowed_def allowedPatterns_def)

section \<open>Instances\<close>

definition sample_prog :: ProgArgs where
  "sample_prog =
     \<lparr>pa_Global = \<lparr>ga_KubeConfig = [], ga_Debug = False, ga_Verbose = 2\<rparr>,
      pa_NRTupdater = \<lparr>ua_NoPublish = False, ua_Oneshot = False, ua_Hostname = [], ua_KubeConfig = [],
        ua_PatchMode = True, ua_PatchResync = 10\<rparr>,
      pa_Resourcemonitor = sample_args\<lparr>ra_PodSetFingerprintMethod := ''ALL''\<rparr>,
      pa_RTE = sample_rte\<lparr>re_MetricsMode := ''HTTP''\<rparr>, pa_Version = False, pa_DumpConfig = []\<rparr>"

theorem validate_normal_witness:
  "\<exists>p. Validate sample_pfp sample_prog = (p, None) \<and> re_MetricsMode (pa_RTE p) = ''http''"
proof -
  have ok: "snd (Validate sample_pfp sample_prog) = None" by code_simp
  then obtain p where p: "Validate sample_pfp sample_prog = (p, None)"
    by (cases "Validate sample_pfp sample_prog") auto
  have "ToLower (re_MetricsMode (pa_RTE sample_prog)) = ''http''" by code_simp
  with validate_normal [OF p] p show ?thesis by auto
qed

theorem configlet_confined_witness:
  "ReadConfiglet Inr (\<lambda>q. if q = ''/etc/rte/config.yaml'' then Inr (1::int) else Inl ErrNotExist) 0 (\<lambda>_. None)
     ''/etc/rte//config.yaml'' = Inr 1 \<and>
   (\<exists>root \<in> allowed_roots 0 (\<lambda>_. None). \<exists>rest. ''/etc/rte/config.yaml'' = root @ rest)"
proof -
  have r: "ReadConfiglet Inr (\<lambda>q. if q = ''/etc/rte/config.yaml'' then Inr (1::int) else Inl ErrNotExist) 0
     (\<lambda>_. None) ''/etc/rte//config.yaml'' = Inr 1" by code_simp
  from configlet_confined [OF this] r show ?thesis by (auto split: if_splits)
qed

end
