(* ===== verification/GoText.thy ===== *)
theory GoText
  imports GoStd Complex_Main "HOL-Library.Log_Nat"
begin

text \<open>
  How Go reads the values of command line flags: \<^verbatim>\<open>strconv.ParseBool\<close>, \<^verbatim>\<open>strconv.ParseInt\<close> with base
  0, and \<^verbatim>\<open>time.ParseDuration\<close>. The last one multiplies fractions in \<^verbatim>\<open>float64\<close>; the finite values of
  that type are rationals here, every operation is followed by the rounding of IEEE 754.
\<close>

section \<open>Booleans\<close>

definition ParseBool :: "string \<Rightarrow> bool option" where
  "ParseBool str =
     (if str \<in> set [''1'', ''t'', ''T'', ''true'', ''TRUE'', ''True''] then Some True
      else if str \<in> set [''0'', ''f'', ''F'', ''false'', ''FALSE'', ''False''] then Some False
      else None)"

section \<open>Integers in base 0\<close>

text \<open>The value of a digit or letter of either case; \<open>None\<close> for other bytes.\<close>

definition base_digit :: "char \<Rightarrow> int option" where
  "base_digit c =
     (let n = (of_char c :: int) in
      if 48 \<le> n \<and> n \<le> 57 then Some (n - 48)
      else if 97 \<le> n \<and> n \<le> 122 then Some (n - 87)
      else if 65 \<le> n \<and> n \<le> 90 then Some (n - 55)
      else None)"

text \<open>The prefix of the text decides the base.\<close>

definition base_prefix :: "string \<Rightarrow> int \<times> string" where
  "base_prefix s =
     (if s \<noteq> [] \<and> hd s = CHR ''0'' then
        (if length s \<ge> 3 \<and> to_lower_char (s ! 1) = CHR ''b'' then (2, drop 2 s)
         else if length s \<ge> 3 \<and> to_lower_char (s ! 1) = CHR ''o'' then (8, drop 2 s)
         else if length s \<ge> 3 \<and> to_lower_char (s ! 1) = CHR ''x'' then (16, drop 2 s)
         else (8, tl s))
      else (10, s))"

text \<open>The digit loop; the flag of the result says whether an underscore was seen.\<close>

fun base_loop :: "int \<Rightarrow> int \<Rightarrow> bool \<Rightarrow> string \<Rightarrow> num_err + (int \<times> bool)" where
  "base_loop base n underscores [] = Inr (n, underscores)"
| "base_loop base n underscores (c # cs) =
     (if c = CHR ''_'' then base_loop base n True cs
      else
        case base_digit c of
          None \<Rightarrow> Inl ErrSyntax
        | Some d \<Rightarrow>
            if d \<ge> base then Inl ErrSyntax
            else if n * base + d > 2 ^ 64 - 1 then Inl ErrRange
            else base_loop base (n * base + d) underscores cs)"

datatype saw = SawStart | SawDigit | SawUnderscore | SawOther

fun underscore_loop :: "bool \<Rightarrow> saw \<Rightarrow> string \<Rightarrow> bool" where
  "underscore_loop hex saw [] = (saw \<noteq> SawUnderscore)"
| "underscore_loop hex saw (c # cs) =
     (if is_digit c \<or> hex \<and> CHR ''a'' \<le> to_lower_char c \<and> to_lower_char c \<le> CHR ''f''
      then underscore_loop hex SawDigit cs
      else if c = CHR ''_'' then (if saw \<noteq> SawDigit then False else underscore_loop hex SawUnderscore cs)
      else if saw = SawUnderscore then False
      else underscore_loop hex SawOther cs)"

definition underscoreOK :: "string \<Rightarrow> bool" where
  "underscoreOK s =
     (if length s \<ge> 2 \<and> hd s = CHR ''0'' \<and>
        to_lower_char (s ! 1) \<in> {CHR ''b'', CHR ''o'', CHR ''x''}
      then underscore_loop (to_lower_char (s ! 1) = CHR ''x'') SawDigit (drop 2 s)
      else underscore_loop False SawStart s)"

definition ParseUint0 :: "string \<Rightarrow> num_err + int" where
  "ParseUint0 s =
     (if s = [] then Inl ErrSyntax
      else
        case base_prefix s of (base, digits) \<Rightarrow>
          (case base_loop base 0 False digits of
             Inl err \<Rightarrow> Inl err
           | Inr (n, underscores) \<Rightarrow>
               if underscores \<and> \<not> underscoreOK s then Inl ErrSyntax else Inr n))"

definition ParseInt0 :: "string \<Rightarrow> num_err + int" where
  "ParseInt0 s =
     (if s = [] then Inl ErrSyntax
      else
        let neg = (hd s = CHR ''-'');
            body = (if hd s = CHR ''+'' \<or> hd s = CHR ''-'' then tl s else s)
        in case ParseUint0 body of
             Inl err \<Rightarrow> Inl err
           | Inr un \<Rightarrow>
               if \<not> neg \<and> un \<ge> 2 ^ 63 then Inl ErrRange
               else if neg \<and> un > 2 ^ 63 then Inl ErrRange
               else Inr (if neg then - un else un))"

section \<open>Floating point\<close>

definition pow2 :: "int \<Rightarrow> rat" where
  "pow2 e = (if e \<ge> 0 then 2 ^ nat e else 1 / 2 ^ nat (- e))"

text \<open>Rounding to an integer, halves to even.\<close>

definition round_even :: "rat \<Rightarrow> int" where
  "round_even x =
     (let f = \<lfloor>x\<rfloor>; r = x - of_int f in
      if r < 1 / 2 then f else if r > 1 / 2 then f + 1 else if even f then f else f + 1)"

text \<open>The exponent of the leading bit of a positive rational.\<close>

definition leading_exp :: "rat \<Rightarrow> int" where
  "leading_exp x =
     (case quotient_of x of (a, b) \<Rightarrow>
        let e = bitlen a - bitlen b in
        if x \<ge> pow2 e then e else e - 1)"

text \<open>The \<^verbatim>\<open>float64\<close> nearest to a rational that is not negative; \<open>None\<close> is infinity.\<close>

definition f64 :: "rat \<Rightarrow> rat option" where
  "f64 x =
     (if x = 0 then Some 0
      else
        let e = max (- 1074) (leading_exp x - 52);
            r = of_int (round_even (x / pow2 e)) * pow2 e
        in if r \<ge> 2 ^ 1024 then None else Some r)"

section \<open>Durations\<close>

definition Hour :: int where
  "Hour = 3600000000000"

text \<open>The units; the two spellings of the micro sign are those of Unicode, in UTF-8.\<close>

definition unitMap :: "(string, int) gomap" where
  "unitMap =
     [(''ns'', 1), (''us'', 1000), ([CHR 0xC2, CHR 0xB5, CHR ''s''], 1000),
      ([CHR 0xCE, CHR 0xBC, CHR ''s''], 1000), (''ms'', 1000000), (''s'', 1000000000),
      (''m'', 60000000000), (''h'', Hour)]"

text \<open>\<open>None\<close> is the overflow error; otherwise the value and the rest of the text.\<close>

fun leadingInt :: "int \<Rightarrow> string \<Rightarrow> (int \<times> string) option" where
  "leadingInt x [] = Some (x, [])"
| "leadingInt x (c # cs) =
     (if \<not> is_digit c then Some (x, c # cs)
      else if x > 2 ^ 63 div 10 then None
      else if x * 10 + digit_val c > 2 ^ 63 then None
      else leadingInt (x * 10 + digit_val c) cs)"

text \<open>The scale is a \<^verbatim>\<open>float64\<close>; digits after an overflow are read and ignored.\<close>

fun leadingFraction :: "bool \<Rightarrow> int \<Rightarrow> rat option \<Rightarrow> string \<Rightarrow> int \<times> rat option \<times> string" where
  "leadingFraction overflow x scale [] = (x, scale, [])"
| "leadingFraction overflow x scale (c # cs) =
     (if \<not> is_digit c then (x, scale, c # cs)
      else if overflow \<or> x > (2 ^ 63 - 1) div 10 \<or> x * 10 + digit_val c > 2 ^ 63
      then leadingFraction True x scale cs
      else leadingFraction False (x * 10 + digit_val c) (Option.bind scale (\<lambda>s. f64 (s * 10))) cs)"

text \<open>
  \<^verbatim>\<open>uint64(float64(f) * (float64(unit) / scale))\<close>; dividing by infinity gives zero. The product is at
  most the unit, so the conversion is in range.
\<close>

definition fraction_part :: "int \<Rightarrow> int \<Rightarrow> rat option \<Rightarrow> int" where
  "fraction_part f unit scale =
     (case (f64 (of_int f), Option.bind scale (\<lambda>s. f64 (of_int unit / s))) of
        (Some a, Some q) \<Rightarrow> (case f64 (a * q) of Some p \<Rightarrow> \<lfloor>p\<rfloor> | None \<Rightarrow> 0)
      | _ \<Rightarrow> 0)"

definition is_unit_char :: "char \<Rightarrow> bool" where
  "is_unit_char c \<longleftrightarrow> \<not> (c = CHR ''.'' \<or> is_digit c)"

text \<open>
  One number with its unit, from a text that is not empty: its nanoseconds and the rest. \<open>None\<close> stands
  for the errors, which differ in their messages only.
\<close>

definition duration_item :: "string \<Rightarrow> (int \<times> string) option" where
  "duration_item s =
     (if \<not> (hd s = CHR ''.'' \<or> is_digit (hd s)) then None
      else
        case leadingInt 0 s of
          None \<Rightarrow> None
        | Some (v, s1) \<Rightarrow>
            let pre = (length s \<noteq> length s1);
                dot = (s1 \<noteq> [] \<and> hd s1 = CHR ''.'')
            in case (if dot then leadingFraction False 0 (Some 1) (tl s1) else (0, Some 1, s1)) of
                 (f, scale, s2) \<Rightarrow>
                   let post = (dot \<and> length (tl s1) \<noteq> length s2);
                       u = takeWhile is_unit_char s2
                   in if \<not> pre \<and> \<not> post then None
                      else if u = [] then None
                      else
                        case map_of unitMap u of
                          None \<Rightarrow> None
                        | Some unit \<Rightarrow>
                            if v > 2 ^ 63 div unit then None
                            else
                              let v1 = v * unit;
                                  v2 = (if f > 0 then v1 + fraction_part f unit scale else v1)
                              in if f > 0 \<and> v2 > 2 ^ 63 then None
                                 else Some (v2, dropWhile is_unit_char s2))"

lemma leadingInt_shorter: "leadingInt x s = Some (v, r) \<Longrightarrow> length r \<le> length s"
  by (induction x s rule: leadingInt.induct) (auto split: if_splits)

lemma leadingFraction_shorter: "leadingFraction b x sc s = (f, sc', r) \<Longrightarrow> length r \<le> length s"
  by (induction b x sc s arbitrary: f sc' r rule: leadingFraction.induct) (auto split: if_splits)

lemma duration_item_shorter:
  assumes "duration_item s = Some (v, r)"
  shows "length r < length s"
proof -
  from assms obtain v1 s1 where i: "leadingInt 0 s = Some (v1, s1)"
    by (auto simp: duration_item_def split: if_splits option.splits)
  obtain f sc s2 where f: "(if s1 \<noteq> [] \<and> hd s1 = CHR ''.'' then leadingFraction False 0 (Some 1) (tl s1)
      else (0, Some 1, s1)) = (f, sc, s2)"
    by (metis prod_cases3)
  then have "length s2 \<le> length s1"
    by (cases s1) (auto split: if_splits dest!: leadingFraction_shorter)
  moreover have "length r < length s2"
  proof -
    from assms i f have "takeWhile is_unit_char s2 \<noteq> []" "r = dropWhile is_unit_char s2"
      by (auto simp: duration_item_def Let_def split: if_splits option.splits)
    then show ?thesis by (metis takeWhile_dropWhile_id length_append length_greater_0_conv less_add_same_cancel2)
  qed
  ultimately show ?thesis using leadingInt_shorter [OF i] by simp
qed

text \<open>The sum is taken in \<^verbatim>\<open>uint64\<close>.\<close>

function duration_loop :: "int \<Rightarrow> string \<Rightarrow> int option" where
  "duration_loop d s =
     (if s = [] then Some d
      else
        case duration_item s of
          None \<Rightarrow> None
        | Some (v, rest) \<Rightarrow>
            if (d + v) mod 2 ^ 64 > 2 ^ 63 then None
            else duration_loop ((d + v) mod 2 ^ 64) rest)"
  by pat_completeness auto
termination
  by (relation "measure (\<lambda>(d, s). length s)") (auto dest: duration_item_shorter)

declare duration_loop.simps [simp del]

definition ParseDuration :: "string \<Rightarrow> int option" where
  "ParseDuration str =
     (let neg = (str \<noteq> [] \<and> hd str = CHR ''-'');
          s = (if str \<noteq> [] \<and> (hd str = CHR ''-'' \<or> hd str = CHR ''+'') then tl str else str)
      in if s = ''0'' then Some 0
         else if s = [] then None
         else
           case duration_loop 0 s of
             None \<Rightarrow> None
           | Some d \<Rightarrow>
               if neg then Some (w64 (- d))
               else if d > 2 ^ 63 - 1 then None else Some d)"

end
