(* ===== verification/GoFlag.thy ===== *)
theory GoFlag
  imports GoText
begin

text \<open>
  Package \<^verbatim>\<open>flag\<close> of Go's standard library, for a flag set created with \<^verbatim>\<open>ExitOnError\<close>: an error in the
  arguments ends the process. The variables that the flags point to are the state \<open>'st\<close>; a flag is
  its name, whether it is boolean, and how its \<^verbatim>\<open>Set\<close> method changes the state.
\<close>

record 'st flag =
  fl_Name :: string
  fl_IsBoolFlag :: bool
  fl_Set :: "string \<Rightarrow> 'st \<Rightarrow> gerr + 'st"

type_synonym 'st FlagSet = "'st flag list"

fun fs_Lookup :: "'st FlagSet \<Rightarrow> string \<Rightarrow> 'st flag option" where
  "fs_Lookup [] name = None"
| "fs_Lookup (f # fs) name = (if fl_Name f = name then Some f else fs_Lookup fs name)"

text \<open>Defining a flag twice panics.\<close>

definition fs_Var :: "'st flag \<Rightarrow> 'st FlagSet \<Rightarrow> 'st FlagSet go" where
  "fs_Var f fs = (if fs_Lookup fs (fl_Name f) \<noteq> None then Panic FlagRedefined else Ret (fs @ [f]))"

fun fs_Vars :: "'st flag list \<Rightarrow> 'st FlagSet \<Rightarrow> 'st FlagSet go" where
  "fs_Vars [] fs = Ret fs"
| "fs_Vars (f # rest) fs = go_bind (fs_Var f fs) (fs_Vars rest)"

section \<open>Parsing\<close>

text \<open>A process that goes on with a result, or that has ended with an exit code.\<close>

datatype 'a proc = Returns 'a | Exits int

text \<open>The name and, after the first equals sign that is not in front, the value.\<close>

fun cut_equals :: "string \<Rightarrow> string \<times> string option" where
  "cut_equals [] = ([], None)"
| "cut_equals (c # cs) =
     (if c = CHR ''='' then ([], Some cs)
      else case cut_equals cs of (n, v) \<Rightarrow> (c # n, v))"

definition split_flag :: "string \<Rightarrow> string \<times> string option" where
  "split_flag name = (case name of [] \<Rightarrow> ([], None) | c # cs \<Rightarrow> (case cut_equals cs of (n, v) \<Rightarrow> (c # n, v)))"

text \<open>
  What \<^verbatim>\<open>parseOne\<close> sees in the arguments: no more flags and the arguments that remain, a syntax error,
  or the name and value of a flag with the arguments after it.
\<close>

datatype flag_token =
  NoFlag "string list"
| BadSyntax
| FlagToken string "string option" "string list"

definition next_token :: "string list \<Rightarrow> flag_token" where
  "next_token args =
     (case args of
        [] \<Rightarrow> NoFlag []
      | s # rest \<Rightarrow>
          if length s < 2 \<or> hd s \<noteq> CHR ''-'' then NoFlag args
          else if s = ''--'' then NoFlag rest
          else
            let name = (if s ! 1 = CHR ''-'' then drop 2 s else drop 1 s) in
            if name = [] \<or> hd name = CHR ''-'' \<or> hd name = CHR ''='' then BadSyntax
            else case split_flag name of (n, v) \<Rightarrow> FlagToken n v rest)"

text \<open>
  One assignment: which flag gets which text, and the arguments after it. A boolean flag without a
  value is true; any other flag takes the next argument.
\<close>

definition flag_value :: "bool \<Rightarrow> string option \<Rightarrow> string list \<Rightarrow> (string \<times> string list) option" where
  "flag_value isBool v rest =
     (if isBool then Some (case v of Some x \<Rightarrow> x | None \<Rightarrow> ''true'', rest)
      else
        case v of
          Some x \<Rightarrow> Some (x, rest)
        | None \<Rightarrow> (case rest of [] \<Rightarrow> None | x # xs \<Rightarrow> Some (x, xs)))"

lemma next_token_shorter: "next_token args = FlagToken n v rest \<Longrightarrow> length rest < length args"
  by (auto simp: next_token_def Let_def split: list.splits if_splits prod.splits)

lemma flag_value_shorter: "flag_value b v rest = Some (x, rest') \<Longrightarrow> length rest' \<le> length rest"
  by (auto simp: flag_value_def split: if_splits option.splits list.splits)

text \<open>
  \<^verbatim>\<open>Parse\<close>: the flags are set one after the other; the result is the state and the arguments that
  are left. An unknown \<^verbatim>\<open>-help\<close> or \<^verbatim>\<open>-h\<close> ends the process with code 0, every other error with 2.
\<close>

function fs_Parse :: "'st FlagSet \<Rightarrow> string list \<Rightarrow> 'st \<Rightarrow> ('st \<times> string list) proc" where
  "fs_Parse fs args st =
     (case next_token args of
        NoFlag rest \<Rightarrow> Returns (st, rest)
      | BadSyntax \<Rightarrow> Exits 2
      | FlagToken name v rest \<Rightarrow>
          (case fs_Lookup fs name of
             None \<Rightarrow> if name = ''help'' \<or> name = ''h'' then Exits 0 else Exits 2
           | Some f \<Rightarrow>
               (case flag_value (fl_IsBoolFlag f) v rest of
                  None \<Rightarrow> Exits 2
                | Some (x, rest') \<Rightarrow>
                    (case fl_Set f x st of
                       Inl err \<Rightarrow> Exits 2
                     | Inr st' \<Rightarrow> fs_Parse fs rest' st'))))"
  by pat_completeness auto
termination
  by (relation "measure (\<lambda>(fs, args, st). length args)")
    (auto dest!: next_token_shorter flag_value_shorter)

declare fs_Parse.simps [simp del]

section \<open>The assignments of a command line\<close>

text \<open>
  What a command line assigns, without looking at the values: \<open>isBool\<close> tells of every known flag
  whether it is boolean. \<open>None\<close> is a command line that \<^verbatim>\<open>Parse\<close> rejects.
\<close>

function assignments :: "(string \<Rightarrow> bool option) \<Rightarrow> string list \<Rightarrow> ((string \<times> string) list \<times> string list) option" where
  "assignments isBool args =
     (case next_token args of
        NoFlag rest \<Rightarrow> Some ([], rest)
      | BadSyntax \<Rightarrow> None
      | FlagToken name v rest \<Rightarrow>
          (case isBool name of
             None \<Rightarrow> None
           | Some b \<Rightarrow>
               (case flag_value b v rest of
                  None \<Rightarrow> None
                | Some (x, rest') \<Rightarrow>
                    (case assignments isBool rest' of
                       None \<Rightarrow> None
                     | Some (asg, left) \<Rightarrow> Some ((name, x) # asg, left)))))"
  by pat_completeness auto
termination
  by (relation "measure (\<lambda>(b, args). length args)") (auto dest!: next_token_shorter flag_value_shorter)

declare assignments.simps [simp del]

fun assign_all :: "'st FlagSet \<Rightarrow> (string \<times> string) list \<Rightarrow> 'st \<Rightarrow> gerr + 'st" where
  "assign_all fs [] st = Inr st"
| "assign_all fs ((name, x) # asg) st =
     (case fs_Lookup fs name of
        None \<Rightarrow> Inl (Errorf (''flag provided but not defined: -'' @ name))
      | Some f \<Rightarrow> (case fl_Set f x st of Inl err \<Rightarrow> Inl err | Inr st' \<Rightarrow> assign_all fs asg st'))"

definition fs_isBool :: "'st FlagSet \<Rightarrow> string \<Rightarrow> bool option" where
  "fs_isBool fs name = map_option fl_IsBoolFlag (fs_Lookup fs name)"

text \<open>Parsing returns exactly when the command line is well formed and every value is accepted.\<close>

lemma fs_Parse_assignments:
  "fs_Parse fs args st =
     (case assignments (fs_isBool fs) args of
        None \<Rightarrow> fs_Parse fs args st
      | Some (asg, left) \<Rightarrow>
          (case assign_all fs asg st of Inl err \<Rightarrow> Exits 2 | Inr st' \<Rightarrow> Returns (st', left)))"
proof (induction fs args st rule: fs_Parse.induct)
  case (1 fs args st)
  show ?case
  proof (cases "next_token args")
    case (FlagToken name v rest)
    show ?thesis
    proof (cases "fs_Lookup fs name")
      case None
      with FlagToken show ?thesis
        by (simp add: assignments.simps [of _ args] fs_isBool_def)
    next
      case (Some f)
      show ?thesis
      proof (cases "flag_value (fl_IsBoolFlag f) v rest")
        case None
        with FlagToken Some show ?thesis by (simp add: assignments.simps [of _ args] fs_isBool_def)
      next
        case val: (Some p)
        obtain x rest' where p: "p = (x, rest')" by (cases p)
        show ?thesis
        proof (cases "fl_Set f x st")
          case (Inl e)
          with FlagToken Some val p show ?thesis
            by (simp add: fs_Parse.simps [of fs args st] assignments.simps [of _ args] fs_isBool_def
                split: option.splits)
        next
          case (Inr st')
          from "1" [OF FlagToken Some val [unfolded p] refl Inr] FlagToken Some val p Inr show ?thesis
            by (simp add: fs_Parse.simps [of fs args st] assignments.simps [of _ args] fs_isBool_def
                split: option.splits)
        qed
      qed
    qed
  qed (simp_all add: fs_Parse.simps [of fs args st] assignments.simps [of _ args])
qed

lemma fs_Parse_malformed:
  "assignments (fs_isBool fs) args = None \<Longrightarrow> \<exists>code. fs_Parse fs args st = Exits code"
proof (induction fs args st rule: fs_Parse.induct)
  case (1 fs args st)
  note step = fs_Parse.simps [of fs args st] assignments.simps [of "fs_isBool fs" args] fs_isBool_def
  show ?case
  proof (cases "next_token args")
    case (FlagToken name v rest)
    show ?thesis
    proof (cases "fs_Lookup fs name")
      case None
      with FlagToken show ?thesis by (simp add: step)
    next
      case (Some f)
      show ?thesis
      proof (cases "flag_value (fl_IsBoolFlag f) v rest")
        case None
        with FlagToken Some show ?thesis by (simp add: step)
      next
        case val: (Some p)
        obtain x rest' where p: "p = (x, rest')" by (cases p)
        show ?thesis
        proof (cases "fl_Set f x st")
          case (Inl e)
          with FlagToken Some val p show ?thesis by (simp add: step)
        next
          case (Inr st')
          have "fs_isBool fs name = Some (fl_IsBoolFlag f)" using Some by (simp add: fs_isBool_def)
          with "1.prems" FlagToken val p have "assignments (fs_isBool fs) rest' = None"
            by (simp add: assignments.simps [of _ args] split: option.splits prod.splits)
          from "1.IH" [OF FlagToken Some val [unfolded p] refl Inr this] FlagToken Some val p Inr
          show ?thesis by (simp add: fs_Parse.simps [of fs args st])
        qed
      qed
    qed
  qed (use "1.prems" in \<open>simp_all add: fs_Parse.simps [of fs args st] assignments.simps [of _ args]\<close>)
qed

lemma fs_Parse_returns:
  "fs_Parse fs args st = Returns (st', left) \<longleftrightarrow>
     (\<exists>asg. assignments (fs_isBool fs) args = Some (asg, left) \<and> assign_all fs asg st = Inr st')"
proof (cases "assignments (fs_isBool fs) args")
  case None
  with fs_Parse_malformed [of fs args st] obtain code where "fs_Parse fs args st = Exits code" by blast
  with None show ?thesis by simp
next
  case (Some p)
  obtain asg l where p: "p = (asg, l)" by (cases p)
  have "fs_Parse fs args st = (case assign_all fs asg st of Inl err \<Rightarrow> Exits 2 | Inr st' \<Rightarrow> Returns (st', l))"
    by (subst fs_Parse_assignments) (simp add: Some p)
  with Some p show ?thesis by (auto split: sum.splits)
qed

end
