(* ===== verification/Settings.thy ===== *)
theory Settings
  imports Config GoFlag
begin

text \<open>
  The fields of \<^verbatim>\<open>ProgArgs\<close> that flags and configuration files point to. Both packages take pointers
  such as \<^verbatim>\<open>&pArgs.RTE.SleepInterval\<close>; a pointer is the name of its field, \<open>ptr_type\<close> is the Go type
  that a type switch on the pointer sees, and \<open>get_field\<close> and \<open>put_field\<close> read and write through it.
\<close>

datatype pa_field =
  F_Debug | F_Verbose | F_KubeConfig | F_NoPublish | F_Oneshot | F_Hostname | F_PatchMode
  | F_PatchResync | F_Namespace | F_SysfsRoot | F_RefreshNodeResources | F_PodSetFingerprint
  | F_PodSetFingerprintMethod | F_ExposeTiming | F_PodSetFingerprintStatusFile
  | F_ExcludeTerminalPods | F_TopologyManagerPolicy | F_TopologyManagerScope | F_KubeletConfigFile
  | F_PodResourcesSocketPath | F_SleepInterval | F_PodReadinessEnable | F_NotifyFilePath
  | F_MaxEventsPerTimeUnit | F_TimeUnitToLimitEvents | F_AddNRTOwnerEnable | F_MetricsMode
  | F_MetricsPort | F_MetricsAddress | F_CertsDir | F_CertFile | F_KeyFile | F_WantCliAuth
  | F_MinTLSVersion | F_CipherSuites | F_Version | F_DumpConfig

datatype ptr_kind = PtrString | PtrInt | PtrBool | PtrDuration | PtrInt64

datatype gval = VString string | VInt int | VBool bool

primrec ptr_type :: "pa_field \<Rightarrow> ptr_kind" where
  "ptr_type F_Debug = PtrBool"
| "ptr_type F_Verbose = PtrInt"
| "ptr_type F_KubeConfig = PtrString"
| "ptr_type F_NoPublish = PtrBool"
| "ptr_type F_Oneshot = PtrBool"
| "ptr_type F_Hostname = PtrString"
| "ptr_type F_PatchMode = PtrBool"
| "ptr_type F_PatchResync = PtrInt"
| "ptr_type F_Namespace = PtrString"
| "ptr_type F_SysfsRoot = PtrString"
| "ptr_type F_RefreshNodeResources = PtrBool"
| "ptr_type F_PodSetFingerprint = PtrBool"
| "ptr_type F_PodSetFingerprintMethod = PtrString"
| "ptr_type F_ExposeTiming = PtrBool"
| "ptr_type F_PodSetFingerprintStatusFile = PtrString"
| "ptr_type F_ExcludeTerminalPods = PtrBool"
| "ptr_type F_TopologyManagerPolicy = PtrString"
| "ptr_type F_TopologyManagerScope = PtrString"
| "ptr_type F_KubeletConfigFile = PtrString"
| "ptr_type F_PodResourcesSocketPath = PtrString"
| "ptr_type F_SleepInterval = PtrDuration"
| "ptr_type F_PodReadinessEnable = PtrBool"
| "ptr_type F_NotifyFilePath = PtrString"
| "ptr_type F_MaxEventsPerTimeUnit = PtrInt64"
| "ptr_type F_TimeUnitToLimitEvents = PtrDuration"
| "ptr_type F_AddNRTOwnerEnable = PtrBool"
| "ptr_type F_MetricsMode = PtrString"
| "ptr_type F_MetricsPort = PtrInt"
| "ptr_type F_MetricsAddress = PtrString"
| "ptr_type F_CertsDir = PtrString"
| "ptr_type F_CertFile = PtrString"
| "ptr_type F_KeyFile = PtrString"
| "ptr_type F_WantCliAuth = PtrBool"
| "ptr_type F_MinTLSVersion = PtrString"
| "ptr_type F_CipherSuites = PtrString"
| "ptr_type F_Version = PtrBool"
| "ptr_type F_DumpConfig = PtrString"

fun as_string :: "gval \<Rightarrow> string" where
  "as_string (VString s) = s"
| "as_string _ = []"

fun as_int :: "gval \<Rightarrow> int" where
  "as_int (VInt i) = i"
| "as_int _ = 0"

fun as_bool :: "gval \<Rightarrow> bool" where
  "as_bool (VBool b) = b"
| "as_bool _ = False"

primrec get_field :: "pa_field \<Rightarrow> ProgArgs \<Rightarrow> gval" where
  "get_field F_Debug p = VBool (ga_Debug (pa_Global p))"
| "get_field F_Verbose p = VInt (ga_Verbose (pa_Global p))"
| "get_field F_KubeConfig p = VString (ga_KubeConfig (pa_Global p))"
| "get_field F_NoPublish p = VBool (ua_NoPublish (pa_NRTupdater p))"
| "get_field F_Oneshot p = VBool (ua_Oneshot (pa_NRTupdater p))"
| "get_field F_Hostname p = VString (ua_Hostname (pa_NRTupdater p))"
| "get_field F_PatchMode p = VBool (ua_PatchMode (pa_NRTupdater p))"
| "get_field F_PatchResync p = VInt (ua_PatchResync (pa_NRTupdater p))"
| "get_field F_Namespace p = VString (ra_Namespace (pa_Resourcemonitor p))"
| "get_field F_SysfsRoot p = VString (ra_SysfsRoot (pa_Resourcemonitor p))"
| "get_field F_RefreshNodeResources p = VBool (ra_RefreshNodeResources (pa_Resourcemonitor p))"
| "get_field F_PodSetFingerprint p = VBool (ra_PodSetFingerprint (pa_Resourcemonitor p))"
| "get_field F_PodSetFingerprintMethod p = VString (ra_PodSetFingerprintMethod (pa_Resourcemonitor p))"
| "get_field F_ExposeTiming p = VBool (ra_ExposeTiming (pa_Resourcemonitor p))"
| "get_field F_PodSetFingerprintStatusFile p = VString (ra_PodSetFingerprintStatusFile (pa_Resourcemonitor p))"
| "get_field F_ExcludeTerminalPods p = VBool (ra_ExcludeTerminalPods (pa_Resourcemonitor p))"
| "get_field F_TopologyManagerPolicy p = VString (re_TopologyManagerPolicy (pa_RTE p))"
| "get_field F_TopologyManagerScope p = VString (re_TopologyManagerScope (pa_RTE p))"
| "get_field F_KubeletConfigFile p = VString (re_KubeletConfigFile (pa_RTE p))"
| "get_field F_PodResourcesSocketPath p = VString (re_PodResourcesSocketPath (pa_RTE p))"
| "get_field F_SleepInterval p = VInt (re_SleepInterval (pa_RTE p))"
| "get_field F_PodReadinessEnable p = VBool (re_PodReadinessEnable (pa_RTE p))"
| "get_field F_NotifyFilePath p = VString (re_NotifyFilePath (pa_RTE p))"
| "get_field F_MaxEventsPerTimeUnit p = VInt (re_MaxEventsPerTimeUnit (pa_RTE p))"
| "get_field F_TimeUnitToLimitEvents p = VInt (re_TimeUnitToLimitEvents (pa_RTE p))"
| "get_field F_AddNRTOwnerEnable p = VBool (re_AddNRTOwnerEnable (pa_RTE p))"
| "get_field F_MetricsMode p = VString (re_MetricsMode (pa_RTE p))"
| "get_field F_MetricsPort p = VInt (re_MetricsPort (pa_RTE p))"
| "get_field F_MetricsAddress p = VString (re_MetricsAddress (pa_RTE p))"
| "get_field F_CertsDir p = VString (tls_CertsDir (re_MetricsTLSCfg (pa_RTE p)))"
| "get_field F_CertFile p = VString (tls_CertFile (re_MetricsTLSCfg (pa_RTE p)))"
| "get_field F_KeyFile p = VString (tls_KeyFile (re_MetricsTLSCfg (pa_RTE p)))"
| "get_field F_WantCliAuth p = VBool (tls_WantCliAuth (re_MetricsTLSCfg (pa_RTE p)))"
| "get_field F_MinTLSVersion p = VString (tls_MinTLSVersion (re_MetricsTLSCfg (pa_RTE p)))"
| "get_field F_CipherSuites p = VString (tls_CipherSuites (re_MetricsTLSCfg (pa_RTE p)))"
| "get_field F_Version p = VBool (pa_Version p)"
| "get_field F_DumpConfig p = VString (pa_DumpConfig p)"

primrec put_field :: "pa_field \<Rightarrow> gval \<Rightarrow> ProgArgs \<Rightarrow> ProgArgs" where
  "put_field F_Debug v p = pa_Global_update (ga_Debug_update (\<lambda>_. as_bool v)) p"
| "put_field F_Verbose v p = pa_Global_update (ga_Verbose_update (\<lambda>_. as_int v)) p"
| "put_field F_KubeConfig v p = pa_Global_update (ga_KubeConfig_update (\<lambda>_. as_string v)) p"
| "put_field F_NoPublish v p = pa_NRTupdater_update (ua_NoPublish_update (\<lambda>_. as_bool v)) p"
| "put_field F_Oneshot v p = pa_NRTupdater_update (ua_Oneshot_update (\<lambda>_. as_bool v)) p"
| "put_field F_Hostname v p = pa_NRTupdater_update (ua_Hostname_update (\<lambda>_. as_string v)) p"
| "put_field F_PatchMode v p = pa_NRTupdater_update (ua_PatchMode_update (\<lambda>_. as_bool v)) p"
| "put_field F_PatchResync v p = pa_NRTupdater_update (ua_PatchResync_update (\<lambda>_. as_int v)) p"
| "put_field F_Namespace v p = pa_Resourcemonitor_update (ra_Namespace_update (\<lambda>_. as_string v)) p"
| "put_field F_SysfsRoot v p = pa_Resourcemonitor_update (ra_SysfsRoot_update (\<lambda>_. as_string v)) p"
| "put_field F_RefreshNodeResources v p = pa_Resourcemonitor_update (ra_RefreshNodeResources_update (\<lambda>_. as_bool v)) p"
| "put_field F_PodSetFingerprint v p = pa_Resourcemonitor_update (ra_PodSetFingerprint_update (\<lambda>_. as_bool v)) p"
| "put_field F_PodSetFingerprintMethod v p = pa_Resourcemonitor_update (ra_PodSetFingerprintMethod_update (\<lambda>_. as_string v)) p"
| "put_field F_ExposeTiming v p = pa_Resourcemonitor_update (ra_ExposeTiming_update (\<lambda>_. as_bool v)) p"
| "put_field F_PodSetFingerprintStatusFile v p = pa_Resourcemonitor_update (ra_PodSetFingerprintStatusFile_update (\<lambda>_. as_string v)) p"
| "put_field F_ExcludeTerminalPods v p = pa_Resourcemonitor_update (ra_ExcludeTerminalPods_update (\<lambda>_. as_bool v)) p"
| "put_field F_TopologyManagerPolicy v p = pa_RTE_update (re_TopologyManagerPolicy_update (\<lambda>_. as_string v)) p"
| "put_field F_TopologyManagerScope v p = pa_RTE_update (re_TopologyManagerScope_update (\<lambda>_. as_string v)) p"
| "put_field F_KubeletConfigFile v p = pa_RTE_update (re_KubeletConfigFile_update (\<lambda>_. as_string v)) p"
| "put_field F_PodResourcesSocketPath v p = pa_RTE_update (re_PodResourcesSocketPath_update (\<lambda>_. as_string v)) p"
| "put_field F_SleepInterval v p = pa_RTE_update (re_SleepInterval_update (\<lambda>_. as_int v)) p"
| "put_field F_PodReadinessEnable v p = pa_RTE_update (re_PodReadinessEnable_update (\<lambda>_. as_bool v)) p"
| "put_field F_NotifyFilePath v p = pa_RTE_update (re_NotifyFilePath_update (\<lambda>_. as_string v)) p"
| "put_field F_MaxEventsPerTimeUnit v p = pa_RTE_update (re_MaxEventsPerTimeUnit_update (\<lambda>_. as_int v)) p"
| "put_field F_TimeUnitToLimitEvents v p = pa_RTE_update (re_TimeUnitToLimitEvents_update (\<lambda>_. as_int v)) p"
| "put_field F_AddNRTOwnerEnable v p = pa_RTE_update (re_AddNRTOwnerEnable_update (\<lambda>_. as_bool v)) p"
| "put_field F_MetricsMode v p = pa_RTE_update (re_MetricsMode_update (\<lambda>_. as_string v)) p"
| "put_field F_MetricsPort v p = pa_RTE_update (re_MetricsPort_update (\<lambda>_. as_int v)) p"
| "put_field F_MetricsAddress v p = pa_RTE_update (re_MetricsAddress_update (\<lambda>_. as_string v)) p"
| "put_field F_CertsDir v p = pa_RTE_update (re_MetricsTLSCfg_update (tls_CertsDir_update (\<lambda>_. as_string v))) p"
| "put_field F_CertFile v p = pa_RTE_update (re_MetricsTLSCfg_update (tls_CertFile_update (\<lambda>_. as_string v))) p"
| "put_field F_KeyFile v p = pa_RTE_update (re_MetricsTLSCfg_update (tls_KeyFile_update (\<lambda>_. as_string v))) p"
| "put_field F_WantCliAuth v p = pa_RTE_update (re_MetricsTLSCfg_update (tls_WantCliAuth_update (\<lambda>_. as_bool v))) p"
| "put_field F_MinTLSVersion v p = pa_RTE_update (re_MetricsTLSCfg_update (tls_MinTLSVersion_update (\<lambda>_. as_string v))) p"
| "put_field F_CipherSuites v p = pa_RTE_update (re_MetricsTLSCfg_update (tls_CipherSuites_update (\<lambda>_. as_string v))) p"
| "put_field F_Version v p = pa_Version_update (\<lambda>_. as_bool v) p"
| "put_field F_DumpConfig v p = pa_DumpConfig_update (\<lambda>_. as_string v) p"

text \<open>The values that a pointer may be assigned.\<close>

fun has_type :: "ptr_kind \<Rightarrow> gval \<Rightarrow> bool" where
  "has_type PtrString (VString s) = True"
| "has_type PtrBool (VBool b) = True"
| "has_type PtrInt (VInt i) = int64 i"
| "has_type PtrDuration (VInt i) = int64 i"
| "has_type PtrInt64 (VInt i) = int64 i"
| "has_type _ _ = False"

section \<open>Reading after writing\<close>

lemma get_put_same: "has_type (ptr_type f) v \<Longrightarrow> get_field f (put_field f v p) = v"
  by (cases f; cases v; simp)

lemma get_put_other: "f \<noteq> g \<Longrightarrow> get_field f (put_field g v p) = get_field f p"
  by (cases g; cases f; simp)

lemma put_keeps [simp]:
  "re_ReferenceContainer (pa_RTE (put_field f v p)) = re_ReferenceContainer (pa_RTE p)"
  "ra_ResourceExclude (pa_Resourcemonitor (put_field f v p)) = ra_ResourceExclude (pa_Resourcemonitor p)"
  "ra_PodExclude (pa_Resourcemonitor (put_field f v p)) = ra_PodExclude (pa_Resourcemonitor p)"
  by (cases f; simp)+

text \<open>What assigns a list of fields, from the left to the right.\<close>

definition put_all :: "(pa_field \<times> gval) list \<Rightarrow> ProgArgs \<Rightarrow> ProgArgs" where
  "put_all fvs p = foldl (\<lambda>q (f, v). put_field f v q) p fvs"

lemma put_all_simps [simp]:
  "put_all [] p = p" "put_all ((f, v) # fvs) p = put_all fvs (put_field f v p)"
  by (simp_all add: put_all_def)

lemma put_all_append: "put_all (xs @ ys) p = put_all ys (put_all xs p)"
  by (simp add: put_all_def)

text \<open>The value that a list of assignments leaves in a field, if it assigns the field at all.\<close>

definition last_value :: "pa_field \<Rightarrow> (pa_field \<times> gval) list \<Rightarrow> gval option" where
  "last_value f fvs = map_of (rev fvs) f"

definition well_typed :: "(pa_field \<times> gval) list \<Rightarrow> bool" where
  "well_typed fvs \<longleftrightarrow> list_all (\<lambda>(f, v). has_type (ptr_type f) v) fvs"

lemma get_put_all:
  "well_typed fvs \<Longrightarrow> get_field f (put_all fvs p) = (case last_value f fvs of Some v \<Rightarrow> v | None \<Rightarrow> get_field f p)"
proof (induction fvs rule: rev_induct)
  case (snoc fv fvs)
  obtain g v where fv: "fv = (g, v)" by (cases fv)
  with snoc show ?case
    by (cases "g = f") (simp_all add: well_typed_def put_all_append last_value_def get_put_same get_put_other)
qed (simp add: last_value_def)

lemma put_all_keeps [simp]:
  "re_ReferenceContainer (pa_RTE (put_all fvs p)) = re_ReferenceContainer (pa_RTE p)"
  "ra_ResourceExclude (pa_Resourcemonitor (put_all fvs p)) = ra_ResourceExclude (pa_Resourcemonitor p)"
  "ra_PodExclude (pa_Resourcemonitor (put_all fvs p)) = ra_PodExclude (pa_Resourcemonitor p)"
  by (induction fvs arbitrary: p; simp add: split_paired_all)+

end
