(* ===== verification/KlogLevel.thy ===== *)
theory KlogLevel
  imports GoFlag
begin

text \<open>
  \<^verbatim>\<open>pkg/kloglevel\<close>: reading and setting the verbosity of the logging library through the flags it
  registers. The library is the argument \<open>KL\<close> over its own state \<open>'k\<close>: the flags that \<^verbatim>\<open>klog.InitFlags\<close>
  defines, which of them hold a \<^verbatim>\<open>*klog.Level\<close>, the method \<^verbatim>\<open>Level.Set\<close>, and the level in force.
\<close>

record 'k klog_lib =
  kl_InitFlags :: "'k flag list"
  kl_IsLevel :: "string \<Rightarrow> bool"
  kl_Level_Set :: "string \<Rightarrow> 'k \<Rightarrow> gerr + 'k"
  kl_level :: "'k \<Rightarrow> int"

text \<open>A level is an \<^verbatim>\<open>int32\<close>.\<close>

definition w32 :: "int \<Rightarrow> int" where
  "w32 x = (x + 2 ^ 31) mod 2 ^ 32 - 2 ^ 31"

text \<open>
  What the documentation of \<^verbatim>\<open>klog\<close> promises: the flag \<^verbatim>\<open>-v\<close> holds the level, and setting the decimal
  text of a level puts it in force.
\<close>

definition klog_spec :: "'k klog_lib \<Rightarrow> bool" where
  "klog_spec KL \<longleftrightarrow>
     ''v'' \<in> fl_Name ` set (kl_InitFlags KL) \<and> kl_IsLevel KL ''v'' \<and> distinct (map fl_Name (kl_InitFlags KL)) \<and>
     (\<forall>x k. \<exists>k'. kl_Level_Set KL (show_int (w32 x)) k = Inr k' \<and> kl_level KL k' = w32 x)"

text \<open>The name of the flag whose value is the level: \<^verbatim>\<open>VisitAll\<close> goes through the flags by name.\<close>

definition getKLogLevel :: "'k klog_lib \<Rightarrow> 'st FlagSet \<Rightarrow> string option" where
  "getKLogLevel KL cmdline =
     (case fs_Lookup cmdline ''v'' of
        Some f \<Rightarrow>
          if kl_IsLevel KL (fl_Name f) then Some (fl_Name f)
          else find (kl_IsLevel KL) (sort (map fl_Name cmdline))
      | None \<Rightarrow> find (kl_IsLevel KL) (sort (map fl_Name cmdline)))"

definition kloglevel_Get :: "'k klog_lib \<Rightarrow> 'st FlagSet \<Rightarrow> 'k \<Rightarrow> int \<times> gerr option" where
  "kloglevel_Get KL cmdline k =
     (case getKLogLevel KL cmdline of
        None \<Rightarrow> (0, Some (Errorf ''cannot get the log level programmatically''))
      | Some _ \<Rightarrow> (kl_level KL k, None))"

definition kloglevel_Set :: "'k klog_lib \<Rightarrow> 'st FlagSet \<Rightarrow> int \<Rightarrow> 'k \<Rightarrow> 'k \<times> gerr option" where
  "kloglevel_Set KL cmdline v k =
     (let verbosity = show_int v in
      case getKLogLevel KL cmdline of
        Some _ \<Rightarrow> (case kl_Level_Set KL verbosity k of Inl err \<Rightarrow> (k, Some err) | Inr k' \<Rightarrow> (k', None))
      | None \<Rightarrow>
          (case kl_Level_Set KL verbosity k of
             Inl err \<Rightarrow> (k, Some (Errorf (''failed set klog.logging.verbosity '' @ verbosity)))
           | Inr k' \<Rightarrow> (k', None)))"

lemma fs_Lookup_name: "fs_Lookup fs n = Some f \<Longrightarrow> fl_Name f = n \<and> f \<in> set fs"
  by (induction fs) (auto split: if_splits)

lemma fs_Lookup_None: "fs_Lookup fs n = None \<longleftrightarrow> n \<notin> fl_Name ` set fs"
  by (induction fs) auto

lemma getKLogLevel_v:
  "klog_spec KL \<Longrightarrow> ''v'' \<in> fl_Name ` set cmdline \<Longrightarrow> getKLogLevel KL cmdline = Some ''v''"
  by (auto simp: getKLogLevel_def klog_spec_def fs_Lookup_None dest: fs_Lookup_name split: option.splits)

end
