(* ===== verification/Flags.thy ===== *)
theory Flags
  imports Settings KlogLevel
begin

text \<open>
  \<^verbatim>\<open>pkg/config/flags.go\<close>: the command line. The flags write into \<open>cl_args\<close> through pointers, into two
  local variables, and into the state of the logging library.
\<close>

definition DefaultConfigRoot :: string where
  "DefaultConfigRoot = ''/etc/rte''"

definition LegacyExtraConfigPath :: string where
  "LegacyExtraConfigPath = ''/etc/resource-topology-exporter/config.yaml''"

definition FixExtraConfigPath :: "string \<Rightarrow> string" where
  "FixExtraConfigPath configRoot = PathJoin [configRoot, ''extra'', ''config.yaml'']"

record 'k cmdline =
  cl_args :: ProgArgs
  cl_configPath :: string
  cl_refCnt :: string
  cl_klog :: 'k

text \<open>The \<^verbatim>\<open>Set\<close> methods of the flag values of package \<^verbatim>\<open>flag\<close>.\<close>

definition parse_value :: "ptr_kind \<Rightarrow> string \<Rightarrow> gerr + gval" where
  "parse_value t x =
     (case t of
        PtrString \<Rightarrow> Inr (VString x)
      | PtrBool \<Rightarrow> (case ParseBool x of Some b \<Rightarrow> Inr (VBool b) | None \<Rightarrow> Inl (Errorf ''parse error''))
      | PtrDuration \<Rightarrow> (case ParseDuration x of Some d \<Rightarrow> Inr (VInt d) | None \<Rightarrow> Inl (Errorf ''parse error''))
      | PtrInt \<Rightarrow> (case ParseInt0 x of Inr i \<Rightarrow> Inr (VInt i) | Inl e \<Rightarrow> Inl (Errorf ''parse error''))
      | PtrInt64 \<Rightarrow> (case ParseInt0 x of Inr i \<Rightarrow> Inr (VInt i) | Inl e \<Rightarrow> Inl (Errorf ''parse error'')))"

definition field_flag :: "string \<times> pa_field \<Rightarrow> 'k cmdline flag" where
  "field_flag nf =
     (case nf of (name, f) \<Rightarrow>
        \<lparr>fl_Name = name, fl_IsBoolFlag = (ptr_type f = PtrBool),
         fl_Set = (\<lambda>x st. case parse_value (ptr_type f) x of
                            Inl err \<Rightarrow> Inl err
                          | Inr v \<Rightarrow> Inr (st\<lparr>cl_args := put_field f v (cl_args st)\<rparr>))\<rparr>)"

definition klog_flag :: "'k flag \<Rightarrow> 'k cmdline flag" where
  "klog_flag kf =
     \<lparr>fl_Name = fl_Name kf, fl_IsBoolFlag = fl_IsBoolFlag kf,
      fl_Set = (\<lambda>x st. case fl_Set kf x (cl_klog st) of
                         Inl err \<Rightarrow> Inl err | Inr k \<Rightarrow> Inr (st\<lparr>cl_klog := k\<rparr>))\<rparr>"

definition config_flag :: "'k cmdline flag" where
  "config_flag = \<lparr>fl_Name = ''config'', fl_IsBoolFlag = False,
     fl_Set = (\<lambda>x st. Inr (st\<lparr>cl_configPath := x\<rparr>))\<rparr>"

definition refcnt_flag :: "'k cmdline flag" where
  "refcnt_flag = \<lparr>fl_Name = ''reference-container'', fl_IsBoolFlag = False,
     fl_Set = (\<lambda>x st. Inr (st\<lparr>cl_refCnt := x\<rparr>))\<rparr>"

text \<open>The flags that point to fields, in the order of their definitions.\<close>

definition field_flags1 :: "(string \<times> pa_field) list" where
  "field_flags1 =
     [(''debug'', F_Debug), (''kubeconfig'', F_KubeConfig),
      (''no-publish'', F_NoPublish), (''oneshot'', F_Oneshot), (''hostname'', F_Hostname),
      (''patch-mode'', F_PatchMode), (''patch-resync'', F_PatchResync),
      (''watch-namespace'', F_Namespace), (''sysfs'', F_SysfsRoot),
      (''pods-fingerprint'', F_PodSetFingerprint), (''expose-timing'', F_ExposeTiming),
      (''refresh-node-resources'', F_RefreshNodeResources),
      (''pods-fingerprint-status-file'', F_PodSetFingerprintStatusFile),
      (''exclude-terminal-pods'', F_ExcludeTerminalPods),
      (''pods-fingerprint-method'', F_PodSetFingerprintMethod),
      (''topology-manager-policy'', F_TopologyManagerPolicy),
      (''topology-manager-scope'', F_TopologyManagerScope), (''sleep-interval'', F_SleepInterval),
      (''kubelet-config-file'', F_KubeletConfigFile),
      (''podresources-socket'', F_PodResourcesSocketPath), (''podreadiness'', F_PodReadinessEnable),
      (''add-nrt-owner'', F_AddNRTOwnerEnable), (''metrics-mode'', F_MetricsMode),
      (''metrics-port'', F_MetricsPort), (''metrics-ip'', F_MetricsAddress),
      (''metrics-certs-dir'', F_CertsDir), (''metrics-cert-file'', F_CertFile),
      (''metrics-key-file'', F_KeyFile), (''metrics-want-cli-auth'', F_WantCliAuth),
      (''metrics-tls-min-version'', F_MinTLSVersion), (''metrics-tls-cipher-suites'', F_CipherSuites)]"

definition field_flags2 :: "(string \<times> pa_field) list" where
  "field_flags2 =
     [(''notify-file'', F_NotifyFilePath), (''max-events-per-second'', F_MaxEventsPerTimeUnit),
      (''version'', F_Version), (''dump-config'', F_DumpConfig)]"

definition InitCommandLine :: "'k klog_lib \<Rightarrow> 'k cmdline FlagSet go" where
  "InitCommandLine KL = fs_Vars (map klog_flag (kl_InitFlags KL)) []"

definition CommandLine :: "'k klog_lib \<Rightarrow> 'k cmdline FlagSet go" where
  "CommandLine KL =
     go_bind (InitCommandLine KL)
       (fs_Vars (config_flag # map field_flag field_flags1 @ refcnt_flag # map field_flag field_flags2))"

text \<open>
  \<^verbatim>\<open>FromFlags\<close>: the arguments and the state of the logging library afterwards, the configuration root,
  the path of the extra configuration, and the error. The process may also end in \<^verbatim>\<open>Parse\<close>.
\<close>

definition FromFlags ::
    "'k klog_lib \<Rightarrow> string list \<Rightarrow> ProgArgs \<Rightarrow> 'k \<Rightarrow>
     (ProgArgs \<times> 'k \<times> string \<times> string \<times> gerr option) proc go" where
  "FromFlags KL args pArgs k =
     go_bind (CommandLine KL) (\<lambda>fs.
       case fs_Parse fs args \<lparr>cl_args = pArgs, cl_configPath = LegacyExtraConfigPath,
                              cl_refCnt = ci_String (re_ReferenceContainer (pa_RTE pArgs)), cl_klog = k\<rparr> of
         Exits code \<Rightarrow> Ret (Exits code)
       | Returns (st, params) \<Rightarrow>
           let pArgs1 = cl_args st; k1 = cl_klog st; configPath = cl_configPath st; refCnt = cl_refCnt st in
           Ret (Returns
             (if pa_Version pArgs1 then (pArgs1, k1, DefaultConfigRoot, LegacyExtraConfigPath, None)
              else
                case (if refCnt \<noteq> [] then
                        (case ContainerIdentFromString refCnt of
                           Inl err \<Rightarrow> (pArgs1\<lparr>pa_RTE := (pa_RTE pArgs1)\<lparr>re_ReferenceContainer := None\<rparr>\<rparr>, Some err)
                         | Inr ci \<Rightarrow> (pArgs1\<lparr>pa_RTE := (pa_RTE pArgs1)\<lparr>re_ReferenceContainer := ci\<rparr>\<rparr>, None))
                      else (pArgs1, None)) of
                  (pArgs2, Some err) \<Rightarrow> (pArgs2, k1, DefaultConfigRoot, LegacyExtraConfigPath, Some err)
                | (pArgs2, None) \<Rightarrow>
                    if length params > 1 then
                      (pArgs2, k1, DefaultConfigRoot, configPath,
                       Some (Errorf (''too many config roots given ('' @ show_int (int (length params)) @
                         ''), currently supported up to 1'')))
                    else if length params = 0 then (pArgs2, k1, DefaultConfigRoot, configPath, None)
                    else (pArgs2, k1, hd params, FixExtraConfigPath (hd params), None))))"

end
