(* ===== verification/ConfigFiles.thy ===== *)
theory ConfigFiles
  imports Settings
begin

text \<open>
  \<^verbatim>\<open>pkg/config/cfgfile.go\<close> and \<^verbatim>\<open>cfgdispatch.go\<close>: the configuration files. The main file and its
  configlets are merged into one flat map, whose entries are dispatched to the fields of \<^verbatim>\<open>ProgArgs\<close>;
  the extra file holds exclude lists and settings of the kubelet. The YAML library, the library that
  flattens nested maps and the file system are the argument \<open>E\<close>. An entry of the flat map is a value
  of type \<^verbatim>\<open>any\<close> as the decoder leaves it; numbers are finite \<^verbatim>\<open>float64\<close> values.
\<close>

datatype cfg_value = CString string | CFloat rat | CBool bool | COther string

fun type_name :: "cfg_value \<Rightarrow> string" where
  "type_name (CString _) = ''string''"
| "type_name (CFloat _) = ''float64''"
| "type_name (CBool _) = ''bool''"
| "type_name (COther t) = t"

type_synonym configMap = "(string, cfg_value) gomap"

record dirent =
  de_Name :: string
  de_IsRegular :: bool

record kubeletParams =
  kp_TopologyManagerPolicy :: string
  kp_TopologyManagerScope :: string

record extra_config =
  ec_Kubelet :: kubeletParams
  ec_ResourceExclude :: ResourceExclude
  ec_PodExclude :: "Item list"

text \<open>
  \<open>ce_f2i\<close> is the conversion of a \<^verbatim>\<open>float64\<close> outside the range of \<^verbatim>\<open>int64\<close>, which the language leaves to
  the implementation.
\<close>

record 'o cfg_env =
  ce_LookupEnv :: "string \<Rightarrow> string option"
  ce_Getuid :: int
  ce_EvalSymlinks :: "string \<Rightarrow> gerr + string"
  ce_ReadFile :: "string \<Rightarrow> gerr + string"
  ce_ReadDir :: "string \<Rightarrow> gerr + dirent list"
  ce_Unmarshal :: "string \<Rightarrow> gerr + 'o"
  ce_Flatten :: "'o \<Rightarrow> gerr + configMap"
  ce_UnmarshalExtra :: "string \<Rightarrow> gerr + extra_config"
  ce_f2i :: "rat \<Rightarrow> int"

section \<open>Typed values of the flat map\<close>

definition go_int :: "(rat \<Rightarrow> int) \<Rightarrow> rat \<Rightarrow> int" where
  "go_int f2i j =
     (let t = (if j \<ge> 0 then \<lfloor>j\<rfloor> else - \<lfloor>- j\<rfloor>) in if int64 t then t else w64 (f2i j))"

text \<open>Each of these leaves the variable alone (\<open>None\<close>) when the key is missing.\<close>

definition cm_String :: "configMap \<Rightarrow> string \<Rightarrow> gerr + string option" where
  "cm_String cm key =
     (case map_of cm key of
        None \<Rightarrow> Inr None
      | Some (CString s) \<Rightarrow> Inr (Some s)
      | Some val \<Rightarrow> Inl (Errorf (''key '' @ key @ '' has non-string value '' @ type_name val)))"

definition cm_Int :: "(rat \<Rightarrow> int) \<Rightarrow> configMap \<Rightarrow> string \<Rightarrow> gerr + int option" where
  "cm_Int f2i cm key =
     (case map_of cm key of
        None \<Rightarrow> Inr None
      | Some (CFloat j) \<Rightarrow> Inr (Some (go_int f2i j))
      | Some val \<Rightarrow> Inl (Errorf (''key '' @ key @ '' has non-float64 value representation '' @ type_name val)))"

definition cm_Bool :: "configMap \<Rightarrow> string \<Rightarrow> gerr + bool option" where
  "cm_Bool cm key =
     (case map_of cm key of
        None \<Rightarrow> Inr None
      | Some (CBool b) \<Rightarrow> Inr (Some b)
      | Some val \<Rightarrow> Inl (Errorf (''key '' @ key @ '' has non-bool value '' @ type_name val)))"

definition cm_Duration :: "(rat \<Rightarrow> int) \<Rightarrow> configMap \<Rightarrow> string \<Rightarrow> gerr + int option" where
  "cm_Duration f2i cm key =
     (case map_of cm key of
        None \<Rightarrow> Inr None
      | Some (CFloat j) \<Rightarrow> Inr (Some (go_int f2i j))
      | Some val \<Rightarrow> Inl (Errorf (''key '' @ key @ '' has non-float64 value representation '' @ type_name val)))"

definition cm_Value :: "(rat \<Rightarrow> int) \<Rightarrow> configMap \<Rightarrow> string \<Rightarrow> ptr_kind \<Rightarrow> gerr + gval option" where
  "cm_Value f2i cm key out =
     (case out of
        PtrString \<Rightarrow> map_sum id (map_option VString) (cm_String cm key)
      | PtrInt \<Rightarrow> map_sum id (map_option VInt) (cm_Int f2i cm key)
      | PtrBool \<Rightarrow> map_sum id (map_option VBool) (cm_Bool cm key)
      | PtrDuration \<Rightarrow> map_sum id (map_option VInt) (cm_Duration f2i cm key)
      | PtrInt64 \<Rightarrow> Inl (Errorf ''unsupported target value type: *int64''))"

section \<open>Dispatch\<close>

definition confBindings :: "(string \<times> pa_field) list" where
  "confBindings =
     [(''global.debug'', F_Debug), (''global.verbose'', F_Verbose), (''global.kubeconfig'', F_KubeConfig),
      (''nrtUpdater.noPublish'', F_NoPublish), (''nrtUpdater.oneShot'', F_Oneshot),
      (''nrtUpdater.hostname'', F_Hostname), (''nrtUpdater.patchMode'', F_PatchMode),
      (''nrtUpdater.patchResync'', F_PatchResync),
      (''resourceMonitor.namespace'', F_Namespace), (''resourceMonitor.sysfsRoot'', F_SysfsRoot),
      (''resourceMonitor.refreshNodeResources'', F_RefreshNodeResources),
      (''resourceMonitor.podSetFingerprint'', F_PodSetFingerprint),
      (''resourceMonitor.podSetFingerprintMethod'', F_PodSetFingerprintMethod),
      (''resourceMonitor.exposeTiming'', F_ExposeTiming),
      (''resourceMonitor.podSetFingerprintStatusFile'', F_PodSetFingerprintStatusFile),
      (''resourceMonitor.excludeTerminalPods'', F_ExcludeTerminalPods),
      (''topologyExporter.podResourcesSocketPath'', F_PodResourcesSocketPath),
      (''topologyExporter.sleepInterval'', F_SleepInterval),
      (''topologyExporter.podReadinessEnable'', F_PodReadinessEnable),
      (''topologyExporter.notifyFilePath'', F_NotifyFilePath),
      (''topologyExporter.timeUnitToLimitEvents'', F_TimeUnitToLimitEvents),
      (''topologyExporter.addNRTOwnerEnable'', F_AddNRTOwnerEnable),
      (''topologyExporter.metricsMode'', F_MetricsMode), (''topologyExporter.metricsPort'', F_MetricsPort),
      (''topologyExporter.MetricsAddress'', F_MetricsAddress),
      (''topologyExporter.metricsTLS.certsDir'', F_CertsDir),
      (''topologyExporter.metricsTLS.certFile'', F_CertFile),
      (''topologyExporter.metricsTLS.keyFile'', F_KeyFile),
      (''topologyExporter.metricsTLS.wantCliAuth'', F_WantCliAuth),
      (''topologyExporter.metricsTLS.minTLSVersion'', F_MinTLSVersion),
      (''topologyExporter.metricsTLS.cipherSuites'', F_CipherSuites)]"

fun bind_loop ::
    "(rat \<Rightarrow> int) \<Rightarrow> configMap \<Rightarrow> (string \<times> pa_field) list \<Rightarrow> ProgArgs \<Rightarrow> ProgArgs \<times> gerr option" where
  "bind_loop f2i cm [] pArgs = (pArgs, None)"
| "bind_loop f2i cm ((key, out) # cbs) pArgs =
     (case cm_Value f2i cm key (ptr_type out) of
        Inl err \<Rightarrow> (pArgs, Some err)
      | Inr None \<Rightarrow> bind_loop f2i cm cbs pArgs
      | Inr (Some v) \<Rightarrow> bind_loop f2i cm cbs (put_field out v pArgs))"

definition dispatchConfObj :: "(rat \<Rightarrow> int) \<Rightarrow> configMap \<Rightarrow> ProgArgs \<Rightarrow> ProgArgs \<times> gerr option" where
  "dispatchConfObj f2i obj pArgs =
     (case bind_loop f2i obj confBindings pArgs of
        (pArgs1, Some err) \<Rightarrow> (pArgs1, Some err)
      | (pArgs1, None) \<Rightarrow>
          (case cm_String obj ''topologyExporter.referenceContainer'' of
             Inl err \<Rightarrow> (pArgs1, Some err)
           | Inr r \<Rightarrow>
               (case ContainerIdentFromString (case r of Some refCnt \<Rightarrow> refCnt | None \<Rightarrow> []) of
                  Inl err \<Rightarrow> (pArgs1\<lparr>pa_RTE := (pa_RTE pArgs1)\<lparr>re_ReferenceContainer := None\<rparr>\<rparr>, Some err)
                | Inr ci \<Rightarrow>
                    let pArgs2 = pArgs1\<lparr>pa_RTE := (pa_RTE pArgs1)\<lparr>re_ReferenceContainer := ci\<rparr>\<rparr> in
                    (case cm_Int f2i obj ''topologyExporter.maxEventPerTimeUnit'' of
                       Inl err \<Rightarrow> (pArgs2, Some err)
                     | Inr m \<Rightarrow>
                         let maxEventsPerTimeUnit = (case m of Some n \<Rightarrow> n | None \<Rightarrow> - 1) in
                         (if maxEventsPerTimeUnit \<noteq> - 1
                          then pArgs2\<lparr>pa_RTE := (pa_RTE pArgs2)\<lparr>re_MaxEventsPerTimeUnit := maxEventsPerTimeUnit\<rparr>\<rparr>
                          else pArgs2, None)))))"

section \<open>The files\<close>

fun mergeConfObj :: "configMap \<Rightarrow> configMap \<Rightarrow> configMap" where
  "mergeConfObj obj [] = obj"
| "mergeConfObj obj ((key, val) # upd) = mergeConfObj (AList.update key val obj) upd"

definition readConfiglet :: "'o cfg_env \<Rightarrow> string \<Rightarrow> gerr + string" where
  "readConfiglet E configPath =
     ReadConfiglet (ce_EvalSymlinks E) (ce_ReadFile E) (ce_Getuid E) (ce_LookupEnv E) configPath"

text \<open>The flat map of one file.\<close>

definition configlet_map :: "'o cfg_env \<Rightarrow> string \<Rightarrow> gerr + configMap" where
  "configlet_map E configPath =
     (case readConfiglet E configPath of
        Inl err \<Rightarrow> Inl err
      | Inr data \<Rightarrow> (case ce_Unmarshal E data of Inl err \<Rightarrow> Inl err | Inr obj \<Rightarrow> ce_Flatten E obj))"

definition loadConfiglet :: "'o cfg_env \<Rightarrow> configMap \<Rightarrow> string \<Rightarrow> gerr + configMap" where
  "loadConfiglet E confObj configPath =
     (case configlet_map E configPath of
        Inl err \<Rightarrow> Inl err
      | Inr flat \<Rightarrow> Inr (mergeConfObj confObj flat))"

fun load_configlets :: "'o cfg_env \<Rightarrow> string \<Rightarrow> dirent list \<Rightarrow> configMap \<Rightarrow> gerr + configMap" where
  "load_configlets E configletDir [] confObj = Inr confObj"
| "load_configlets E configletDir (configlet # rest) confObj =
     (if \<not> de_IsRegular configlet then load_configlets E configletDir rest confObj
      else
        case loadConfiglet E confObj (PathJoin [configletDir, de_Name configlet]) of
          Inl err \<Rightarrow> Inl err
        | Inr confObj' \<Rightarrow> load_configlets E configletDir rest confObj')"

text \<open>The merged map of \<^verbatim>\<open>fromDaemonFiles\<close>; a directory that cannot be read is no error.\<close>

definition daemon_conf :: "'o cfg_env \<Rightarrow> string \<Rightarrow> gerr + configMap" where
  "daemon_conf E configPathRoot =
     (case loadConfiglet E [] (PathJoin [configPathRoot, ''daemon'', ''config.yaml'']) of
        Inl err \<Rightarrow> Inl err
      | Inr confObj \<Rightarrow>
          let configletDir = PathJoin [configPathRoot, ''daemon'', ''config.yaml.d''] in
          (case ReadConfiglet (ce_EvalSymlinks E) (ce_ReadDir E) (ce_Getuid E) (ce_LookupEnv E) configletDir of
             Inl err \<Rightarrow> Inr confObj
           | Inr configlets \<Rightarrow> load_configlets E configletDir configlets confObj))"

definition fromDaemonFiles :: "'o cfg_env \<Rightarrow> string \<Rightarrow> ProgArgs \<Rightarrow> ProgArgs \<times> gerr option" where
  "fromDaemonFiles E configPathRoot pArgs =
     (case daemon_conf E configPathRoot of
        Inl err \<Rightarrow> (pArgs, Some err)
      | Inr confObj \<Rightarrow> dispatchConfObj (ce_f2i E) confObj pArgs)"

definition empty_extra :: extra_config where
  "empty_extra =
     \<lparr>ec_Kubelet = \<lparr>kp_TopologyManagerPolicy = [], kp_TopologyManagerScope = []\<rparr>,
      ec_ResourceExclude = [], ec_PodExclude = []\<rparr>"

text \<open>A missing file is an empty configuration.\<close>

definition readExtraConfig :: "'o cfg_env \<Rightarrow> string \<Rightarrow> gerr + extra_config" where
  "readExtraConfig E configPath =
     (case readConfiglet E configPath of
        Inl err \<Rightarrow> if errors_is err ErrNotExist then Inr empty_extra else Inl err
      | Inr data \<Rightarrow> ce_UnmarshalExtra E data)"

definition setupArgsFromConfig :: "extra_config \<Rightarrow> ProgArgs \<Rightarrow> ProgArgs" where
  "setupArgsFromConfig conf pArgs =
     (let rm = pa_Resourcemonitor pArgs;
          rm1 = (if length (ec_ResourceExclude conf) > 0
                 then rm\<lparr>ra_ResourceExclude := ec_ResourceExclude conf\<rparr> else rm);
          rm2 = (if length (ec_PodExclude conf) > 0
                 then rm1\<lparr>ra_PodExclude := ec_PodExclude conf\<rparr> else rm1);
          rte = pa_RTE pArgs;
          rte1 = (if re_TopologyManagerPolicy rte = []
                  then rte\<lparr>re_TopologyManagerPolicy := kp_TopologyManagerPolicy (ec_Kubelet conf)\<rparr> else rte);
          rte2 = (if re_TopologyManagerScope rte1 = []
                  then rte1\<lparr>re_TopologyManagerScope := kp_TopologyManagerScope (ec_Kubelet conf)\<rparr> else rte1)
      in pArgs\<lparr>pa_Resourcemonitor := rm2, pa_RTE := rte2\<rparr>)"

definition fromExtraFile :: "'o cfg_env \<Rightarrow> string \<Rightarrow> ProgArgs \<Rightarrow> ProgArgs \<times> gerr option" where
  "fromExtraFile E extraConfigPath pArgs =
     (case readExtraConfig E extraConfigPath of
        Inl err \<Rightarrow> (pArgs, Some (Wrapf ''error getting exclude list from the configuration'' err))
      | Inr conf \<Rightarrow> (setupArgsFromConfig conf pArgs, None))"

definition FromFiles :: "'o cfg_env \<Rightarrow> string \<Rightarrow> string \<Rightarrow> ProgArgs \<Rightarrow> ProgArgs \<times> gerr option" where
  "FromFiles E configRoot extraConfigPath pArgs =
     (if configRoot = [] then
        (pArgs, Some (Errorf ''configRoot is not allowed to be an empty string''))
      else if extraConfigPath = [] then
        (pArgs, Some (Errorf ''extraConfigPath is not allowed to be an empty string''))
      else
        case fromDaemonFiles E configRoot pArgs of
          (pArgs1, err) \<Rightarrow>
            if (case err of None \<Rightarrow> False | Some e \<Rightarrow> \<not> errors_is e ErrNotExist) then (pArgs1, err)
            else fromExtraFile E extraConfigPath pArgs1)"

end
