(* ===== verification/LoadArgs.thy ===== *)
theory LoadArgs
  imports Flags ConfigFiles
begin

text \<open>
  \<^verbatim>\<open>LoadArgs\<close> and \<^verbatim>\<open>Finalize\<close> of \<^verbatim>\<open>pkg/config/config.go\<close>: defaults, files, environment and flags, in this
  order. The flags are parsed twice, the first time only to learn where the files are. \<open>host\<close> is
  \<^verbatim>\<open>os.Hostname\<close>, which returns the empty name with its error.
\<close>

text \<open>The zero value of \<^verbatim>\<open>ProgArgs\<close>.\<close>

definition zero_ProgArgs :: ProgArgs where
  "zero_ProgArgs =
     \<lparr>pa_Global = \<lparr>ga_KubeConfig = [], ga_Debug = False, ga_Verbose = 0\<rparr>,
      pa_NRTupdater =
        \<lparr>ua_NoPublish = False, ua_Oneshot = False, ua_Hostname = [], ua_KubeConfig = [],
         ua_PatchMode = False, ua_PatchResync = 0\<rparr>,
      pa_Resourcemonitor =
        \<lparr>ra_Namespace = [], ra_SysfsRoot = [], ra_ResourceExclude = [], ra_RefreshNodeResources = False,
         ra_PodSetFingerprint = False, ra_PodSetFingerprintMethod = [], ra_ExposeTiming = False,
         ra_PodSetFingerprintStatusFile = [], ra_PodExclude = [], ra_ExcludeTerminalPods = False\<rparr>,
      pa_RTE =
        \<lparr>re_ReferenceContainer = None, re_TopologyManagerPolicy = [], re_TopologyManagerScope = [],
         re_KubeletConfigFile = [], re_PodResourcesSocketPath = [], re_SleepInterval = 0,
         re_PodReadinessEnable = False, re_NotifyFilePath = [], re_MaxEventsPerTimeUnit = 0,
         re_TimeUnitToLimitEvents = 0, re_AddNRTOwnerEnable = False, re_MetricsMode = [],
         re_MetricsPort = 0, re_MetricsAddress = [],
         re_MetricsTLSCfg =
           \<lparr>tls_CertsDir = [], tls_CertFile = [], tls_KeyFile = [], tls_WantCliAuth = False,
            tls_MinTLSVersion = [], tls_CipherSuites = []\<rparr>\<rparr>,
      pa_Version = False, pa_DumpConfig = []\<rparr>"

text \<open>The error of \<^verbatim>\<open>os.Hostname\<close> is overwritten by the next call.\<close>

definition Finalize ::
    "'k klog_lib \<Rightarrow> 'st FlagSet \<Rightarrow> gerr + string \<Rightarrow> ProgArgs \<Rightarrow> 'k \<Rightarrow> ProgArgs \<times> 'k \<times> gerr option" where
  "Finalize KL commandLine host pArgs k =
     (let pArgs1 =
            (if ua_Hostname (pa_NRTupdater pArgs) = []
             then pArgs\<lparr>pa_NRTupdater := (pa_NRTupdater pArgs)
                    \<lparr>ua_Hostname := (case host of Inl err \<Rightarrow> [] | Inr name \<Rightarrow> name)\<rparr>\<rparr>
             else pArgs);
          verb0 = w32 (ga_Verbose (pa_Global pArgs1))
      in case kloglevel_Get KL commandLine k of
           (VL, err) \<Rightarrow>
             let verb = (if err = None \<and> VL > verb0 then VL else verb0) in
             (case kloglevel_Set KL commandLine verb k of
                (k1, _) \<Rightarrow>
                  (pArgs1, k1,
                   if ga_Debug (pa_Global pArgs1) then snd (kloglevel_Get KL commandLine k1) else err)))"

definition LoadArgs ::
    "('fp, 'st) pfp_lib \<Rightarrow> 'k klog_lib \<Rightarrow> 'o cfg_env \<Rightarrow> gerr + string \<Rightarrow> string list \<Rightarrow> 'k \<Rightarrow>
     (ProgArgs \<times> 'k \<times> gerr option) proc go" where
  "LoadArgs P KL E host args k =
     (let pArgs = SetDefaults P zero_ProgArgs in
      go_bind (FromFlags KL args (ProgArgs_Clone pArgs) k) (\<lambda>r1.
        case r1 of
          Exits code \<Rightarrow> Ret (Exits code)
        | Returns (tmp, k1, configRoot, extraConfigPath, Some err) \<Rightarrow> Ret (Returns (pArgs, k1, Some err))
        | Returns (tmp, k1, configRoot, extraConfigPath, None) \<Rightarrow>
            let pArgs1 = pArgs\<lparr>pa_Global := (pa_Global pArgs)\<lparr>ga_Debug := ga_Debug (pa_Global tmp)\<rparr>,
                               pa_Version := pa_Version tmp, pa_DumpConfig := pa_DumpConfig tmp\<rparr>
            in if pa_Version pArgs1 then Ret (Returns (pArgs1, k1, None))
               else
                 case FromFiles E configRoot extraConfigPath pArgs1 of
                   (pArgs2, Some err) \<Rightarrow> Ret (Returns (pArgs2, k1, Some err))
                 | (pArgs2, None) \<Rightarrow>
                     go_bind (FromFlags KL args (FromEnv (ce_LookupEnv E) pArgs2) k1) (\<lambda>r2.
                       case r2 of
                         Exits code \<Rightarrow> Ret (Exits code)
                       | Returns (pArgs3, k2, _, _, Some err) \<Rightarrow> Ret (Returns (pArgs3, k2, Some err))
                       | Returns (pArgs3, k2, _, _, None) \<Rightarrow>
                           (case Validate P pArgs3 of
                              (pArgs4, Some err) \<Rightarrow> Ret (Returns (pArgs4, k2, Some err))
                            | (pArgs4, None) \<Rightarrow>
                                go_bind (CommandLine KL) (\<lambda>commandLine.
                                  Ret (Returns (Finalize KL commandLine host pArgs4 k2)))))))"

end
