(* ===== verification/FlagFacts.thy ===== *)
theory FlagFacts
  imports Flags
begin

text \<open>What the command line assigns: facts about the flag set of \<^verbatim>\<open>FromFlags\<close>.\<close>

section \<open>Values\<close>

lemma base_digit_nonneg: "base_digit c = Some d \<Longrightarrow> 0 \<le> d"
  by (auto simp: base_digit_def Let_def split: if_splits)

lemma base_loop_nonneg: "base_loop b n u s = Inr (m, u') \<Longrightarrow> 0 \<le> n \<Longrightarrow> 0 \<le> b \<Longrightarrow> 0 \<le> m"
  by (induction b n u s rule: base_loop.induct)
    (auto dest: base_digit_nonneg split: if_splits option.splits)

lemma ParseUint0_nonneg:
  assumes "ParseUint0 s = Inr n"
  shows "0 \<le> n"
proof -
  obtain b ds where p: "base_prefix s = (b, ds)" by (cases "base_prefix s")
  then have "0 \<le> b" by (auto simp: base_prefix_def split: if_splits)
  with assms p show ?thesis
    by (auto simp: ParseUint0_def split: if_splits sum.splits dest: base_loop_nonneg)
qed

lemma ParseInt0_int64: "ParseInt0 s = Inr i \<Longrightarrow> int64 i"
  by (auto simp: ParseInt0_def Let_def int64_def dest: ParseUint0_nonneg split: if_splits sum.splits)

lemma duration_loop_nonneg: "duration_loop d s = Some r \<Longrightarrow> 0 \<le> d \<Longrightarrow> 0 \<le> r"
proof (induction d s rule: duration_loop.induct)
  case (1 d s)
  then show ?case
    by (auto simp: duration_loop.simps [of d s] split: if_splits option.splits)
qed

lemma ParseDuration_int64:
  assumes "ParseDuration s = Some d"
  shows "int64 d"
proof (cases "d = 0")
  case False
  with assms obtain t e where "duration_loop 0 t = Some e" "d = w64 (- e) \<or> \<not> e > 2 ^ 63 - 1 \<and> d = e"
    by (auto simp: ParseDuration_def Let_def split: if_splits option.splits)
  with duration_loop_nonneg [of 0 t e] show ?thesis by (auto simp: int64_def [of e])
qed (simp add: int64_def)

lemma parse_value_typed: "parse_value t x = Inr v \<Longrightarrow> has_type t v"
  by (cases t) (auto simp: parse_value_def dest: ParseInt0_int64 ParseDuration_int64
      split: option.splits sum.splits)

section \<open>The flag set\<close>

definition field_table :: "(string \<times> pa_field) list" where
  "field_table = field_flags1 @ field_flags2"

lemma fs_Vars_Ret:
  "fs_Vars gs fs = Ret fs' \<Longrightarrow> distinct (map fl_Name fs) \<Longrightarrow> fs' = fs @ gs \<and> distinct (map fl_Name fs')"
proof (induction gs arbitrary: fs)
  case (Cons g gs)
  then have "fs_Lookup fs (fl_Name g) = None" "fs_Vars gs (fs @ [g]) = Ret fs'"
    by (auto simp: fs_Var_def go_bind_Ret_iff split: if_splits)
  moreover from this Cons.prems(2) have "distinct (map fl_Name (fs @ [g]))" by (simp add: fs_Lookup_None)
  ultimately have "fs' = (fs @ [g]) @ gs \<and> distinct (map fl_Name fs')" using Cons.IH by blast
  then show ?case unfolding append_assoc append_Cons append_Nil .
qed simp

lemma CommandLine_Ret:
  assumes "CommandLine KL = Ret fs"
  shows "fs = map klog_flag (kl_InitFlags KL) @ config_flag # map field_flag field_flags1 @
      refcnt_flag # map field_flag field_flags2" "distinct (map fl_Name fs)"
proof -
  from assms obtain fs0 where fs0: "fs_Vars (map klog_flag (kl_InitFlags KL)) [] = Ret fs0"
    "fs_Vars (config_flag # map field_flag field_flags1 @ refcnt_flag # map field_flag field_flags2) fs0 = Ret fs"
    by (auto simp: CommandLine_def InitCommandLine_def go_bind_Ret_iff)
  have "distinct (map fl_Name ([] :: 'a cmdline FlagSet))" by simp
  note 0 = fs_Vars_Ret [OF fs0(1) this, unfolded append_Nil, THEN conjunct1]
    fs_Vars_Ret [OF fs0(1) this, THEN conjunct2]
  show "distinct (map fl_Name fs)" using fs_Vars_Ret [OF fs0(2) 0(2)] by blast
  show "fs = map klog_flag (kl_InitFlags KL) @ config_flag # map field_flag field_flags1 @
      refcnt_flag # map field_flag field_flags2"
    using fs_Vars_Ret [OF fs0(2) 0(2)] unfolding 0(1) by (rule conjunct1)
qed

lemma field_flag_name [simp]: "fl_Name (field_flag nf) = fst nf"
  by (simp add: field_flag_def split: prod.split)

lemma flag_names [simp]: "fl_Name (klog_flag kf) = fl_Name kf" "fl_Name config_flag = ''config''"
  "fl_Name refcnt_flag = ''reference-container''"
  by (simp_all add: klog_flag_def config_flag_def refcnt_flag_def)

lemma table_distinct: "distinct (map fst field_table)" "''config'' \<notin> fst ` set field_table"
  "''reference-container'' \<notin> fst ` set field_table"
  by (simp_all add: field_table_def field_flags1_def field_flags2_def)

text \<open>A flag of the set is a flag of the library, one of the two special ones, or points to a field.\<close>

lemma lookup_cases:
  assumes "CommandLine KL = Ret fs" "fs_Lookup fs n = Some g"
  obtains (klog) kf where "g = klog_flag kf" "fl_Name kf = n" "map_of field_table n = None" "n \<noteq> ''config''"
      "n \<noteq> ''reference-container''"
    | (config) "g = config_flag" "n = ''config''" "map_of field_table n = None"
    | (refcnt) "g = refcnt_flag" "n = ''reference-container''" "map_of field_table n = None"
    | (field) f where "g = field_flag (n, f)" "map_of field_table n = Some f" "n \<noteq> ''config''"
      "n \<noteq> ''reference-container''"
proof -
  note fs = CommandLine_Ret [OF assms(1)]
  from fs_Lookup_name [OF assms(2)] have g: "fl_Name g = n" "g \<in> set fs" by simp_all
  from fs(1) g(2) consider (k) "g \<in> klog_flag ` set (kl_InitFlags KL)" | (c) "g = config_flag" | (r) "g = refcnt_flag"
    | (f) "g \<in> field_flag ` set field_table"
    by (auto simp: field_table_def)
  then show thesis
  proof cases
    case k
    then obtain kf where kf: "g = klog_flag kf" "kf \<in> set (kl_InitFlags KL)" by blast
    with fs(2) [unfolded fs(1)] g(1) have "n \<notin> fst ` set field_table" "n \<noteq> ''config''" "n \<noteq> ''reference-container''"
      by (auto simp: field_table_def image_iff)
    with kf g(1) show thesis by (intro klog) (simp_all add: map_of_eq_None_iff)
  next
    case c
    with g(1) table_distinct show thesis by (intro config) (simp_all add: map_of_eq_None_iff)
  next
    case r
    with g(1) table_distinct show thesis by (intro refcnt) (simp_all add: map_of_eq_None_iff)
  next
    case f
    then obtain m h where h: "g = field_flag (m, h)" "(m, h) \<in> set field_table" by auto
    with g(1) have "m = n" by simp
    with h table_distinct show thesis by (intro field) force+
  qed
qed

section \<open>Assignments to fields\<close>

definition flag_setting :: "string \<times> string \<Rightarrow> (pa_field \<times> gval) list" where
  "flag_setting nx =
     (case map_of field_table (fst nx) of
        None \<Rightarrow> []
      | Some f \<Rightarrow> (case parse_value (ptr_type f) (snd nx) of Inl err \<Rightarrow> [] | Inr v \<Rightarrow> [(f, v)]))"

definition flag_settings :: "(string \<times> string) list \<Rightarrow> (pa_field \<times> gval) list" where
  "flag_settings asg = concat (map flag_setting asg)"

lemma flag_settings_typed: "well_typed (flag_settings asg)"
  by (auto simp: well_typed_def list_all_iff flag_settings_def flag_setting_def
      split: option.splits sum.splits dest: parse_value_typed [OF sym])

text \<open>The text that a command line leaves in the variable of a flag.\<close>

definition last_arg :: "string \<Rightarrow> (string \<times> string) list \<Rightarrow> string option" where
  "last_arg n asg = map_of (rev asg) n"

lemma last_arg_Cons:
  "last_arg n ((m, x) # asg) =
     (case last_arg n asg of Some y \<Rightarrow> Some y | None \<Rightarrow> if m = n then Some x else None)"
  by (auto simp: last_arg_def map_add_def split: option.splits)

lemma assign_all_state:
  assumes "CommandLine KL = Ret fs" "assign_all fs asg st = Inr st'"
  shows "cl_args st' = put_all (flag_settings asg) (cl_args st) \<and>
    cl_configPath st' = (case last_arg ''config'' asg of Some x \<Rightarrow> x | None \<Rightarrow> cl_configPath st) \<and>
    cl_refCnt st' = (case last_arg ''reference-container'' asg of Some x \<Rightarrow> x | None \<Rightarrow> cl_refCnt st)"
  using assms(2)
proof (induction asg arbitrary: st)
  case Nil
  then show ?case by (simp add: flag_settings_def last_arg_def)
next
  case (Cons nx asg)
  obtain n x where nx: "nx = (n, x)" by (cases nx)
  with Cons.prems obtain g st1 where g: "fs_Lookup fs n = Some g" "fl_Set g x st = Inr st1"
    "assign_all fs asg st1 = Inr st'" by (auto split: option.splits sum.splits)
  note IH = Cons.IH [OF g(3)]
  from assms(1) g(1) show ?case
  proof (cases rule: lookup_cases)
    case (klog kf)
    with g(2) IH nx show ?thesis
      by (auto simp: klog_flag_def flag_settings_def flag_setting_def last_arg_Cons split: sum.splits option.splits)
  next
    case config
    with g(2) IH nx show ?thesis
      by (auto simp: config_flag_def flag_settings_def flag_setting_def last_arg_Cons split: option.splits)
  next
    case refcnt
    with g(2) IH nx show ?thesis
      by (auto simp: refcnt_flag_def flag_settings_def flag_setting_def last_arg_Cons split: option.splits)
  next
    case (field f)
    with g(2) IH nx show ?thesis
      by (auto simp: field_flag_def flag_settings_def flag_setting_def last_arg_Cons split: sum.splits option.splits)
  qed
qed

end
