(* ===== verification/DispatchProps.thy ===== *)
theory DispatchProps
  imports ConfigFiles ConfigProps
begin

text \<open>The entries of the configuration files: which settings they assign, and their types.\<close>

section \<open>Entries of the configuration files\<close>

definition file_setting :: "(rat \<Rightarrow> int) \<Rightarrow> configMap \<Rightarrow> string \<times> pa_field \<Rightarrow> (pa_field \<times> gval) list" where
  "file_setting f2i cm kf =
     (case cm_Value f2i cm (fst kf) (ptr_type (snd kf)) of Inr (Some v) \<Rightarrow> [(snd kf, v)] | _ \<Rightarrow> [])"

definition file_settings :: "(rat \<Rightarrow> int) \<Rightarrow> configMap \<Rightarrow> (pa_field \<times> gval) list" where
  "file_settings f2i cm =
     concat (map (file_setting f2i cm) confBindings) @
     (case cm_Int f2i cm ''topologyExporter.maxEventPerTimeUnit'' of
        Inr (Some n) \<Rightarrow> if n \<noteq> - 1 then [(F_MaxEventsPerTimeUnit, VInt n)] else []
      | _ \<Rightarrow> [])"

lemma go_int_int64 [simp]: "int64 (go_int f2i j)"
  by (simp add: go_int_def Let_def)

lemma cm_Int_int64: "cm_Int f2i cm key = Inr (Some n) \<Longrightarrow> int64 n"
  by (auto simp: cm_Int_def split: option.splits cfg_value.splits)

lemma cm_Value_typed: "cm_Value f2i cm key t = Inr (Some v) \<Longrightarrow> has_type t v"
  by (cases t) (auto simp: cm_Value_def cm_String_def cm_Bool_def cm_Int_def cm_Duration_def
      split: option.splits cfg_value.splits)

lemma file_settings_typed: "well_typed (file_settings f2i cm)"
  by (auto simp: well_typed_def list_all_iff file_settings_def file_setting_def
      split: option.splits sum.splits dest: cm_Value_typed [OF sym] cm_Int_int64 [OF sym])

lemma bind_loop_puts:
  "bind_loop f2i cm cbs p = (p', None) \<Longrightarrow> p' = put_all (concat (map (file_setting f2i cm) cbs)) p"
proof (induction cbs arbitrary: p)
  case (Cons kf cbs)
  obtain key f where kf: "kf = (key, f)" by (cases kf)
  with Cons show ?case by (auto simp: file_setting_def split: sum.splits option.splits)
qed simp

lemma get_field_refcnt [simp]:
  "get_field f (p\<lparr>pa_RTE := (pa_RTE p)\<lparr>re_ReferenceContainer := c\<rparr>\<rparr>) = get_field f p"
  by (cases f; simp)

lemma dispatch_fields:
  assumes "dispatchConfObj f2i cm p = (p', None)"
  shows "get_field f p' = (case last_value f (file_settings f2i cm) of Some v \<Rightarrow> v | None \<Rightarrow> get_field f p)"
proof -
  let ?c = "concat (map (file_setting f2i cm) confBindings)"
  obtain p1 where b: "bind_loop f2i cm confBindings p = (p1, None)"
    using assms by (cases "bind_loop f2i cm confBindings p") (auto simp: dispatchConfObj_def split: option.splits)
  note p1 = bind_loop_puts [OF b]
  obtain c m where cm: "cm_Int f2i cm ''topologyExporter.maxEventPerTimeUnit'' = Inr m"
    "p' = (let q = p1\<lparr>pa_RTE := (pa_RTE p1)\<lparr>re_ReferenceContainer := c\<rparr>\<rparr>;
               n = (case m of Some n \<Rightarrow> n | None \<Rightarrow> - 1)
           in if n \<noteq> - 1 then q\<lparr>pa_RTE := (pa_RTE q)\<lparr>re_MaxEventsPerTimeUnit := n\<rparr>\<rparr> else q)"
    using assms b by (auto simp: dispatchConfObj_def Let_def split: sum.splits)
  let ?q = "p1\<lparr>pa_RTE := (pa_RTE p1)\<lparr>re_ReferenceContainer := c\<rparr>\<rparr>"
  have put: "q\<lparr>pa_RTE := (pa_RTE q)\<lparr>re_MaxEventsPerTimeUnit := n\<rparr>\<rparr> = put_field F_MaxEventsPerTimeUnit (VInt n) q"
    for q n by simp
  show ?thesis
  proof (cases "\<exists>n. m = Some n \<and> n \<noteq> - 1")
    case True
    then obtain n where n: "m = Some n" "n \<noteq> - 1" by blast
    with cm have fs: "file_settings f2i cm = ?c @ [(F_MaxEventsPerTimeUnit, VInt n)]"
      and p': "p' = put_field F_MaxEventsPerTimeUnit (VInt n) ?q"
      by (simp_all add: file_settings_def)
    have "get_field f p' = get_field f (put_all (file_settings f2i cm) p)"
      using cm_Int_int64 [OF cm(1) [unfolded n(1)]]
      by (cases "f = F_MaxEventsPerTimeUnit")
        (simp_all add: p' fs put_all_append p1 get_put_same get_put_other del: put_field.simps get_field.simps)
    then show ?thesis by (simp add: get_put_all file_settings_typed)
  next
    case False
    with cm have "file_settings f2i cm = ?c" "p' = ?q"
      by (auto simp: file_settings_def split: option.splits)
    then have "get_field f p' = get_field f (put_all (file_settings f2i cm) p)" by (simp add: p1)
    then show ?thesis by (simp add: get_put_all file_settings_typed)
  qed
qed

section \<open>Types of the entries\<close>

fun accepts :: "ptr_kind \<Rightarrow> cfg_value \<Rightarrow> bool" where
  "accepts PtrString (CString s) = True"
| "accepts PtrInt (CFloat j) = True"
| "accepts PtrDuration (CFloat j) = True"
| "accepts PtrBool (CBool b) = True"
| "accepts _ _ = False"

definition known_keys :: "string set" where
  "known_keys = fst ` set confBindings \<union>
     {''topologyExporter.referenceContainer'', ''topologyExporter.maxEventPerTimeUnit''}"

lemma cm_Value_ok:
  "t \<noteq> PtrInt64 \<Longrightarrow> (\<exists>r. cm_Value f2i cm key t = Inr r) \<longleftrightarrow> (\<forall>v. map_of cm key = Some v \<longrightarrow> accepts t v)"
  by (cases t; cases "map_of cm key"; cases "the (map_of cm key)")
    (auto simp: cm_Value_def cm_String_def cm_Bool_def cm_Int_def cm_Duration_def)

lemma bind_loop_ok:
  "snd (bind_loop f2i cm cbs p) = None \<longleftrightarrow> (\<forall>(key, f) \<in> set cbs. \<exists>r. cm_Value f2i cm key (ptr_type f) = Inr r)"
proof (induction cbs arbitrary: p)
  case (Cons kf cbs)
  then show ?case by (cases kf) (auto split: sum.splits option.splits)
qed simp

lemma bindings_no_int64: "(key, f) \<in> set confBindings \<Longrightarrow> ptr_type f \<noteq> PtrInt64"
  by (auto simp: confBindings_def)

lemma ContainerIdentFromString_ok:
  "(\<exists>c. ContainerIdentFromString s = Inr c) \<longleftrightarrow> s = [] \<or> length (Split s (CHR ''/'')) = 3"
  by (auto simp: ContainerIdentFromString_def length_Suc_conv numeral_3_eq_3 split: list.splits)

lemma bind_loop_cong:
  "(\<And>key f. (key, f) \<in> set cbs \<Longrightarrow> map_of cm key = map_of cm' key) \<Longrightarrow>
     bind_loop f2i cm cbs p = bind_loop f2i cm' cbs p"
proof (induction cbs arbitrary: p)
  case (Cons kf cbs)
  obtain key f where kf: "kf = (key, f)" by (cases kf)
  with Cons.prems [of key f] have "map_of cm key = map_of cm' key" by simp
  then have "cm_Value f2i cm key (ptr_type f) = cm_Value f2i cm' key (ptr_type f)"
    by (cases "ptr_type f") (simp_all add: cm_Value_def cm_String_def cm_Bool_def cm_Int_def cm_Duration_def)
  with Cons kf show ?case by (auto split: sum.splits option.splits)
qed simp

text \<open>
  C26. The configuration files are type checked: dispatching succeeds exactly when every known key
  holds a value of the type of its setting, strings for texts, numbers for integers and durations,
  booleans for switches, and the reference container is a text of three parts; other keys do not
  matter at all.
\<close>

theorem dispatch_types:
  "(snd (dispatchConfObj f2i cm p) = None \<longleftrightarrow>
      (\<forall>(key, f) \<in> set confBindings. \<forall>v. map_of cm key = Some v \<longrightarrow> accepts (ptr_type f) v) \<and>
      (\<forall>v. map_of cm ''topologyExporter.referenceContainer'' = Some v \<longrightarrow>
         (\<exists>s. v = CString s \<and> (s = [] \<or> length (Split s (CHR ''/'')) = 3))) \<and>
      (\<forall>v. map_of cm ''topologyExporter.maxEventPerTimeUnit'' = Some v \<longrightarrow> (\<exists>j. v = CFloat j))) \<and>
   ((\<forall>key \<in> known_keys. map_of cm key = map_of cm' key) \<longrightarrow>
      dispatchConfObj f2i cm p = dispatchConfObj f2i cm' p)"
proof -
  have b: "snd (bind_loop f2i cm confBindings p) = None \<longleftrightarrow>
      (\<forall>(key, f) \<in> set confBindings. \<forall>v. map_of cm key = Some v \<longrightarrow> accepts (ptr_type f) v)"
    unfolding bind_loop_ok using cm_Value_ok [OF bindings_no_int64] by blast
  let ?r = "cm_String cm ''topologyExporter.referenceContainer''"
  have r: "(\<exists>x. ?r = Inr x \<and> (\<exists>c. ContainerIdentFromString (case x of Some s \<Rightarrow> s | None \<Rightarrow> []) = Inr c)) \<longleftrightarrow>
      (\<forall>v. map_of cm ''topologyExporter.referenceContainer'' = Some v \<longrightarrow>
         (\<exists>s. v = CString s \<and> (s = [] \<or> length (Split s (CHR ''/'')) = 3)))"
    unfolding ContainerIdentFromString_ok by (auto simp: cm_String_def split: option.splits cfg_value.splits)
  have m: "(\<exists>x. cm_Int f2i cm ''topologyExporter.maxEventPerTimeUnit'' = Inr x) \<longleftrightarrow>
      (\<forall>v. map_of cm ''topologyExporter.maxEventPerTimeUnit'' = Some v \<longrightarrow> (\<exists>j. v = CFloat j))"
    by (auto simp: cm_Int_def split: option.splits cfg_value.splits)
  have "snd (dispatchConfObj f2i cm p) = None \<longleftrightarrow> snd (bind_loop f2i cm confBindings p) = None \<and>
      (\<exists>x. ?r = Inr x \<and> (\<exists>c. ContainerIdentFromString (case x of Some s \<Rightarrow> s | None \<Rightarrow> []) = Inr c)) \<and>
      (\<exists>x. cm_Int f2i cm ''topologyExporter.maxEventPerTimeUnit'' = Inr x)"
    by (cases "bind_loop f2i cm confBindings p"; cases "snd (bind_loop f2i cm confBindings p)"; cases ?r)
      (auto simp: dispatchConfObj_def Let_def split: sum.splits)
  moreover have "dispatchConfObj f2i cm p = dispatchConfObj f2i cm' p"
    if "\<forall>key \<in> known_keys. map_of cm key = map_of cm' key"
  proof -
    from that have "bind_loop f2i cm confBindings p = bind_loop f2i cm' confBindings p"
      by (intro bind_loop_cong) (force simp: known_keys_def)
    moreover from that have "?r = cm_String cm' ''topologyExporter.referenceContainer''"
      "cm_Int f2i cm ''topologyExporter.maxEventPerTimeUnit'' =
       cm_Int f2i cm' ''topologyExporter.maxEventPerTimeUnit''"
      by (simp_all add: cm_String_def cm_Int_def known_keys_def)
    ultimately show ?thesis by (simp only: dispatchConfObj_def)
  qed
  ultimately show ?thesis using b r m by blast
qed

theorem dispatch_types_witness:
  "snd (dispatchConfObj (\<lambda>_. 0) [(''global.debug'', CString ''yes'')] sample_prog) \<noteq> None \<and>
   snd (dispatchConfObj (\<lambda>_. 0) [(''global.debug'', CBool True)] sample_prog) = None \<and>
   dispatchConfObj (\<lambda>_. 0) [(''global.debug'', CBool True), (''other'', COther ''map'')] sample_prog =
   dispatchConfObj (\<lambda>_. 0) [(''global.debug'', CBool True)] sample_prog"
proof -
  let ?bad = "[(''global.debug'', CString ''yes'')]" and ?good = "[(''global.debug'', CBool True)]"
    and ?more = "[(''global.debug'', CBool True), (''other'', COther ''map'')]"
  have k: "(''global.debug'', F_Debug) \<in> set confBindings" by (simp add: confBindings_def)
  have "snd (dispatchConfObj (\<lambda>_. 0) ?bad sample_prog) \<noteq> None"
    using dispatch_types [of "\<lambda>_. 0" ?bad sample_prog ?bad] k by force
  moreover have "snd (dispatchConfObj (\<lambda>_. 0) ?good sample_prog) = None"
    using dispatch_types [of "\<lambda>_. 0" ?good sample_prog ?good] by (simp add: confBindings_def)
  moreover have "\<forall>key \<in> known_keys. map_of ?more key = map_of ?good key"
    by (simp add: known_keys_def confBindings_def)
  with dispatch_types [of "\<lambda>_. 0" ?more sample_prog ?good]
  have "dispatchConfObj (\<lambda>_. 0) ?more sample_prog = dispatchConfObj (\<lambda>_. 0) ?good sample_prog" by blast
  ultimately show ?thesis by blast
qed

end
