(* ===== verification/LoadProps.thy ===== *)
theory LoadProps
  imports LoadArgs FlagFacts DispatchProps ConfigProps
begin

text \<open>
  What a start of the program leaves in every setting: flags over environment over files over
  defaults.
\<close>

section \<open>The layers\<close>

text \<open>The extra file fills in what the kubelet is configured with.\<close>

definition kubelet_fill :: "extra_config \<Rightarrow> pa_field \<Rightarrow> gval \<Rightarrow> gval" where
  "kubelet_fill extra f v =
     (case f of
        F_TopologyManagerPolicy \<Rightarrow>
          if v = VString [] then VString (kp_TopologyManagerPolicy (ec_Kubelet extra)) else v
      | F_TopologyManagerScope \<Rightarrow>
          if v = VString [] then VString (kp_TopologyManagerScope (ec_Kubelet extra)) else v
      | _ \<Rightarrow> v)"

definition env_fill :: "(string \<Rightarrow> string option) \<Rightarrow> pa_field \<Rightarrow> gval \<Rightarrow> gval" where
  "env_fill env f v =
     (case f of
        F_Hostname \<Rightarrow> if v = VString [] then VString (env_or_empty env ''NODE_NAME'') else v
      | F_TopologyManagerPolicy \<Rightarrow>
          if v = VString [] then VString (env_or_empty env ''TOPOLOGY_MANAGER_POLICY'') else v
      | F_TopologyManagerScope \<Rightarrow>
          if v = VString [] then VString (env_or_empty env ''TOPOLOGY_MANAGER_SCOPE'') else v
      | F_MetricsPort \<Rightarrow> if v = VInt 0 then VInt (PortFromEnv env) else v
      | F_MetricsAddress \<Rightarrow> if v = VString [] then VString (AddressFromEnv env) else v
      | F_PodSetFingerprintStatusFile \<Rightarrow>
          if v = VString [] then VString (env_or_empty env ''PFP_STATUS_FILE'') else v
      | _ \<Rightarrow> v)"

text \<open>At the end two settings are put into lower case, and a missing host name is looked up.\<close>

definition final_value :: "gerr + string \<Rightarrow> pa_field \<Rightarrow> gval \<Rightarrow> gval" where
  "final_value host f v =
     (case f of
        F_MetricsMode \<Rightarrow> VString (ToLower (as_string v))
      | F_PodSetFingerprintMethod \<Rightarrow> VString (ToLower (as_string v))
      | F_Hostname \<Rightarrow>
          if v = VString [] then VString (case host of Inl err \<Rightarrow> [] | Inr name \<Rightarrow> name) else v
      | _ \<Rightarrow> v)"

definition setting_value ::
    "('fp, 'st) pfp_lib \<Rightarrow> 'o cfg_env \<Rightarrow> gerr + string \<Rightarrow> configMap \<Rightarrow> extra_config \<Rightarrow>
     (string \<times> string) list \<Rightarrow> pa_field \<Rightarrow> gval" where
  "setting_value P E host conf extra asg f =
     final_value host f
       (case last_value f (flag_settings asg) of
          Some v \<Rightarrow> v
        | None \<Rightarrow>
            env_fill (ce_LookupEnv E) f
              (kubelet_fill extra f
                (case last_value f (file_settings (ce_f2i E) conf) of
                   Some v \<Rightarrow> v
                 | None \<Rightarrow> get_field f (SetDefaults P zero_ProgArgs))))"

text \<open>
  Three settings are no plain fields. The reference container is read from its text; an empty
  argument of its flag leaves what the files and the environment say. A container that they give is
  read again from its own text.
\<close>

definition file_container :: "configMap \<Rightarrow> ContainerIdent option" where
  "file_container conf =
     (case map_of conf ''topologyExporter.referenceContainer'' of
        Some (CString s) \<Rightarrow> (case ContainerIdentFromString s of Inr c \<Rightarrow> c | Inl err \<Rightarrow> None)
      | _ \<Rightarrow> None)"

definition env_container :: "(string \<Rightarrow> string option) \<Rightarrow> ContainerIdent option \<Rightarrow> ContainerIdent option" where
  "env_container env c = (if ci_IsEmpty c then ContainerIdentFromEnv (env_or_empty env) else c)"

definition flag_container :: "(string \<times> string) list \<Rightarrow> ContainerIdent option \<Rightarrow> gerr + ContainerIdent option" where
  "flag_container asg c =
     (case last_arg ''reference-container'' asg of
        None \<Rightarrow> ContainerIdentFromString (ci_String c)
      | Some x \<Rightarrow> if x = [] then Inr c else ContainerIdentFromString x)"

text \<open>The exclude lists are in the extra file only.\<close>

definition excludes :: "ProgArgs \<Rightarrow> ResourceExclude \<times> Item list" where
  "excludes p = (ra_ResourceExclude (pa_Resourcemonitor p), ra_PodExclude (pa_Resourcemonitor p))"

text \<open>Where the configuration is read from.\<close>

definition config_place :: "(string \<times> string) list \<Rightarrow> string list \<Rightarrow> string \<times> string" where
  "config_place asg params =
     (case params of
        [] \<Rightarrow> (DefaultConfigRoot,
               case last_arg ''config'' asg of Some x \<Rightarrow> x | None \<Rightarrow> LegacyExtraConfigPath)
      | configRoot # _ \<Rightarrow> (configRoot, FixExtraConfigPath configRoot))"

section \<open>What each step does to a setting\<close>

lemma clone_fields: "get_field f (ProgArgs_Clone p) = get_field f p"
  by (cases f; simp add: ProgArgs_Clone_def GlobalArgs_Clone_def upd_Args_Clone_def rm_Args_Clone_def
      rte_Args_Clone_def TLSConfig_Clone_def)

lemma extra_fields: "get_field f (setupArgsFromConfig extra p) = kubelet_fill extra f (get_field f p)"
  by (cases f; simp add: setupArgsFromConfig_def kubelet_fill_def Let_def)

lemma env_fields: "get_field f (FromEnv env p) = env_fill env f (get_field f p)"
  by (cases f; simp add: FromEnv_def rte_FromEnv_def env_fill_def HostNameFromEnv_def
      TopologyManagerPolicyFromEnv_def TopologyManagerScopeFromEnv_def PodSetFingerprintStatusFileFromEnv_def)

lemma env_special:
  "re_ReferenceContainer (pa_RTE (FromEnv env p)) = env_container env (re_ReferenceContainer (pa_RTE p))"
  "excludes (FromEnv env p) = excludes p"
  by (simp_all add: FromEnv_def rte_FromEnv_def env_container_def excludes_def)

lemma extra_special:
  "re_ReferenceContainer (pa_RTE (setupArgsFromConfig extra p)) = re_ReferenceContainer (pa_RTE p)"
  "excludes p = ([], []) \<Longrightarrow>
     excludes (setupArgsFromConfig extra p) = (ec_ResourceExclude extra, ec_PodExclude extra)"
  by (simp_all add: setupArgsFromConfig_def excludes_def Let_def)

lemma dispatch_special:
  assumes "dispatchConfObj f2i conf p = (p', None)"
  shows "re_ReferenceContainer (pa_RTE p') = file_container conf" "excludes p' = excludes p"
proof -
  obtain p1 where b: "bind_loop f2i conf confBindings p = (p1, None)"
    using assms by (cases "bind_loop f2i conf confBindings p") (auto simp: dispatchConfObj_def split: option.splits)
  from assms b show "re_ReferenceContainer (pa_RTE p') = file_container conf"
    by (auto simp: dispatchConfObj_def Let_def file_container_def cm_String_def ContainerIdentFromString_def [of "[]"]
        split: option.splits cfg_value.splits sum.splits if_splits)
  from assms b show "excludes p' = excludes p" unfolding bind_loop_puts [OF b]
    by (auto simp: dispatchConfObj_def Let_def excludes_def split: sum.splits if_splits)
qed

lemma validate_fields:
  assumes "Validate P p = (p', None)"
  shows "p' = p\<lparr>pa_RTE := (pa_RTE p)\<lparr>re_MetricsMode := ToLower (re_MetricsMode (pa_RTE p))\<rparr>,
      pa_Resourcemonitor := (pa_Resourcemonitor p)\<lparr>ra_PodSetFingerprintMethod :=
        ToLower (ra_PodSetFingerprintMethod (pa_Resourcemonitor p))\<rparr>\<rparr>"
  using assms by (auto simp: Validate_def ServingModeIsSupported_def PFPMethodIsSupported_def Let_def split: if_splits)

lemma final_fields:
  assumes "Validate P p = (p1, None)" "Finalize KL fs host p1 k = (p2, k', err)"
  shows "get_field f p2 = final_value host f (get_field f p)" "excludes p2 = excludes p"
    "re_ReferenceContainer (pa_RTE p2) = re_ReferenceContainer (pa_RTE p)"
proof -
  note p1 = validate_fields [OF assms(1)]
  from assms(2) have "p2 = (if ua_Hostname (pa_NRTupdater p1) = []
      then p1\<lparr>pa_NRTupdater := (pa_NRTupdater p1)\<lparr>ua_Hostname := (case host of Inl err \<Rightarrow> [] | Inr name \<Rightarrow> name)\<rparr>\<rparr>
      else p1)"
    by (auto simp: Finalize_def Let_def split: prod.splits)
  note p2 = this
  show "get_field f p2 = final_value host f (get_field f p)" by (cases f; simp add: p2 p1 final_value_def)
  show "excludes p2 = excludes p" "re_ReferenceContainer (pa_RTE p2) = re_ReferenceContainer (pa_RTE p)"
    by (simp_all add: p2 p1 excludes_def)
qed

lemma dispatch_error_exists:
  assumes "dispatchConfObj f2i cm p = (p', Some e)"
  shows "\<not> errors_is e ErrNotExist"
proof -
  have v: "\<not> errors_is e ErrNotExist" if "cm_Value f2i cm key t = Inl e" for key t
    using that by (cases t) (auto simp: cm_Value_def cm_String_def cm_Bool_def cm_Int_def cm_Duration_def
        ErrNotExist_def split: option.splits cfg_value.splits)
  have b: "\<not> errors_is e ErrNotExist" if "bind_loop f2i cm cbs q = (q', Some e)" for cbs q q'
    using that
  proof (induction cbs arbitrary: q)
    case (Cons kf cbs)
    then show ?case by (cases kf) (auto split: sum.splits option.splits dest: v)
  qed simp
  with assms show ?thesis
    by (auto simp: dispatchConfObj_def Let_def cm_String_def cm_Int_def ContainerIdentFromString_def ErrNotExist_def
        split: prod.splits option.splits sum.splits cfg_value.splits list.splits if_splits dest!: b)
qed

lemma files_fields:
  assumes "FromFiles E configRoot path p = (p', None)"
  obtains conf extra where
    "daemon_conf E configRoot = Inr conf \<or>
      conf = [] \<and> (\<exists>e. daemon_conf E configRoot = Inl e \<and> errors_is e ErrNotExist)"
    "readExtraConfig E path = Inr extra"
    "\<forall>f. get_field f p' = kubelet_fill extra f
       (case last_value f (file_settings (ce_f2i E) conf) of Some v \<Rightarrow> v | None \<Rightarrow> get_field f p)"
    "re_ReferenceContainer (pa_RTE p) = None \<Longrightarrow> re_ReferenceContainer (pa_RTE p') = file_container conf"
    "excludes p = ([], []) \<Longrightarrow> excludes p' = (ec_ResourceExclude extra, ec_PodExclude extra)"
proof -
  obtain p1 err where d: "fromDaemonFiles E configRoot p = (p1, err)" by fastforce
  with assms have e: "case err of None \<Rightarrow> True | Some e \<Rightarrow> errors_is e ErrNotExist"
    and x: "fromExtraFile E path p1 = (p', None)"
    by (auto simp: FromFiles_def split: if_splits option.splits)
  from x obtain extra where extra: "readExtraConfig E path = Inr extra" "p' = setupArgsFromConfig extra p1"
    by (auto simp: fromExtraFile_def split: sum.splits)
  show thesis
  proof (cases "daemon_conf E configRoot")
    case (Inl e0)
    with d have "p1 = p" "err = Some e0" by (simp_all add: fromDaemonFiles_def)
    moreover have "last_value f (file_settings (ce_f2i E) []) = None" for f
      by (simp add: last_value_def file_settings_def file_setting_def cm_Int_def cm_Value_def cm_String_def
          cm_Bool_def cm_Duration_def confBindings_def)
    ultimately show thesis using Inl e extra that [of "[]" extra]
      by (simp add: extra_fields extra_special file_container_def)
  next
    case (Inr conf)
    with d have dd: "dispatchConfObj (ce_f2i E) conf p = (p1, err)" by (simp add: fromDaemonFiles_def)
    with e dispatch_error_exists have "err = None" by (auto split: option.splits)
    with dd have d': "dispatchConfObj (ce_f2i E) conf p = (p1, None)" by simp
    from dispatch_fields [OF d'] dispatch_special [OF d'] extra Inr show thesis
      by (intro that [of conf extra]) (auto simp: extra_fields extra_special)
  qed
qed

lemma ContainerIdentFromString_empty: "ci_String c = [] \<Longrightarrow> ContainerIdentFromString (ci_String c) = Inr c"
  by (cases c) (simp_all add: ci_String_def ContainerIdentFromString_def)

lemma flags_fields:
  assumes "FromFlags KL args p k = Ret (Returns (p', k', configRoot, path, None))"
  obtains fs asg params where "CommandLine KL = Ret fs"
    "assignments (fs_isBool fs) args = Some (asg, params)"
    "\<forall>f. get_field f p' = (case last_value f (flag_settings asg) of Some v \<Rightarrow> v | None \<Rightarrow> get_field f p)"
    "\<not> pa_Version p' \<longrightarrow> length params \<le> 1 \<and> (configRoot, path) = config_place asg params \<and>
       flag_container asg (re_ReferenceContainer (pa_RTE p)) = Inr (re_ReferenceContainer (pa_RTE p'))"
    "excludes p' = excludes p"
proof -
  let ?st0 = "\<lparr>cl_args = p, cl_configPath = LegacyExtraConfigPath,
      cl_refCnt = ci_String (re_ReferenceContainer (pa_RTE p)), cl_klog = k\<rparr>"
  from assms obtain fs where fs: "CommandLine KL = Ret fs" unfolding FromFlags_def go_bind_Ret_iff by blast
  with assms obtain r where "fs_Parse fs args ?st0 = Returns r"
    by (cases "fs_Parse fs args ?st0") (simp_all add: FromFlags_def)
  then obtain st params where parse: "fs_Parse fs args ?st0 = Returns (st, params)" by (cases r) simp
  from parse obtain asg where asg: "assignments (fs_isBool fs) args = Some (asg, params)"
    "assign_all fs asg ?st0 = Inr st"
    unfolding fs_Parse_returns by blast
  note st = assign_all_state [OF fs asg(2)]
  from assms fs parse have p': "p' = cl_args st \<or> (\<exists>c. p' = (cl_args st)\<lparr>pa_RTE := (pa_RTE (cl_args st))\<lparr>re_ReferenceContainer := c\<rparr>\<rparr>)"
    by (auto simp: FromFlags_def Let_def split: if_splits option.splits prod.splits sum.splits)
  then have "get_field f p' = get_field f (cl_args st)" for f by auto
  then have get: "\<forall>f. get_field f p' = (case last_value f (flag_settings asg) of Some v \<Rightarrow> v | None \<Rightarrow> get_field f p)"
    using st by (simp add: get_put_all flag_settings_typed)
  have rc: "re_ReferenceContainer (pa_RTE (cl_args st)) = re_ReferenceContainer (pa_RTE p)" using st by simp
  have "length params \<le> 1 \<and> (configRoot, path) = config_place asg params \<and>
      flag_container asg (re_ReferenceContainer (pa_RTE p)) = Inr (re_ReferenceContainer (pa_RTE p'))"
    if "\<not> pa_Version p'"
  proof -
    from that p' have v: "\<not> pa_Version (cl_args st)" by auto
    with assms fs parse have "if cl_refCnt st = []
        then re_ReferenceContainer (pa_RTE p') = re_ReferenceContainer (pa_RTE (cl_args st))
        else ContainerIdentFromString (cl_refCnt st) = Inr (re_ReferenceContainer (pa_RTE p'))"
      by (auto simp: FromFlags_def Let_def split: if_splits option.splits prod.splits sum.splits)
    then have "flag_container asg (re_ReferenceContainer (pa_RTE p)) = Inr (re_ReferenceContainer (pa_RTE p'))"
      unfolding rc using st ContainerIdentFromString_empty
      by (cases "last_arg ''reference-container'' asg") (auto simp: flag_container_def split: if_splits)
    moreover from v assms fs parse st have "length params \<le> 1 \<and> (configRoot, path) = config_place asg params"
      by (cases params) (auto simp: FromFlags_def Let_def config_place_def split: if_splits option.splits prod.splits sum.splits)
    ultimately show ?thesis by blast
  qed
  then have "\<not> pa_Version p' \<longrightarrow> length params \<le> 1 \<and> (configRoot, path) = config_place asg params \<and>
      flag_container asg (re_ReferenceContainer (pa_RTE p)) = Inr (re_ReferenceContainer (pa_RTE p'))" by blast
  moreover have "excludes p' = excludes p" using p' st by (auto simp: excludes_def)
  ultimately show thesis by (rule that [OF fs asg(1) get])
qed

text \<open>The steps of a start that goes through.\<close>

lemma proc_cases5:
  assumes "r = Ret x"
  obtains code where "x = Exits code"
    | a b c d err where "x = Returns (a, b, c, d, Some err)"
    | a b c d where "x = Returns (a, b, c, d, None)"
  by (cases x) (auto, metis option.exhaust)

lemma LoadArgs_steps:
  fixes KL :: "'k klog_lib"
  assumes "LoadArgs P KL E host args k = Ret (Returns (p, k', None))" "\<not> pa_Version p"
  defines "d \<equiv> SetDefaults P zero_ProgArgs"
  obtains tmp k1 r1 x1 p2 p3 k2 r3 x3 p4 and fs :: "'k cmdline FlagSet" where
    "FromFlags KL args (ProgArgs_Clone d) k = Ret (Returns (tmp, k1, r1, x1, None))" "\<not> pa_Version tmp"
    "FromFiles E r1 x1 (d\<lparr>pa_Global := (pa_Global d)\<lparr>ga_Debug := ga_Debug (pa_Global tmp)\<rparr>,
      pa_Version := pa_Version tmp, pa_DumpConfig := pa_DumpConfig tmp\<rparr>) = (p2, None)"
    "FromFlags KL args (FromEnv (ce_LookupEnv E) p2) k1 = Ret (Returns (p3, k2, r3, x3, None))"
    "Validate P p3 = (p4, None)" "Finalize KL fs host p4 k2 = (p, k', None)"
proof -
  from assms(1) obtain x where x: "FromFlags KL args (ProgArgs_Clone d) k = Ret x"
    unfolding LoadArgs_def Let_def go_bind_Ret_iff d_def by blast
  then obtain tmp k1 r1 x1 where f1: "FromFlags KL args (ProgArgs_Clone d) k = Ret (Returns (tmp, k1, r1, x1, None))"
    by (rule proc_cases5) (use assms(1) x in \<open>auto simp: LoadArgs_def Let_def d_def\<close>)
  let ?p1 = "d\<lparr>pa_Global := (pa_Global d)\<lparr>ga_Debug := ga_Debug (pa_Global tmp)\<rparr>,
      pa_Version := pa_Version tmp, pa_DumpConfig := pa_DumpConfig tmp\<rparr>"
  from assms f1 have ver: "\<not> pa_Version tmp" by (auto simp: LoadArgs_def Let_def)
  note load = assms(1) [unfolded LoadArgs_def Let_def, folded d_def, unfolded f1]
  obtain p2 e2 where f2: "FromFiles E r1 x1 ?p1 = (p2, e2)" by fastforce
  with load ver have e2: "e2 = None" by (cases e2) simp_all
  with load ver f2 obtain y where y: "FromFlags KL args (FromEnv (ce_LookupEnv E) p2) k1 = Ret y"
    by (auto simp: go_bind_Ret_iff)
  then obtain p3 k2 r3 x3 where f3: "FromFlags KL args (FromEnv (ce_LookupEnv E) p2) k1 = Ret (Returns (p3, k2, r3, x3, None))"
    by (rule proc_cases5) (use load ver f2 e2 y in auto)
  obtain p4 e4 where v: "Validate P p3 = (p4, e4)" by fastforce
  with load ver f2 e2 f3 have e4: "e4 = None" by (cases e4) simp_all
  with load ver f2 e2 f3 v obtain fs :: "'k cmdline FlagSet" where fin: "Finalize KL fs host p4 k2 = (p, k', None)"
    by (auto simp: go_bind_Ret_iff)
  show thesis by (rule that [OF f1 ver f2 [unfolded e2] f3 v [unfolded e4] fin])
qed

text \<open>The level in force afterwards is the larger one of the configured level and that of the flag.\<close>

lemma Finalize_level:
  assumes "klog_spec KL" "''v'' \<in> fl_Name ` set fs" "Finalize KL fs host p k = (p', k', err)"
    "kl_level KL k = w32 (kl_level KL k)"
  shows "err = None \<and> kl_level KL k' = max (w32 (ga_Verbose (pa_Global p))) (kl_level KL k)"
proof -
  have v: "getKLogLevel KL fs = Some ''v''" by (rule getKLogLevel_v [OF assms(1,2)])
  let ?a = "w32 (ga_Verbose (pa_Global p))"
  have set: "\<exists>k1. kl_Level_Set KL (show_int (w32 x)) k = Inr k1 \<and> kl_level KL k1 = w32 x" for x
    using assms(1) by (simp add: klog_spec_def)
  have max: "(if ?a < kl_level KL k then kl_level KL k else ?a) = max ?a (kl_level KL k)" by simp
  obtain x where x: "max ?a (kl_level KL k) = w32 x" using assms(4) by (metis max_def)
  obtain k1 where "kl_Level_Set KL (show_int (max ?a (kl_level KL k))) k = Inr k1" "kl_level KL k1 = max ?a (kl_level KL k)"
    using set [of x] x by auto
  then show ?thesis
    using assms(3) v by (auto simp: Finalize_def Let_def kloglevel_Get_def kloglevel_Set_def max_def split: if_splits)
qed

text \<open>
  C12. Every setting of a program that starts has the value of the last layer that gives it: the
  command line, of which the last occurrence counts; otherwise the environment and the kubelet's
  settings, which fill what is empty; otherwise the configuration files; otherwise the default. The
  reference container has the same layers, except that an empty argument of its flag does not take
  back the container of the files or of the environment. The exclude lists are those of the extra
  file. The files are those below the root given as the only positional
  argument, and a missing main file is the same as an empty one.
\<close>

theorem load_precedence:
  fixes KL :: "'k klog_lib"
  assumes "LoadArgs P KL E host args k = Ret (Returns (p, k', None))" "\<not> pa_Version p"
  shows "\<exists>fs asg params conf extra. CommandLine KL = Ret fs \<and>
     assignments (fs_isBool fs) args = Some (asg, params) \<and> length params \<le> 1 \<and>
     (daemon_conf E (fst (config_place asg params)) = Inr conf \<or>
      conf = [] \<and> (\<exists>e. daemon_conf E (fst (config_place asg params)) = Inl e \<and> errors_is e ErrNotExist)) \<and>
     readExtraConfig E (snd (config_place asg params)) = Inr extra \<and>
     (\<forall>f. get_field f p = setting_value P E host conf extra asg f) \<and>
     flag_container asg (env_container (ce_LookupEnv E) (file_container conf)) =
       Inr (re_ReferenceContainer (pa_RTE p)) \<and>
     ra_ResourceExclude (pa_Resourcemonitor p) = ec_ResourceExclude extra \<and>
     ra_PodExclude (pa_Resourcemonitor p) = ec_PodExclude extra"
proof -
  let ?d = "SetDefaults P zero_ProgArgs"
  obtain tmp k1 r1 x1 p2 p3 k2 r3 x3 p4 and fs' :: "'k cmdline FlagSet" where
    f1: "FromFlags KL args (ProgArgs_Clone ?d) k = Ret (Returns (tmp, k1, r1, x1, None))"
    and ver: "\<not> pa_Version tmp"
    and f2: "FromFiles E r1 x1 (?d\<lparr>pa_Global := (pa_Global ?d)\<lparr>ga_Debug := ga_Debug (pa_Global tmp)\<rparr>,
      pa_Version := pa_Version tmp, pa_DumpConfig := pa_DumpConfig tmp\<rparr>) = (p2, None)"
    and f3: "FromFlags KL args (FromEnv (ce_LookupEnv E) p2) k1 = Ret (Returns (p3, k2, r3, x3, None))"
    and v: "Validate P p3 = (p4, None)" and fin: "Finalize KL fs' host p4 k2 = (p, k', None)"
    by (rule LoadArgs_steps [OF assms])
  let ?p1 = "?d\<lparr>pa_Global := (pa_Global ?d)\<lparr>ga_Debug := ga_Debug (pa_Global tmp)\<rparr>,
      pa_Version := pa_Version tmp, pa_DumpConfig := pa_DumpConfig tmp\<rparr>"
  obtain fs asg params where a1: "CommandLine KL = Ret fs" "assignments (fs_isBool fs) args = Some (asg, params)"
    "\<forall>f. get_field f tmp = (case last_value f (flag_settings asg) of Some v \<Rightarrow> v
       | None \<Rightarrow> get_field f (ProgArgs_Clone ?d))"
    "\<not> pa_Version tmp \<longrightarrow> length params \<le> 1 \<and> (r1, x1) = config_place asg params \<and>
       flag_container asg (re_ReferenceContainer (pa_RTE (ProgArgs_Clone ?d))) = Inr (re_ReferenceContainer (pa_RTE tmp))"
    by (rule flags_fields [OF f1])
  obtain conf extra where c: "daemon_conf E r1 = Inr conf \<or> conf = [] \<and> (\<exists>e. daemon_conf E r1 = Inl e \<and> errors_is e ErrNotExist)"
    "readExtraConfig E x1 = Inr extra" "\<forall>f. get_field f p2 = kubelet_fill extra f
       (case last_value f (file_settings (ce_f2i E) conf) of Some v \<Rightarrow> v | None \<Rightarrow> get_field f ?p1)"
    and s: "re_ReferenceContainer (pa_RTE p2) = file_container conf"
      "excludes p2 = (ec_ResourceExclude extra, ec_PodExclude extra)"
    by (rule files_fields [OF f2]) (simp add: SetDefaults_def zero_ProgArgs_def excludes_def)
  have a3: "get_field f p3 = (case last_value f (flag_settings asg) of Some v \<Rightarrow> v
      | None \<Rightarrow> env_fill (ce_LookupEnv E) f (get_field f p2))" for f
    by (rule flags_fields [OF f3]) (use a1(1,2) in \<open>simp add: env_fields split: option.split\<close>)
  have "get_field F_Version p = get_field F_Version p3" unfolding final_fields [OF v fin] by (simp add: final_value_def)
  with assms(2) have "\<not> pa_Version p3" by simp
  then have s3: "flag_container asg (env_container (ce_LookupEnv E) (file_container conf)) =
      Inr (re_ReferenceContainer (pa_RTE p3))" "excludes p3 = excludes p2"
    by - (rule flags_fields [OF f3], use a1(1,2) s in \<open>simp add: env_special\<close>)+
  have p1: "get_field f ?p1 = get_field f ?d" if "last_value f (flag_settings asg) = None" for f
    using a1(3) [rule_format, of f] that by (cases f) (simp_all add: clone_fields del: get_field.simps, simp_all)
  have "get_field f p = setting_value P E host conf extra asg f" for f
    unfolding final_fields [OF v fin] setting_value_def
    using a3 [of f] c(3) [rule_format, of f] p1 [of f] by (cases "last_value f (flag_settings asg)") (simp_all split: option.split)
  moreover have "fst (config_place asg params) = r1" "snd (config_place asg params) = x1" "length params \<le> 1"
    using a1(4) [rule_format, OF ver] by (metis fst_conv, metis snd_conv, blast)
  moreover have "ra_ResourceExclude (pa_Resourcemonitor p) = ec_ResourceExclude extra"
    "ra_PodExclude (pa_Resourcemonitor p) = ec_PodExclude extra"
    using final_fields(2) [OF v fin] s3(2) s(2) by (simp_all add: excludes_def)
  ultimately show ?thesis using a1(1,2) c(1,2) s3(1) final_fields(3) [OF v fin] by metis
qed

section \<open>Instances\<close>

definition sample_klog :: "int klog_lib" where
  "sample_klog =
     \<lparr>kl_InitFlags = [\<lparr>fl_Name = ''v'', fl_IsBoolFlag = False,
        fl_Set = (\<lambda>x k. case ParseInt x of (i, None) \<Rightarrow> Inr i | (_, Some e) \<Rightarrow> Inl (Errorf ''parse error''))\<rparr>],
      kl_IsLevel = (\<lambda>n. n = ''v''),
      kl_Level_Set = (\<lambda>x k. case ParseInt x of (i, None) \<Rightarrow> Inr i | (_, Some e) \<Rightarrow> Inl (Errorf ''parse error'')),
      kl_level = (\<lambda>k. k)\<rparr>"

lemma sample_klog_spec: "klog_spec sample_klog"
proof -
  have "int64 (w32 x)" for x
    using pos_mod_bound [of "2 ^ 32 :: int" "x + 2 ^ 31"] pos_mod_sign [of "2 ^ 32 :: int" "x + 2 ^ 31"]
    by (simp add: w32_def int64_def)
  then show ?thesis by (simp add: klog_spec_def sample_klog_def ParseInt_show_int)
qed

text \<open>One configuration file, below the default root; the text of a file is its own decoding.\<close>

definition sample_cfg :: "string cfg_env" where
  "sample_cfg =
     \<lparr>ce_LookupEnv = (\<lambda>n. if n = ''NODE_NAME'' then Some ''n2'' else None), ce_Getuid = 0,
      ce_EvalSymlinks = Inr,
      ce_ReadFile = (\<lambda>p. if p = ''/etc/rte/daemon/config.yaml'' then Inr ''main'' else Inl ErrNotExist),
      ce_ReadDir = (\<lambda>p. Inl ErrNotExist), ce_Unmarshal = Inr,
      ce_Flatten = (\<lambda>d. Inr [(''topologyExporter.sleepInterval'', CFloat 1000000000),
                            (''topologyExporter.podReadinessEnable'', CBool False),
                            (''nrtUpdater.patchResync'', CFloat 3)]),
      ce_UnmarshalExtra = (\<lambda>d. Inr empty_extra), ce_f2i = (\<lambda>j. 0)\<rparr>"

definition sample_cmdline :: "string list" where
  "sample_cmdline = [''-sleep-interval=9s'', ''--sleep-interval'', ''2s'']"

definition sample_flagset :: "int cmdline FlagSet" where
  "sample_flagset = map klog_flag (kl_InitFlags sample_klog) @ config_flag # map field_flag field_flags1 @
     refcnt_flag # map field_flag field_flags2"

lemma fs_Vars_distinct: "distinct (map fl_Name (fs @ gs)) \<Longrightarrow> fs_Vars gs fs = Ret (fs @ gs)"
proof (induction gs arbitrary: fs)
  case (Cons g gs)
  then have "fs_Lookup fs (fl_Name g) = None" by (simp add: fs_Lookup_None)
  moreover have "fs_Vars gs (fs @ [g]) = Ret ((fs @ [g]) @ gs)" using Cons.prems by (intro Cons.IH) simp
  ultimately show ?case by (simp add: fs_Var_def)
qed simp

lemma fs_Vars_twice:
  "distinct (map fl_Name (gs @ hs)) \<Longrightarrow> go_bind (fs_Vars gs []) (fs_Vars hs) = Ret (gs @ hs)"
  using fs_Vars_distinct [of "[]" gs] fs_Vars_distinct [of gs hs] by simp

lemma sample_CommandLine: "CommandLine sample_klog = Ret sample_flagset"
proof -
  have "distinct (map fl_Name sample_flagset)"
    by (simp add: sample_flagset_def sample_klog_def field_flags1_def field_flags2_def)
  then show ?thesis
    unfolding CommandLine_def InitCommandLine_def sample_flagset_def by (rule fs_Vars_twice)
qed

lemma sample_lookup: "fs_Lookup sample_flagset ''sleep-interval'' = Some (field_flag (''sleep-interval'', F_SleepInterval))"
  by (simp add: sample_flagset_def sample_klog_def field_flags1_def)

lemma sample_flags:
  assumes "\<not> pa_Version p"
    "ContainerIdentFromString (ci_String (re_ReferenceContainer (pa_RTE p))) = Inr (re_ReferenceContainer (pa_RTE p))"
  shows "FromFlags sample_klog sample_cmdline p k =
    Ret (Returns (put_field F_SleepInterval (VInt 2000000000) p, k, DefaultConfigRoot, LegacyExtraConfigPath, None))"
proof -
  have d: "ParseDuration ''9s'' = Some 9000000000" "ParseDuration ''2s'' = Some 2000000000" by code_simp+
  have t: "next_token sample_cmdline = FlagToken ''sleep-interval'' (Some ''9s'') [''--sleep-interval'', ''2s'']"
    "next_token [''--sleep-interval'', ''2s''] = FlagToken ''sleep-interval'' None [''2s'']" "next_token [] = NoFlag []"
    by code_simp+
  have "fs_Parse sample_flagset sample_cmdline st =
      Returns (st\<lparr>cl_args := put_field F_SleepInterval (VInt 2000000000) (cl_args st)\<rparr>, [])" for st
    by (simp add: fs_Parse.simps t sample_lookup field_flag_def flag_value_def parse_value_def d)
  with assms show ?thesis by (simp add: FromFlags_def sample_CommandLine Let_def)
qed

definition sample_loaded :: ProgArgs where
  "sample_loaded =
     (let d = SetDefaults sample_pfp zero_ProgArgs in
      d\<lparr>pa_NRTupdater := (pa_NRTupdater d)\<lparr>ua_Hostname := ''n2'', ua_PatchResync := 3\<rparr>,
        pa_RTE := (pa_RTE d)\<lparr>re_SleepInterval := 2000000000, re_PodReadinessEnable := False\<rparr>\<rparr>)"

lemma sample_load:
  "LoadArgs sample_pfp sample_klog sample_cfg (Inr ''n1'') sample_cmdline 0 = Ret (Returns (sample_loaded, 2, None))"
proof -
  let ?d = "SetDefaults sample_pfp zero_ProgArgs"
  let ?p2 = "put_field F_PodReadinessEnable (VBool False)
    (put_field F_PatchResync (VInt 3) (put_field F_SleepInterval (VInt 1000000000) ?d))"
  have clone: "\<not> pa_Version (ProgArgs_Clone ?d)"
    "ContainerIdentFromString (ci_String (re_ReferenceContainer (pa_RTE (ProgArgs_Clone ?d)))) =
      Inr (re_ReferenceContainer (pa_RTE (ProgArgs_Clone ?d)))"
    by code_simp+
  have files: "FromFiles sample_cfg DefaultConfigRoot LegacyExtraConfigPath ?d = (?p2, None)" by code_simp
  have env: "FromEnv (ce_LookupEnv sample_cfg) ?p2 = put_field F_Hostname (VString ''n2'') ?p2" by code_simp
  have flags: "\<not> pa_Version (put_field F_Hostname (VString ''n2'') ?p2)"
    "ContainerIdentFromString (ci_String (re_ReferenceContainer (pa_RTE (put_field F_Hostname (VString ''n2'') ?p2)))) =
      Inr (re_ReferenceContainer (pa_RTE (put_field F_Hostname (VString ''n2'') ?p2)))"
    by code_simp+
  have last: "put_field F_SleepInterval (VInt 2000000000) (put_field F_Hostname (VString ''n2'') ?p2) = sample_loaded"
    "Validate sample_pfp sample_loaded = (sample_loaded, None)"
    "Finalize sample_klog sample_flagset (Inr ''n1'') sample_loaded 0 = (sample_loaded, 2, None)"
    by code_simp+
  have tmp: "\<not> pa_Version (put_field F_SleepInterval (VInt 2000000000) (ProgArgs_Clone ?d))"
    "?d\<lparr>pa_Global := (pa_Global ?d)\<lparr>ga_Debug := ga_Debug (pa_Global (put_field F_SleepInterval (VInt 2000000000)
        (ProgArgs_Clone ?d)))\<rparr>,
      pa_Version := pa_Version (put_field F_SleepInterval (VInt 2000000000) (ProgArgs_Clone ?d)),
      pa_DumpConfig := pa_DumpConfig (put_field F_SleepInterval (VInt 2000000000) (ProgArgs_Clone ?d))\<rparr> = ?d"
    by code_simp+
  have ver: "\<not> pa_Version ?d" by code_simp
  show ?thesis
    unfolding LoadArgs_def Let_def sample_flags [OF clone] go_bind.simps proc.case prod.case option.case tmp(2)
    using tmp(1) ver files env sample_flags [OF flags] last sample_CommandLine by (simp del: put_field.simps)
qed

theorem load_precedence_witness:
  "\<exists>conf extra asg.
     LoadArgs sample_pfp sample_klog sample_cfg (Inr ''n1'') sample_cmdline 0 = Ret (Returns (sample_loaded, 2, None)) \<and>
     get_field F_SleepInterval sample_loaded =
       setting_value sample_pfp sample_cfg (Inr ''n1'') conf extra asg F_SleepInterval \<and>
     flag_container asg (env_container (ce_LookupEnv sample_cfg) (file_container conf)) = Inr None \<and>
     re_SleepInterval (pa_RTE sample_loaded) = 2000000000 \<and> ua_PatchResync (pa_NRTupdater sample_loaded) = 3"
proof -
  have "\<not> pa_Version sample_loaded" by code_simp
  from load_precedence [OF sample_load this] obtain fs :: "int cmdline FlagSet" and asg params conf extra
    where f: "\<forall>f. get_field f sample_loaded = setting_value sample_pfp sample_cfg (Inr ''n1'') conf extra asg f"
      and c: "flag_container asg (env_container (ce_LookupEnv sample_cfg) (file_container conf)) =
        Inr (re_ReferenceContainer (pa_RTE sample_loaded))"
    by (elim exE conjE) (rule that)
  have "re_ReferenceContainer (pa_RTE sample_loaded) = None" by code_simp
  moreover from f have "get_field F_SleepInterval sample_loaded =
      setting_value sample_pfp sample_cfg (Inr ''n1'') conf extra asg F_SleepInterval" by (rule spec)
  moreover have "re_SleepInterval (pa_RTE sample_loaded) = 2000000000" "ua_PatchResync (pa_NRTupdater sample_loaded) = 3"
    by code_simp+
  ultimately show ?thesis using sample_load c by (intro exI conjI) simp_all
qed

end
