(* ===== verification/DurationText.thy ===== *)
theory DurationText
  imports Observer GoText
begin

text \<open>
  The text of a duration, written by \<^verbatim>\<open>Duration.String\<close> into the annotations of the published object,
  is a text that \<^verbatim>\<open>ParseDuration\<close> accepts as the value of a flag, and it denotes the same duration.
\<close>

section \<open>Floating point on small integers\<close>

lemma pow2_pos [simp]: "0 < pow2 e"
  by (simp add: pow2_def)

lemma round_even_int [simp]: "round_even (of_int n) = n"
  by (simp add: round_even_def)

lemma leading_exp_le:
  assumes "0 < n" "n < 2 ^ k"
  shows "leading_exp (of_int n) \<le> int k"
proof -
  have "bitlen n \<le> int k"
    using assms by (simp add: bitlen_le_iff_power)
  moreover have "bitlen (1::int) = 1" by (simp add: bitlen_def floorlog_def)
  ultimately show ?thesis by (simp add: leading_exp_def Let_def)
qed

lemma f64_int:
  assumes "0 \<le> n" "n < 2 ^ 52"
  shows "f64 (of_int n) = Some (of_int n)"
proof (cases "n = 0")
  case True
  then show ?thesis by (simp add: f64_def)
next
  case False
  let ?e = "max (- 1074) (leading_exp (of_int n) - 52)"
  from False assms leading_exp_le [of n 52] have e: "?e \<le> 0" by simp
  then have "of_int n / pow2 ?e = (of_int (n * 2 ^ nat (- ?e)) :: rat)"
    by (simp add: pow2_def del: of_int_mult) (simp add: of_int_mult)
  then have "of_int (round_even (of_int n / pow2 ?e)) * pow2 ?e = (of_int n :: rat)"
    by (simp only: round_even_int) (metis less_irrefl nonzero_eq_divide_eq pow2_pos)
  moreover have "(of_int n :: rat) < 2 ^ 1024"
  proof -
    from assms(2) have "n < 2 ^ 1024" by (rule less_trans) simp
    then have "(of_int n :: rat) < of_int (2 ^ 1024)" by (simp only: of_int_less_iff)
    then show ?thesis by simp
  qed
  ultimately show ?thesis using False by (simp add: f64_def Let_def)
qed

section \<open>Digits\<close>

abbreviation digits_from :: "int \<Rightarrow> string \<Rightarrow> int" where
  "digits_from x ds \<equiv> foldl (\<lambda>n c. n * 10 + digit_val c) x ds"

lemma digits_from_ge:
  assumes "0 \<le> x" "list_all is_digit ds"
  shows "x \<le> digits_from x ds"
  using assms
proof (induction ds arbitrary: x)
  case (Cons c ds)
  then have "x * 10 + digit_val c \<le> digits_from (x * 10 + digit_val c) ds" by simp
  moreover have "x \<le> x * 10 + digit_val c" using Cons.prems by simp
  ultimately show ?case by simp
qed simp

lemma digits_from_zeros [simp]: "digits_from x (replicate k (CHR ''0'')) = x * 10 ^ k"
  by (induction k arbitrary: x) (simp_all add: digit_val_def)

lemma leadingInt_digits:
  assumes "list_all is_digit ds" "rest = [] \<or> \<not> is_digit (hd rest)" "0 \<le> x" "digits_from x ds \<le> 2 ^ 63"
  shows "leadingInt x (ds @ rest) = Some (digits_from x ds, rest)"
  using assms
proof (induction ds arbitrary: x)
  case Nil
  then show ?case by (cases rest) auto
next
  case (Cons c ds)
  from Cons.prems have c: "is_digit c" "0 \<le> digit_val c" by simp_all
  with Cons.prems digits_from_ge [of "x * 10 + digit_val c" ds]
  have le: "x * 10 + digit_val c \<le> 2 ^ 63" by simp
  with c(2) have "x \<le> 2 ^ 63 div 10" by linarith
  with c le Cons show ?case by simp
qed

lemma leadingFraction_digits:
  assumes "list_all is_digit ds" "rest = [] \<or> \<not> is_digit (hd rest)" "0 \<le> x" "x < 10 ^ j"
    "j + length ds \<le> 15"
  shows "leadingFraction False x (Some (10 ^ j)) (ds @ rest) =
    (digits_from x ds, Some (10 ^ (j + length ds)), rest)"
  using assms
proof (induction ds arbitrary: x j)
  case Nil
  then show ?case by (cases rest) auto
next
  case (Cons c ds)
  from Cons.prems have c: "is_digit c" "0 \<le> digit_val c" "digit_val c \<le> 9"
    by (simp_all add: is_digit_def digit_val_def)
  have "(10::int) ^ j \<le> 10 ^ 14" using Cons.prems(5) by (intro power_increasing) simp_all
  with Cons.prems(4) have x: "x < 10 ^ 14" by simp
  have "(10::int) ^ Suc j < 2 ^ 52"
  proof -
    have "(10::int) ^ Suc j \<le> 10 ^ 15" using Cons.prems(5) by (intro power_increasing) simp_all
    then show ?thesis by (rule le_less_trans) simp
  qed
  from f64_int [OF _ this] have "f64 (10 ^ j * 10) = Some (10 ^ Suc j)" by (simp add: mult.commute)
  moreover have "x * 10 + digit_val c < 10 ^ Suc j" using Cons.prems(4) c by simp
  ultimately show ?case using c x Cons.prems Cons.IH [of "x * 10 + digit_val c" "Suc j"] by simp
qed

lemma show_uint_all_digits: "0 \<le> n \<Longrightarrow> list_all is_digit (show_uint n)"
  by (simp add: list_all_iff show_uint_digits)

lemma show_uint_length: "0 \<le> n \<Longrightarrow> n < 10 ^ k \<Longrightarrow> 0 < k \<Longrightarrow> length (show_uint n) \<le> k"
proof (induction n arbitrary: k rule: show_uint.induct)
  case (1 n)
  show ?case
  proof (cases "n < 10")
    case True
    with "1.prems" show ?thesis by (simp add: show_uint.simps [of n])
  next
    case False
    with "1.prems" obtain j where j: "k = Suc j" "0 < j"
      by (cases k; cases "k = 1") auto
    with False 1 have "length (show_uint (n div 10)) \<le> j" by simp
    with False j show ?thesis by (simp add: show_uint.simps [of n])
  qed
qed

lemma strip_trailing:
  fixes xs :: "'a list" and z :: 'a
  defines "ys \<equiv> rev (dropWhile (\<lambda>c. c = z) (rev xs))"
  shows "xs = ys @ replicate (length xs - length ys) z \<and> length ys \<le> length xs"
  unfolding ys_def
proof (induction xs rule: rev_induct)
  case (snoc x xs)
  let ?ys = "rev (dropWhile (\<lambda>c. c = z) (rev xs))"
  show ?case
  proof (cases "x = z")
    case True
    with snoc have "Suc (length xs) - length ?ys = Suc (length xs - length ?ys)" by linarith
    with True snoc show ?thesis by (simp flip: replicate_append_same)
  qed simp
qed simp

text \<open>The fraction: digits without trailing zeros that, scaled, give the remainder.\<close>

lemma frac_text_digits:
  assumes "0 < prec"
  obtains ds where "frac_text v prec = (if ds = [] then [] else CHR ''.'' # ds)" "list_all is_digit ds"
    "length ds \<le> prec" "dec_val ds * 10 ^ (prec - length ds) = v mod 10 ^ prec"
proof -
  let ?m = "v mod 10 ^ prec"
  define padded where "padded = replicate (prec - length (show_uint ?m)) (CHR ''0'') @ show_uint ?m"
  define ds where "ds = rev (dropWhile (\<lambda>c. c = CHR ''0'') (rev padded))"
  have m: "0 \<le> ?m" "?m < 10 ^ prec" by simp_all
  have len: "length padded = prec" using show_uint_length [OF m assms] by (simp add: padded_def)
  have dig: "list_all is_digit padded"
    using show_uint_all_digits [OF m(1)] by (auto simp: padded_def list_all_iff is_digit_def)
  have val: "dec_val padded = ?m"
    using dec_val_show_uint [OF m(1)] by (simp add: dec_val_def padded_def)
  from strip_trailing [of padded "CHR ''0''"] len
  have split: "padded = ds @ replicate (prec - length ds) (CHR ''0'')" and le: "length ds \<le> prec"
    by (simp_all add: ds_def)
  have "dec_val (ds @ replicate (prec - length ds) (CHR ''0'')) = dec_val ds * 10 ^ (prec - length ds)"
    by (simp add: dec_val_def)
  with val split have "dec_val ds * 10 ^ (prec - length ds) = ?m" by simp
  moreover from dig split have "list_all is_digit ds" by (metis list_all_append)
  moreover have "frac_text v prec = (if ds = [] then [] else CHR ''.'' # ds)"
  proof -
    from assms have "prec \<noteq> 0" by simp
    then show ?thesis by (simp only: frac_text_def Let_def ds_def padded_def if_False)
  qed
  ultimately show ?thesis using le that by blast
qed

section \<open>One number with its unit\<close>

definition unit_text :: "string \<Rightarrow> int \<Rightarrow> bool" where
  "unit_text u unit \<longleftrightarrow> u \<noteq> [] \<and> list_all is_unit_char u \<and> map_of unitMap u = Some unit \<and> 0 < unit"

lemma unit_texts [simp]:
  "unit_text ''ns'' 1" "unit_text [CHR 0xC2, CHR 0xB5, CHR ''s''] 1000" "unit_text ''ms'' 1000000"
  "unit_text ''s'' Second" "unit_text ''m'' 60000000000" "unit_text ''h'' Hour"
  by (simp_all add: unit_text_def is_unit_char_def is_digit_def unitMap_def Hour_def Second_def)

lemma unit_text_scan:
  assumes "unit_text u unit" "rest = [] \<or> \<not> is_unit_char (hd rest)"
  shows "takeWhile is_unit_char (u @ rest) = u" "dropWhile is_unit_char (u @ rest) = rest"
    "u @ rest \<noteq> []" "\<not> is_digit (hd (u @ rest))" "hd (u @ rest) \<noteq> CHR ''.''"
  using assms
  by (cases rest; cases u; simp add: unit_text_def list_all_iff is_unit_char_def)+

lemma duration_item_plain:
  assumes "unit_text u unit" "rest = [] \<or> \<not> is_unit_char (hd rest)" "0 \<le> v" "v * unit \<le> 2 ^ 63"
  shows "duration_item (show_uint v @ u @ rest) = Some (v * unit, rest)"
proof -
  note u = unit_text_scan [OF assms(1,2)]
  from assms(1) have unit: "0 < unit" "map_of unitMap u = Some unit" "u \<noteq> []"
    by (simp_all add: unit_text_def)
  then have "v \<le> v * unit" using assms(3) mult_left_mono [of 1 unit v] by simp
  with assms(4) have v: "v \<le> 2 ^ 63" by simp
  from assms(4) unit(1) have "v * unit div unit \<le> 2 ^ 63 div unit" by (rule zdiv_mono1)
  then have le: "v \<le> 2 ^ 63 div unit" using unit(1) by simp
  have "leadingInt 0 (show_uint v @ u @ rest) = Some (v, u @ rest)"
    using leadingInt_digits [of "show_uint v" "u @ rest" 0] show_uint_all_digits [OF assms(3)]
      dec_val_show_uint [OF assms(3)] u(4) v by (simp add: dec_val_def)
  moreover have "is_digit (hd (show_uint v @ u @ rest))"
    using show_uint_hd [OF assms(3)] by (simp add: hd_append)
  ultimately show ?thesis using u unit le by (simp add: duration_item_def Let_def)
qed

lemma fraction_part_exact:
  assumes "0 \<le> f" "f * 10 ^ (prec - k) = m" "0 \<le> m" "m < 10 ^ prec" "k \<le> prec" "prec \<le> 9"
  shows "fraction_part f (10 ^ prec) (Some (10 ^ k)) = m"
proof -
  have small: "(10::int) ^ j < 2 ^ 52" if "j \<le> 9" for j :: nat
  proof -
    from that have "(10::int) ^ j \<le> 10 ^ 9" by (intro power_increasing) simp_all
    then show ?thesis by (rule le_less_trans) simp
  qed
  have "f \<le> f * 10 ^ (prec - k)" using assms(1) mult_left_mono [of 1 "10 ^ (prec - k)" f] by simp
  then have f: "f < 2 ^ 52" and m: "m < 2 ^ 52" using assms small [of prec] by simp_all
  have q: "of_int (10 ^ prec) / 10 ^ k = (of_int (10 ^ (prec - k)) :: rat)"
    using assms(5) by (simp add: power_diff [where 'a = rat])
  have "f64 (of_int f) = Some (of_int f)" by (rule f64_int [OF assms(1) f])
  moreover have "f64 (of_int (10 ^ (prec - k))) = Some (of_int (10 ^ (prec - k)))"
    by (rule f64_int) (use small [of "prec - k"] assms(6) in simp_all)
  moreover have "f64 (of_int m) = Some (of_int m)" by (rule f64_int [OF assms(3) m])
  moreover have "of_int f * of_int (10 ^ (prec - k)) = (of_int m :: rat)"
    using assms(2) by (metis of_int_mult)
  ultimately show ?thesis using q by (simp add: fraction_part_def del: of_int_power)
qed

lemma duration_item_frac:
  assumes "unit_text u (10 ^ prec)" "rest = [] \<or> \<not> is_unit_char (hd rest)" "0 \<le> v"
    "v * 10 ^ prec + n mod 10 ^ prec \<le> 2 ^ 63" "0 < prec" "prec \<le> 9"
  shows "duration_item (show_uint v @ frac_text n prec @ u @ rest) = Some (v * 10 ^ prec + n mod 10 ^ prec, rest)"
proof -
  let ?m = "n mod 10 ^ prec"
  obtain ds where ds: "frac_text n prec = (if ds = [] then [] else CHR ''.'' # ds)" "list_all is_digit ds"
    "length ds \<le> prec" "dec_val ds * 10 ^ (prec - length ds) = ?m"
    by (rule frac_text_digits [OF assms(5)])
  have m: "0 \<le> ?m" "?m < 10 ^ prec" by simp_all
  with assms(4) have vu: "v * 10 ^ prec \<le> 2 ^ 63" by linarith
  show ?thesis
  proof (cases "ds = []")
    case True
    with ds(4) have "?m = 0" by (simp add: dec_val_def)
    with True ds(1) duration_item_plain [OF assms(1,2,3) vu] show ?thesis by simp
  next
    case False
    note u = unit_text_scan [OF assms(1,2)]
    have f0: "0 \<le> dec_val ds" using digits_from_ge [of 0 ds] ds(2) by (simp add: dec_val_def)
    have "v * 1 \<le> v * 10 ^ prec" using assms(3) by (intro mult_left_mono) simp_all
    with vu have v: "v \<le> 2 ^ 63" by simp
    let ?s = "show_uint v @ CHR ''.'' # ds @ u @ rest"
    have "leadingInt 0 ?s = Some (v, CHR ''.'' # ds @ u @ rest)"
      using leadingInt_digits [of "show_uint v" "CHR ''.'' # ds @ u @ rest" 0] v
        show_uint_all_digits [OF assms(3)] dec_val_show_uint [OF assms(3)]
      by (simp add: dec_val_def is_digit_def)
    moreover have "leadingFraction False 0 (Some 1) (ds @ u @ rest) =
        (dec_val ds, Some (10 ^ length ds), u @ rest)"
      using leadingFraction_digits [of ds "u @ rest" 0 0] ds(2,3) u(4) assms(6) by (simp add: dec_val_def)
    moreover have "fraction_part (dec_val ds) (10 ^ prec) (Some (10 ^ length ds)) = ?m"
      by (rule fraction_part_exact [OF f0 ds(4) m ds(3) assms(6)])
    moreover have "is_digit (hd ?s)" using show_uint_hd [OF assms(3)] by (simp add: hd_append)
    moreover from vu have "v * 10 ^ prec div 10 ^ prec \<le> 2 ^ 63 div 10 ^ prec" by (rule zdiv_mono1) simp
    then have "\<not> 2 ^ 63 div 10 ^ prec < v" by simp
    moreover have "dec_val ds = 0 \<Longrightarrow> ?m = 0" using ds(4) by simp
    moreover have "map_of unitMap u = Some (10 ^ prec)" "u \<noteq> []"
      using assms(1) by (simp_all add: unit_text_def)
    ultimately have "duration_item ?s = Some (v * 10 ^ prec + ?m, rest)"
      using u False f0 assms(4) by (simp add: duration_item_def Let_def not_less)
    with False ds(1) show ?thesis by simp
  qed
qed

section \<open>Whole durations\<close>

lemma duration_loop_Nil [simp]: "duration_loop d [] = Some d"
  by (simp add: duration_loop.simps)

lemma duration_loop_item:
  assumes "duration_item s = Some (v, rest)" "s \<noteq> []" "0 \<le> d" "0 \<le> v" "d + v \<le> 2 ^ 63"
  shows "duration_loop d s = duration_loop (d + v) rest"
proof -
  have "(d + v) mod 2 ^ 64 = d + v" using assms(3-5) by (intro mod_pos_pos_trivial) simp_all
  with assms show ?thesis by (simp add: duration_loop.simps [of d s])
qed

text \<open>The three parts of a text of at least a second, from the last to the first.\<close>

definition seconds_text :: "int \<Rightarrow> string" where
  "seconds_text u = show_uint (u div Second mod 60) @ frac_text u 9 @ ''s''"

definition minutes_text :: "int \<Rightarrow> string" where
  "minutes_text u =
     (if 0 < u div Second div 60 then show_uint (u div Second div 60 mod 60) @ ''m'' @ seconds_text u
      else seconds_text u)"

lemma seconds_loop:
  assumes "0 \<le> d" "0 \<le> u" "d + u mod 60000000000 \<le> 2 ^ 63"
  shows "duration_loop d (seconds_text u) = Some (d + u mod 60000000000)"
proof -
  have parts: "u div Second mod 60 * 10 ^ 9 + u mod 10 ^ 9 = u mod 60000000000"
    using zmod_zmult2_eq [of 60 u Second] by (simp add: Second_def)
  have nn: "0 \<le> u div Second mod 60" "0 \<le> u mod 60000000000" by simp_all
  with assms have le: "u div Second mod 60 * 10 ^ 9 + u mod 10 ^ 9 \<le> 2 ^ 63" unfolding parts by linarith
  have "duration_item (show_uint (u div Second mod 60) @ frac_text u 9 @ ''s'' @ []) =
      Some (u div Second mod 60 * 10 ^ 9 + u mod 10 ^ 9, [])"
    by (rule duration_item_frac [OF _ _ nn(1) le]) (use unit_texts(4) in \<open>simp_all add: Second_def\<close>)
  then have "duration_item (seconds_text u) = Some (u mod 60000000000, [])"
    unfolding parts seconds_text_def append_Nil2 .
  then have "duration_loop d (seconds_text u) = duration_loop (d + u mod 60000000000) []"
    by (rule duration_loop_item) (use assms nn in \<open>simp_all add: seconds_text_def\<close>)
  then show ?thesis by simp
qed

lemma not_unit_show_uint: "0 \<le> n \<Longrightarrow> \<not> is_unit_char (hd (show_uint n @ s))"
  using show_uint_hd [of n] by (simp add: is_unit_char_def hd_append)

lemma minutes_loop:
  assumes "0 \<le> d" "0 \<le> u" "d + u mod Hour \<le> 2 ^ 63"
  shows "duration_loop d (minutes_text u) = Some (d + u mod Hour)"
proof (cases "0 < u div Second div 60")
  case False
  then have "u < 60000000000" using zdiv_zmult2_eq [of 60 u Second] pos_imp_zdiv_pos_iff [of 60000000000 u]
    by (simp add: Second_def)
  then have "u mod Hour = u" "u mod 60000000000 = u" using assms(2) by (simp_all add: Hour_def)
  with False seconds_loop [of d u] assms show ?thesis by (simp add: minutes_text_def)
next
  case True
  let ?v = "u div Second div 60 mod 60"
  have "u div Second div 60 = u div 60000000000"
    using zdiv_zmult2_eq [of 60 u Second] unfolding Second_def by simp
  then have parts: "?v * 60000000000 + u mod 60000000000 = u mod Hour"
    using zmod_zmult2_eq [of 60 u 60000000000] unfolding Hour_def by simp
  have nn: "0 \<le> u mod 60000000000" "0 \<le> ?v" by simp_all
  have rest: "\<not> is_unit_char (hd (seconds_text u))"
    unfolding seconds_text_def by (rule not_unit_show_uint) simp
  from parts nn assms have b: "?v * 60000000000 \<le> 2 ^ 63" "d + ?v * 60000000000 \<le> 2 ^ 63"
    "d + ?v * 60000000000 + u mod 60000000000 \<le> 2 ^ 63" "0 \<le> d + ?v * 60000000000"
    by linarith+
  have shape: "minutes_text u = show_uint ?v @ ''m'' @ seconds_text u"
    using True by (simp add: minutes_text_def)
  have "duration_item (minutes_text u) = Some (?v * 60000000000, seconds_text u)"
    unfolding shape by (rule duration_item_plain [OF unit_texts(5) _ nn(2) b(1)]) (simp add: rest)
  then have "duration_loop d (minutes_text u) = duration_loop (d + ?v * 60000000000) (seconds_text u)"
    by (rule duration_loop_item) (use assms(1) nn(2) b(2) shape in simp_all)
  also have "\<dots> = Some (d + ?v * 60000000000 + u mod 60000000000)"
    by (rule seconds_loop [OF b(4) assms(2) b(3)])
  finally show ?thesis using parts by (simp only: add.assoc)
qed

lemma Duration_String_large:
  assumes "Second \<le> d"
  shows "Duration_String d =
    (if 0 < d div Hour then show_uint (d div Hour) @ ''h'' @ minutes_text d else minutes_text d)"
proof -
  have h: "d div Second div 60 div 60 = d div Hour"
    using zdiv_zmult2_eq [of 60 d Second] zdiv_zmult2_eq [of 60 d 60000000000]
    by (simp add: Second_def Hour_def)
  moreover have "0 < d div Hour \<Longrightarrow> 0 < d div Second div 60"
    using pos_imp_zdiv_pos_iff [of 60 "d div Second div 60"] by (simp flip: h)
  ultimately show ?thesis using assms
    by (auto simp: Duration_String_def Let_def minutes_text_def seconds_text_def Second_def)
qed

lemma show_uint_0: "show_uint 0 = ''0''"
  by code_simp

lemma duration_loop_text:
  assumes "0 \<le> d" "d \<le> 2 ^ 63"
  shows "duration_loop 0 (Duration_String d) = Some d"
proof -
  consider "d < 1000" | "1000 \<le> d" "d < 1000000" | "1000000 \<le> d" "d < Second"
    | "Second \<le> d" "d div Hour \<le> 0" | "Second \<le> d" "0 < d div Hour" by linarith
  then show ?thesis
  proof cases
    case 1
    then have "Duration_String d = show_uint d @ (if d = 0 then ''s'' else ''ns'') @ []"
      using assms by (simp add: Duration_String_def Let_def Second_def show_uint_0)
    moreover have "duration_item (show_uint d @ ''ns'' @ []) = Some (d, [])"
      using duration_item_plain [of "''ns''" 1 "[]" d] assms by simp
    moreover have "duration_item (show_uint 0 @ ''s'' @ []) = Some (0, [])"
      using duration_item_plain [of "''s''" Second "[]" 0] by simp
    ultimately show ?thesis using assms duration_loop_item [of "Duration_String d" d "[]" 0] by (cases "d = 0") simp_all
  next
    case 2
    then have "Duration_String d = show_uint (d div 1000) @ frac_text d 3 @ [CHR 0xC2, CHR 0xB5, CHR ''s''] @ []"
      by (simp add: Duration_String_def Let_def Second_def)
    moreover have "d div 1000 * 10 ^ 3 + d mod 10 ^ 3 = d" by simp
    ultimately show ?thesis
      using 2 assms duration_item_frac [of "[CHR 0xC2, CHR 0xB5, CHR ''s'']" 3 "[]" "d div 1000" d]
        duration_loop_item [of "Duration_String d" d "[]" 0] unit_texts(2) by simp
  next
    case 3
    then have "Duration_String d = show_uint (d div 1000000) @ frac_text d 6 @ ''ms'' @ []"
      by (simp add: Duration_String_def Let_def Second_def)
    moreover have "d div 1000000 * 10 ^ 6 + d mod 10 ^ 6 = d" by simp
    ultimately show ?thesis
      using 3 assms duration_item_frac [of "''ms''" 6 "[]" "d div 1000000" d]
        duration_loop_item [of "Duration_String d" d "[]" 0] unit_texts(3) by simp
  next
    case 4
    then have "d mod Hour = d" using assms pos_imp_zdiv_pos_iff [of Hour d] by (simp add: Hour_def)
    with 4 minutes_loop [of 0 d] assms show ?thesis by (simp add: Duration_String_large)
  next
    case 5
    have nn: "0 \<le> d mod Hour" "0 \<le> d div Hour" and parts: "d div Hour * Hour + d mod Hour = d"
      using 5 by (simp_all add: Hour_def)
    have shape: "Duration_String d = show_uint (d div Hour) @ ''h'' @ minutes_text d"
      using 5 by (simp add: Duration_String_large)
    have "\<not> is_unit_char (hd (minutes_text d))"
      using not_unit_show_uint [of "d div Second div 60 mod 60" "[]"]
        not_unit_show_uint [of "d div Second mod 60" "[]"] by (simp add: minutes_text_def seconds_text_def)
    moreover have "d div Hour * Hour \<le> 2 ^ 63" using nn parts assms by linarith
    ultimately have "duration_item (Duration_String d) = Some (d div Hour * Hour, minutes_text d)"
      using duration_item_plain [OF unit_texts(6), of "minutes_text d" "d div Hour"] nn by (simp add: shape)
    then have "duration_loop 0 (Duration_String d) = duration_loop (0 + d div Hour * Hour) (minutes_text d)"
      by (rule duration_loop_item) (use nn parts assms shape in \<open>simp_all add: Hour_def\<close>)
    also have "\<dots> = Some (0 + d div Hour * Hour + d mod Hour)"
      by (rule minutes_loop) (use nn parts assms in \<open>simp_all add: Hour_def\<close>)
    finally show ?thesis using parts by simp
  qed
qed

lemma Duration_String_shape:
  assumes "0 \<le> d" "d \<le> 2 ^ 63"
  shows "Duration_String d \<noteq> []" "Duration_String d \<noteq> ''0''"
    "hd (Duration_String d) \<noteq> CHR ''-''" "hd (Duration_String d) \<noteq> CHR ''+''"
proof -
  have "duration_loop 0 [] = Some 0" "Duration_String 0 = ''0s''" by (simp, code_simp)
  with duration_loop_text [OF assms] show ne: "Duration_String d \<noteq> []" by auto
  have "duration_loop 0 ''0'' = None" by code_simp
  with duration_loop_text [OF assms] show "Duration_String d \<noteq> ''0''" by auto
  have "hd (Duration_String d) = CHR ''.'' \<or> is_digit (hd (Duration_String d))"
    using duration_loop_text [OF assms] ne
    by (auto simp: duration_loop.simps [of 0 "Duration_String d"] duration_item_def split: if_splits)
  then show "hd (Duration_String d) \<noteq> CHR ''-''" "hd (Duration_String d) \<noteq> CHR ''+''" by auto
qed

lemma duration_roundtrip:
  assumes "int64 d"
  shows "ParseDuration (Duration_String d) = Some d"
proof (cases "d < 0")
  case False
  with assms have d: "0 \<le> d" "d \<le> 2 ^ 63" "\<not> d > 2 ^ 63 - 1" by (simp_all add: int64_def)
  show ?thesis
    using Duration_String_shape [OF d(1,2)] duration_loop_text [OF d(1,2)] d(3)
    by (simp add: ParseDuration_def)
next
  case True
  with assms have d: "0 \<le> - d" "- d \<le> 2 ^ 63" by (simp_all add: int64_def)
  have "Duration_String d = CHR ''-'' # Duration_String (- d)"
    using True by (simp add: Duration_String_def Let_def)
  with Duration_String_shape [OF d] duration_loop_text [OF d] w64_id [OF assms] show ?thesis
    by (simp add: ParseDuration_def)
qed

end
