(* ===== verification/TimingProps.thy ===== *)
theory TimingProps
  imports DurationText FlagFacts
begin

text \<open>The timing annotations of the published object, and the flag that takes them back.\<close>

lemma Round_int64:
  assumes "int64 d"
  shows "int64 (Round d Second)"
proof -
  define r where "r = (if d < 0 then (- d) mod Second else d mod Second)"
  have r: "0 \<le> r" "r < Second" by (simp_all add: r_def Second_def)
  have "Round d Second = (if d < 0 then
        (if r + r < Second then d + r
         else if d - Second + r \<ge> minDuration then d - Second + r else minDuration)
      else if r + r < Second then d - r
      else if d + Second - r \<le> maxDuration then d + Second - r else maxDuration)"
    by (simp only: Round_def Let_def r_def)
  with assms r show ?thesis
    by (cases "d < 0") (simp_all add: int64_def minDuration_def maxDuration_def Second_def)
qed

lemma clampTime_int64: "int64 d \<Longrightarrow> int64 (clampTime d)"
  by (simp add: clampTime_def int64_def)

text \<open>
  C40. With exposed timings the observer adds the update interval and the sleep duration to the
  annotations and touches no other; both texts can be read back by the program itself: given as value
  of the flag for the sleep interval, the published update interval sets the very interval that the
  timer had, and the sleep duration the measured time rounded to seconds, in both cases not below
  zero.
\<close>

theorem timing_annotations_readable:
  assumes "obs_annotations True ev diff (Some m) = Ret (Some m')" "int64 (ev_TimerInterval ev)" "int64 diff"
  shows "\<exists>interval sleep. map_of m' UpdateInterval = Some interval \<and> map_of m' SleepDuration = Some sleep \<and>
     flag_settings [(''sleep-interval'', interval)] = [(F_SleepInterval, VInt (max 0 (ev_TimerInterval ev)))] \<and>
     flag_settings [(''sleep-interval'', sleep)] = [(F_SleepInterval, VInt (max 0 (Round diff Second)))] \<and>
     (\<forall>k. k = UpdateInterval \<or> k = SleepDuration \<or> map_of m' k = map_of m k)"
proof -
  have set: "flag_settings [(''sleep-interval'', Duration_String (clampTime d))] =
      [(F_SleepInterval, VInt (max 0 d))]" if "int64 d" for d
  proof -
    have "map_of field_table ''sleep-interval'' = Some F_SleepInterval"
      by (simp add: field_table_def field_flags1_def)
    moreover have "clampTime d = max 0 d" by (simp add: clampTime_def max_def)
    ultimately show ?thesis
      using duration_roundtrip [OF clampTime_int64 [OF that]]
      by (simp add: flag_settings_def flag_setting_def parse_value_def)
  qed
  have "UpdateInterval \<noteq> SleepDuration" by (simp add: UpdateInterval_def SleepDuration_def)
  with assms(1) have "map_of m' UpdateInterval = Some (Duration_String (clampTime (ev_TimerInterval ev)))"
    "map_of m' SleepDuration = Some (Duration_String (clampTime (Round diff Second)))"
    "\<forall>k. k = UpdateInterval \<or> k = SleepDuration \<or> map_of m' k = map_of m k"
    by (auto simp: obs_annotations_def split: if_splits)
  with set [OF assms(2)] set [OF Round_int64 [OF assms(3)]] show ?thesis by blast
qed

theorem timing_annotations_readable_witness:
  "\<exists>m' interval. obs_annotations True \<lparr>ev_Timestamp = 0, ev_TimerInterval = 90500000000\<rparr> 61000000000 (Some []) =
       Ret (Some m') \<and> map_of m' UpdateInterval = Some interval \<and>
     flag_settings [(''sleep-interval'', interval)] = [(F_SleepInterval, VInt 90500000000)]"
proof -
  let ?ev = "\<lparr>ev_Timestamp = 0, ev_TimerInterval = 90500000000\<rparr>"
  obtain m' where m': "obs_annotations True ?ev 61000000000 (Some []) = Ret (Some m')"
    by (simp add: obs_annotations_def)
  have "int64 (ev_TimerInterval ?ev)" "int64 61000000000" by (simp_all add: int64_def)
  from timing_annotations_readable [OF m' this] m' show ?thesis by auto
qed

end
