(* ===== verification/GoUrl.thy ===== *)
theory GoUrl
  imports GoStd
begin

text \<open>
  \<^verbatim>\<open>net/url.Parse\<close>, as far as the scheme, the path and the presence of an error go. A host in brackets
  is an IP literal, whose checks differ between releases of the standard library: whether one is
  accepted is the argument \<open>ipLiteral\<close>.
\<close>

definition is_alpha :: "char \<Rightarrow> bool" where
  "is_alpha c = (let n = (of_char c :: nat) in 65 \<le> n \<and> n \<le> 90 \<or> 97 \<le> n \<and> n \<le> 122)"

definition is_ctl :: "char \<Rightarrow> bool" where
  "is_ctl c \<longleftrightarrow> (of_char c :: nat) < 32 \<or> (of_char c :: nat) = 127"

text \<open>\<^verbatim>\<open>strings.Cut\<close> at the first occurrence of a byte; the rest is empty when there is none.\<close>

definition cut_at :: "char \<Rightarrow> string \<Rightarrow> string \<times> string" where
  "cut_at c s = (takeWhile (\<lambda>x. x \<noteq> c) s, tl (dropWhile (\<lambda>x. x \<noteq> c) s))"

text \<open>\<open>acc\<close> is what was read of the scheme, in reverse; \<open>None\<close> is a missing scheme in front of a colon.\<close>

fun scheme_loop :: "string \<Rightarrow> string \<Rightarrow> string \<Rightarrow> (string \<times> string) option" where
  "scheme_loop raw acc [] = Some ([], raw)"
| "scheme_loop raw acc (c # cs) =
     (if is_alpha c then scheme_loop raw (c # acc) cs
      else if is_digit c \<or> c \<in> {CHR ''+'', CHR ''-'', CHR ''.''} then
        (if acc = [] then Some ([], raw) else scheme_loop raw (c # acc) cs)
      else if c = CHR '':'' then (if acc = [] then None else Some (rev acc, cs))
      else Some ([], raw))"

definition getScheme :: "string \<Rightarrow> (string \<times> string) option" where
  "getScheme rawURL = scheme_loop rawURL [] rawURL"

section \<open>Escapes\<close>

definition unhex :: "char \<Rightarrow> nat option" where
  "unhex c =
     (let n = (of_char c :: nat) in
      if 48 \<le> n \<and> n \<le> 57 then Some (n - 48)
      else if 97 \<le> n \<and> n \<le> 102 then Some (n - 87)
      else if 65 \<le> n \<and> n \<le> 70 then Some (n - 55)
      else None)"

text \<open>The bytes that may stand in a host as they are; bytes beyond ASCII may as well.\<close>

definition host_char :: "char \<Rightarrow> bool" where
  "host_char c \<longleftrightarrow> is_alpha c \<or> is_digit c \<or> (of_char c :: nat) \<ge> 128 \<or>
     c \<in> set ''!$&()*+,;=:[]<>-_.~'' \<or> c = CHR 0x27 \<or> c = CHR 0x22"

text \<open>
  \<^verbatim>\<open>unescape\<close>: \<open>host\<close> selects the mode for hosts, where only bytes beyond ASCII and the percent sign may
  be escaped; the other modes in use here (path, fragment, user and password) differ in nothing that
  matters for decoding.
\<close>

fun unescape :: "bool \<Rightarrow> string \<Rightarrow> string option" where
  "unescape host [] = Some []"
| "unescape host (c # cs) =
     (if c = CHR ''%'' then
        (case cs of
           a # b # rest \<Rightarrow>
             (case (unhex a, unhex b) of
                (Some x, Some y) \<Rightarrow>
                  if host \<and> x < 8 \<and> \<not> (a = CHR ''2'' \<and> b = CHR ''5'') then None
                  else map_option (Cons (char_of (16 * x + y))) (unescape host rest)
              | _ \<Rightarrow> None)
         | _ \<Rightarrow> None)
      else if host \<and> \<not> host_char c then None
      else map_option (Cons c) (unescape host cs))"

section \<open>Authority\<close>

definition validOptionalPort :: "string \<Rightarrow> bool" where
  "validOptionalPort port \<longleftrightarrow> port = [] \<or> hd port = CHR '':'' \<and> list_all is_digit (tl port)"

text \<open>The text from the last occurrence of a byte on, and the text before it.\<close>

definition from_last :: "char \<Rightarrow> string \<Rightarrow> string" where
  "from_last c s = c # rev (takeWhile (\<lambda>x. x \<noteq> c) (rev s))"

definition before_last :: "char \<Rightarrow> string \<Rightarrow> string" where
  "before_last c s = rev (tl (dropWhile (\<lambda>x. x \<noteq> c) (rev s)))"

definition host_ok :: "(string \<Rightarrow> bool) \<Rightarrow> string \<Rightarrow> bool" where
  "host_ok ipLiteral host \<longleftrightarrow>
     (if CHR ''['' \<in> set host then ipLiteral host
      else (CHR '':'' \<in> set host \<longrightarrow> validOptionalPort (from_last (CHR '':'') host)) \<and>
        unescape True host \<noteq> None)"

definition validUserinfo :: "string \<Rightarrow> bool" where
  "validUserinfo s \<longleftrightarrow>
     list_all (\<lambda>c. is_alpha c \<or> is_digit c \<or> c \<in> set ''-._:~!$&()*+,;=%@'' \<or> c = CHR 0x27) s"

definition authority_ok :: "(string \<Rightarrow> bool) \<Rightarrow> string \<Rightarrow> bool" where
  "authority_ok ipLiteral authority \<longleftrightarrow>
     (if CHR ''@'' \<in> set authority then
        host_ok ipLiteral (tl (from_last (CHR ''@'') authority)) \<and>
        (let userinfo = before_last (CHR ''@'') authority in
         validUserinfo userinfo \<and> unescape False (fst (cut_at (CHR '':'') userinfo)) \<noteq> None \<and>
         unescape False (snd (cut_at (CHR '':'') userinfo)) \<noteq> None)
      else host_ok ipLiteral authority)"

section \<open>Parse\<close>

record url_URL =
  u_Scheme :: string
  u_Path :: string

definition url_error :: gerr where
  "url_error = Errorf ''parse''"

definition url_parse :: "(string \<Rightarrow> bool) \<Rightarrow> string \<Rightarrow> gerr + url_URL" where
  "url_parse ipLiteral rawURL =
     (if list_ex is_ctl rawURL then Inl url_error
      else if rawURL = ''*'' then Inr \<lparr>u_Scheme = [], u_Path = ''*''\<rparr>
      else
        case getScheme rawURL of
          None \<Rightarrow> Inl url_error
        | Some (scheme0, rest0) \<Rightarrow>
            let scheme = ToLower scheme0; rest = fst (cut_at (CHR ''?'') rest0) in
            if \<not> HasPrefix rest ''/'' \<and> scheme \<noteq> [] then Inr \<lparr>u_Scheme = scheme, u_Path = []\<rparr>
            else if \<not> HasPrefix rest ''/'' \<and> CHR '':'' \<in> set (fst (cut_at (CHR ''/'') rest)) then Inl url_error
            else
              let hasAuthority = ((scheme \<noteq> [] \<or> \<not> HasPrefix rest ''///'') \<and> HasPrefix rest ''//'');
                  authority = takeWhile (\<lambda>c. c \<noteq> CHR ''/'') (drop 2 rest);
                  path = (if hasAuthority then dropWhile (\<lambda>c. c \<noteq> CHR ''/'') (drop 2 rest) else rest)
              in if hasAuthority \<and> \<not> authority_ok ipLiteral authority then Inl url_error
                 else
                   case unescape False path of
                     None \<Rightarrow> Inl url_error
                   | Some p \<Rightarrow> Inr \<lparr>u_Scheme = scheme, u_Path = p\<rparr>)"

definition url_Parse :: "(string \<Rightarrow> bool) \<Rightarrow> string \<Rightarrow> gerr + url_URL" where
  "url_Parse ipLiteral rawURL =
     (case cut_at (CHR ''#'') rawURL of
        (u, frag) \<Rightarrow>
          (case url_parse ipLiteral u of
             Inl err \<Rightarrow> Inl err
           | Inr url \<Rightarrow> if unescape False frag = None then Inl url_error else Inr url))"

section \<open>Plain paths\<close>

definition plain_path :: "string \<Rightarrow> bool" where
  "plain_path p \<longleftrightarrow> p \<noteq> [] \<and> hd p = CHR ''/'' \<and>
     list_all (\<lambda>c. \<not> is_ctl c \<and> c \<notin> {CHR ''%'', CHR ''?'', CHR ''#''}) p"

lemma unescape_plain: "list_all (\<lambda>c. c \<noteq> CHR ''%'') p \<Longrightarrow> unescape False p = Some p"
  by (induction p) auto

lemma cut_at_absent: "c \<notin> set s \<Longrightarrow> cut_at c s = (s, [])"
  by (induction s) (auto simp: cut_at_def)

lemma scheme_loop_append:
  "list_all is_alpha s \<Longrightarrow> s \<noteq> [] \<or> acc \<noteq> [] \<Longrightarrow>
     scheme_loop raw acc (s @ CHR '':'' # rest) = Some (rev acc @ s, rest)"
proof (induction s arbitrary: acc)
  case Nil
  then show ?case by (simp add: is_alpha_def is_digit_def)
qed simp

text \<open>An absolute path behind a scheme and two slashes comes out as it went in.\<close>

lemma url_Parse_plain:
  assumes "plain_path p" "s \<noteq> []" "list_all is_alpha s"
  shows "url_Parse ipLiteral (s @ ''://'' @ p) = Inr \<lparr>u_Scheme = ToLower s, u_Path = p\<rparr>"
proof -
  have alpha: "\<not> is_ctl c" "c \<notin> {CHR ''%'', CHR ''?'', CHR ''#''}" if "is_alpha c" for c
    using that by (auto simp: is_alpha_def is_ctl_def Let_def)
  have "CHR ''#'' \<notin> set (s @ ''://'' @ p)" "\<not> list_ex is_ctl (s @ ''://'' @ p)" "CHR ''?'' \<notin> set p"
    "list_all (\<lambda>c. c \<noteq> CHR ''%'') p"
    using assms alpha by (auto simp: plain_path_def list_all_iff list_ex_iff is_ctl_def)
  moreover have "getScheme (s @ ''://'' @ p) = Some (s, ''//'' @ p)"
    using scheme_loop_append [OF assms(3), of "[]"] assms(2) by (simp add: getScheme_def)
  moreover have "takeWhile (\<lambda>c. c \<noteq> CHR ''/'') p = []" "dropWhile (\<lambda>c. c \<noteq> CHR ''/'') p = p"
    using assms(1) by (cases p; simp add: plain_path_def)+
  moreover have "authority_ok ipLiteral []" by (simp add: authority_ok_def host_ok_def)
  moreover have "ToLower s \<noteq> []" "s @ ''://'' @ p \<noteq> ''*''" using assms(2) by (auto simp: ToLower_def append_eq_Cons_conv)
  ultimately show ?thesis
    by (simp add: url_Parse_def url_parse_def cut_at_absent Let_def unescape_plain)
qed

end
