(* ===== verification/PodResClient.thy ===== *)
theory PodResClient
  imports GoUrl Sysinfo PodRes
begin

text \<open>
  \<^verbatim>\<open>pkg/podres/client.go\<close>, \<^verbatim>\<open>pkg/podres/fake.go\<close> and \<^verbatim>\<open>pkg/podres/proxy/proxy.go\<close>: how a podresources
  client is made from an endpoint, the client that answers from files, and the proxy. The gRPC
  library is an argument: \<open>dial\<close> connects to a path with a timeout and a largest message size, and the
  listening side is \<open>listen\<close>. The JSON decoder of the fake client fills types of the kubelet's API and
  is an argument as well.
\<close>

definition DefaultTimeout :: int where
  "DefaultTimeout = 10 * 1000000000"

definition DefaultMaxMsgSize :: int where
  "DefaultMaxMsgSize = 1024 * 1024 * 16"

definition UnixProtocol :: string where
  "UnixProtocol = ''unix''"

definition FakeProtocol :: string where
  "FakeProtocol = ''fake''"

datatype 'c podres_cli = GrpcClient 'c | FakeClient string

datatype 'c CleanupFunc = nullCleanup | closeConn 'c

text \<open>A nil client is \<open>None\<close>.\<close>

type_synonym 'c client_result = "'c podres_cli option \<times> 'c CleanupFunc \<times> gerr option"

type_synonym 'c dialer = "string \<Rightarrow> int \<Rightarrow> int \<Rightarrow> gerr + 'c"

definition UnsupportedProtocolError :: "string \<Rightarrow> gerr" where
  "UnsupportedProtocolError proto = Errorf (''protocol '' @ proto @ '' not supported'')"

definition ParseEndpoint :: "(string \<Rightarrow> bool) \<Rightarrow> string \<Rightarrow> string \<times> string \<times> gerr option" where
  "ParseEndpoint ipLiteral endpoint =
     (case url_Parse ipLiteral endpoint of
        Inl err \<Rightarrow> ([], [], Some err)
      | Inr u \<Rightarrow>
          if u_Scheme u \<noteq> UnixProtocol \<and> u_Scheme u \<noteq> FakeProtocol
          then ([], [], Some (UnsupportedProtocolError (u_Scheme u)))
          else (u_Scheme u, u_Path u, None))"

definition GetV1ClientUnix :: "'c dialer \<Rightarrow> string \<Rightarrow> int \<Rightarrow> int \<Rightarrow> 'c client_result" where
  "GetV1ClientUnix dial path connectionTimeout maxMsgSize =
     (case dial path connectionTimeout maxMsgSize of
        Inl err \<Rightarrow> (None, nullCleanup, Some (Wrapf (''error dialing unix endpoint at '' @ path) err))
      | Inr conn \<Rightarrow> (Some (GrpcClient conn), closeConn conn, None))"

definition NewFakePodResourcesLister :: "string \<Rightarrow> 'c podres_cli" where
  "NewFakePodResourcesLister path = FakeClient path"

definition GetV1ClientFake :: "string \<Rightarrow> 'c client_result" where
  "GetV1ClientFake path = (Some (NewFakePodResourcesLister path), nullCleanup, None)"

definition GetV1Client ::
    "(string \<Rightarrow> bool) \<Rightarrow> 'c dialer \<Rightarrow> string \<Rightarrow> int \<Rightarrow> int \<Rightarrow> 'c client_result" where
  "GetV1Client ipLiteral dial endpoint connectionTimeout maxMsgSize =
     (case ParseEndpoint ipLiteral endpoint of
        (proto, path, err) \<Rightarrow>
          if proto \<noteq> UnixProtocol then (None, nullCleanup, Some (UnsupportedProtocolError proto))
          else
            (case err of
               Some e \<Rightarrow> (None, nullCleanup, Some e)
             | None \<Rightarrow> GetV1ClientUnix dial path connectionTimeout maxMsgSize))"

definition GetClient :: "(string \<Rightarrow> bool) \<Rightarrow> 'c dialer \<Rightarrow> string \<Rightarrow> 'c client_result" where
  "GetClient ipLiteral dial endpoint =
     (case ParseEndpoint ipLiteral endpoint of
        (_, _, Some err) \<Rightarrow> (None, nullCleanup, Some err)
      | (proto, path, None) \<Rightarrow>
          (case (if proto = UnixProtocol then GetV1ClientUnix dial path DefaultTimeout DefaultMaxMsgSize
                 else if proto = FakeProtocol then GetV1ClientFake path
                 else (None, nullCleanup, None)) of
             (_, cleanup, Some err) \<Rightarrow>
               (None, cleanup, Some (Wrapf ''failed to create podresource client'' err))
           | (cli, cleanup, None) \<Rightarrow> (cli, cleanup, None)))"

section \<open>The client that answers from files\<close>

text \<open>The decoder gives what it could fill in and its error; the answer keeps both.\<close>

definition readJSON ::
    "filesystem \<Rightarrow> (string \<Rightarrow> 'r \<times> gerr option) \<Rightarrow> string \<Rightarrow> string \<Rightarrow> 'r \<Rightarrow> 'r \<times> gerr option" where
  "readJSON fs Unmarshal path name zero =
     (case fs_ReadFile fs (PathJoin [path, name]) of
        Inl err \<Rightarrow> (zero, Some err)
      | Inr data \<Rightarrow> Unmarshal data)"

definition fake_List ::
    "filesystem \<Rightarrow> (string \<Rightarrow> PodResources list \<times> gerr option) \<Rightarrow> string \<Rightarrow> PodResources list \<times> gerr option" where
  "fake_List fs Unmarshal path = readJSON fs Unmarshal path ''list.json'' []"

definition fake_GetAllocatableResources ::
    "filesystem \<Rightarrow> (string \<Rightarrow> 'r \<times> gerr option) \<Rightarrow> string \<Rightarrow> 'r \<Rightarrow> 'r \<times> gerr option" where
  "fake_GetAllocatableResources fs Unmarshal path zero =
     readJSON fs Unmarshal path ''get_allocatable_resources.json'' zero"

definition fake_Get ::
    "filesystem \<Rightarrow> (string \<Rightarrow> 'r \<times> gerr option) \<Rightarrow> string \<Rightarrow> 'r \<Rightarrow> 'r \<times> gerr option" where
  "fake_Get fs Unmarshal path zero = readJSON fs Unmarshal path ''get.json'' zero"

text \<open>The list call of either client; \<open>rpc\<close> is the call over a connection.\<close>

fun cli_List ::
    "filesystem \<Rightarrow> (string \<Rightarrow> PodResources list \<times> gerr option) \<Rightarrow> ('c \<Rightarrow> PodResources list \<times> gerr option) \<Rightarrow>
     'c podres_cli \<Rightarrow> PodResources list \<times> gerr option" where
  "cli_List fs Unmarshal rpc (GrpcClient conn) = rpc conn"
| "cli_List fs Unmarshal rpc (FakeClient path) = fake_List fs Unmarshal path"

text \<open>A call on a nil client panics.\<close>

definition WaitForReady ::
    "('c podres_cli \<Rightarrow> PodResources list \<times> gerr option) \<Rightarrow> 'c client_result \<Rightarrow> 'c client_result go" where
  "WaitForReady list r =
     (case r of
        (cli, cleanup, Some err) \<Rightarrow> Ret (cli, cleanup, Some err)
      | (None, cleanup, None) \<Rightarrow> Panic NilDeref
      | (Some c, cleanup, None) \<Rightarrow>
          (case snd (list c) of
             Some listErr \<Rightarrow> Ret (Some c, cleanup, Some (Wrapf ''WaitForReady failed'' listErr))
           | None \<Rightarrow> Ret (Some c, cleanup, None)))"

section \<open>The proxy\<close>

record ('c, 'l) Proxy =
  pxy_cli :: "'c podres_cli option"
  pxy_cleanup :: "'c CleanupFunc"
  pxy_lst :: "'l option"
  pxy_server :: bool
  pxy_endpoint :: string

definition proxy_New :: "'c podres_cli option \<Rightarrow> 'c CleanupFunc \<Rightarrow> ('c, 'l) Proxy" where
  "proxy_New cli cleanup =
     \<lparr>pxy_cli = cli, pxy_cleanup = cleanup, pxy_lst = None, pxy_server = False, pxy_endpoint = []\<rparr>"

text \<open>\<open>listen\<close> is \<^verbatim>\<open>CreateListener\<close>; the server itself is made in any case.\<close>

definition proxy_Setup ::
    "(string \<Rightarrow> gerr + 'l) \<Rightarrow> string \<Rightarrow> ('c, 'l) Proxy \<Rightarrow> ('c, 'l) Proxy \<times> gerr option" where
  "proxy_Setup listen endpoint p =
     (let p1 = p\<lparr>pxy_server := True\<rparr> in
      case listen endpoint of
        Inl err \<Rightarrow> (p1, Some err)
      | Inr lst \<Rightarrow> (p1\<lparr>pxy_lst := Some lst, pxy_endpoint := endpoint\<rparr>, None))"

definition proxy_List :: "('c podres_cli \<Rightarrow> 'r) \<Rightarrow> ('c, 'l) Proxy \<Rightarrow> 'r go" where
  "proxy_List list p = (case pxy_cli p of None \<Rightarrow> Panic NilDeref | Some c \<Rightarrow> Ret (list c))"

definition proxy_GetAllocatableResources :: "('c podres_cli \<Rightarrow> 'r) \<Rightarrow> ('c, 'l) Proxy \<Rightarrow> 'r go" where
  "proxy_GetAllocatableResources getAllocatable p =
     (case pxy_cli p of None \<Rightarrow> Panic NilDeref | Some c \<Rightarrow> Ret (getAllocatable c))"

definition proxy_Get :: "('c podres_cli \<Rightarrow> 'r) \<Rightarrow> ('c, 'l) Proxy \<Rightarrow> 'r go" where
  "proxy_Get get p = (case pxy_cli p of None \<Rightarrow> Panic NilDeref | Some c \<Rightarrow> Ret (get c))"

text \<open>\<open>close\<close> is what closing a connection answers, \<open>serve\<close> how serving on a listener ends.\<close>

definition proxy_Cleanup :: "('c \<Rightarrow> gerr option) \<Rightarrow> ('c, 'l) Proxy \<Rightarrow> gerr option" where
  "proxy_Cleanup close p = (case pxy_cleanup p of nullCleanup \<Rightarrow> None | closeConn conn \<Rightarrow> close conn)"

definition proxy_Serve :: "('l option \<Rightarrow> gerr option) \<Rightarrow> ('c, 'l) Proxy \<Rightarrow> gerr option go" where
  "proxy_Serve serve p = (if \<not> pxy_server p then Panic NilDeref else Ret (serve (pxy_lst p)))"

section \<open>Properties\<close>

lemma GetClient_cases:
  "GetClient ipl dial ep =
     (case url_Parse ipl ep of
        Inl err \<Rightarrow> (None, nullCleanup, Some err)
      | Inr u \<Rightarrow>
          if u_Scheme u = UnixProtocol then
            (case dial (u_Path u) DefaultTimeout DefaultMaxMsgSize of
               Inl err \<Rightarrow> (None, nullCleanup, Some (Wrapf ''failed to create podresource client''
                  (Wrapf (''error dialing unix endpoint at '' @ u_Path u) err)))
             | Inr conn \<Rightarrow> (Some (GrpcClient conn), closeConn conn, None))
          else if u_Scheme u = FakeProtocol then (Some (FakeClient (u_Path u)), nullCleanup, None)
          else (None, nullCleanup, Some (UnsupportedProtocolError (u_Scheme u))))"
  by (auto simp: GetClient_def ParseEndpoint_def GetV1ClientUnix_def GetV1ClientFake_def
      NewFakePodResourcesLister_def UnixProtocol_def FakeProtocol_def split: sum.splits)

lemma GetClient_plain:
  assumes "plain_path p"
  shows "GetClient ipl dial (''unix://'' @ p) =
       (case dial p DefaultTimeout DefaultMaxMsgSize of
          Inl err \<Rightarrow> (None, nullCleanup, Some (Wrapf ''failed to create podresource client''
             (Wrapf (''error dialing unix endpoint at '' @ p) err)))
        | Inr conn \<Rightarrow> (Some (GrpcClient conn), closeConn conn, None))"
    "GetClient ipl dial (''fake://'' @ p) = (Some (FakeClient p), nullCleanup, None)"
proof -
  have "ToLower ''unix'' = ''unix''" "ToLower ''fake'' = ''fake''"
    "list_all is_alpha ''unix''" "list_all is_alpha ''fake''" by code_simp+
  then show "GetClient ipl dial (''unix://'' @ p) =
       (case dial p DefaultTimeout DefaultMaxMsgSize of
          Inl err \<Rightarrow> (None, nullCleanup, Some (Wrapf ''failed to create podresource client''
             (Wrapf (''error dialing unix endpoint at '' @ p) err)))
        | Inr conn \<Rightarrow> (Some (GrpcClient conn), closeConn conn, None))"
    "GetClient ipl dial (''fake://'' @ p) = (Some (FakeClient p), nullCleanup, None)"
    using url_Parse_plain [OF assms, of "''unix''" ipl] url_Parse_plain [OF assms, of "''fake''" ipl]
    by (simp_all add: GetClient_cases UnixProtocol_def FakeProtocol_def split: sum.split)
qed

text \<open>
  C27. Endpoints: an absolute path without escapes, query or fragment behind the scheme is the path
  that is dialled, or the directory the fake client reads, unchanged. For any endpoint whatsoever,
  waiting for a new client never panics; a client handed out without an error has answered a list
  call, and its cleanup closes the connection that it uses.
\<close>

theorem endpoint_client:
  assumes "plain_path p"
  shows "(GetClient ipl dial (''unix://'' @ p) =
          (case dial p DefaultTimeout DefaultMaxMsgSize of
             Inl err \<Rightarrow> (None, nullCleanup, Some (Wrapf ''failed to create podresource client''
                (Wrapf (''error dialing unix endpoint at '' @ p) err)))
           | Inr conn \<Rightarrow> (Some (GrpcClient conn), closeConn conn, None))) \<and>
     GetClient ipl dial (''fake://'' @ p) = (Some (FakeClient p), nullCleanup, None) \<and>
     (\<exists>cli cleanup err. WaitForReady list (GetClient ipl dial ep) = Ret (cli, cleanup, err) \<and>
        (err = None \<longrightarrow> (\<exists>c. cli = Some c \<and> snd (list c) = None \<and>
           (case c of GrpcClient conn \<Rightarrow> cleanup = closeConn conn | FakeClient _ \<Rightarrow> cleanup = nullCleanup))))"
proof -
  have "\<exists>cli cleanup err. WaitForReady list (GetClient ipl dial ep) = Ret (cli, cleanup, err) \<and>
        (err = None \<longrightarrow> (\<exists>c. cli = Some c \<and> snd (list c) = None \<and>
           (case c of GrpcClient conn \<Rightarrow> cleanup = closeConn conn | FakeClient _ \<Rightarrow> cleanup = nullCleanup)))"
    unfolding GetClient_cases by (auto simp: WaitForReady_def split: sum.splits option.splits)
  with GetClient_plain [OF assms, of ipl dial] show ?thesis by (intro conjI)
qed

definition sample_dial :: "string dialer" where
  "sample_dial path timeout maxSize =
     (if path = ''/podresources/kubelet.sock'' then Inr path else Inl (Errorf ''no such socket''))"

theorem endpoint_client_witness:
  "plain_path ''/podresources/kubelet.sock'' \<and>
   GetClient (\<lambda>_. False) sample_dial ''unix:///podresources/kubelet.sock'' =
     (Some (GrpcClient ''/podresources/kubelet.sock''), closeConn ''/podresources/kubelet.sock'', None)"
proof -
  have plain: "plain_path ''/podresources/kubelet.sock''" by code_simp
  show ?thesis
    using endpoint_client [OF plain, of "\<lambda>_. False" sample_dial "\<lambda>_. ([], None)" "[]"] plain
    by (simp add: sample_dial_def)
qed

end
