(* ===== verification/PfpDump.thy ===== *)
theory PfpDump
  imports GoStd
begin

text \<open>
  \<^verbatim>\<open>pkg/pfpdump/pfpdump.go\<close>: the statuses of the pod fingerprint are written to a file. The disk is a
  map from paths to contents, and its history lists every state it went through, so that what
  another process can read meanwhile is part of the model. Every operation of the system may fail;
  the outcomes for one status are the record \<open>dump_io\<close>. The status type is the fingerprint library's,
  and its JSON text the argument \<open>marshal\<close>.
\<close>

type_synonym files = "string \<Rightarrow> string option"

record disk =
  d_files :: files
  d_history :: "files list"

record dump_io =
  io_random :: "nat \<Rightarrow> string"
  io_Open :: "string \<Rightarrow> gerr option"
  io_Write :: "nat \<times> gerr option"
  io_Close :: "gerr option"
  io_Rename :: "gerr option"
  io_Remove :: "gerr option"

definition put_files :: "files \<Rightarrow> disk \<Rightarrow> disk" where
  "put_files f d = \<lparr>d_files = f, d_history = d_history d @ [f]\<rparr>"

section \<open>The standard library\<close>

definition path_Split :: "string \<Rightarrow> string \<times> string" where
  "path_Split p =
     (rev (dropWhile (\<lambda>c. c \<noteq> CHR ''/'') (rev p)), rev (takeWhile (\<lambda>c. c \<noteq> CHR ''/'') (rev p)))"

text \<open>The random text goes in place of the last star of the pattern, or to its end.\<close>

definition prefixAndSuffix :: "string \<Rightarrow> (string \<times> string) option" where
  "prefixAndSuffix pattern =
     (if CHR ''/'' \<in> set pattern then None
      else if CHR ''*'' \<in> set pattern
      then Some (rev (tl (dropWhile (\<lambda>c. c \<noteq> CHR ''*'') (rev pattern))),
                 rev (takeWhile (\<lambda>c. c \<noteq> CHR ''*'') (rev pattern)))
      else Some (pattern, []))"

definition joinPath :: "string \<Rightarrow> string \<Rightarrow> string" where
  "joinPath dir name = (if dir \<noteq> [] \<and> last dir = CHR ''/'' then dir @ name else dir @ ''/'' @ name)"

function temp_loop ::
    "dump_io \<Rightarrow> string \<Rightarrow> string \<Rightarrow> nat \<Rightarrow> disk \<Rightarrow> disk \<times> (gerr + string)" where
  "temp_loop io prefix suffix try d =
     (let name = prefix @ io_random io try @ suffix in
      if d_files d name \<noteq> None then
        (if try + 1 < 10000 then temp_loop io prefix suffix (try + 1) d
         else (d, Inl (Sentinel ''file already exists'')))
      else
        case io_Open io name of
          Some err \<Rightarrow> (d, Inl err)
        | None \<Rightarrow> (put_files ((d_files d)(name := Some [])) d, Inr name))"
  by pat_completeness auto
termination
  by (relation "measure (\<lambda>(io, prefix, suffix, try, d). 10000 - try)") auto

declare temp_loop.simps [simp del]

definition CreateTemp :: "dump_io \<Rightarrow> string \<Rightarrow> string \<Rightarrow> string \<Rightarrow> disk \<Rightarrow> disk \<times> (gerr + string)" where
  "CreateTemp io tempDir dir pattern d =
     (let dir' = (if dir = [] then tempDir else dir) in
      case prefixAndSuffix pattern of
        None \<Rightarrow> (d, Inl (Errorf ''pattern contains path separator''))
      | Some (prefix, suffix) \<Rightarrow> temp_loop io (joinPath dir' prefix) suffix 0 d)"

text \<open>A write that stores less than it was given is an error even when the system reports none.\<close>

definition file_Write :: "dump_io \<Rightarrow> string \<Rightarrow> string \<Rightarrow> disk \<Rightarrow> disk \<times> gerr option" where
  "file_Write io name data d =
     (case io_Write io of (n, e) \<Rightarrow>
        (put_files ((d_files d)(name := Some (take n data))) d,
         if e \<noteq> None then e else if n < length data then Some (Sentinel ''short write'') else None))"

definition os_Rename :: "dump_io \<Rightarrow> string \<Rightarrow> string \<Rightarrow> disk \<Rightarrow> disk \<times> gerr option" where
  "os_Rename io old new d =
     (case io_Rename io of
        Some err \<Rightarrow> (d, Some err)
      | None \<Rightarrow>
          (if old = new then d
           else put_files ((d_files d)(old := None, new := d_files d old)) d, None))"

definition os_Remove :: "dump_io \<Rightarrow> string \<Rightarrow> disk \<Rightarrow> disk" where
  "os_Remove io name d =
     (if io_Remove io \<noteq> None \<or> d_files d name = None then d
      else put_files ((d_files d)(name := None)) d)"

section \<open>The dump loop\<close>

definition ToFile ::
    "('st \<Rightarrow> gerr + string) \<Rightarrow> dump_io \<Rightarrow> string \<Rightarrow> 'st \<Rightarrow> string \<Rightarrow> string \<Rightarrow> disk \<Rightarrow> disk \<times> gerr option" where
  "ToFile marshal io tempDir st dir file d =
     (case marshal st of
        Inl err \<Rightarrow> (d, Some err)
      | Inr data \<Rightarrow>
          (case CreateTemp io tempDir dir (''__'' @ file) d of
             (d1, Inl err) \<Rightarrow> (d1, Some err)
           | (d1, Inr dst) \<Rightarrow>
               (case file_Write io dst data d1 of
                  (d2, Some err) \<Rightarrow> (os_Remove io dst d2, Some err)
                | (d2, None) \<Rightarrow>
                    (case io_Close io of
                       Some err \<Rightarrow> (os_Remove io dst d2, Some err)
                     | None \<Rightarrow>
                         (case os_Rename io dst (PathJoin [dir, file]) d2 of
                            (d3, err) \<Rightarrow> (os_Remove io dst d3, err))))))"

text \<open>What the loop receives: the end of its context, or a status with the outcomes it will meet.\<close>

datatype 'st dump_input = CtxDone | Update 'st dump_io

text \<open>The errors of the writes, which the loop only logs, are listed beside the disk.\<close>

fun dump_from ::
    "('st \<Rightarrow> gerr + string) \<Rightarrow> string \<Rightarrow> string \<Rightarrow> string \<Rightarrow> 'st dump_input list \<Rightarrow> disk \<Rightarrow>
     disk \<times> gerr option list" where
  "dump_from marshal tempDir dir file [] d = (d, [])"
| "dump_from marshal tempDir dir file (CtxDone # ins) d = (d, [])"
| "dump_from marshal tempDir dir file (Update st io # ins) d =
     (case ToFile marshal io tempDir st dir file d of
        (d1, err) \<Rightarrow>
          (case dump_from marshal tempDir dir file ins d1 of (d2, errs) \<Rightarrow> (d2, err # errs)))"

definition dumpLoop ::
    "('st \<Rightarrow> gerr + string) \<Rightarrow> string \<Rightarrow> string \<Rightarrow> 'st dump_input list \<Rightarrow> disk \<Rightarrow> disk \<times> gerr option list" where
  "dumpLoop marshal tempDir dumpfile ins d =
     (case path_Split dumpfile of (dir, file) \<Rightarrow> dump_from marshal tempDir dir file ins d)"

text \<open>Without a file there is neither a loop nor a sink; the answer says whether the sink was set.\<close>

definition pfp_Execute ::
    "('st \<Rightarrow> gerr + string) \<Rightarrow> string \<Rightarrow> string \<Rightarrow> 'st dump_input list \<Rightarrow> disk \<Rightarrow>
     bool \<times> disk \<times> gerr option list" where
  "pfp_Execute marshal tempDir dumpfile ins d =
     (if dumpfile = [] then (False, d, []) else (True, dumpLoop marshal tempDir dumpfile ins d))"

end
