(* ===== verification/PfpProps.thy ===== *)
theory PfpProps
  imports PfpDump
begin

text \<open>
  What the dump of the fingerprint promises to those who read the file: the temporary file is never
  the target, one status is dumped as a whole or not at all, and so is every sequence of them.
\<close>

section \<open>The temporary file\<close>

lemma path_Split_append: "path_Split p = (dir, file) \<Longrightarrow> dir @ file = p"
  by (auto simp: path_Split_def simp flip: rev_append)

lemma path_Split_file:
  assumes "path_Split p = (dir, file)"
  shows "CHR ''/'' \<notin> set file" "dir = [] \<or> last dir = CHR ''/''"
proof -
  have fl: "file = rev (takeWhile (\<lambda>c. c \<noteq> CHR ''/'') (rev p))"
    and dr: "dir = rev (dropWhile (\<lambda>c. c \<noteq> CHR ''/'') (rev p))"
    using assms by (simp_all add: path_Split_def)
  show "CHR ''/'' \<notin> set file" unfolding fl by (auto dest: set_takeWhileD)
  show "dir = [] \<or> last dir = CHR ''/''"
    unfolding dr using hd_dropWhile [of "\<lambda>c. c \<noteq> CHR ''/''" "rev p"] by (auto simp: last_rev)
qed

lemma prefixAndSuffix_length:
  assumes "prefixAndSuffix pattern = Some (prefix, suffix)"
  shows "length pattern \<le> length prefix + length suffix + 1"
proof (cases "CHR ''*'' \<in> set pattern")
  case True
  let ?D = "dropWhile (\<lambda>c. c \<noteq> CHR ''*'') (rev pattern)"
  let ?T = "takeWhile (\<lambda>c. c \<noteq> CHR ''*'') (rev pattern)"
  have "length ?T + length ?D = length pattern"
    by (metis length_append length_rev takeWhile_dropWhile_id)
  with True assms show ?thesis by (auto simp: prefixAndSuffix_def split: if_splits)
qed (use assms in \<open>auto simp: prefixAndSuffix_def split: if_splits\<close>)

lemma temp_not_target:
  assumes split: "path_Split dumpfile = (dir, file)"
    and pat: "prefixAndSuffix (''__'' @ file) = Some (prefix, suffix)"
  shows "joinPath (if dir = [] then tempDir else dir) prefix @ r @ suffix \<noteq> dumpfile"
proof (cases "dir = []")
  case True
  then have "CHR ''/'' \<notin> set dumpfile"
    using path_Split_append [OF split] path_Split_file(1) [OF split] by auto
  moreover have "CHR ''/'' \<in> set (joinPath tempDir prefix)"
    by (cases tempDir rule: rev_cases) (auto simp: joinPath_def)
  ultimately show ?thesis using True by auto
next
  case False
  then have "joinPath dir prefix = dir @ prefix"
    using path_Split_file(2) [OF split] by (simp add: joinPath_def)
  moreover have "length file < length prefix + length suffix"
    using prefixAndSuffix_length [OF pat] by simp
  ultimately show ?thesis
    using False path_Split_append [OF split] by auto
qed

lemma temp_loop_cases:
  "temp_loop io prefix suffix try d = (d1, r) \<Longrightarrow>
     (\<exists>err. r = Inl err \<and> d1 = d) \<or>
     (\<exists>rnd. let name = prefix @ rnd @ suffix in
        r = Inr name \<and> d_files d name = None \<and> d1 = put_files ((d_files d)(name := Some [])) d)"
proof (induction io prefix suffix "try" d rule: temp_loop.induct)
  case (1 io prefix suffix try' d)
  from 1(2) have run: "(let name = prefix @ io_random io try' @ suffix in
      if d_files d name \<noteq> None then
        (if try' + 1 < 10000 then temp_loop io prefix suffix (try' + 1) d
         else (d, Inl (Sentinel ''file already exists'')))
      else
        case io_Open io name of
          Some err \<Rightarrow> (d, Inl err)
        | None \<Rightarrow> (put_files ((d_files d)(name := Some [])) d, Inr name)) = (d1, r)"
    by (simp only: temp_loop.simps [of io prefix suffix try' d])
  show ?case
  proof (cases "d_files d (prefix @ io_random io try' @ suffix) = None")
    case True
    with run show ?thesis
      by (cases "io_Open io (prefix @ io_random io try' @ suffix)") (auto simp: Let_def fun_upd_def)
  next
    case False
    with run 1(1) [OF refl False] show ?thesis by (cases "try' + 1 < 10000") (auto simp: Let_def)
  qed
qed

lemma CreateTemp_cases:
  assumes "path_Split dumpfile = (dir, file)" "CreateTemp io tempDir dir (''__'' @ file) d = (d1, r)"
  shows "(\<exists>err. r = Inl err \<and> d1 = d) \<or>
     (\<exists>name. r = Inr name \<and> name \<noteq> dumpfile \<and> d_files d name = None \<and>
        d1 = put_files ((d_files d)(name := Some [])) d)"
proof (cases "prefixAndSuffix (''__'' @ file)")
  case None
  with assms(2) show ?thesis by (auto simp: CreateTemp_def)
next
  case (Some ps)
  then obtain prefix suffix where ps: "prefixAndSuffix (''__'' @ file) = Some (prefix, suffix)"
    by (cases ps) auto
  then have "temp_loop io (joinPath (if dir = [] then tempDir else dir) prefix) suffix 0 d = (d1, r)"
    using assms(2) by (simp add: CreateTemp_def Let_def)
  from temp_loop_cases [OF this] show ?thesis
    using temp_not_target [OF assms(1) ps] by (auto simp: Let_def)
qed

section \<open>One status\<close>

text \<open>What one step may do to the disk: the states it passes through show the old or the new content.\<close>

definition dumps :: "string \<Rightarrow> string option \<Rightarrow> bool \<Rightarrow> disk \<Rightarrow> disk \<Rightarrow> bool" where
  "dumps dumpfile new removes d d' \<longleftrightarrow>
     (\<exists>hs. d_history d' = d_history d @ hs \<and>
        (\<forall>f \<in> set hs. f dumpfile = d_files d dumpfile \<or> f dumpfile = new)) \<and>
     (removes \<longrightarrow> (\<forall>p. p \<noteq> dumpfile \<longrightarrow> d_files d' p = d_files d p))"

lemma ToFile_dumps:
  assumes split: "path_Split dumpfile = (dir, file)" and clean: "PathJoin [dir, file] = dumpfile"
    and run: "ToFile marshal io tempDir st dir file d = (d', err)"
  shows "dumps dumpfile (Some (projr (marshal st))) (io_Remove io = None) d d' \<and>
     (err = None \<longrightarrow> (\<exists>data. marshal st = Inr data)) \<and>
     d_files d' dumpfile = (if err = None then Some (projr (marshal st)) else d_files d dumpfile)"
proof (cases "marshal st")
  case (Inl e)
  with run show ?thesis by (auto simp: ToFile_def dumps_def)
next
  case (Inr data)
  obtain d1 r where ct: "CreateTemp io tempDir dir (''__'' @ file) d = (d1, r)" by fastforce
  from CreateTemp_cases [OF split ct] show ?thesis
  proof (elim disjE exE conjE)
    fix e assume "r = Inl e" "d1 = d"
    with run Inr ct show ?thesis by (auto simp: ToFile_def dumps_def)
  next
    fix name
    assume r: "r = Inr name" "name \<noteq> dumpfile" "d_files d name = None"
      "d1 = put_files ((d_files d)(name := Some [])) d"
    obtain n e where w: "io_Write io = (n, e)" by fastforce
    show ?thesis
      using run Inr ct r w clean
      by (cases e; cases "io_Close io"; cases "io_Rename io"; cases "io_Remove io"; cases "n < length data")
        (auto simp: ToFile_def file_Write_def os_Rename_def os_Remove_def put_files_def dumps_def)
  qed
qed

section \<open>The loop\<close>

text \<open>The statuses the loop takes before its context ends, and the content they leave behind.\<close>

fun taken :: "'st dump_input list \<Rightarrow> 'st list" where
  "taken [] = []"
| "taken (CtxDone # ins) = []"
| "taken (Update st io # ins) = st # taken ins"

fun removes_all :: "'st dump_input list \<Rightarrow> bool" where
  "removes_all [] = True"
| "removes_all (CtxDone # ins) = True"
| "removes_all (Update st io # ins) \<longleftrightarrow> io_Remove io = None \<and> removes_all ins"

fun last_dumped ::
    "('st \<Rightarrow> gerr + string) \<Rightarrow> string option \<Rightarrow> 'st list \<Rightarrow> gerr option list \<Rightarrow> string option" where
  "last_dumped marshal c (st # sts) (err # errs) =
     last_dumped marshal (if err = None then Some (projr (marshal st)) else c) sts errs"
| "last_dumped marshal c sts errs = c"

lemma dump_from_dumps:
  assumes split: "path_Split dumpfile = (dir, file)" and clean: "PathJoin [dir, file] = dumpfile"
  shows "dump_from marshal tempDir dir file ins d = (d', errs) \<Longrightarrow>
     length errs = length (taken ins) \<and>
     (\<exists>hs. d_history d' = d_history d @ hs \<and>
        (\<forall>f \<in> set hs. f dumpfile = d_files d dumpfile \<or>
           (\<exists>st \<in> set (taken ins). f dumpfile = Some (projr (marshal st))))) \<and>
     d_files d' dumpfile = last_dumped marshal (d_files d dumpfile) (taken ins) errs \<and>
     (removes_all ins \<longrightarrow> (\<forall>p. p \<noteq> dumpfile \<longrightarrow> d_files d' p = d_files d p))"
proof (induction ins arbitrary: d d' errs)
  case Nil
  then show ?case by simp
next
  case (Cons i ins)
  show ?case
  proof (cases i)
    case CtxDone
    with Cons.prems show ?thesis by simp
  next
    case (Update st io)
    obtain d1 err where one: "ToFile marshal io tempDir st dir file d = (d1, err)" by fastforce
    obtain errs1 where rest: "dump_from marshal tempDir dir file ins d1 = (d', errs1)"
      and errs: "errs = err # errs1"
      using Cons.prems Update one by (auto split: prod.splits)
    note D = ToFile_dumps [OF split clean one, unfolded dumps_def] Cons.IH [OF rest]
    obtain hs1 hs2 where H: "d_history d1 = d_history d @ hs1" "d_history d' = d_history d1 @ hs2"
      "\<forall>f \<in> set hs1. f dumpfile = d_files d dumpfile \<or> f dumpfile = Some (projr (marshal st))"
      "\<forall>f \<in> set hs2. f dumpfile = d_files d1 dumpfile \<or>
         (\<exists>st \<in> set (taken ins). f dumpfile = Some (projr (marshal st)))"
      using D by blast
    have "d_history d' = d_history d @ (hs1 @ hs2) \<and>
       (\<forall>f \<in> set (hs1 @ hs2). f dumpfile = d_files d dumpfile \<or>
          (\<exists>st \<in> set (taken (i # ins)). f dumpfile = Some (projr (marshal st))))"
      using H D(1) Update by (auto split: if_splits)
    then have "\<exists>hs. d_history d' = d_history d @ hs \<and>
       (\<forall>f \<in> set hs. f dumpfile = d_files d dumpfile \<or>
          (\<exists>st \<in> set (taken (i # ins)). f dumpfile = Some (projr (marshal st))))" by blast
    moreover have "d_files d' dumpfile = last_dumped marshal (d_files d dumpfile) (taken (i # ins)) errs"
      "length errs = length (taken (i # ins))"
      using D errs Update by simp_all
    moreover have "removes_all (i # ins) \<longrightarrow> (\<forall>p. p \<noteq> dumpfile \<longrightarrow> d_files d' p = d_files d p)"
      using D Update by simp
    ultimately show ?thesis by blast
  qed
qed

text \<open>
  C18. The dump file is replaced atomically: whatever fails, a reader finds at every moment either the
  content from before the loop or the whole JSON text of one status; in the end the file holds the
  status written last without an error, if there is one; and when removals work, no other file is
  changed, so that no temporary file is left behind.
\<close>

theorem pfp_dump_atomic:
  assumes "PathJoin [fst (path_Split dumpfile), snd (path_Split dumpfile)] = dumpfile"
    and "pfp_Execute marshal tempDir dumpfile ins d = (True, d', errs)"
  shows "length errs = length (taken ins) \<and>
     (\<exists>hs. d_history d' = d_history d @ hs \<and>
        (\<forall>f \<in> set hs. f dumpfile = d_files d dumpfile \<or>
           (\<exists>st \<in> set (taken ins). f dumpfile = Some (projr (marshal st))))) \<and>
     d_files d' dumpfile = last_dumped marshal (d_files d dumpfile) (taken ins) errs \<and>
     (removes_all ins \<longrightarrow> (\<forall>p. p \<noteq> dumpfile \<longrightarrow> d_files d' p = d_files d p))"
proof -
  obtain dir fl where split: "path_Split dumpfile = (dir, fl)" by fastforce
  have "dump_from marshal tempDir dir fl ins d = (d', errs)"
    using assms(2) split by (cases "dumpfile = []") (simp_all add: pfp_Execute_def dumpLoop_def)
  moreover have "PathJoin [dir, fl] = dumpfile" using assms(1) split by simp
  ultimately show ?thesis using dump_from_dumps [OF split] by blast
qed

definition sample_dump_io :: "gerr option \<Rightarrow> dump_io" where
  "sample_dump_io renameErr =
     \<lparr>io_random = (\<lambda>n. ''7''), io_Open = (\<lambda>_. None), io_Write = (100, None), io_Close = None,
      io_Rename = renameErr, io_Remove = None\<rparr>"

definition sample_disk :: disk where
  "sample_disk = \<lparr>d_files = (\<lambda>_. None), d_history = []\<rparr>"

definition sample_dumps :: "string dump_input list" where
  "sample_dumps = [Update ''a'' (sample_dump_io None), Update ''b'' (sample_dump_io (Some (Errorf ''busy''))), CtxDone]"

theorem pfp_dump_atomic_witness:
  "(let r = pfp_Execute Inr ''/tmp'' ''/run/pfp.json'' sample_dumps sample_disk in
    fst r \<and> snd (snd r) = [None, Some (Errorf ''busy'')] \<and>
    d_files (fst (snd r)) ''/run/pfp.json'' = Some ''a'' \<and> d_files (fst (snd r)) ''/run/__pfp.json7'' = None)"
proof -
  let ?r = "pfp_Execute Inr ''/tmp'' ''/run/pfp.json'' sample_dumps sample_disk"
  have clean: "PathJoin [fst (path_Split ''/run/pfp.json''), snd (path_Split ''/run/pfp.json'')] = ''/run/pfp.json''"
    by code_simp
  have r: "fst ?r" "snd (snd ?r) = [None, Some (Errorf ''busy'')]" by code_simp+
  obtain d' where d': "?r = (True, d', [None, Some (Errorf ''busy'')])"
    using r by (cases ?r) auto
  have ins: "taken sample_dumps = [''a'', ''b'']" "removes_all sample_dumps" by code_simp+
  note post = pfp_dump_atomic [OF clean d']
  have "d_files d' ''/run/pfp.json'' = Some ''a''"
    using post by (simp add: ins(1) sample_disk_def)
  moreover have "d_files d' ''/run/__pfp.json7'' = None"
    using conjunct2 [OF conjunct2 [OF conjunct2 [OF post]]] ins(2) by (simp add: sample_disk_def)
  ultimately show ?thesis using d' by simp
qed

end
