(* ===== verification/LogText.thy ===== *)
theory LogText
  imports ResourceMonitor LoadArgs
begin

text \<open>
  The texts that the program writes to its log: the \<^verbatim>\<open>String\<close> methods of \<^verbatim>\<open>pkg/resourcemonitor\<close> and
  \<^verbatim>\<open>podexclude\<close>, \<^verbatim>\<open>pkg/dump\<close>, and the dumps of the configuration. The JSON and YAML libraries are
  arguments, and so is the order in which a map is visited.
\<close>

definition nl :: string where
  "nl = [CHR 0x0A]"

definition re_String :: "(ResourceExclude \<Rightarrow> ResourceExclude) \<Rightarrow> ResourceExclude \<Rightarrow> string" where
  "re_String ord rel = concat (map (\<lambda>(name, items). ''- '' @ name @ '': ['' @ Join items '', '' @ '']'' @ nl) (ord rel))"

definition rc_String :: "(resourceCounter \<Rightarrow> resourceCounter) \<Rightarrow> resourceCounter \<Rightarrow> string" where
  "rc_String ord rc =
     (if length rc = 0 then []
      else drop 2 (concat (map (\<lambda>(key, val). '', '' @ key @ ''='' @ show_int val) (ord rc))))"

definition nrc_String ::
    "(resourceCounter \<Rightarrow> resourceCounter) \<Rightarrow> (perNUMAResourceCounter \<Rightarrow> perNUMAResourceCounter) \<Rightarrow>
     perNUMAResourceCounter \<Rightarrow> string" where
  "nrc_String ordR ord nrc =
     (if length nrc = 0 then []
      else drop 2 (concat (map (\<lambda>(key, val). ''; '' @ show_int key @ ''=<'' @ rc_String ordR val @ ''>'') (ord nrc))))"

definition items_String :: "Item list \<Rightarrow> string" where
  "items_String items =
     (if length items = 0 then []
      else drop 2 (concat (map (\<lambda>item. '', '' @ NamespacePattern item @ ''/'' @ NamePattern item) items)))"

definition mapIntIntToString :: "((int, int) gomap \<Rightarrow> (int, int) gomap) \<Rightarrow> (int, int) gomap \<Rightarrow> string" where
  "mapIntIntToString ord mii = concat (map (\<lambda>(key, val). show_int key @ '':'' @ show_int val @ '' '') (ord mii))"

definition toJSON :: "('a \<Rightarrow> gerr + string) \<Rightarrow> 'a \<Rightarrow> string" where
  "toJSON Marshal obj = (case Marshal obj of Inl err \<Rightarrow> ''<ERROR>'' | Inr data \<Rightarrow> data)"

text \<open>\<open>typeName\<close> and \<open>errText\<close> are the texts of the verbs for the type of the object and for the error.\<close>

definition dump_Object :: "('a \<Rightarrow> gerr + string) \<Rightarrow> string \<Rightarrow> (gerr \<Rightarrow> string) \<Rightarrow> 'a \<Rightarrow> string" where
  "dump_Object Marshal typeName errText obj =
     (case Marshal obj of
        Inl err \<Rightarrow> ''<!!! FAILED TO MARSHAL '' @ typeName @ '' ('' @ errText err @ '') !!!>'' @ nl
      | Inr out \<Rightarrow> out)"

definition ToJSONString :: "(ProgArgs \<Rightarrow> gerr + string) \<Rightarrow> (gerr \<Rightarrow> string) \<Rightarrow> ProgArgs \<Rightarrow> string" where
  "ToJSONString Marshal errText pa =
     (case Marshal pa of Inl err \<Rightarrow> ''<ERROR='' @ errText err @ ''>'' | Inr data \<Rightarrow> data)"

definition ToYAMLString :: "(ProgArgs \<Rightarrow> gerr + string) \<Rightarrow> (gerr \<Rightarrow> string) \<Rightarrow> ProgArgs \<Rightarrow> string" where
  "ToYAMLString Marshal errText pa =
     (case Marshal pa of Inl err \<Rightarrow> ''<ERROR='' @ errText err @ ''>'' | Inr data \<Rightarrow> data)"

text \<open>
  The deprecated fingerprint: pods that the caller's filter rejects are left out. It is the current
  one for a filter that looks at the pod alone.
\<close>

fun add_allowed :: "('fp, 'st) pfp_lib \<Rightarrow> (PodResources \<Rightarrow> bool) \<Rightarrow> PodResources list \<Rightarrow> 'fp \<Rightarrow> 'fp" where
  "add_allowed P allowFilter [] fp = fp"
| "add_allowed P allowFilter (pr # rest) fp =
     (if \<not> allowFilter pr then add_allowed P allowFilter rest fp
      else add_allowed P allowFilter rest (pfp_AddPod P fp pr))"

definition ComputePodFingerprint ::
    "('fp, 'st) pfp_lib \<Rightarrow> PodResources list \<Rightarrow> string \<Rightarrow> (PodResources \<Rightarrow> bool) \<Rightarrow> 'fp \<times> string" where
  "ComputePodFingerprint P podRes nodeName allowFilter =
     pfp_Sign P (add_allowed P allowFilter podRes (pfp_New P nodeName (length podRes)))"

section \<open>Facts\<close>

text \<open>Writing a separator in front of every part and cutting the first one off is joining the parts.\<close>

lemma concat_sep_Join: "length sep = 2 \<Longrightarrow> drop 2 (concat (map (\<lambda>x. sep @ f x) xs)) = Join (map f xs) sep"
proof (induction xs)
  case (Cons x xs)
  have "concat (map (\<lambda>x. sep @ f x) xs) = (if xs = [] then [] else sep @ Join (map f xs) sep)"
  proof (cases xs)
    case (Cons y ys)
    then have "concat (map (\<lambda>x. sep @ f x) xs) = sep @ drop 2 (concat (map (\<lambda>x. sep @ f x) xs))"
      using \<open>length sep = 2\<close> by simp
    with Cons.IH Cons.prems Cons show ?thesis by simp
  qed simp
  with Cons.prems show ?case by (cases xs) simp_all
qed simp

lemma rc_String_Join: "rc_String ord rc = (if rc = [] then [] else Join (map (\<lambda>(key, val). key @ ''='' @ show_int val) (ord rc)) '', '')"
  using concat_sep_Join [of "'', ''" "\<lambda>(key, val). key @ ''='' @ show_int val" "ord rc"]
  by (simp add: rc_String_def case_prod_unfold)

lemma items_String_Join:
  "items_String items = Join (map (\<lambda>item. NamespacePattern item @ ''/'' @ NamePattern item) items) '', ''"
  using concat_sep_Join [of "'', ''" "\<lambda>item. NamespacePattern item @ ''/'' @ NamePattern item" items]
  by (simp add: items_String_def)

lemma ComputePodFingerprint_same:
  "ComputePodFingerprint P ps n (\<lambda>pr. res_Allow (verifyFunc (Some pr))) =
     computePodFingerprintFromPodResources P ps n verifyFunc"
proof -
  have "add_allowed P (\<lambda>pr. res_Allow (verifyFunc (Some pr))) ps fp = add_pods P verifyFunc ps fp" for fp
    by (induction ps arbitrary: fp) simp_all
  then show ?thesis by (simp add: ComputePodFingerprint_def computePodFingerprintFromPodResources_def)
qed

end
