(* ===== verification/MonitorOptions.thy ===== *)
theory MonitorOptions
  imports ResourceMonitor
begin

text \<open>
  The construction of the monitor of \<^verbatim>\<open>pkg/resourcemonitor/resourcemonitor.go\<close>: its options and the node
  informer. The topology library and the informer are arguments.
\<close>

section \<open>Options and informer\<close>

text \<open>What the options can set before the start; a nil topology is \<open>None\<close>.\<close>

record 'kc rm_setup =
  su_nodeName :: string
  su_topo :: "TopoNode list option"
  su_k8sCli :: 'kc

definition WithTopology :: "TopoNode list option \<Rightarrow> 'kc rm_setup \<Rightarrow> 'kc rm_setup" where
  "WithTopology topo rm = rm\<lparr>su_topo := topo\<rparr>"

definition WithK8sClient :: "'kc \<Rightarrow> 'kc rm_setup \<Rightarrow> 'kc rm_setup" where
  "WithK8sClient c rm = rm\<lparr>su_k8sCli := c\<rparr>"

definition WithNodeName :: "string \<Rightarrow> 'kc rm_setup \<Rightarrow> 'kc rm_setup" where
  "WithNodeName name rm = rm\<lparr>su_nodeName := name\<rparr>"

text \<open>\<open>synced\<close> is the answer of \<^verbatim>\<open>WaitForCacheSync\<close> for the informer of the nodes.\<close>

definition addNodeInformerEvent :: "('kc \<Rightarrow> bool) \<Rightarrow> 'kc \<Rightarrow> gerr option" where
  "addNodeInformerEvent synced c =
     (if \<not> synced c then Some (Errorf ''timed out waiting for caches to sync'') else None)"

text \<open>
  \<^verbatim>\<open>NewResourceMonitor\<close> with its options: they are applied in order to the fields taken from the
  handle. \<open>ghw\<close> is the topology that the library finds below a root.
\<close>

definition monitor_start ::
    "(Quantity \<Rightarrow> string) \<Rightarrow> filesystem \<Rightarrow> ((int \<times> string list) list \<Rightarrow> (int \<times> string list) list) \<Rightarrow>
     gerr + AllocatableResources \<Rightarrow> (string \<Rightarrow> string) \<Rightarrow> (string \<Rightarrow> gerr + TopoNode list) \<Rightarrow>
     ('kc \<Rightarrow> bool) \<Rightarrow> 'kc \<Rightarrow> rm_Args \<Rightarrow> ('kc rm_setup \<Rightarrow> 'kc rm_setup) list \<Rightarrow> metrics_state \<Rightarrow>
     ((gerr + resourceMonitor) \<times> metrics_state) go" where
  "monitor_start qs fs ord resp getenv ghw synced k8sCli args options ms =
     (let rm = fold (\<lambda>opt rm. opt rm) options
                 \<lparr>su_nodeName = [], su_topo = None, su_k8sCli = k8sCli\<rparr>
      in NewResourceMonitor qs fs ord resp getenv (ghw (ra_SysfsRoot args))
           (addNodeInformerEvent synced (su_k8sCli rm)) args (su_nodeName rm) (su_topo rm) ms)"

end
