(* ===== verification/Program.thy ===== *)
theory Program
  imports LoadArgs LogText PodResClient PfpDump MonitorOptions
begin

text \<open>
  \<^verbatim>\<open>cmd/resource-topology-exporter/main.go\<close>, with the helpers it calls: \<^verbatim>\<open>pkg/k8shelpers\<close>, \<^verbatim>\<open>pkg/kubeconf\<close>
  and \<^verbatim>\<open>pkg/version\<close>. The program is a function of what its environment answers; its result is the list
  of its visible actions together with how it ends: it runs on, it exits with a code, or it ends with
  a fatal log message.
\<close>

section \<open>Helpers\<close>

text \<open>The client libraries: where a configuration comes from, and what is built from it.\<close>

record ('cfg, 'cli) kube_lib =
  kb_InClusterConfig :: "gerr + 'cfg"
  kb_BuildConfigFromFlags :: "string \<Rightarrow> gerr + 'cfg"
  kb_NewForConfig :: "'cfg \<Rightarrow> gerr + 'cli"

definition GetTopologyClient :: "('cfg, 'cli) kube_lib \<Rightarrow> string \<Rightarrow> gerr + 'cli" where
  "GetTopologyClient KB kubeConfig =
     (case (if kubeConfig = [] then kb_InClusterConfig KB else kb_BuildConfigFromFlags KB kubeConfig) of
        Inl err \<Rightarrow> Inl err
      | Inr config \<Rightarrow>
          (case kb_NewForConfig KB config of Inl err \<Rightarrow> Inl err | Inr topologyClient \<Rightarrow> Inr topologyClient))"

definition GetK8sClient :: "('cfg, 'cli) kube_lib \<Rightarrow> string \<Rightarrow> gerr + 'cli" where
  "GetK8sClient KB kubeConfig =
     (case (if kubeConfig = [] then kb_InClusterConfig KB else kb_BuildConfigFromFlags KB kubeConfig) of
        Inl err \<Rightarrow> Inl err
      | Inr config \<Rightarrow> kb_NewForConfig KB config)"

text \<open>The kubelet's configuration, reduced to the two settings in use.\<close>

definition GetKubeletConfigFromLocalFile ::
    "(string \<Rightarrow> gerr + string) \<Rightarrow> (string \<Rightarrow> gerr + TMConfig) \<Rightarrow> string \<Rightarrow> gerr + TMConfig" where
  "GetKubeletConfigFromLocalFile ReadFile Unmarshal kubeletConfigPath =
     (case ReadFile kubeletConfigPath of
        Inl err \<Rightarrow> Inl err
      | Inr kubeletBytes \<Rightarrow> Unmarshal kubeletBytes)"

definition ProgramName :: string where
  "ProgramName = ''resource-topology-exporter''"

definition undefinedVersion :: string where
  "undefinedVersion = ''undefined''"

text \<open>The version is a variable that the linker may set.\<close>

definition version_Undefined :: "string \<Rightarrow> bool" where
  "version_Undefined version \<longleftrightarrow> version = undefinedVersion"

section \<open>The environment\<close>

text \<open>The chain of clients: the connection, and the filters around it.\<close>

record ('c, 'cs) rte_client =
  rc_base :: "'c podres_cli"
  rc_shared :: "'cs sharedcpus_client"
  rc_exclude :: "podexclude_client option"
  rc_terminal :: "terminalpods_client option"

text \<open>
  What the program asks of its environment. The last six fields are for the monitor: the text of a
  quantity, the file system, the order of a map, the kubelet's allocatable resources, the topology
  that the library finds below a root, and whether the informer of the nodes gets in sync.
\<close>

record ('c, 'cfg, 'kc, 'nc) main_env =
  mn_yaml :: "ProgArgs \<Rightarrow> gerr + string"
  mn_errText :: "gerr \<Rightarrow> string"
  mn_WriteFile :: "string \<Rightarrow> string \<Rightarrow> gerr option"
  mn_version :: string
  mn_kube :: "('cfg, 'kc) kube_lib"
  mn_topo :: "('cfg, 'nc) kube_lib"
  mn_ipLiteral :: "string \<Rightarrow> bool"
  mn_dial :: "'c dialer"
  mn_list :: "'c podres_cli \<Rightarrow> PodResources list \<times> gerr option"
  mn_waitForCacheSync :: "'kc \<Rightarrow> int \<Rightarrow> string \<Rightarrow> (string \<times> bool) list"
  mn_hostname :: "gerr + string"
  mn_cliflag :: cliflag_lib
  mn_NewServer :: "srv_Options \<Rightarrow> gerr option"
  mn_ReadFile :: "string \<Rightarrow> gerr + string"
  mn_kubeletYaml :: "string \<Rightarrow> gerr + TMConfig"
  mn_nodes :: "'kc \<Rightarrow> gerr + v1_Node list"
  mn_watcherErr :: "gerr option"
  mn_notify :: notify_fs
  mn_quantityText :: "Quantity \<Rightarrow> string"
  mn_sysfs :: filesystem
  mn_order :: "(int \<times> string list) list \<Rightarrow> (int \<times> string list) list"
  mn_allocatable :: "'c podres_cli \<Rightarrow> gerr + AllocatableResources"
  mn_ghw :: "string \<Rightarrow> gerr + TopoNode list"
  mn_nodesSynced :: "'kc \<Rightarrow> bool"

datatype 'c action =
  Print string
| LogInfo string
| WriteFile string string
| Connected "'c podres_cli"
| Serving srv_Options
| DumpTo string

text \<open>A running exporter, with the three clients of the handle given to \<^verbatim>\<open>Execute\<close>.\<close>

record ('c, 'cs, 'kc, 'nc) running =
  mr_args :: ProgArgs
  mr_client :: "('c, 'cs) rte_client"
  mr_k8sCli :: 'kc
  mr_nrtCli :: 'nc
  mr_metrics :: metrics_state
  mr_exporter :: rte_started

datatype 'r main_result = Running 'r | Exited int | Fatal string gerr

section \<open>The program\<close>

text \<open>The dump of the configuration; with a result when the program ends there.\<close>

definition dump_config ::
    "('c, 'cfg, 'kc, 'nc) main_env \<Rightarrow> ProgArgs \<Rightarrow> 'c action list \<times> 'r main_result option" where
  "dump_config N pArgs =
     (if pa_DumpConfig pArgs = [] then ([], None)
      else
        let conf = ToYAMLString (mn_yaml N) (mn_errText N) pArgs in
        if pa_DumpConfig pArgs = ''-'' then ([Print (conf @ nl)], None)
        else if pa_DumpConfig pArgs = ''.andexit'' then ([Print (conf @ nl)], Some (Exited 0))
        else if pa_DumpConfig pArgs = ''.log'' then ([LogInfo (''current configuration:'' @ nl @ conf)], None)
        else
          ([WriteFile (pa_DumpConfig pArgs) conf],
           case mn_WriteFile N (pa_DumpConfig pArgs) conf of
             Some err \<Rightarrow> Some (Fatal ''failed to write the config'' err)
           | None \<Rightarrow> None))"

definition Minute :: int where
  "Minute = 60 * 1000000000"

definition build_client ::
    "'cs cpuset_lib \<Rightarrow> (int \<Rightarrow> string \<Rightarrow> (string \<times> bool) list) \<Rightarrow> ProgArgs \<Rightarrow> 'c podres_cli \<Rightarrow>
     gerr + ('c, 'cs) rte_client" where
  "build_client L waitForCacheSync pArgs cli =
     (let debug = ga_Debug (pa_Global pArgs);
          shared = sc_NewFromLister L debug (re_ReferenceContainer (pa_RTE pArgs));
          excludes = ra_PodExclude (pa_Resourcemonitor pArgs);
          exclude = (if length excludes > 0 then Some (px_NewFromLister debug excludes) else None)
      in if ra_ExcludeTerminalPods (pa_Resourcemonitor pArgs) then
           (case tp_NewFromLister waitForCacheSync Minute debug of
              Inl err \<Rightarrow> Inl err
            | Inr tp \<Rightarrow> Inr \<lparr>rc_base = cli, rc_shared = shared, rc_exclude = exclude, rc_terminal = Some tp\<rparr>)
         else Inr \<lparr>rc_base = cli, rc_shared = shared, rc_exclude = exclude, rc_terminal = None\<rparr>)"

text \<open>
  The monitor that the observer constructs: no options, on the chain of clients. A start that succeeds
  leaves the metrics as they are.
\<close>

definition program_monitor ::
    "('c, 'cfg, 'kc, 'nc) main_env \<Rightarrow> (string \<Rightarrow> string option) \<Rightarrow> metrics_state \<Rightarrow>
     ('c, 'cs) rte_client \<Rightarrow> 'kc \<Rightarrow> rm_Args \<Rightarrow> (gerr + resourceMonitor) go" where
  "program_monitor N lookupEnv ms cli kc args =
     go_bind (monitor_start (mn_quantityText N) (mn_sysfs N) (mn_order N)
                (podres_client_GetAllocatable
                   (case rc_exclude cli of None \<Rightarrow> [] | Some px \<Rightarrow> px_podExcludes px)
                   (rc_terminal cli \<noteq> None) (mn_allocatable N (rc_base cli)))
                (env_or_empty lookupEnv) (mn_ghw N) (mn_nodesSynced N) kc args [] ms)
       (\<lambda>(r, ms'). Ret r)"

text \<open>From the metrics on: everything that follows the clients.\<close>

definition serve_and_execute ::
    "('c, 'cfg, 'kc, 'nc) main_env \<Rightarrow> (string \<Rightarrow> string option) \<Rightarrow> ProgArgs \<Rightarrow> 'kc \<Rightarrow>
     'nc \<Rightarrow> ('c, 'cs) rte_client \<Rightarrow> metrics_state \<Rightarrow> 'c action list \<Rightarrow>
     ('c action list \<times> ('c, 'cs, 'kc, 'nc) running main_result) go" where
  "serve_and_execute N lookupEnv pArgs k8scli nrtcli cli ms acts =
     (let rte = pa_RTE pArgs; rm = pa_Resourcemonitor pArgs in
      case metrics_Setup lookupEnv (mn_hostname N) [] ms of
        (ms1, Some err) \<Rightarrow> Ret (acts, Fatal ''failed to setup metrics'' err)
      | (ms1, None) \<Rightarrow>
          (case srv_Setup (mn_cliflag N) (mn_NewServer N) (re_MetricsMode rte)
                  (srv_NewConfig (re_MetricsAddress rte) (re_MetricsPort rte) (re_MetricsTLSCfg rte)) of
             Inl err \<Rightarrow> Ret (acts, Fatal ''failed to setup metrics server'' err)
           | Inr srv \<Rightarrow>
               let acts1 = acts @ (case srv of None \<Rightarrow> [] | Some opts \<Rightarrow> [Serving opts]);
                   acts2 = acts1 @ (if ra_PodSetFingerprint rm \<and> ra_PodSetFingerprintStatusFile rm \<noteq> []
                                    then [DumpTo (ra_PodSetFingerprintStatusFile rm)] else [])
               in go_bind (Execute (GetKubeletConfigFromLocalFile (mn_ReadFile N) (mn_kubeletYaml N))
                             (mn_nodes N k8scli) lookupEnv (mn_watcherErr N) (mn_notify N)
                             (program_monitor N lookupEnv ms1 cli k8scli) True (pa_NRTupdater pArgs) rm rte) (\<lambda>r.
                    Ret (acts2,
                      case r of
                        Inl err \<Rightarrow> Fatal ''failed to execute'' err
                      | Inr st \<Rightarrow> Running \<lparr>mr_args = pArgs, mr_client = cli, mr_k8sCli = k8scli,
                                           mr_nrtCli = nrtcli, mr_metrics = ms1, mr_exporter = st\<rparr>))))"

definition start_exporter ::
    "'cs cpuset_lib \<Rightarrow> ('c, 'cfg, 'kc, 'nc) main_env \<Rightarrow> (string \<Rightarrow> string option) \<Rightarrow> ProgArgs \<Rightarrow>
     metrics_state \<Rightarrow> 'c action list \<Rightarrow> ('c action list \<times> ('c, 'cs, 'kc, 'nc) running main_result) go" where
  "start_exporter L N lookupEnv pArgs ms acts =
     (case GetK8sClient (mn_kube N) (ga_KubeConfig (pa_Global pArgs)) of
        Inl err \<Rightarrow> Ret (acts, Fatal ''failed to get a kubernetes core client'' err)
      | Inr k8scli \<Rightarrow>
          (case GetTopologyClient (mn_topo N) (ga_KubeConfig (pa_Global pArgs)) of
             Inl err \<Rightarrow> Ret (acts, Fatal ''failed to get a noderesourcetopology client'' err)
           | Inr nrtcli \<Rightarrow>
               go_bind (WaitForReady (mn_list N)
                          (GetClient (mn_ipLiteral N) (mn_dial N) (re_PodResourcesSocketPath (pa_RTE pArgs))))
                 (\<lambda>(cli, cleanup, err).
                    case (cli, err) of
                      (_, Some e) \<Rightarrow> Ret (acts, Fatal ''failed to get podresources client'' e)
                    | (None, None) \<Rightarrow> Panic NilDeref
                    | (Some c, None) \<Rightarrow>
                        let acts1 = acts @ [Connected c] in
                        (case build_client L (mn_waitForCacheSync N k8scli) pArgs c of
                           Inl e \<Rightarrow> Ret (acts1, Fatal ''failed to get PodResourceAPI client'' e)
                         | Inr rc \<Rightarrow> serve_and_execute N lookupEnv pArgs k8scli nrtcli rc ms acts1))))"

definition rte_main ::
    "('fp, 'st) pfp_lib \<Rightarrow> 'k klog_lib \<Rightarrow> 'o cfg_env \<Rightarrow> 'cs cpuset_lib \<Rightarrow> ('c, 'cfg, 'kc, 'nc) main_env \<Rightarrow>
     string list \<Rightarrow> 'k \<Rightarrow> metrics_state \<Rightarrow> ('c action list \<times> ('c, 'cs, 'kc, 'nc) running main_result) go" where
  "rte_main P KL E L N args k ms =
     go_bind (LoadArgs P KL E (mn_hostname N) args k) (\<lambda>r.
       case r of
         Exits code \<Rightarrow> Ret ([], Exited code)
       | Returns (parsedArgs, k1, Some err) \<Rightarrow> Ret ([], Fatal ''failed to parse args'' err)
       | Returns (parsedArgs, k1, None) \<Rightarrow>
           (case dump_config N parsedArgs of
              (acts, Some res) \<Rightarrow> Ret (acts, res)
            | (acts, None) \<Rightarrow>
                if pa_Version parsedArgs
                then Ret (acts @ [Print (ProgramName @ '' '' @ mn_version N @ nl)], Exited 0)
                else start_exporter L N (ce_LookupEnv E) parsedArgs ms acts))"

end
