(* ===== verification/MonitorStart.thy ===== *)
theory MonitorStart
  imports RefreshProps Program
begin

text \<open>
  The life of the monitor of \<^verbatim>\<open>pkg/resourcemonitor/resourcemonitor.go\<close> after its start: the node updates
  that the informer hands to \<^verbatim>\<open>resUpdated\<close>, and when the monitor of the program can panic.
\<close>

section \<open>Node updates\<close>

text \<open>
  The calls of \<^verbatim>\<open>resUpdated\<close>, each with the file system and the answer of \<^verbatim>\<open>GetAllocatableResources\<close> at
  its time, and the old and the new node.
\<close>

type_synonym node_update = "filesystem \<times> (gerr + AllocatableResources) \<times> v1_Node \<times> v1_Node"

fun node_updates ::
    "(Quantity \<Rightarrow> string) \<Rightarrow> ((int \<times> string list) list \<Rightarrow> (int \<times> string list) list) \<Rightarrow> node_update list \<Rightarrow>
     resourceMonitor \<Rightarrow> metrics_state \<Rightarrow> (resourceMonitor \<times> metrics_state) go" where
  "node_updates qs ord [] rm ms = Ret (rm, ms)"
| "node_updates qs ord ((fs, resp, nOld, nNew) # ups) rm ms =
     go_bind (resUpdated qs fs ord resp nOld nNew rm ms) (\<lambda>(rm', ms'). node_updates qs ord ups rm' ms')"

text \<open>
  The file system and the allocatable resources that count after these updates: those of the last
  changes of the node's own capacity or allocatable resources for which they could be read.
\<close>

fun last_answers ::
    "(Quantity \<Rightarrow> string) \<Rightarrow> string \<Rightarrow> node_update list \<Rightarrow> filesystem \<times> AllocatableResources \<Rightarrow>
     filesystem \<times> AllocatableResources" where
  "last_answers qs name [] (fs, al) = (fs, al)"
| "last_answers qs name ((fs', resp, nOld, nNew) # ups) (fs, al) =
     last_answers qs name ups
       (if vn_Name nNew = name \<and>
           (\<not> gm_equal (vn_Capacity nOld) (vn_Capacity nNew) \<or>
            \<not> gm_equal (vn_Allocatable nOld) (vn_Allocatable nNew))
        then (case GetMemoryResourceCounters qs fs' \<lparr>hnd_Root = []\<rparr> of
                Inl e \<Rightarrow> (fs, al)
              | Inr mc \<Rightarrow> (fs', case resp of Inl e \<Rightarrow> al | Inr al' \<Rightarrow> al'))
        else (fs, al))"

section \<open>What a refresh keeps\<close>

abbreviation machine_capacity ::
    "(Quantity \<Rightarrow> string) \<Rightarrow> TopoNode list \<Rightarrow> (string, (int, int) gomap) gomap \<Rightarrow> perNUMAResourceCounter go" where
  "machine_capacity qs topo mc \<equiv>
     capacity_rows (HugepageResourceNameFromSize qs HugepageSize2Mi)
       (HugepageResourceNameFromSize qs HugepageSize1Gi) topo mc (node_indexes topo) []"

text \<open>
  The monitor holds the allocatable resources \<open>al\<close> and the capacity read from \<open>fs\<close>, with the
  devices (\<open>cap'\<close>) or, after a failed refresh, without them (\<open>cap\<close>).
\<close>

definition tracks ::
    "(Quantity \<Rightarrow> string) \<Rightarrow> ((int \<times> string list) list \<Rightarrow> (int \<times> string list) list) \<Rightarrow> filesystem \<Rightarrow>
     AllocatableResources \<Rightarrow> resourceMonitor \<Rightarrow> perNUMAResourceCounter \<Rightarrow> perNUMAResourceCounter \<Rightarrow> bool" where
  "tracks qs ord fs al rm cap cap' \<longleftrightarrow>
     (\<exists>mc. GetMemoryResourceCounters qs fs \<lparr>hnd_Root = []\<rparr> = Inr mc \<and>
        machine_capacity qs (rm_topo rm) mc = Ret cap) \<and>
     rm_nodeAllocatable rm = ContainerDevicesToPerNUMAResourceCounters (node_devices ord al rm) \<and>
     dev_cap_nodes (rm_nodeAllocatable rm) cap = Ret cap' \<and> rm_nodeCapacity rm \<in> {cap, cap'}"

definition same_machine :: "resourceMonitor \<Rightarrow> resourceMonitor \<Rightarrow> bool" where
  "same_machine a b \<longleftrightarrow> rm_nodeName a = rm_nodeName b \<and> rm_args a = rm_args b \<and> rm_topo a = rm_topo b \<and>
     rm_coreIDToNodeIDMap a = rm_coreIDToNodeIDMap b"

lemma same_machine_trans: "same_machine a b \<Longrightarrow> same_machine b c \<Longrightarrow> same_machine a c"
  by (simp add: same_machine_def)

lemma refresh_tracks:
  assumes "updateNodeResources qs fs ord (Inr al) rm ms = Ret ((rm', None), ms')"
  shows "same_machine rm rm' \<and> ms' = ms \<and> (\<exists>cap. tracks qs ord fs al rm' cap (rm_nodeCapacity rm'))"
  using assms
  by (auto simp: updateNodeResources_def updateNodeCapacity_def updateNodeAllocatable_def
      updateDevicesCapacity_def go_bind_Ret_iff tracks_def same_machine_def node_devices_def Let_def
      split: sum.splits)

lemma tracks_refresh:
  assumes "tracks qs ord fs al rm cap cap'" "same_machine rm0 rm"
  shows "updateNodeResources qs fs ord (Inr al) rm0 ms =
    Ret ((rm\<lparr>rm_nodeCapacity := cap'\<rparr>, None), ms)"
  using assms
  by (auto simp: updateNodeResources_def updateNodeCapacity_def updateNodeAllocatable_def
      updateDevicesCapacity_def tracks_def same_machine_def node_devices_def Let_def)

text \<open>A refresh that could read the capacity but not the allocatable resources.\<close>

lemma failed_refresh_tracks:
  assumes "tracks qs ord fs al rm cap cap'" "GetMemoryResourceCounters qs fs1 \<lparr>hnd_Root = []\<rparr> = Inr mc"
    "machine_capacity qs (rm_topo rm) mc = Ret cap1"
  shows "\<exists>cap1'. tracks qs ord fs1 al (rm\<lparr>rm_nodeCapacity := cap1\<rparr>) cap1 cap1'"
proof -
  let ?ds = "node_devices ord al rm"
  from assms(1) obtain mc0 where rows: "machine_capacity qs (rm_topo rm) mc0 = Ret cap"
    and al: "rm_nodeAllocatable rm = ContainerDevicesToPerNUMAResourceCounters ?ds"
    and d: "dev_cap_nodes (ContainerDevicesToPerNUMAResourceCounters ?ds) cap = Ret cap'"
    by (auto simp: tracks_def)
  have "\<not> stray_device (rm_topo rm) ?ds"
    using dev_cap_stray [of "rm_topo rm" ?ds cap] capacity_rows_keys [OF rows] d by auto
  from dev_cap_fits [OF this, of cap1] capacity_rows_keys [OF assms(3)] obtain cap1' where
    "dev_cap_nodes (ContainerDevicesToPerNUMAResourceCounters ?ds) cap1 = Ret cap1'" by auto
  with assms(2,3) al show ?thesis by (auto simp: tracks_def node_devices_def)
qed

lemma resUpdated_tracks:
  assumes "tracks qs ord fs al rm cap cap'" "resUpdated qs fs1 ord resp nOld nNew rm ms = Ret (rm', ms')"
    "last_answers qs (rm_nodeName rm) [(fs1, resp, nOld, nNew)] (fs, al) = (fs2, al2)"
  shows "same_machine rm rm' \<and> (\<exists>cap1 cap1'. tracks qs ord fs2 al2 rm' cap1 cap1')"
proof (cases "vn_Name nNew = rm_nodeName rm \<and> (\<not> gm_equal (vn_Capacity nOld) (vn_Capacity nNew) \<or>
    \<not> gm_equal (vn_Allocatable nOld) (vn_Allocatable nNew))")
  case False
  with assms show ?thesis by (auto simp: resUpdated_def same_machine_def split: if_splits)
next
  case changed: True
  then obtain err where u: "updateNodeResources qs fs1 ord resp rm ms = Ret ((rm', err), ms')"
    using assms(2) by (auto simp: resUpdated_def go_bind_Ret_iff split: if_splits)
  show ?thesis
  proof (cases "GetMemoryResourceCounters qs fs1 \<lparr>hnd_Root = []\<rparr>")
    case (Inl e)
    with u changed assms(1,3) show ?thesis
      by (auto simp: updateNodeResources_def updateNodeCapacity_def same_machine_def)
  next
    case (Inr mc)
    then obtain cap1 where c: "machine_capacity qs (rm_topo rm) mc = Ret cap1"
      using u by (auto simp: updateNodeResources_def updateNodeCapacity_def go_bind_Ret_iff)
    show ?thesis
    proof (cases resp)
      case Inl': (Inl e)
      with u Inr c have "rm' = rm\<lparr>rm_nodeCapacity := cap1\<rparr>"
        by (simp add: updateNodeResources_def updateNodeCapacity_def updateNodeAllocatable_def)
      with failed_refresh_tracks [OF assms(1) Inr c] changed Inl' Inr assms(3) show ?thesis
        by (auto simp: same_machine_def)
    next
      case Inr': (Inr al')
      with u Inr c have "err = None"
        by (auto simp: updateNodeResources_def updateNodeCapacity_def updateNodeAllocatable_def
            go_bind_Ret_iff)
      with refresh_tracks [of qs fs1 ord al' rm ms rm' ms'] u changed Inr Inr' assms(3) show ?thesis by auto
    qed
  qed
qed

lemma node_updates_track:
  assumes "tracks qs ord fs al rm cap cap'" "node_updates qs ord ups rm ms = Ret (rm', ms')"
    "last_answers qs (rm_nodeName rm) ups (fs, al) = (fs', al')"
  shows "same_machine rm rm' \<and> (\<exists>cap1 cap1'. tracks qs ord fs' al' rm' cap1 cap1')"
  using assms
proof (induction ups arbitrary: fs al rm cap cap' ms)
  case Nil
  then show ?case by (auto simp: same_machine_def)
next
  case (Cons u ups)
  obtain fs1 resp nOld nNew where u: "u = (fs1, resp, nOld, nNew)" by (cases u)
  with Cons.prems(2) obtain rm1 ms1 where r: "resUpdated qs fs1 ord resp nOld nNew rm ms = Ret (rm1, ms1)"
    "node_updates qs ord ups rm1 ms1 = Ret (rm', ms')" by (auto simp: go_bind_Ret_iff)
  obtain fs2 al2 where l: "last_answers qs (rm_nodeName rm) [u] (fs, al) = (fs2, al2)"
    by (cases "last_answers qs (rm_nodeName rm) [u] (fs, al)")
  with Cons.prems(3) have l': "last_answers qs (rm_nodeName rm) ups (fs2, al2) = (fs', al')"
    by (simp add: u split: if_splits sum.splits)
  from resUpdated_tracks [OF Cons.prems(1) r(1) l [unfolded u]] obtain cap1 cap1' where
    t: "same_machine rm rm1" "tracks qs ord fs2 al2 rm1 cap1 cap1'" by blast
  from Cons.IH [OF t(2) r(2)] l' t(1) show ?case by (auto simp: same_machine_def)
qed

section \<open>A refreshed monitor scans like a new one\<close>

lemma resource_info_capacity:
  assumes "case entry of (r, q) \<Rightarrow> gm_get0 c1 r = gm_get0 c2 r \<or> gm_get0 c1 r = 0 \<and> gm_get0 c2 r = q"
  shows "resource_info ex name c1 used entry = resource_info ex name c2 used entry"
  using assms by (cases entry) (auto simp: resource_info_def gm_get0_def Let_def split: option.splits)

lemma tracks_zone:
  assumes t: "tracks qs ord fs al rm cap cap'" and o: "legal_order (ordR n)"
  shows "scan_zone ordR rm ex used n = scan_zone ordR (rm\<lparr>rm_nodeCapacity := cap'\<rparr>) ex used n"
proof -
  let ?rc = "rm_nodeAllocatable rm"
  let ?row = "case map_of ?rc n of None \<Rightarrow> [(ResourceCPU, 0)] | Some m \<Rightarrow> m"
  from t obtain mc where rows: "machine_capacity qs (rm_topo rm) mc = Ret cap"
    and rc: "?rc = ContainerDevicesToPerNUMAResourceCounters (node_devices ord al rm)"
    and d: "dev_cap_nodes ?rc cap = Ret cap'" and c: "rm_nodeCapacity rm \<in> {cap, cap'}"
    by (auto simp: tracks_def)
  have keys: "fst ` set cap = set (node_indexes (rm_topo rm))" using capacity_rows_keys [OF rows] by simp
  have "\<not> stray_device (rm_topo rm) (node_devices ord al rm)"
    using dev_cap_stray [OF _ keys] d unfolding rc by auto
  from dev_cap_fits [OF this keys] d have v: "cnt cap' k r =
      (if \<not> isNativeResource r \<and> r \<in> fst ` set (gm_getm ?rc k) then cnt ?rc k r else cnt cap k r)" for k r
    by (simp add: rc)
  have wf: "wf_counters ?rc" by (simp add: rc)
  have "cnt cap n r = cnt cap' n r \<or> cnt cap n r = 0 \<and> cnt cap' n r = q" if "(r, q) \<in> set ?row" for r q
  proof (cases "isNativeResource r \<or> r \<notin> fst ` set (gm_getm ?rc n)")
    case True
    then show ?thesis using v [of n r] by auto
  next
    case False
    with that have "(r, q) \<in> set (gm_getm ?rc n)" by (auto simp: gm_getm_def split: option.splits)
    moreover have "distinct (map fst (gm_getm ?rc n))" using wf by (simp add: wf_counters_def wf_gomap_def)
    ultimately have "cnt ?rc n r = q" by (simp add: gm_get0_def)
    with False v [of n r] capacity_device [OF rows] show ?thesis by auto
  qed
  moreover have "set (ordR n ?row) = set ?row" using o by (metis legal_order_def set_mset_mset)
  ultimately have "map (resource_info ex (rm_nodeName rm) (gm_getm cap n) (gm_getm used n)) (ordR n ?row) =
      map (resource_info ex (rm_nodeName rm) (gm_getm cap' n) (gm_getm used n)) (ordR n ?row)"
    by (intro map_cong refl resource_info_capacity) auto
  with c show ?thesis by (elim insertE) (simp_all add: scan_zone_def Let_def del: map_eq_conv)
qed

lemma tracks_Scan:
  assumes "tracks qs ord fs al rm cap cap'" "\<And>n. legal_order (ordR n)"
  shows "Scan P ord' ordR rm excl resp ms = Scan P ord' ordR (rm\<lparr>rm_nodeCapacity := cap'\<rparr>) excl resp ms"
proof -
  have "scan_zone ordR rm ex used = scan_zone ordR (rm\<lparr>rm_nodeCapacity := cap'\<rparr>) ex used" for ex used
    by (rule ext) (rule tracks_zone [OF assms])
  then show ?thesis by (cases resp) (simp_all add: Scan_def Let_def split: prod.split)
qed

lemma monitor_start_Inr:
  "monitor_start qs fs ord resp getenv ghw synced kc args opts ms = Ret (Inr rm, ms') \<longleftrightarrow>
   (\<exists>su topo. su = fold (\<lambda>opt rm. opt rm) opts \<lparr>su_nodeName = [], su_topo = None, su_k8sCli = kc\<rparr> \<and>
     (case su_topo su of Some t \<Rightarrow> Inr t | None \<Rightarrow> ghw (ra_SysfsRoot args)) = Inr topo \<and>
     updateNodeResources qs fs ord resp
       \<lparr>rm_nodeName = (if su_nodeName su = [] then getenv ''NODE_NAME'' else su_nodeName su),
        rm_args = args, rm_topo = topo, rm_coreIDToNodeIDMap = MakeCoreIDToNodeIDMap topo,
        rm_nodeCapacity = [], rm_nodeAllocatable = []\<rparr> ms = Ret ((rm, None), ms') \<and>
     (ra_RefreshNodeResources args \<longrightarrow> synced (su_k8sCli su)))"
  by (auto simp: monitor_start_def NewResourceMonitor_def addNodeInformerEvent_def go_bind_Ret_iff Let_def
      split: sum.splits option.splits if_splits)

text \<open>
  C6. Refreshing is as good as restarting. After any sequence of node updates that does not panic, a
  monitor scans exactly like one newly started on the last readable file system and the last
  answered allocatable resources, and that start succeeds. Updates of other nodes, updates without a
  change of resources, and refreshes that fail at the file system have no effect; a refresh that
  fails at the kubelet, which has already dropped the capacity of the devices, does not show.
\<close>

theorem refresh_is_restart:
  assumes start: "monitor_start qs fs ord (Inr al) getenv ghw synced kc args opts ms = Ret (Inr rm, ms0)"
    and updates: "node_updates qs ord ups rm ms0 = Ret (rm', ms')"
    and last: "last_answers qs (rm_nodeName rm) ups (fs, al) = (fs', al')"
    and order: "\<And>n. legal_order (ordR n)"
  shows "\<exists>rm''. monitor_start qs fs' ord (Inr al') getenv ghw synced kc args opts ms = Ret (Inr rm'', ms) \<and>
     (\<forall>excl resp m. Scan P ord ordR rm' excl resp m = Scan P ord ordR rm'' excl resp m)"
proof -
  from start [unfolded monitor_start_Inr] obtain su topo where
    su: "su = fold (\<lambda>opt rm. opt rm) opts \<lparr>su_nodeName = [], su_topo = None, su_k8sCli = kc\<rparr>"
      "(case su_topo su of Some t \<Rightarrow> Inr t | None \<Rightarrow> ghw (ra_SysfsRoot args)) = Inr topo"
      "ra_RefreshNodeResources args \<longrightarrow> synced (su_k8sCli su)"
    and u: "updateNodeResources qs fs ord (Inr al)
       \<lparr>rm_nodeName = (if su_nodeName su = [] then getenv ''NODE_NAME'' else su_nodeName su),
        rm_args = args, rm_topo = topo, rm_coreIDToNodeIDMap = MakeCoreIDToNodeIDMap topo,
        rm_nodeCapacity = [], rm_nodeAllocatable = []\<rparr> ms = Ret ((rm, None), ms0)"
    by blast
  from refresh_tracks [OF u] obtain cap where t: "same_machine
       \<lparr>rm_nodeName = (if su_nodeName su = [] then getenv ''NODE_NAME'' else su_nodeName su),
        rm_args = args, rm_topo = topo, rm_coreIDToNodeIDMap = MakeCoreIDToNodeIDMap topo,
        rm_nodeCapacity = [], rm_nodeAllocatable = []\<rparr> rm" "tracks qs ord fs al rm cap (rm_nodeCapacity rm)"
    by blast
  from node_updates_track [OF t(2) updates last] obtain cap1 cap1' where
    t': "same_machine rm rm'" "tracks qs ord fs' al' rm' cap1 cap1'" by blast
  from tracks_refresh [OF t'(2) same_machine_trans [OF t(1) t'(1)]] su
  have "monitor_start qs fs' ord (Inr al') getenv ghw synced kc args opts ms =
      Ret (Inr (rm'\<lparr>rm_nodeCapacity := cap1'\<rparr>), ms)" unfolding monitor_start_Inr by blast
  moreover have "Scan P ord ordR rm' excl resp m = Scan P ord ordR (rm'\<lparr>rm_nodeCapacity := cap1'\<rparr>) excl resp m"
    for excl resp m by (rule tracks_Scan [OF t'(2) order])
  ultimately show ?thesis by blast
qed

section \<open>The monitor of the program\<close>

text \<open>
  It panics only on a topology without one of the identifiers 0 to n - 1, or with an allocatable
  device outside of the topology.
\<close>

lemma program_monitor_panics:
  assumes "program_monitor N lookupEnv ms cli kc args = Panic p"
  shows "\<exists>topo. mn_ghw N (ra_SysfsRoot args) = Inr topo \<and>
    (\<not> topo_complete topo \<or>
     (\<exists>al. mn_allocatable N (rc_base cli) = Inr al \<and>
        stray_device topo (NormalizeContainerDevices (mn_order N) (al_Devices al) (al_Memory al) (al_CpuIds al)
          (MakeCoreIDToNodeIDMap topo))))"
proof (cases "mn_ghw N (ra_SysfsRoot args)")
  case (Inl e)
  with assms show ?thesis by (simp add: program_monitor_def monitor_start_def NewResourceMonitor_def Let_def)
next
  case (Inr topo)
  let ?rm = "\<lparr>rm_nodeName = env_or_empty lookupEnv ''NODE_NAME'', rm_args = args, rm_topo = topo,
    rm_coreIDToNodeIDMap = MakeCoreIDToNodeIDMap topo, rm_nodeCapacity = [], rm_nodeAllocatable = []\<rparr>"
  let ?al = "mn_allocatable N (rc_base cli)" and ?qs = "mn_quantityText N" and ?fs = "mn_sysfs N"
  from assms Inr obtain q where u: "updateNodeResources ?qs ?fs (mn_order N) ?al ?rm ms = Panic q"
    by (auto simp: program_monitor_def monitor_start_def NewResourceMonitor_def Let_def
        podres_client_GetAllocatable_id go_bind_Panic_iff split: option.splits if_splits)
  then obtain mc where mc: "GetMemoryResourceCounters ?qs ?fs \<lparr>hnd_Root = []\<rparr> = Inr mc"
    by (cases "GetMemoryResourceCounters ?qs ?fs \<lparr>hnd_Root = []\<rparr>")
      (simp_all add: updateNodeResources_def updateNodeCapacity_def)
  show ?thesis
  proof (cases "topo_complete topo")
    case True
    then have t: "topo_complete (rm_topo ?rm)" by simp
    show ?thesis
    proof (cases ?al)
      case (Inl e)
      from updateNodeCapacity_complete [OF mc t]
      obtain cap where "updateNodeCapacity ?qs ?fs ?rm = Ret (?rm\<lparr>rm_nodeCapacity := cap\<rparr>, None)" .
      with Inl u show ?thesis by (simp add: updateNodeResources_def updateNodeAllocatable_def)
    next
      case (Inr al)
      from refresh_fits [OF mc, of ?rm "mn_order N" al ms] t u Inr \<open>mn_ghw N (ra_SysfsRoot args) = Inr topo\<close>
      show ?thesis by (auto simp: node_devices_def)
    qed
  qed (use Inr in blast)
qed

section \<open>An instance\<close>

text \<open>A node whose capacity changes while the kubelet does not answer.\<close>

definition sample_node :: "int \<Rightarrow> v1_Node" where
  "sample_node q =
     \<lparr>vn_Name = ''worker'', vn_UID = ''u'', vn_Capacity = [(''vendor/nic'', NewQuantity q DecimalSI)],
      vn_Allocatable = []\<rparr>"

abbreviation sample_options :: "(unit rm_setup \<Rightarrow> unit rm_setup) list" where
  "sample_options \<equiv> [WithTopology (Some sample_topo), WithNodeName ''worker'']"

abbreviation sample_start :: "((gerr + resourceMonitor) \<times> metrics_state) go" where
  "sample_start \<equiv> monitor_start sample_qs sample_fs id (Inr sample_alloc) (\<lambda>_. [])
     (\<lambda>_. Inl (Errorf ''no topology'')) (\<lambda>_. True) () sample_args sample_options sample_ms"

abbreviation sample_node_updates :: "node_update list" where
  "sample_node_updates \<equiv> [(sample_fs, Inl (Errorf ''unavailable''), sample_node 2, sample_node 4)]"

theorem refresh_is_restart_witness:
  "\<exists>rm rm' ms'. sample_start = Ret (Inr rm, sample_ms) \<and>
     node_updates sample_qs id sample_node_updates rm sample_ms = Ret (rm', ms') \<and>
     rm_nodeCapacity rm' \<noteq> rm_nodeCapacity rm \<and>
     Scan sample_pfp id (\<lambda>_. id) rm' [] (Inr sample_pods) sample_ms =
       Scan sample_pfp id (\<lambda>_. id) rm [] (Inr sample_pods) sample_ms"
proof -
  have "case sample_start of Ret (Inr rm, ms0) \<Rightarrow> ms0 = sample_ms \<and> rm_nodeName rm = ''worker'' | _ \<Rightarrow> False"
    by code_simp
  then obtain rm where s: "sample_start = Ret (Inr rm, sample_ms)" and n: "rm_nodeName rm = ''worker''"
    by (auto split: go.splits prod.splits sum.splits)
  let ?u = "node_updates sample_qs id sample_node_updates"
  have "case sample_start of
      Ret (Inr rm, ms0) \<Rightarrow>
        (case ?u rm ms0 of Ret (rm', ms') \<Rightarrow> rm_nodeCapacity rm' \<noteq> rm_nodeCapacity rm | Panic p \<Rightarrow> False)
    | _ \<Rightarrow> False"
    by code_simp
  then have "case ?u rm sample_ms of Ret (rm', ms') \<Rightarrow> rm_nodeCapacity rm' \<noteq> rm_nodeCapacity rm | Panic p \<Rightarrow> False"
    unfolding s by simp
  then obtain rm' ms' where u: "?u rm sample_ms = Ret (rm', ms')" "rm_nodeCapacity rm' \<noteq> rm_nodeCapacity rm"
    by (cases "?u rm sample_ms") (simp_all del: node_updates.simps add: case_prod_beta prod_eq_iff)
  have l: "last_answers sample_qs (rm_nodeName rm) sample_node_updates (sample_fs, sample_alloc) =
      (sample_fs, sample_alloc)"
    by (simp add: n sample_memory)
  have o: "legal_order ((\<lambda>_. id) m)" for m :: int by simp
  from refresh_is_restart [OF s u(1) l o, of sample_pfp] s
  have "Scan sample_pfp id (\<lambda>_. id) rm' [] (Inr sample_pods) sample_ms =
      Scan sample_pfp id (\<lambda>_. id) rm [] (Inr sample_pods) sample_ms"
    by auto
  with s u show ?thesis by blast
qed

end
