(* ===== verification/ProgramProps.thy ===== *)
theory ProgramProps
  imports MonitorStart LoadProps FilterProps
begin

text \<open>
  How the program of \<^verbatim>\<open>cmd/resource-topology-exporter\<close> ends and what runs when it does not: an exit
  touches nothing outside the process but the dump of its configuration, a fatal end names the stage
  that failed, and a running exporter is the one its arguments describe.
\<close>

section \<open>What the outcomes mean\<close>

text \<open>Actions that do not reach for the kubelet, the network or the file of the fingerprint.\<close>

fun offline :: "'c action \<Rightarrow> bool" where
  "offline (Print _) = True"
| "offline (LogInfo _) = True"
| "offline (WriteFile _ _) = True"
| "offline (Connected _) = False"
| "offline (Serving _) = False"
| "offline (DumpTo _) = False"

text \<open>The chain of clients is the configured one, around a client that answers on the configured socket.\<close>

definition client_for ::
    "('c, 'cfg, 'kc, 'nc) main_env \<Rightarrow> ProgArgs \<Rightarrow> ('c, 'cs) rte_client \<Rightarrow> bool" where
  "client_for N pArgs rc \<longleftrightarrow>
     fst (GetClient (mn_ipLiteral N) (mn_dial N) (re_PodResourcesSocketPath (pa_RTE pArgs))) = Some (rc_base rc) \<and>
     snd (mn_list N (rc_base rc)) = None \<and>
     sc_refCnt (rc_shared rc) = re_ReferenceContainer (pa_RTE pArgs) \<and>
     map_option px_podExcludes (rc_exclude rc) =
       (if ra_PodExclude (pa_Resourcemonitor pArgs) = [] then None else Some (ra_PodExclude (pa_Resourcemonitor pArgs))) \<and>
     (rc_terminal rc \<noteq> None \<longleftrightarrow> ra_ExcludeTerminalPods (pa_Resourcemonitor pArgs))"

text \<open>What is served and dumped, in the order in which it is started.\<close>

definition services ::
    "('c, 'cfg, 'kc, 'nc) main_env \<Rightarrow> ProgArgs \<Rightarrow> 'c action list" where
  "services N pArgs =
     (let rte = pa_RTE pArgs; rm = pa_Resourcemonitor pArgs in
      (case srv_Setup (mn_cliflag N) (mn_NewServer N) (re_MetricsMode rte)
              (srv_NewConfig (re_MetricsAddress rte) (re_MetricsPort rte) (re_MetricsTLSCfg rte)) of
         Inr (Some opts) \<Rightarrow> [Serving opts] | _ \<Rightarrow> []) @
      (if ra_PodSetFingerprint rm \<and> ra_PodSetFingerprintStatusFile rm \<noteq> []
       then [DumpTo (ra_PodSetFingerprintStatusFile rm)] else []))"

text \<open>\<^verbatim>\<open>Execute\<close> on the clients and with the arguments of the program.\<close>

abbreviation execution ::
    "('c, 'cfg, 'kc, 'nc) main_env \<Rightarrow> (string \<Rightarrow> string option) \<Rightarrow> metrics_state \<Rightarrow> ProgArgs \<Rightarrow> 'kc \<Rightarrow>
     ('c, 'cs) rte_client \<Rightarrow> (gerr + rte_started) go" where
  "execution N lookupEnv ms a k8scli cli \<equiv>
     Execute (GetKubeletConfigFromLocalFile (mn_ReadFile N) (mn_kubeletYaml N)) (mn_nodes N k8scli) lookupEnv
       (mn_watcherErr N) (mn_notify N) (program_monitor N lookupEnv ms cli k8scli) True (pa_NRTupdater a)
       (pa_Resourcemonitor a) (pa_RTE a)"

definition runs_as ::
    "('c, 'cfg, 'kc, 'nc) main_env \<Rightarrow> (string \<Rightarrow> string option) \<Rightarrow> metrics_state \<Rightarrow>
     ('c, 'cs, 'kc, 'nc) running \<Rightarrow> bool" where
  "runs_as N lookupEnv ms r \<longleftrightarrow>
     (let a = mr_args r in
      GetK8sClient (mn_kube N) (ga_KubeConfig (pa_Global a)) = Inr (mr_k8sCli r) \<and>
      GetTopologyClient (mn_topo N) (ga_KubeConfig (pa_Global a)) = Inr (mr_nrtCli r) \<and>
      client_for N a (mr_client r) \<and>
      metrics_Setup lookupEnv (mn_hostname N) [] ms = (mr_metrics r, None) \<and>
      execution N lookupEnv (mr_metrics r) a (mr_k8sCli r) (mr_client r) = Ret (Inr (mr_exporter r)))"

text \<open>
  Why the program ends fatally after loading, with the message of the stage that failed and the actions
  up to there: \<open>acts\<close> before the stages, \<open>acts'\<close> in the end.
\<close>

definition late_failure ::
    "('c, 'cfg, 'kc, 'nc) main_env \<Rightarrow> (string \<Rightarrow> string option) \<Rightarrow> ProgArgs \<Rightarrow> 'kc \<Rightarrow> ('c, 'cs) rte_client \<Rightarrow>
     metrics_state \<Rightarrow> 'c action list \<Rightarrow> 'c action list \<Rightarrow> string \<Rightarrow> gerr \<Rightarrow> bool" where
  "late_failure N lookupEnv a k8scli cli ms acts acts' msg err \<longleftrightarrow>
     msg = ''failed to setup metrics'' \<and> acts' = acts \<and>
       snd (metrics_Setup lookupEnv (mn_hostname N) [] ms) = Some err \<or>
     msg = ''failed to setup metrics server'' \<and> acts' = acts \<and>
       srv_Setup (mn_cliflag N) (mn_NewServer N) (re_MetricsMode (pa_RTE a))
         (srv_NewConfig (re_MetricsAddress (pa_RTE a)) (re_MetricsPort (pa_RTE a)) (re_MetricsTLSCfg (pa_RTE a))) =
       Inl err \<or>
     msg = ''failed to execute'' \<and> acts' = acts @ services N a \<and>
       execution N lookupEnv (fst (metrics_Setup lookupEnv (mn_hostname N) [] ms)) a k8scli cli = Ret (Inl err)"

definition failure ::
    "'cs cpuset_lib \<Rightarrow> ('c, 'cfg, 'kc, 'nc) main_env \<Rightarrow> (string \<Rightarrow> string option) \<Rightarrow> ProgArgs \<Rightarrow> metrics_state \<Rightarrow>
     'c action list \<Rightarrow> 'c action list \<Rightarrow> string \<Rightarrow> gerr \<Rightarrow> bool" where
  "failure L N lookupEnv a ms acts acts' msg err \<longleftrightarrow>
     (let kubeConfig = ga_KubeConfig (pa_Global a);
          client = GetClient (mn_ipLiteral N) (mn_dial N) (re_PodResourcesSocketPath (pa_RTE a))
      in msg = ''failed to get a kubernetes core client'' \<and> acts' = acts \<and>
           GetK8sClient (mn_kube N) kubeConfig = Inl err \<or>
         msg = ''failed to get a noderesourcetopology client'' \<and> acts' = acts \<and>
           GetTopologyClient (mn_topo N) kubeConfig = Inl err \<or>
         msg = ''failed to get podresources client'' \<and> acts' = acts \<and>
           (\<exists>cli cleanup. WaitForReady (mn_list N) client = Ret (cli, cleanup, Some err)) \<or>
         (\<exists>k8scli c. GetK8sClient (mn_kube N) kubeConfig = Inr k8scli \<and>
            fst client = Some c \<and> snd (mn_list N c) = None \<and>
            (msg = ''failed to get PodResourceAPI client'' \<and> acts' = acts @ [Connected c] \<and>
               ra_ExcludeTerminalPods (pa_Resourcemonitor a) \<and>
               tp_NewFromLister (mn_waitForCacheSync N k8scli) Minute (ga_Debug (pa_Global a)) = Inl err \<or>
             (\<exists>rc. build_client L (mn_waitForCacheSync N k8scli) a c = Inr rc \<and> client_for N a rc \<and>
                late_failure N lookupEnv a k8scli rc ms (acts @ [Connected c]) acts' msg err))))"

text \<open>The machines on which the start of the monitor can panic.\<close>

definition odd_machine :: "('c, 'cfg, 'kc, 'nc) main_env \<Rightarrow> ProgArgs \<Rightarrow> bool" where
  "odd_machine N a \<longleftrightarrow>
     (\<exists>topo. mn_ghw N (ra_SysfsRoot (pa_Resourcemonitor a)) = Inr topo \<and>
        (\<not> topo_complete topo \<or>
         (\<exists>c al. fst (GetClient (mn_ipLiteral N) (mn_dial N) (re_PodResourcesSocketPath (pa_RTE a))) = Some c \<and>
            mn_allocatable N c = Inr al \<and>
            stray_device topo (NormalizeContainerDevices (mn_order N) (al_Devices al) (al_Memory al) (al_CpuIds al)
              (MakeCoreIDToNodeIDMap topo)))))"

section \<open>The stages\<close>

lemma dump_config_offline: "dump_config N pArgs = (acts, res) \<Longrightarrow> list_all offline acts"
  by (auto simp: dump_config_def Let_def split: if_splits)

lemma dump_config_result:
  "dump_config N pArgs = (acts, Some res) \<Longrightarrow>
     res = Exited 0 \<and> pa_DumpConfig pArgs = ''.andexit'' \<or>
     (\<exists>conf err. res = Fatal ''failed to write the config'' err \<and> acts = [WriteFile (pa_DumpConfig pArgs) conf] \<and>
        mn_WriteFile N (pa_DumpConfig pArgs) conf = Some err)"
  by (auto simp: dump_config_def Let_def split: if_splits option.splits)

lemma dump_config_stays: "dump_config N pArgs = (acts, None) \<Longrightarrow> pa_DumpConfig pArgs \<noteq> ''.andexit''"
  by (auto simp: dump_config_def Let_def)

lemma build_client_configured:
  assumes "build_client L sync pArgs c = Inr rc"
    "WaitForReady (mn_list N) (GetClient (mn_ipLiteral N) (mn_dial N) (re_PodResourcesSocketPath (pa_RTE pArgs))) =
       Ret (Some c, cleanup, None)"
  shows "rc_base rc = c \<and> client_for N pArgs rc"
proof -
  have "fst (GetClient (mn_ipLiteral N) (mn_dial N) (re_PodResourcesSocketPath (pa_RTE pArgs))) = Some c"
    "snd (mn_list N c) = None"
    using assms(2) by (auto simp: WaitForReady_def split: prod.splits option.splits)
  with assms(1) show ?thesis
    by (auto simp: client_for_def build_client_def Let_def sc_NewFromLister_def px_NewFromLister_def
        split: if_splits sum.splits)
qed

lemma WaitForReady_new_client: "\<exists>cli cleanup err. WaitForReady list (GetClient ipl dial ep) = Ret (cli, cleanup, err) \<and>
    (err = None \<longrightarrow> (\<exists>c. cli = Some c \<and> fst (GetClient ipl dial ep) = Some c \<and> snd (list c) = None))"
  unfolding GetClient_cases by (auto simp: WaitForReady_def split: sum.splits option.splits prod.splits)

lemma Execute_panics:
  "Execute kubelet nodes lookupEnv we fs newMonitor cli ua ra rteArgs = Panic p \<Longrightarrow> newMonitor ra = Panic p"
  by (cases "newMonitor ra") (auto simp: Execute_def NewResourceObserver_def split: sum.splits)

lemma serve_and_execute_outcome:
  "case serve_and_execute N lookupEnv a k8scli nrtcli cli ms acts of
     Panic p \<Rightarrow> \<exists>ms1. program_monitor N lookupEnv ms1 cli k8scli (pa_Resourcemonitor a) = Panic p
   | Ret (acts', Running r) \<Rightarrow> acts' = acts @ services N a \<and> mr_args r = a \<and> mr_client r = cli \<and>
       mr_k8sCli r = k8scli \<and> mr_nrtCli r = nrtcli \<and>
       metrics_Setup lookupEnv (mn_hostname N) [] ms = (mr_metrics r, None) \<and>
       execution N lookupEnv (mr_metrics r) a k8scli cli = Ret (Inr (mr_exporter r))
   | Ret (acts', Exited code) \<Rightarrow> False
   | Ret (acts', Fatal msg err) \<Rightarrow> late_failure N lookupEnv a k8scli cli ms acts acts' msg err"
proof -
  obtain ms1 e where m: "metrics_Setup lookupEnv (mn_hostname N) [] ms = (ms1, e)" by fastforce
  show ?thesis
  proof (cases e)
    case None
    let ?x = "execution N lookupEnv ms1 a k8scli cli"
    show ?thesis
    proof (cases ?x)
      case (Ret x)
      with m None show ?thesis
        by (cases x) (auto simp: serve_and_execute_def services_def late_failure_def Let_def split: sum.split option.split)
    next
      case (Panic p)
      with m None Execute_panics [OF Panic] show ?thesis
        by (auto simp: serve_and_execute_def late_failure_def Let_def split: sum.split)
    qed
  qed (use m in \<open>simp add: serve_and_execute_def late_failure_def Let_def\<close>)
qed

lemma start_exporter_outcome:
  "case start_exporter L N lookupEnv a ms acts of
     Panic p \<Rightarrow> odd_machine N a
   | Ret (acts', Running r) \<Rightarrow> mr_args r = a \<and> acts' = acts @ Connected (rc_base (mr_client r)) # services N a \<and>
       runs_as N lookupEnv ms r
   | Ret (acts', Exited code) \<Rightarrow> False
   | Ret (acts', Fatal msg err) \<Rightarrow> failure L N lookupEnv a ms acts acts' msg err"
proof (cases "GetK8sClient (mn_kube N) (ga_KubeConfig (pa_Global a))")
  case k8s: (Inr k8scli)
  let ?c = "GetClient (mn_ipLiteral N) (mn_dial N) (re_PodResourcesSocketPath (pa_RTE a))"
  obtain cli cleanup err where w: "WaitForReady (mn_list N) ?c = Ret (cli, cleanup, err)"
    "err = None \<longrightarrow> (\<exists>c. cli = Some c \<and> fst ?c = Some c \<and> snd (mn_list N c) = None)"
    using WaitForReady_new_client by blast
  show ?thesis
  proof (cases "GetTopologyClient (mn_topo N) (ga_KubeConfig (pa_Global a))")
    case topo: (Inr nrtcli)
    show ?thesis
    proof (cases err)
      case None
      with w obtain c where c: "cli = Some c" "fst ?c = Some c" "snd (mn_list N c) = None" by auto
      show ?thesis
      proof (cases "build_client L (mn_waitForCacheSync N k8scli) a c")
        case (Inl e)
        then have "ra_ExcludeTerminalPods (pa_Resourcemonitor a)"
          "tp_NewFromLister (mn_waitForCacheSync N k8scli) Minute (ga_Debug (pa_Global a)) = Inl e"
          by (auto simp: build_client_def Let_def split: if_splits sum.splits)
        with Inl k8s topo w c None show ?thesis by (simp add: start_exporter_def failure_def Let_def)
      next
        case (Inr rc)
        have "WaitForReady (mn_list N) ?c = Ret (Some c, cleanup, None)" using w(1) c None by simp
        from build_client_configured [OF Inr this] have rc: "rc_base rc = c" "client_for N a rc" by simp_all
        have "start_exporter L N lookupEnv a ms acts =
            serve_and_execute N lookupEnv a k8scli nrtcli rc ms (acts @ [Connected c])"
          using k8s topo w c None Inr by (simp add: start_exporter_def)
        with Inr serve_and_execute_outcome [where N = N and lookupEnv = lookupEnv and a = a and k8scli = k8scli
            and nrtcli = nrtcli and cli = rc and ms = ms and acts = "acts @ [Connected c]"] rc k8s topo c
        show ?thesis
          by (auto simp: runs_as_def failure_def odd_machine_def Let_def dest!: program_monitor_panics
              split: go.split prod.split main_result.split)
      qed
    qed (use k8s topo w in \<open>cases cli; simp add: start_exporter_def failure_def Let_def\<close>)
  qed (use k8s in \<open>simp add: start_exporter_def failure_def Let_def\<close>)
qed (simp add: start_exporter_def failure_def Let_def)

text \<open>The flags are the only part of loading that can panic.\<close>

lemma FromFlags_returns: "CommandLine KL = Ret fs \<Longrightarrow> \<exists>r. FromFlags KL args pArgs k = Ret r"
  by (auto simp: FromFlags_def Let_def split: proc.split)

lemma LoadArgs_returns:
  fixes KL :: "'k klog_lib" and fs :: "'k cmdline FlagSet"
  assumes "CommandLine KL = Ret fs"
  shows "\<exists>r. LoadArgs P KL E host args k = Ret r"
proof -
  note ret = FromFlags_returns [OF assms]
  let ?d = "SetDefaults P zero_ProgArgs"
  obtain r1 where r1: "FromFlags KL args (ProgArgs_Clone ?d) k = Ret r1" using ret by blast
  show ?thesis
  proof (cases r1)
    case (Returns x)
    obtain tmp k1 root' extra err where x: "x = (tmp, k1, root', extra, err)" by (metis prod.collapse)
    let ?p1 = "?d\<lparr>pa_Global := (pa_Global ?d)\<lparr>ga_Debug := ga_Debug (pa_Global tmp)\<rparr>,
       pa_Version := pa_Version tmp, pa_DumpConfig := pa_DumpConfig tmp\<rparr>"
    obtain p2 e2 where f: "FromFiles E root' extra ?p1 = (p2, e2)" by fastforce
    obtain r2 where r2: "FromFlags KL args (FromEnv (ce_LookupEnv E) p2) k1 = Ret r2" using ret by blast
    show ?thesis
      using r1 r2 Returns x f assms
      by (cases err; cases "pa_Version tmp"; cases e2; cases r2)
        (auto simp: LoadArgs_def Let_def split: option.split prod.split)
  qed (use r1 in \<open>simp add: LoadArgs_def Let_def\<close>)
qed

lemma LoadArgs_panics:
  assumes "LoadArgs P KL E host args k = Panic p"
  shows "CommandLine KL = Panic p"
proof (cases "CommandLine KL")
  case (Ret fs)
  from LoadArgs_returns [OF this] assms show ?thesis by (metis go.distinct(1))
next
  case (Panic q)
  with assms show ?thesis by (simp add: LoadArgs_def FromFlags_def Let_def)
qed

section \<open>The property\<close>

text \<open>
  C13. All outcomes of the program. It panics only when a flag of the logging library collides with its
  own, or when the machine's topology lacks one of the identifiers 0 to n - 1 or an allocatable device
  is outside of it. It exits with the code of the flag package for a bad command line, or with zero
  for the version or a configuration dump; then it has reached neither the kubelet nor the network. It
  ends fatally with the message and the error of the stage that failed, after the actions of the
  stages before. It runs only with arguments that were loaded and validated: the chain of clients is
  the configured one around a client that answered on the configured socket, the metrics server and
  the fingerprint dump are started as configured, in this order, and the exporter is started with
  exactly these arguments and clients.
\<close>

theorem main_outcomes:
  fixes L :: "'cs cpuset_lib" and N :: "('c, 'cfg, 'kc, 'nc) main_env"
  shows "case rte_main P KL E L N args k ms of
     Panic p \<Rightarrow> CommandLine KL = Panic p \<or>
       (\<exists>a k'. LoadArgs P KL E (mn_hostname N) args k = Ret (Returns (a, k', None)) \<and> odd_machine N a)
   | Ret (acts, Exited code) \<Rightarrow> list_all offline acts \<and>
       (LoadArgs P KL E (mn_hostname N) args k = Ret (Exits code) \<or>
        code = 0 \<and> (\<exists>a k'. LoadArgs P KL E (mn_hostname N) args k = Ret (Returns (a, k', None)) \<and>
          (pa_Version a \<or> pa_DumpConfig a = ''.andexit'')))
   | Ret (acts, Fatal msg err) \<Rightarrow>
       msg = ''failed to parse args'' \<and> acts = [] \<and>
         (\<exists>a k'. LoadArgs P KL E (mn_hostname N) args k = Ret (Returns (a, k', Some err))) \<or>
       (\<exists>a k'. LoadArgs P KL E (mn_hostname N) args k = Ret (Returns (a, k', None)) \<and>
          (msg = ''failed to write the config'' \<and>
             (\<exists>conf. acts = [WriteFile (pa_DumpConfig a) conf] \<and> mn_WriteFile N (pa_DumpConfig a) conf = Some err) \<or>
           (\<exists>dumps. list_all offline dumps \<and> failure L N (ce_LookupEnv E) a ms dumps acts msg err)))
   | Ret (acts, Running r) \<Rightarrow>
       (\<exists>k'. LoadArgs P KL E (mn_hostname N) args k = Ret (Returns (mr_args r, k', None))) \<and>
       \<not> pa_Version (mr_args r) \<and> pa_DumpConfig (mr_args r) \<noteq> ''.andexit'' \<and>
       (\<exists>dumps. list_all offline dumps \<and>
          acts = dumps @ Connected (rc_base (mr_client r)) # services N (mr_args r)) \<and>
       runs_as N (ce_LookupEnv E) ms r"
proof (cases "LoadArgs P KL E (mn_hostname N) args k")
  case (Panic p)
  with LoadArgs_panics [OF Panic] show ?thesis by (simp add: rte_main_def)
next
  case l: (Ret l)
  show ?thesis
  proof (cases l)
    case (Exits code)
    with l show ?thesis by (simp add: rte_main_def)
  next
    case (Returns x)
    obtain a k' e where x: "x = (a, k', e)" by (metis prod.collapse)
    show ?thesis
    proof (cases e)
      case (Some err)
      with l Returns x show ?thesis by (simp add: rte_main_def)
    next
      case None
      obtain acts0 and r0 :: "('c, 'cs, 'kc, 'nc) running main_result option" where d: "dump_config N a = (acts0, r0)" by fastforce
      note off = dump_config_offline [OF d]
      show ?thesis
      proof (cases r0)
        case (Some res)
        with l Returns x None d off dump_config_result [OF d [unfolded Some]] show ?thesis
          by (auto simp: rte_main_def)
      next
        case stays: None
        have m: "rte_main P KL E L N args k ms =
            (if pa_Version a then Ret (acts0 @ [Print (ProgramName @ '' '' @ mn_version N @ nl)], Exited 0)
             else start_exporter L N (ce_LookupEnv E) a ms acts0)"
          using l Returns x None d stays by (simp add: rte_main_def)
        show ?thesis
        proof (cases "pa_Version a")
          case True
          with m l Returns x None off show ?thesis by simp
        next
          case False
          with start_exporter_outcome [where L = L and N = N and lookupEnv = "ce_LookupEnv E" and a = a and ms = ms
              and acts = acts0] m l Returns x None off dump_config_stays [OF d [unfolded stays]] show ?thesis
            by (auto split: go.splits main_result.splits)
        qed
      qed
    qed
  qed
qed

definition sample_kube :: "(unit, unit) kube_lib" where
  "sample_kube = \<lparr>kb_InClusterConfig = Inr (), kb_BuildConfigFromFlags = (\<lambda>_. Inl (Errorf ''no file'')),
     kb_NewForConfig = Inr\<rparr>"

definition sample_main_env :: "(string, unit, unit, unit) main_env" where
  "sample_main_env =
     \<lparr>mn_yaml = (\<lambda>_. Inr ''global:''), mn_errText = (\<lambda>_. []), mn_WriteFile = (\<lambda>_ _. None),
      mn_version = ''v0.1'', mn_kube = sample_kube, mn_topo = sample_kube, mn_ipLiteral = (\<lambda>_. False),
      mn_dial = sample_dial, mn_list = (\<lambda>_. ([], None)), mn_waitForCacheSync = (\<lambda>_ _ _. []),
      mn_hostname = Inr ''n1'', mn_cliflag = sample_cliflag, mn_NewServer = (\<lambda>_. None),
      mn_ReadFile = Inr, mn_kubeletYaml = sample_kubelet, mn_nodes = (\<lambda>_. Inr []), mn_watcherErr = None,
      mn_notify = sample_notify_fs, mn_quantityText = sample_qs, mn_sysfs = sample_fs, mn_order = id,
      mn_allocatable = (\<lambda>_. Inr sample_alloc), mn_ghw = (\<lambda>_. Inr sample_topo), mn_nodesSynced = (\<lambda>_. True)\<rparr>"

theorem main_outcomes_witness:
  "\<exists>acts r. rte_main sample_pfp sample_klog sample_cfg sample_cpusets sample_main_env sample_cmdline 0 sample_ms =
     Ret (acts, Running r) \<and> mr_args r = sample_loaded \<and> runs_as sample_main_env (ce_LookupEnv sample_cfg) sample_ms r"
proof -
  let ?m = "rte_main sample_pfp sample_klog sample_cfg sample_cpusets sample_main_env sample_cmdline 0 sample_ms"
  have host: "mn_hostname sample_main_env = Inr ''n1''" by (simp add: sample_main_env_def)
  have "pa_DumpConfig sample_loaded = []" "\<not> pa_Version sample_loaded" by code_simp+
  then have m: "?m = start_exporter sample_cpusets sample_main_env (ce_LookupEnv sample_cfg) sample_loaded sample_ms []"
    by (simp add: rte_main_def dump_config_def host sample_load)
  have "case start_exporter sample_cpusets sample_main_env (ce_LookupEnv sample_cfg) sample_loaded sample_ms [] of
     Ret (acts, Running r) \<Rightarrow> True | _ \<Rightarrow> False" by code_simp
  then obtain acts r where run: "?m = Ret (acts, Running r)"
    unfolding m by (auto split: go.splits prod.splits main_result.splits)
  from main_outcomes [where P = sample_pfp and KL = sample_klog and E = sample_cfg and L = sample_cpusets
      and N = sample_main_env and args = sample_cmdline and k = 0 and ms = sample_ms]
    run host sample_load
  show ?thesis by auto
qed

end
