(* ===== verification/ProxyProgram.thy ===== *)
theory ProxyProgram
  imports Program
begin

text \<open>
  \<^verbatim>\<open>cmd/podresources-proxy/main.go\<close>: the program that answers the podresources calls of its own socket
  from the kubelet's. It runs until a signal arrives; the model ends where it starts to serve.
\<close>

definition defaultKubeletSocketPath :: string where
  "defaultKubeletSocketPath = ''/var/lib/kubelet/pod-resources/kubelet.sock''"

definition defaultListenSocketPath :: string where
  "defaultListenSocketPath = ''/run/rte/podresources.sock''"

record progArgs =
  pp_Verbose :: int
  pp_KubeletSocketPath :: string
  pp_ListenSocketPath :: string

definition proxy_setDefaults :: "progArgs \<Rightarrow> progArgs" where
  "proxy_setDefaults pa =
     pa\<lparr>pp_KubeletSocketPath := defaultKubeletSocketPath, pp_ListenSocketPath := defaultListenSocketPath\<rparr>"

record 'k proxy_cmdline =
  pl_args :: progArgs
  pl_klog :: 'k

definition proxy_klog_flag :: "'k flag \<Rightarrow> 'k proxy_cmdline flag" where
  "proxy_klog_flag kf =
     \<lparr>fl_Name = fl_Name kf, fl_IsBoolFlag = fl_IsBoolFlag kf,
      fl_Set = (\<lambda>x st. case fl_Set kf x (pl_klog st) of Inl err \<Rightarrow> Inl err | Inr k \<Rightarrow> Inr (st\<lparr>pl_klog := k\<rparr>))\<rparr>"

definition proxy_flags :: "'k proxy_cmdline flag list" where
  "proxy_flags =
     [\<lparr>fl_Name = ''kubelet-socket'', fl_IsBoolFlag = False,
       fl_Set = (\<lambda>x st. Inr (st\<lparr>pl_args := (pl_args st)\<lparr>pp_KubeletSocketPath := x\<rparr>\<rparr>))\<rparr>,
      \<lparr>fl_Name = ''listen-socket'', fl_IsBoolFlag = False,
       fl_Set = (\<lambda>x st. Inr (st\<lparr>pl_args := (pl_args st)\<lparr>pp_ListenSocketPath := x\<rparr>\<rparr>))\<rparr>]"

definition proxy_parseFlags :: "'k klog_lib \<Rightarrow> progArgs \<Rightarrow> string list \<Rightarrow> 'k \<Rightarrow> (progArgs \<times> 'k) proc go" where
  "proxy_parseFlags KL pa args k =
     go_bind (fs_Vars (map proxy_klog_flag (kl_InitFlags KL) @ proxy_flags) []) (\<lambda>fs.
       case fs_Parse fs args \<lparr>pl_args = pa, pl_klog = k\<rparr> of
         Exits code \<Rightarrow> Ret (Exits code)
       | Returns (st, params) \<Rightarrow> Ret (Returns (pl_args st, pl_klog st)))"

definition proxy_main ::
    "'k klog_lib \<Rightarrow> (string \<Rightarrow> bool) \<Rightarrow> 'c dialer \<Rightarrow> (string \<Rightarrow> gerr + 'l) \<Rightarrow> string list \<Rightarrow> 'k \<Rightarrow>
     ('c, 'l) Proxy main_result go" where
  "proxy_main KL ipLiteral dial listen args k =
     go_bind (proxy_parseFlags KL (proxy_setDefaults
                \<lparr>pp_Verbose = 0, pp_KubeletSocketPath = [], pp_ListenSocketPath = []\<rparr>) args k) (\<lambda>r.
       case r of
         Exits code \<Rightarrow> Ret (Exited code)
       | Returns (pArgs, k1) \<Rightarrow>
           (case GetClient ipLiteral dial (''unix://'' @ pp_KubeletSocketPath pArgs) of
              (_, _, Some err) \<Rightarrow> Ret (Fatal ''failed to create a podresources client'' err)
            | (cli, cleanup, None) \<Rightarrow>
                (case proxy_Setup listen (''unix://'' @ pp_ListenSocketPath pArgs) (proxy_New cli cleanup) of
                   (inst, Some err) \<Rightarrow> Ret (Fatal ''failed to setupthe proxied podresources API'' err)
                 | (inst, None) \<Rightarrow> Ret (Running inst))))"

section \<open>Facts\<close>

text \<open>
  A proxy that runs has a client, so that no call it forwards panics: it answers what the kubelet's
  socket answers.
\<close>

lemma proxy_forwards:
  assumes "proxy_main KL ipLiteral dial listen args k = Ret (Running inst)"
  shows "\<exists>c. pxy_cli inst = Some c \<and> proxy_List f inst = Ret (f c) \<and> pxy_lst inst \<noteq> None"
proof -
  let ?d = "proxy_setDefaults \<lparr>pp_Verbose = 0, pp_KubeletSocketPath = [], pp_ListenSocketPath = []\<rparr>"
  obtain r where r: "proxy_parseFlags KL ?d args k = Ret r"
    using assms unfolding proxy_main_def go_bind_Ret_iff by blast
  obtain pArgs k1 where p: "proxy_parseFlags KL ?d args k = Ret (Returns (pArgs, k1))"
  proof (cases r)
    case (Returns x)
    with r that show ?thesis by (cases x) simp
  qed (use assms r in \<open>simp add: proxy_main_def\<close>)
  let ?ep = "''unix://'' @ pp_KubeletSocketPath pArgs"
  obtain cli cleanup err where g: "GetClient ipLiteral dial ?ep = (cli, cleanup, err)" by (metis prod.collapse)
  have "err = None \<longrightarrow> cli \<noteq> None" using g unfolding GetClient_cases by (auto split: sum.splits if_splits)
  with assms p g show ?thesis
    by (cases err) (auto simp: proxy_main_def proxy_Setup_def proxy_New_def proxy_List_def Let_def split: sum.splits)
qed

text \<open>With a plain absolute path it is the given socket that is dialled; a relative path loses its first part.\<close>

lemma relative_socket_path:
  "ParseEndpoint ipLiteral (''unix://'' @ ''run/kubelet.sock'') = (UnixProtocol, ''/kubelet.sock'', None)"
proof -
  have "scheme_loop (''unix://run/kubelet.sock'') [] (''unix://run/kubelet.sock'') = Some (''unix'', ''//run/kubelet.sock'')"
    by code_simp
  moreover have "\<not> list_ex is_ctl ''unix://run/kubelet.sock''" "ToLower ''unix'' = ''unix''"
    "cut_at (CHR ''#'') ''unix://run/kubelet.sock'' = (''unix://run/kubelet.sock'', [])"
    "cut_at (CHR ''?'') ''//run/kubelet.sock'' = (''//run/kubelet.sock'', [])"
    "unescape True ''run'' \<noteq> None" by code_simp+
  ultimately show ?thesis
    by (simp add: ParseEndpoint_def url_Parse_def url_parse_def getScheme_def HasPrefix_def Let_def
        authority_ok_def host_ok_def unescape_plain UnixProtocol_def)
qed

end
