(* ===== verification/Stress.thy ===== *)
theory Stress
  imports Program
begin

text \<open>
  \<^verbatim>\<open>pkg/nrtupdater/fake\<close> and \<^verbatim>\<open>tools/nrtstress\<close>: the generator of random updates, and the program that
  publishes them through the updater. The random source is the sequence of its draws, each brought
  into the range that is asked for.
\<close>

section \<open>The generator\<close>

record Generator =
  ge_interval :: int
  ge_draws :: "nat \<Rightarrow> int"
  ge_next :: nat

text \<open>\<open>source\<close> is the sequence that belongs to a seed.\<close>

definition NewGenerator :: "(int \<Rightarrow> nat \<Rightarrow> int) \<Rightarrow> int \<Rightarrow> int \<Rightarrow> Generator" where
  "NewGenerator source interval randSeed =
     \<lparr>ge_interval = interval, ge_draws = source randSeed, ge_next = 0\<rparr>"

definition Intn :: "int \<Rightarrow> Generator \<Rightarrow> (int \<times> Generator) go" where
  "Intn n ge =
     (if n \<le> 0 then Panic RandArgument
      else Ret (ge_draws ge (ge_next ge) mod n, ge\<lparr>ge_next := ge_next ge + 1\<rparr>))"

definition MakeResourceInfoDevices :: "int \<Rightarrow> Generator \<Rightarrow> (ResourceInfo \<times> Generator) go" where
  "MakeResourceInfoDevices n ge =
     go_bind (Intn 17 ge) (\<lambda>(x, ge').
       Ret (\<lparr>ri_Name = ''vendor.com/device'', ri_Available = NewQuantity x DecimalSI,
             ri_Allocatable = NewQuantity 16 DecimalSI, ri_Capacity = NewQuantity 16 DecimalSI\<rparr>, ge'))"

definition MakeResourceInfoCPUs :: "int \<Rightarrow> int \<Rightarrow> int \<Rightarrow> Generator \<Rightarrow> (ResourceInfo \<times> Generator) go" where
  "MakeResourceInfoCPUs cap allocatable available ge =
     go_bind (Intn (w64 (available + 1)) ge) (\<lambda>(x, ge').
       Ret (\<lparr>ri_Name = ''cpu'', ri_Available = NewQuantity x DecimalSI,
             ri_Allocatable = NewQuantity allocatable DecimalSI, ri_Capacity = NewQuantity cap DecimalSI\<rparr>, ge'))"

definition MakeZones :: "Generator \<Rightarrow> (Zone list \<times> Generator) go" where
  "MakeZones ge =
     go_bind (MakeResourceInfoCPUs 128 126 126 ge) (\<lambda>(cpu0, ge1).
     go_bind (MakeResourceInfoDevices 16 ge1) (\<lambda>(dev0, ge2).
     go_bind (MakeResourceInfoCPUs 128 126 126 ge2) (\<lambda>(cpu1, ge3).
     go_bind (MakeResourceInfoDevices 16 ge3) (\<lambda>(dev1, ge4).
       Ret ([\<lparr>z_Name = ''fake-node-0'', z_Type = ''Node'',
              z_Costs = [\<lparr>co_Name = ''fake-node-0'', co_Value = 10\<rparr>, \<lparr>co_Name = ''fake-node-1'', co_Value = 21\<rparr>],
              z_Resources = [cpu0, dev0]\<rparr>,
             \<lparr>z_Name = ''fake-node-1'', z_Type = ''Node'',
              z_Costs = [\<lparr>co_Name = ''fake-node-1'', co_Value = 10\<rparr>, \<lparr>co_Name = ''fake-node-0'', co_Value = 21\<rparr>],
              z_Resources = [cpu1, dev1]\<rparr>], ge4)))))"

text \<open>The updates of the first \<open>n\<close> ticks.\<close>

fun gen_Run :: "nat \<Rightarrow> Generator \<Rightarrow> MonitorInfo list go" where
  "gen_Run 0 ge = Ret []"
| "gen_Run (Suc n) ge =
     go_bind (MakeZones ge) (\<lambda>(zones, ge').
     go_bind (gen_Run n ge') (\<lambda>infos'.
       Ret (\<lparr>mi_Timer = True, mi_Zones = zones, mi_Attributes = [], mi_Annotations = []\<rparr> # infos')))"

section \<open>The program\<close>

record stress_args =
  st_hostname :: string
  st_tmPolicy :: string
  st_tmScope :: string
  st_interval :: int
  st_seed :: int
  st_dryRun :: bool

definition stress_defaults :: stress_args where
  "stress_defaults =
     \<lparr>st_hostname = ''fake-host-0'', st_tmPolicy = ''single-numa-node'', st_tmScope = ''pod'',
      st_interval = 10 * 1000000000, st_seed = 0, st_dryRun = False\<rparr>"

record 'k stress_cmdline =
  sl_args :: stress_args
  sl_klog :: 'k

definition stress_flag ::
    "string \<Rightarrow> bool \<Rightarrow> (string \<Rightarrow> stress_args \<Rightarrow> gerr + stress_args) \<Rightarrow> 'k stress_cmdline flag" where
  "stress_flag name isBool setValue =
     \<lparr>fl_Name = name, fl_IsBoolFlag = isBool,
      fl_Set = (\<lambda>x st. case setValue x (sl_args st) of
                         Inl err \<Rightarrow> Inl err | Inr a \<Rightarrow> Inr (st\<lparr>sl_args := a\<rparr>))\<rparr>"

definition parse_with :: "'a option \<Rightarrow> ('a \<Rightarrow> 'b) \<Rightarrow> gerr + 'b" where
  "parse_with r f = (case r of Some v \<Rightarrow> Inr (f v) | None \<Rightarrow> Inl (Errorf ''parse error''))"

definition stress_flags :: "'k stress_cmdline flag list" where
  "stress_flags =
     [stress_flag ''hosthame'' False (\<lambda>x a. Inr (a\<lparr>st_hostname := x\<rparr>)),
      stress_flag ''tm-policy'' False (\<lambda>x a. Inr (a\<lparr>st_tmPolicy := x\<rparr>)),
      stress_flag ''tm-scope'' False (\<lambda>x a. Inr (a\<lparr>st_tmScope := x\<rparr>)),
      stress_flag ''interval'' False (\<lambda>x a. parse_with (ParseDuration x) (\<lambda>d. a\<lparr>st_interval := d\<rparr>)),
      stress_flag ''random-seed'' False
        (\<lambda>x a. parse_with (case ParseInt0 x of Inr i \<Rightarrow> Some i | Inl _ \<Rightarrow> None) (\<lambda>i. a\<lparr>st_seed := i\<rparr>)),
      stress_flag ''dry-run'' True (\<lambda>x a. parse_with (ParseBool x) (\<lambda>b. a\<lparr>st_dryRun := b\<rparr>))]"

definition stress_klog_flag :: "'k flag \<Rightarrow> 'k stress_cmdline flag" where
  "stress_klog_flag kf =
     \<lparr>fl_Name = fl_Name kf, fl_IsBoolFlag = fl_IsBoolFlag kf,
      fl_Set = (\<lambda>x st. case fl_Set kf x (sl_klog st) of Inl err \<Rightarrow> Inl err | Inr k \<Rightarrow> Inr (st\<lparr>sl_klog := k\<rparr>))\<rparr>"

text \<open>
  The program for as many ticks as there are entries in \<open>ticks\<close>, each with the milliseconds and the end
  of its update. No condition is reported.
\<close>

definition stress_main ::
    "'k klog_lib \<Rightarrow> ('cfg, 'nc) kube_lib \<Rightarrow> (int \<Rightarrow> nat \<Rightarrow> int) \<Rightarrow> json_lib \<Rightarrow> 'w nrt_api \<Rightarrow> int \<Rightarrow> (int \<times> int) list \<Rightarrow>
     string list \<Rightarrow> 'k \<Rightarrow> metrics_state \<Rightarrow> 'w \<Rightarrow> (NRTUpdater \<times> metrics_state \<times> 'w \<times> PodCondition list) main_result go" where
  "stress_main KL KB source js api now ticks args k ms w =
     go_bind (fs_Vars (stress_flags @ map stress_klog_flag (kl_InitFlags KL)) []) (\<lambda>fs.
       case fs_Parse fs args \<lparr>sl_args = stress_defaults, sl_klog = k\<rparr> of
         Exits code \<Rightarrow> Ret (Exited code)
       | Returns (st, params) \<Rightarrow>
           let a = sl_args st;
               nrtupdaterArgs = \<lparr>ua_NoPublish = st_dryRun a, ua_Oneshot = False, ua_Hostname = st_hostname a,
                 ua_KubeConfig = [], ua_PatchMode = False, ua_PatchResync = 0\<rparr>;
               randSeed = (if st_seed a \<noteq> 0 then st_seed a else now);
               gen = NewGenerator source (st_interval a) randSeed;
               tmConf = \<lparr>tm_Policy = st_tmPolicy a, tm_Scope = st_tmScope a\<rparr>
           in (case GetTopologyClient KB [] of
                 Inl err \<Rightarrow> Ret (Fatal ''failed to get a noderesourcetopology client'' err)
               | Inr nrtcli \<Rightarrow>
                   (case NewNRTUpdater DisabledNodeGetter True nrtupdaterArgs tmConf of
                      Inl err \<Rightarrow> Ret (Fatal ''failed to create a noderesourcetopology updater'' err)
                    | Inr upd \<Rightarrow>
                        go_bind (gen_Run (length ticks) gen) (\<lambda>generated.
                          Ret (Running (upd_Run js api False
                            (map2 (\<lambda>info (d, t). upd_Info info d t) generated ticks) upd ms w))))))"

section \<open>Facts\<close>

text \<open>Generated data is consistent, whatever the source draws.\<close>

definition consistent :: "ResourceInfo \<Rightarrow> bool" where
  "consistent ri \<longleftrightarrow> 0 \<le> qty_value (ri_Available ri) \<and> qty_value (ri_Available ri) \<le> qty_value (ri_Allocatable ri) \<and>
     qty_value (ri_Allocatable ri) \<le> qty_value (ri_Capacity ri)"

lemma Intn_range: "0 < n \<Longrightarrow> \<exists>x ge'. Intn n ge = Ret (x, ge') \<and> 0 \<le> x \<and> x < n"
  using pos_mod_bound [of n "ge_draws ge (ge_next ge)"] pos_mod_sign [of n "ge_draws ge (ge_next ge)"]
  by (simp add: Intn_def)

lemma MakeResourceInfoCPUs_consistent:
  assumes "0 \<le> available" "available \<le> allocatable" "allocatable \<le> cap" "cap < 2 ^ 63 - 1"
  shows "\<exists>ri ge'. MakeResourceInfoCPUs cap allocatable available ge = Ret (ri, ge') \<and> consistent ri \<and> ri_Name ri = ''cpu''"
proof -
  have w: "w64 (available + 1) = available + 1" using assms by (intro w64_id) (simp add: int64_def)
  obtain x ge' where "Intn (available + 1) ge = Ret (x, ge')" "0 \<le> x" "x < available + 1"
    using Intn_range [of "available + 1" ge] assms(1) by auto
  with w assms show ?thesis by (simp add: MakeResourceInfoCPUs_def consistent_def)
qed

lemma MakeResourceInfoDevices_consistent:
  "\<exists>ri ge'. MakeResourceInfoDevices n ge = Ret (ri, ge') \<and> consistent ri \<and> ri_Name ri = ''vendor.com/device''"
proof -
  obtain x ge' where "Intn 17 ge = Ret (x, ge')" "0 \<le> x" "x < 17" using Intn_range [of 17 ge] by auto
  then show ?thesis by (simp add: MakeResourceInfoDevices_def consistent_def)
qed

lemma MakeZones_consistent:
  "\<exists>zs ge'. MakeZones ge = Ret (zs, ge') \<and> map z_Name zs = [''fake-node-0'', ''fake-node-1''] \<and>
     (\<forall>z \<in> set zs. map ri_Name (z_Resources z) = [''cpu'', ''vendor.com/device''] \<and> list_all consistent (z_Resources z))"
proof -
  note cpu = MakeResourceInfoCPUs_consistent [of 126 126 128]
  obtain c0 g1 where 1: "MakeResourceInfoCPUs 128 126 126 ge = Ret (c0, g1)" "consistent c0" "ri_Name c0 = ''cpu''"
    using cpu [of ge] by auto
  obtain d0 g2 where 2: "MakeResourceInfoDevices 16 g1 = Ret (d0, g2)" "consistent d0" "ri_Name d0 = ''vendor.com/device''"
    using MakeResourceInfoDevices_consistent by blast
  obtain c1 g3 where 3: "MakeResourceInfoCPUs 128 126 126 g2 = Ret (c1, g3)" "consistent c1" "ri_Name c1 = ''cpu''"
    using cpu [of g2] by auto
  obtain d1 g4 where 4: "MakeResourceInfoDevices 16 g3 = Ret (d1, g4)" "consistent d1" "ri_Name d1 = ''vendor.com/device''"
    using MakeResourceInfoDevices_consistent by blast
  show ?thesis by (simp add: MakeZones_def 1 2 3 4)
qed

text \<open>One consistent update per tick.\<close>

lemma gen_Run_consistent:
  "\<exists>is. gen_Run n ge = Ret is \<and> length is = n \<and>
     (\<forall>i \<in> set is. mi_Timer i \<and> (\<forall>z \<in> set (mi_Zones i). list_all consistent (z_Resources z)))"
proof (induction n arbitrary: ge)
  case (Suc n)
  obtain zs ge' where z: "MakeZones ge = Ret (zs, ge')" "\<forall>z \<in> set zs. list_all consistent (z_Resources z)"
    using MakeZones_consistent [of ge] by blast
  from Suc.IH [of ge'] obtain "is" where "gen_Run n ge' = Ret is" "length is = n"
    "\<forall>i \<in> set is. mi_Timer i \<and> (\<forall>z \<in> set (mi_Zones i). list_all consistent (z_Resources z))" by blast
  with z show ?case by simp
qed simp

end
