(* ===== verification/MetricsSafety.thy ===== *)
theory MetricsSafety
  imports Observer NRTUpdater
begin

text \<open>
  No component uses a metric with other labels than the vector was registered with, on which the
  metrics library would panic. The invariant \<open>metrics_declared\<close> is kept by every operation of monitor,
  observer and updater.
\<close>

lemma Scan_metrics: "metrics_declared (fst (Scan P ord ordR rm excl resp ms)) = metrics_declared ms"
  by (cases resp) (simp_all add: Scan_def Let_def split: prod.split)

lemma obs_scan_metrics: "metrics_declared (fst (obs_scan P ord ordR rm excl resp ms)) = metrics_declared ms"
  using Scan_metrics [of P ord ordR rm excl resp ms] by (auto simp: obs_scan_def split: prod.splits)

lemma obs_handle_metrics:
  assumes scan: "\<And>m. metrics_declared (fst (scan m)) = metrics_declared m"
    and run: "obs_handle exposeTiming condChan scan tsDiff now ev lastWakeup ms = Ret (ms', infos, conds)"
  shows "metrics_declared ms' = metrics_declared ms"
proof -
  let ?ms1 = "UpdateWakeupDelayMetric (UpdateReason \<lparr>mi_Timer = IsTimer ev, mi_Zones = [], mi_Attributes = [],
    mi_Annotations = []\<rparr>) (Milliseconds (Time_Sub (ev_Timestamp ev) lastWakeup)) ms"
  obtain ms2 r where s: "scan ?ms1 = (ms2, r)" by fastforce
  then have "metrics_declared ms2 = metrics_declared ms" using scan [of ?ms1] by simp
  with run s show ?thesis
    by (auto simp: obs_handle_def Let_def go_bind_Ret_iff split: sum.splits)
qed

lemma obs_Run_metrics:
  assumes "\<And>env m. metrics_declared (fst (scan env m)) = metrics_declared m"
  shows "obs_Run exposeTiming condChan scan msgs lastWakeup ms = Ret (ms', infos, conds) \<Longrightarrow>
     metrics_declared ms' = metrics_declared ms"
proof (induction msgs arbitrary: lastWakeup ms infos conds)
  case (Cons m msgs)
  show ?case
  proof (cases m)
    case (obs_Event ev env tsDiff now)
    with Cons.prems obtain ms1 i1 c1 i2 c2 where
      "obs_handle exposeTiming condChan (scan env) tsDiff now ev lastWakeup ms = Ret (ms1, i1, c1)"
      "obs_Run exposeTiming condChan scan msgs (ev_Timestamp ev) ms1 = Ret (ms', i2, c2)"
      by (auto simp: go_bind_Ret_iff)
    with obs_handle_metrics [of "scan env"] assms Cons.IH show ?thesis by metis
  qed (use Cons.prems in simp)
qed simp

lemma sendObjectUpdate_metrics:
  "metrics_declared (fst (sendObjectUpdate api info te ms w)) = metrics_declared ms"
  by (simp add: sendObjectUpdate_def Let_def split: prod.split sum.split)

lemma resync_metrics [simp]: "metrics_declared (fst (snd (resync api info te ms w))) = metrics_declared ms"
  using sendObjectUpdate_metrics [of api info te ms w] by (auto simp: resync_def split: prod.splits sum.splits)

lemma patchNRT_metrics: "metrics_declared (fst (snd (patchNRT js api info te ms w))) = metrics_declared ms"
  by (simp add: patchNRT_def Let_def split: prod.split sum.split option.split)

lemma sendObjectPatch_metrics:
  "metrics_declared (fst (snd (sendObjectPatch js api info te ms w))) = metrics_declared ms"
  using patchNRT_metrics [of js api info te ms w] by (auto simp: sendObjectPatch_def split: prod.splits sum.splits)

lemma upd_handle_metrics:
  "metrics_declared (fst (snd (upd_handle js api condChan info tsDiff now te ms w))) = metrics_declared ms"
  using sendObjectPatch_metrics [of js api info te ms w] sendObjectUpdate_metrics [of api info te ms w]
  by (auto simp: upd_handle_def upd_Update_def sendData_def Let_def
      split: prod.splits sum.splits sendObject_method.splits if_splits)

lemma upd_Run_metrics:
  "metrics_declared (fst (snd (upd_Run js api condChan msgs te ms w))) = metrics_declared ms"
proof (induction msgs arbitrary: te ms w)
  case (Cons m msgs)
  show ?case
  proof (cases m)
    case (upd_Info info tsDiff now)
    obtain te1 ms1 w1 c1 where h: "upd_handle js api condChan info tsDiff now te ms w = (te1, ms1, w1, c1)"
      by (metis prod.collapse)
    with upd_handle_metrics [of js api condChan info tsDiff now te ms w] Cons.IH [of te1 ms1 w1] upd_Info
    show ?thesis by (cases "upd_Run js api condChan msgs te1 ms1 w1") simp
  qed simp
qed simp

lemma updateNodeAllocatable_metrics:
  "metrics_declared (snd (updateNodeAllocatable ord resp rm ms)) = metrics_declared ms"
  by (cases resp) (simp_all add: updateNodeAllocatable_def Let_def)

lemma updateNodeResources_metrics:
  assumes "updateNodeResources qs fs ord resp rm ms = Ret ((rm', err), ms')"
  shows "metrics_declared ms' = metrics_declared ms"
proof -
  have all: "metrics_declared (snd (updateNodeAllocatable ord resp r ms)) = metrics_declared ms" for r
    by (rule updateNodeAllocatable_metrics)
  obtain rm1 e1 where c: "updateNodeCapacity qs fs rm = Ret (rm1, e1)"
    using assms by (cases "updateNodeCapacity qs fs rm") (auto simp: updateNodeResources_def)
  obtain rm2 e2 ms2 where a: "updateNodeAllocatable ord resp rm1 ms = ((rm2, e2), ms2)" by (metis prod.collapse)
  from assms c a all [of rm1] show ?thesis
    by (cases e1; cases e2) (auto simp: updateNodeResources_def go_bind_Ret_iff)
qed

end
