(* ===== verification/Pipeline.thy ===== *)
theory Pipeline
  imports Observer UpdaterProps PodReadiness
begin

text \<open>
  The goroutines that \<^verbatim>\<open>Execute\<close> (\<^verbatim>\<open>pkg/resourcetopologyexporter/resourcetopologyexporter.go\<close>) leaves
  running: the observer receives events and hands the results of its scans to the updater, and both
  hand conditions to the injector. All channels are unbuffered, so a send and its receive are one
  step of the system. The theory has the steps of the goroutines, in any order, and shows that every
  order gives what the three loops give one after the other.
\<close>

section \<open>The goroutines\<close>

text \<open>
  What does not change while they run: whether timings are exposed, whether there is a channel of
  conditions, the monitor, and the API server as the updater and the injector see it. The metrics
  are not part of the state: \<open>env_metrics\<close> is what every call gets, and no other result depends on it.
\<close>

record ('a, 'w, 'p) pl_env =
  env_exposeTiming :: bool
  env_condChan :: bool
  env_scan :: "'a \<Rightarrow> metrics_state \<Rightarrow> metrics_state \<times> (gerr + ScanResponse)"
  env_metrics :: metrics_state
  env_js :: json_lib
  env_api :: "'w nrt_api"
  env_pods :: "'p pods_api"

text \<open>
  The observer is idle in its \<^verbatim>\<open>select\<close>, or blocked sending the information \<open>pl_infos\<close> and then the
  condition \<open>pl_oconds\<close>. The updater is idle, works on \<open>pl_busy\<close>, or is blocked sending \<open>pl_uconds\<close>.
  The injector is idle or works on \<open>pl_cond\<close>. A panic of one goroutine ends the process.
\<close>

record ('a, 'w, 'p) pipeline =
  pl_events :: "(Event \<times> 'a \<times> int \<times> int) list"
  pl_lastWakeup :: int
  pl_infos :: "MonitorInfo list"
  pl_oconds :: "PodCondition list"
  pl_ostopped :: bool
  pl_busy :: "MonitorInfo option"
  pl_uconds :: "PodCondition list"
  pl_ustopped :: bool
  pl_te :: NRTUpdater
  pl_nrts :: 'w
  pl_cond :: "PodCondition option"
  pl_inj :: ConditionInjector
  pl_pods :: 'p
  pl_crash :: "go_panic option"

definition pl_start ::
    "(Event \<times> 'a \<times> int \<times> int) list \<Rightarrow> int \<Rightarrow> NRTUpdater \<Rightarrow> 'w \<Rightarrow> ConditionInjector \<Rightarrow> 'p \<Rightarrow>
     ('a, 'w, 'p) pipeline" where
  "pl_start evs now te w ci p =
     \<lparr>pl_events = evs, pl_lastWakeup = now, pl_infos = [], pl_oconds = [], pl_ostopped = False,
      pl_busy = None, pl_uconds = [], pl_ustopped = False, pl_te = te, pl_nrts = w,
      pl_cond = None, pl_inj = ci, pl_pods = p, pl_crash = None\<rparr>"

definition pl_oidle :: "('a, 'w, 'p) pipeline \<Rightarrow> bool" where
  "pl_oidle s \<longleftrightarrow> pl_infos s = [] \<and> pl_oconds s = [] \<and> \<not> pl_ostopped s"

definition pl_uidle :: "('a, 'w, 'p) pipeline \<Rightarrow> bool" where
  "pl_uidle s \<longleftrightarrow> pl_busy s = None \<and> pl_uconds s = [] \<and> \<not> pl_ustopped s"

text \<open>The observer receives an event, scans, and goes on to its sends.\<close>

definition pl_receive ::
    "('a, 'w, 'p) pl_env \<Rightarrow> ('a, 'w, 'p) pipeline \<Rightarrow> ('a, 'w, 'p) pipeline option" where
  "pl_receive E s =
     (case pl_events s of
        [] \<Rightarrow> None
      | (ev, env, d, t) # evs \<Rightarrow>
          if pl_oidle s then
            (case obs_handle (env_exposeTiming E) (env_condChan E) (env_scan E env) d t ev
                    (pl_lastWakeup s) (env_metrics E) of
               Panic p \<Rightarrow> Some (s\<lparr>pl_events := evs, pl_crash := Some p\<rparr>)
             | Ret (ms, is, cs) \<Rightarrow>
                 Some (s\<lparr>pl_events := evs, pl_lastWakeup := ev_Timestamp ev, pl_infos := is,
                         pl_oconds := cs\<rparr>))
          else None)"

text \<open>The information channel: the observer sends while the updater is in its \<^verbatim>\<open>select\<close>.\<close>

definition pl_handover :: "('a, 'w, 'p) pipeline \<Rightarrow> ('a, 'w, 'p) pipeline option" where
  "pl_handover s =
     (case pl_infos s of
        [] \<Rightarrow> None
      | info # is \<Rightarrow>
          if pl_uidle s then Some (s\<lparr>pl_infos := is, pl_busy := Some info\<rparr>) else None)"

text \<open>The updater works on what it received; the work takes \<open>d\<close> milliseconds and ends at \<open>t\<close>.\<close>

definition pl_update ::
    "('a, 'w, 'p) pl_env \<Rightarrow> int \<Rightarrow> int \<Rightarrow> ('a, 'w, 'p) pipeline \<Rightarrow> ('a, 'w, 'p) pipeline option" where
  "pl_update E d t s =
     (case pl_busy s of
        None \<Rightarrow> None
      | Some info \<Rightarrow>
          (case upd_handle (env_js E) (env_api E) (env_condChan E) info d t (pl_te s) (env_metrics E)
                  (pl_nrts s) of
             (te, ms, w, cs) \<Rightarrow>
               Some (s\<lparr>pl_busy := None, pl_te := te, pl_nrts := w, pl_uconds := cs\<rparr>)))"

text \<open>The condition channel, with its two senders.\<close>

definition pl_observer_condition :: "('a, 'w, 'p) pipeline \<Rightarrow> ('a, 'w, 'p) pipeline option" where
  "pl_observer_condition s =
     (case pl_oconds s of
        [] \<Rightarrow> None
      | c # cs \<Rightarrow>
          if pl_infos s = [] \<and> pl_cond s = None then Some (s\<lparr>pl_oconds := cs, pl_cond := Some c\<rparr>)
          else None)"

definition pl_updater_condition :: "('a, 'w, 'p) pipeline \<Rightarrow> ('a, 'w, 'p) pipeline option" where
  "pl_updater_condition s =
     (case pl_uconds s of
        [] \<Rightarrow> None
      | c # cs \<Rightarrow>
          if pl_busy s = None \<and> pl_cond s = None then Some (s\<lparr>pl_uconds := cs, pl_cond := Some c\<rparr>)
          else None)"

definition pl_inject ::
    "('a, 'w, 'p) pl_env \<Rightarrow> ('a, 'w, 'p) pipeline \<Rightarrow> ('a, 'w, 'p) pipeline option" where
  "pl_inject E s =
     (case pl_cond s of
        None \<Rightarrow> None
      | Some c \<Rightarrow>
          (case Inject (env_pods E) c (pl_inj s) (pl_pods s) of
             (ci, p, err) \<Rightarrow> Some (s\<lparr>pl_cond := None, pl_inj := ci, pl_pods := p\<rparr>)))"

text \<open>A step of the system is a step of any goroutine that can take one.\<close>

inductive pl_step ::
    "('a, 'w, 'p) pl_env \<Rightarrow> ('a, 'w, 'p) pipeline \<Rightarrow> ('a, 'w, 'p) pipeline \<Rightarrow> bool" for E where
  receive: "pl_crash s = None \<Longrightarrow> pl_receive E s = Some s' \<Longrightarrow> pl_step E s s'"
| handover: "pl_crash s = None \<Longrightarrow> pl_handover s = Some s' \<Longrightarrow> pl_step E s s'"
| update: "pl_crash s = None \<Longrightarrow> pl_update E d t s = Some s' \<Longrightarrow> pl_step E s s'"
| observer_condition: "pl_crash s = None \<Longrightarrow> pl_observer_condition s = Some s' \<Longrightarrow> pl_step E s s'"
| updater_condition: "pl_crash s = None \<Longrightarrow> pl_updater_condition s = Some s' \<Longrightarrow> pl_step E s s'"
| inject: "pl_crash s = None \<Longrightarrow> pl_inject E s = Some s' \<Longrightarrow> pl_step E s s'"

inductive_cases pl_stepE: "pl_step E s s'"

text \<open>
  The two methods \<^verbatim>\<open>Stop\<close>, which \<^verbatim>\<open>Execute\<close> does not call: each sends on a channel that the loop reads in
  its \<^verbatim>\<open>select\<close> only, and is blocked (\<open>None\<close>) until then.
\<close>

definition obs_StopCall :: "('a, 'w, 'p) pipeline \<Rightarrow> ('a, 'w, 'p) pipeline option" where
  "obs_StopCall s = (if pl_oidle s then Some (s\<lparr>pl_ostopped := True\<rparr>) else None)"

definition upd_StopCall :: "('a, 'w, 'p) pipeline \<Rightarrow> ('a, 'w, 'p) pipeline option" where
  "upd_StopCall s = (if pl_uidle s then Some (s\<lparr>pl_ustopped := True\<rparr>) else None)"

section \<open>Metrics are only written\<close>

lemma sendObjectUpdate_blind:
  "snd (sendObjectUpdate api info te ms w) = snd (sendObjectUpdate api info te ms' w)"
  by (simp add: sendObjectUpdate_def Let_def split: prod.split sum.split)

text \<open>The result of sending without its metrics.\<close>

abbreviation unmetered :: "'a \<times> 'b \<times> 'c \<times> 'd \<Rightarrow> 'a \<times> 'c \<times> 'd" where
  "unmetered r \<equiv> (fst r, snd (snd r))"

lemma resync_blind: "unmetered (resync api info te ms w) = unmetered (resync api info te ms' w)"
  using sendObjectUpdate_blind [of api info te ms w ms']
  by (auto simp: resync_def split: prod.splits sum.splits)

lemma patchNRT_blind: "unmetered (patchNRT js api info te ms w) = unmetered (patchNRT js api info te ms' w)"
  by (simp add: patchNRT_def Let_def split: prod.split sum.split option.split)

lemma sendObjectPatch_blind:
  "unmetered (sendObjectPatch js api info te ms w) = unmetered (sendObjectPatch js api info te ms' w)"
proof (cases "needsResync te")
  case True
  then show ?thesis using resync_blind [of api info te ms w ms'] by (simp add: sendObjectPatch_def)
next
  case False
  obtain te1 ms1 w1 r where 1: "patchNRT js api info te ms w = (te1, ms1, w1, r)"
    by (cases "patchNRT js api info te ms w")
  obtain ms2 where 2: "patchNRT js api info te ms' w = (te1, ms2, w1, r)"
    using patchNRT_blind [of js api info te ms w ms'] 1 by (cases "patchNRT js api info te ms' w") simp
  from resync_blind [of api info te1 ms1 w1 ms2] False show ?thesis
    by (cases r) (simp_all add: sendObjectPatch_def 1 2)
qed

lemma sendData_blind:
  "unmetered (sendData js api info te ms w) = unmetered (sendData js api info te ms' w)"
proof (cases "te_sendObject te")
  case m_sendObjectPatch
  then show ?thesis using sendObjectPatch_blind [of js api info te ms w ms']
    by (auto simp: sendData_def split: prod.splits sum.splits)
next
  case m_sendObjectUpdate
  then show ?thesis using sendObjectUpdate_blind [of api info te ms w ms']
    by (auto simp: sendData_def split: prod.splits sum.splits)
qed

lemma upd_handle_blind:
  assumes "upd_handle js api ch info d t te ms w = (te1, ms1, w1, c1)"
  shows "\<exists>ms2. upd_handle js api ch info d t te ms' w = (te1, ms2, w1, c1)"
  using assms sendData_blind [of js api info te ms w ms']
  by (cases "sendData js api info te ms w"; cases "sendData js api info te ms' w")
    (auto simp: upd_handle_def upd_Update_def Let_def)

lemma upd_Run_blind:
  "upd_Run js api ch msgs te ms w = (te1, ms1, w1, c1) \<Longrightarrow>
   \<exists>ms2. upd_Run js api ch msgs te ms' w = (te1, ms2, w1, c1)"
proof (induction msgs arbitrary: te ms ms' w te1 ms1 w1 c1)
  case (Cons m msgs)
  show ?case
  proof (cases m)
    case (upd_Info info d t)
    obtain te2 ms2 w2 c2 where h: "upd_handle js api ch info d t te ms w = (te2, ms2, w2, c2)"
      by (cases "upd_handle js api ch info d t te ms w")
    with Cons.prems upd_Info obtain c3 where
      r: "upd_Run js api ch msgs te2 ms2 w2 = (te1, ms1, w1, c3)" "c1 = c2 @ c3"
      by (auto split: prod.splits)
    from upd_handle_blind [OF h, of ms'] obtain ms3 where
      h': "upd_handle js api ch info d t te ms' w = (te2, ms3, w2, c2)" by blast
    from Cons.IH [OF r(1), of ms3] h' r(2) upd_Info show ?thesis by auto
  qed (use Cons.prems in simp)
qed simp

text \<open>
  What the observer asks of the monitor's \<^verbatim>\<open>Scan\<close>: its answer does not depend on the metrics.
\<close>

locale monitor_scan =
  fixes scan :: "'a \<Rightarrow> metrics_state \<Rightarrow> metrics_state \<times> (gerr + ScanResponse)"
  assumes blind: "snd (scan env ms) = snd (scan env ms')"
begin

lemma obs_handle_blind:
  "map_go snd (obs_handle et ch (scan env) d t ev lw ms) =
   map_go snd (obs_handle et ch (scan env) d t ev lw ms')"
proof -
  let ?u = "\<lambda>ms. UpdateWakeupDelayMetric (if IsTimer ev then ''periodic'' else ''reactive'')
    (Milliseconds (Time_Sub (ev_Timestamp ev) lw)) ms"
  obtain m1 r where 1: "scan env (?u ms) = (m1, r)" by (cases "scan env (?u ms)")
  obtain m2 where 2: "scan env (?u ms') = (m2, r)"
    using blind [of env "?u ms" "?u ms'"] 1 by (cases "scan env (?u ms')") simp
  from 1 2 show ?thesis
    by (cases r; cases et; cases "IsTimer ev")
      (simp_all add: obs_handle_def obs_annotations_def Let_def UpdateReason_def
        RTEUpdatePeriodic_def RTEUpdateReactive_def)
qed

lemma obs_Run_blind:
  "map_go snd (obs_Run et ch scan msgs lw ms) = map_go snd (obs_Run et ch scan msgs lw ms')"
proof (induction msgs arbitrary: lw ms ms')
  case (Cons m msgs)
  show ?case
  proof (cases m)
    case (obs_Event ev env d t)
    show ?thesis
    proof (cases "obs_handle et ch (scan env) d t ev lw ms")
      case (Ret x)
      then obtain m1 i c where x: "obs_handle et ch (scan env) d t ev lw ms = Ret (m1, i, c)"
        by (cases x) simp
      with obs_handle_blind [of et ch env d t ev lw ms ms'] obtain m2 where
        y: "obs_handle et ch (scan env) d t ev lw ms' = Ret (m2, i, c)"
        by (cases "obs_handle et ch (scan env) d t ev lw ms'") auto
      from Cons.IH [of "ev_Timestamp ev" m1 m2] show ?thesis
        by (cases "obs_Run et ch scan msgs (ev_Timestamp ev) m1";
            cases "obs_Run et ch scan msgs (ev_Timestamp ev) m2") (auto simp: obs_Event x y)
    next
      case (Panic p)
      with obs_handle_blind [of et ch env d t ev lw ms ms'] show ?thesis
        by (cases "obs_handle et ch (scan env) d t ev lw ms'") (auto simp: obs_Event)
    qed
  qed simp
qed simp

lemma obs_Run_Ret:
  assumes "obs_Run et ch scan msgs lw ms = Ret (ms1, i, c)"
  shows "\<exists>ms2. obs_Run et ch scan msgs lw ms' = Ret (ms2, i, c)"
  using obs_Run_blind [of et ch msgs lw ms ms'] assms
  by (cases "obs_Run et ch scan msgs lw ms'") auto

lemma obs_Run_Panic:
  assumes "obs_Run et ch scan msgs lw ms = Panic p"
  shows "obs_Run et ch scan msgs lw ms' = Panic p"
  using obs_Run_blind [of et ch msgs lw ms ms'] assms
  by (cases "obs_Run et ch scan msgs lw ms'") auto

end

text \<open>The monitor's own method, for a monitor that node updates may change between events.\<close>

definition pl_scan ::
    "('fp, 'st) pfp_lib \<Rightarrow> ((int \<times> string list) list \<Rightarrow> (int \<times> string list) list) \<Rightarrow>
     (int \<Rightarrow> (string \<times> int) list \<Rightarrow> (string \<times> int) list) \<Rightarrow> ResourceExclude \<Rightarrow>
     resourceMonitor \<times> list_result \<Rightarrow> metrics_state \<Rightarrow> metrics_state \<times> (gerr + ScanResponse)" where
  "pl_scan P ord ordR excl = (\<lambda>(rm, resp). obs_scan P ord ordR rm excl resp)"

interpretation mon: monitor_scan "pl_scan P ord ordR excl"
  by unfold_locales (auto simp: pl_scan_def obs_scan_def Scan_def Let_def split: prod.splits sum.splits)

section \<open>What is still to come\<close>

fun opt_list :: "'a option \<Rightarrow> 'a list" where
  "opt_list None = []"
| "opt_list (Some x) = [x]"

text \<open>
  The results of a state: those of the observer's loop over the events to come, then of the updater's
  loop over what it works on and all it will receive, then of the injector's loop over the conditions
  of both, in some order that keeps that of each sender.
\<close>

definition pl_results ::
    "('a, 'w, 'p) pl_env \<Rightarrow> ('a, 'w, 'p) pipeline \<Rightarrow>
     NRTUpdater \<times> 'w \<times> ConditionInjector \<times> 'p \<Rightarrow> bool" where
  "pl_results E s r \<longleftrightarrow>
     (\<exists>ms1 oi oc xs te ms2 w uc cs.
        obs_Run (env_exposeTiming E) (env_condChan E) (env_scan E) (events (pl_events s))
          (pl_lastWakeup s) (env_metrics E) = Ret (ms1, oi, oc) \<and>
        map fst xs = opt_list (pl_busy s) @ pl_infos s @ oi \<and>
        upd_Run (env_js E) (env_api E) (env_condChan E) (infos xs) (pl_te s) (env_metrics E)
          (pl_nrts s) = (te, ms2, w, uc) \<and>
        cs \<in> shuffles (pl_oconds s @ oc) (pl_uconds s @ uc) \<and>
        r = (te, w, inj_Run (env_pods E) (opt_list (pl_cond s) @ cs) (pl_inj s) (pl_pods s)))"

lemma Cons_shuffles_left: "cs \<in> shuffles xs ys \<Longrightarrow> x # cs \<in> shuffles (x # xs) ys"
  by (cases ys) auto

lemma Cons_shuffles_right: "cs \<in> shuffles xs ys \<Longrightarrow> y # cs \<in> shuffles xs (y # ys)"
  by (cases xs) auto

lemma pl_resultsI:
  assumes "obs_Run (env_exposeTiming E) (env_condChan E) (env_scan E) (events (pl_events s))
          (pl_lastWakeup s) (env_metrics E) = Ret (ms1, oi, oc)"
    and "map fst xs = opt_list (pl_busy s) @ pl_infos s @ oi"
    and "upd_Run (env_js E) (env_api E) (env_condChan E) (infos xs) (pl_te s) (env_metrics E)
          (pl_nrts s) = (te, ms2, w, uc)"
    and "cs \<in> shuffles (pl_oconds s @ oc) (pl_uconds s @ uc)"
    and "r = (te, w, inj_Run (env_pods E) (opt_list (pl_cond s) @ cs) (pl_inj s) (pl_pods s))"
  shows "pl_results E s r"
  unfolding pl_results_def using assms by blast

lemma pl_resultsE:
  assumes "pl_results E s r"
  obtains ms1 oi oc xs te ms2 w uc cs where
    "obs_Run (env_exposeTiming E) (env_condChan E) (env_scan E) (events (pl_events s))
       (pl_lastWakeup s) (env_metrics E) = Ret (ms1, oi, oc)"
    "map fst xs = opt_list (pl_busy s) @ pl_infos s @ oi"
    "upd_Run (env_js E) (env_api E) (env_condChan E) (infos xs) (pl_te s) (env_metrics E)
       (pl_nrts s) = (te, ms2, w, uc)"
    "cs \<in> shuffles (pl_oconds s @ oc) (pl_uconds s @ uc)"
    "r = (te, w, inj_Run (env_pods E) (opt_list (pl_cond s) @ cs) (pl_inj s) (pl_pods s))"
  using assms unfolding pl_results_def by blast

lemma handover_results:
  assumes h: "pl_handover s = Some s'" and r: "pl_results E s' r"
  shows "pl_results E s r"
proof -
  from h obtain i rest where f: "pl_infos s = i # rest" "pl_busy s = None"
    and s': "s' = s\<lparr>pl_infos := rest, pl_busy := Some i\<rparr>"
    by (auto simp: pl_handover_def pl_uidle_def split: list.splits if_splits)
  from r show ?thesis by (simp add: pl_results_def s' f)
qed

lemma inject_results:
  assumes i: "pl_inject E s = Some s'" and r: "pl_results E s' r"
  shows "pl_results E s r"
proof -
  from i obtain c where c: "pl_cond s = Some c" by (auto simp: pl_inject_def split: option.splits)
  obtain ci p e where j: "Inject (env_pods E) c (pl_inj s) (pl_pods s) = (ci, p, e)"
    by (cases "Inject (env_pods E) c (pl_inj s) (pl_pods s)")
  with i c have s': "s' = s\<lparr>pl_cond := None, pl_inj := ci, pl_pods := p\<rparr>" by (simp add: pl_inject_def)
  from r show ?thesis by (simp add: pl_results_def s' c j)
qed

lemma update_results:
  assumes u: "pl_update E d t s = Some s'" and r: "pl_results E s' r" and c: "pl_uconds s = []"
  shows "pl_results E s r"
proof -
  from u obtain info where b: "pl_busy s = Some info"
    by (auto simp: pl_update_def split: option.splits)
  obtain te1 ms1 w1 c1 where h: "upd_handle (env_js E) (env_api E) (env_condChan E) info d t (pl_te s)
      (env_metrics E) (pl_nrts s) = (te1, ms1, w1, c1)"
    by (cases "upd_handle (env_js E) (env_api E) (env_condChan E) info d t (pl_te s)
      (env_metrics E) (pl_nrts s)")
  with u b have s': "s' = s\<lparr>pl_busy := None, pl_te := te1, pl_nrts := w1, pl_uconds := c1\<rparr>"
    by (simp add: pl_update_def)
  from r obtain ms2 oi oc xs te ms3 w uc cs where
    o: "obs_Run (env_exposeTiming E) (env_condChan E) (env_scan E) (events (pl_events s))
          (pl_lastWakeup s) (env_metrics E) = Ret (ms2, oi, oc)"
    and xs: "map fst xs = pl_infos s @ oi"
    and r1: "upd_Run (env_js E) (env_api E) (env_condChan E) (infos xs) te1 (env_metrics E) w1 =
      (te, ms3, w, uc)"
    and cs: "cs \<in> shuffles (pl_oconds s @ oc) (c1 @ uc)"
    and r: "r = (te, w, inj_Run (env_pods E) (opt_list (pl_cond s) @ cs) (pl_inj s) (pl_pods s))"
    by (rule pl_resultsE) (simp add: s')
  from upd_Run_blind [OF r1, of ms1] obtain ms4 where
    r2: "upd_Run (env_js E) (env_api E) (env_condChan E) (infos ((info, d, t) # xs)) (pl_te s)
       (env_metrics E) (pl_nrts s) = (te, ms4, w, c1 @ uc)"
    using h by auto
  have "map fst ((info, d, t) # xs) = opt_list (pl_busy s) @ pl_infos s @ oi" using b xs by simp
  from pl_resultsI [OF o this r2 _ r] cs c show ?thesis by simp
qed

lemma condition_results:
  assumes "pl_observer_condition s = Some s' \<or> pl_updater_condition s = Some s'" "pl_results E s' r"
  shows "pl_results E s r"
proof -
  from assms(2) obtain ms2 oi oc xs te ms3 w uc cs where
    o: "obs_Run (env_exposeTiming E) (env_condChan E) (env_scan E) (events (pl_events s'))
          (pl_lastWakeup s') (env_metrics E) = Ret (ms2, oi, oc)"
       "map fst xs = opt_list (pl_busy s') @ pl_infos s' @ oi"
       "upd_Run (env_js E) (env_api E) (env_condChan E) (infos xs) (pl_te s') (env_metrics E)
          (pl_nrts s') = (te, ms3, w, uc)"
    and cs: "cs \<in> shuffles (pl_oconds s' @ oc) (pl_uconds s' @ uc)"
    and r: "r = (te, w, inj_Run (env_pods E) (opt_list (pl_cond s') @ cs) (pl_inj s') (pl_pods s'))"
    by (rule pl_resultsE)
  from assms(1) obtain c where c: "pl_cond s = None" "pl_cond s' = Some c"
    and same: "pl_events s' = pl_events s" "pl_lastWakeup s' = pl_lastWakeup s" "pl_busy s' = pl_busy s"
      "pl_infos s' = pl_infos s" "pl_te s' = pl_te s" "pl_nrts s' = pl_nrts s"
      "pl_inj s' = pl_inj s" "pl_pods s' = pl_pods s"
    and "pl_oconds s = c # pl_oconds s' \<and> pl_uconds s' = pl_uconds s \<or>
         pl_oconds s' = pl_oconds s \<and> pl_uconds s = c # pl_uconds s'"
    by (auto simp: pl_observer_condition_def pl_updater_condition_def split: list.splits if_splits)
  with cs have "c # cs \<in> shuffles (pl_oconds s @ oc) (pl_uconds s @ uc)"
    by (auto intro: Cons_shuffles_left Cons_shuffles_right)
  moreover from r c have "r = (te, w, inj_Run (env_pods E) (opt_list (pl_cond s) @ c # cs) (pl_inj s) (pl_pods s))"
    by (simp add: same)
  ultimately show ?thesis by (rule pl_resultsI [OF o [unfolded same]])
qed

text \<open>The events of the observer; the scan has to be one that the metrics do not change.\<close>

abbreviation pl_observer ::
    "('a, 'w, 'p) pl_env \<Rightarrow> ('a, 'w, 'p) pipeline \<Rightarrow>
     (metrics_state \<times> MonitorInfo list \<times> PodCondition list) go" where
  "pl_observer E s \<equiv> obs_Run (env_exposeTiming E) (env_condChan E) (env_scan E) (events (pl_events s))
     (pl_lastWakeup s) (env_metrics E)"

lemma receiveE:
  assumes "pl_receive E s = Some s'"
  obtains (scanned) ev env d t evs ms i c where "pl_events s = (ev, env, d, t) # evs" "pl_oidle s"
      "obs_handle (env_exposeTiming E) (env_condChan E) (env_scan E env) d t ev (pl_lastWakeup s)
         (env_metrics E) = Ret (ms, i, c)"
      "s' = s\<lparr>pl_events := evs, pl_lastWakeup := ev_Timestamp ev, pl_infos := i, pl_oconds := c\<rparr>"
  | (crashed) ev env d t evs p where "pl_events s = (ev, env, d, t) # evs"
      "obs_handle (env_exposeTiming E) (env_condChan E) (env_scan E env) d t ev (pl_lastWakeup s)
         (env_metrics E) = Panic p"
      "s' = s\<lparr>pl_events := evs, pl_crash := Some p\<rparr>"
proof -
  from assms obtain ev env d t evs where e: "pl_events s = (ev, env, d, t) # evs" "pl_oidle s"
    by (auto simp: pl_receive_def split: list.splits if_splits)
  show ?thesis
  proof (cases "obs_handle (env_exposeTiming E) (env_condChan E) (env_scan E env) d t ev
      (pl_lastWakeup s) (env_metrics E)")
    case (Ret x)
    with assms e show ?thesis by (cases x) (auto simp: pl_receive_def intro: scanned)
  next
    case (Panic p)
    with assms e show ?thesis by (auto simp: pl_receive_def intro: crashed)
  qed
qed

locale pipeline_env =
  fixes E :: "('a, 'w, 'p) pl_env"
  assumes scan: "monitor_scan (env_scan E)"
begin

lemma receive_results:
  assumes "pl_receive E s = Some s'" "pl_crash s' = None" "pl_results E s' r"
  shows "pl_results E s r"
  using assms(1)
proof (cases rule: receiveE)
  case (scanned ev env d t evs ms i c)
  from assms(3) obtain ms2 oi oc xs te ms3 w uc cs where
    o: "pl_observer E s' = Ret (ms2, oi, oc)"
    and x: "map fst xs = opt_list (pl_busy s') @ pl_infos s' @ oi"
      "upd_Run (env_js E) (env_api E) (env_condChan E) (infos xs) (pl_te s') (env_metrics E)
         (pl_nrts s') = (te, ms3, w, uc)"
      "cs \<in> shuffles (pl_oconds s' @ oc) (pl_uconds s' @ uc)"
      "r = (te, w, inj_Run (env_pods E) (opt_list (pl_cond s') @ cs) (pl_inj s') (pl_pods s'))"
    by (rule pl_resultsE)
  from monitor_scan.obs_Run_Ret [OF scan o, of ms] obtain ms4 where
    "pl_observer E s = Ret (ms4, i @ oi, c @ oc)" using scanned by auto
  then show ?thesis using x scanned
    by (intro pl_resultsI [where xs = xs and cs = cs and uc = uc]) (auto simp: pl_oidle_def)
qed (use assms in simp)

text \<open>A step keeps the panic of the observer that is to come, or is that panic.\<close>

lemma step_panic:
  assumes "pl_step E s s'"
  shows "case pl_crash s' of
      None \<Rightarrow> (\<forall>p. pl_observer E s' = Panic p \<longrightarrow> pl_observer E s = Panic p)
    | Some p \<Rightarrow> pl_observer E s = Panic p"
  using assms
proof cases
  case receive
  from receive(2) show ?thesis
  proof (cases rule: receiveE)
    case (scanned ev env d t evs ms i c)
    then show ?thesis using receive(1) monitor_scan.obs_Run_Panic [OF scan, of _ _ _ _ "env_metrics E" _ ms]
      by auto
  qed simp
qed (auto simp: pl_handover_def pl_update_def pl_observer_condition_def pl_updater_condition_def
  pl_inject_def split: list.splits option.splits prod.splits if_splits)

lemma step_results:
  assumes step: "pl_step E s s'" and crash: "pl_crash s' = None" and r: "pl_results E s' r"
    and u: "pl_busy s \<noteq> None \<longrightarrow> pl_uconds s = []"
  shows "pl_results E s r"
  using step
proof cases
  case receive
  with crash r show ?thesis by (blast intro: receive_results)
next
  case (update d t)
  then have "pl_busy s \<noteq> None" by (auto simp: pl_update_def split: option.splits)
  with update r u show ?thesis by (blast intro: update_results)
qed (use r in \<open>blast intro: handover_results inject_results condition_results\<close>)+

end

section \<open>Progress\<close>

text \<open>The steps that the work in a state can still cause.\<close>

definition pl_work :: "('a, 'w, 'p) pipeline \<Rightarrow> nat" where
  "pl_work s =
     (if pl_crash s \<noteq> None then 0
      else 7 * length (pl_events s) + 4 * length (pl_infos s) + 2 * length (pl_oconds s) +
        3 * length (opt_list (pl_busy s)) + 2 * length (pl_uconds s) + length (opt_list (pl_cond s)))"

definition pl_inv :: "('a, 'w, 'p) pipeline \<Rightarrow> bool" where
  "pl_inv s \<longleftrightarrow> (pl_busy s \<noteq> None \<longrightarrow> pl_uconds s = []) \<and> \<not> pl_ostopped s \<and> \<not> pl_ustopped s"

lemma SetCondition_length: "length (SetCondition ch t ty st) \<le> Suc 0"
  by (simp add: SetCondition_def Let_def)

lemma obs_handle_length:
  "obs_handle et ch sc d t ev lw ms = Ret (ms', i, c) \<Longrightarrow> length i \<le> Suc 0 \<and> length c \<le> Suc 0"
  by (auto simp: obs_handle_def Let_def go_bind_Ret_iff SetCondition_length split: prod.splits sum.splits)

lemma upd_handle_length:
  "upd_handle js api ch info d t te ms w = (te', ms', w', c) \<Longrightarrow> length c \<le> Suc 0"
  by (auto simp: upd_handle_def Let_def SetCondition_length split: prod.splits if_splits)

lemma step_work:
  assumes "pl_step E s s'" "pl_busy s \<noteq> None \<longrightarrow> pl_uconds s = []"
  shows "pl_work s' < pl_work s"
  using assms(1)
proof cases
  case receive
  from receive(2) show ?thesis
  proof (cases rule: receiveE)
    case (scanned ev env d t evs ms i c)
    with obs_handle_length [OF scanned(3)] receive(1) show ?thesis by (simp add: pl_work_def pl_oidle_def)
  qed (use receive in \<open>simp add: pl_work_def\<close>)
next
  case (update d t)
  then show ?thesis using assms(2)
    by (auto simp: pl_update_def pl_work_def split: option.splits prod.splits dest!: upd_handle_length)
qed (auto simp: pl_work_def pl_handover_def pl_uidle_def pl_observer_condition_def
  pl_updater_condition_def pl_inject_def split: list.splits option.splits prod.splits if_splits)

lemma step_inv: "pl_step E s s' \<Longrightarrow> pl_inv s \<Longrightarrow> pl_inv s'"
  by (erule pl_stepE)
    (auto simp: pl_inv_def pl_receive_def pl_handover_def pl_uidle_def pl_update_def pl_observer_condition_def
      pl_updater_condition_def pl_inject_def split: list.splits option.splits prod.splits if_splits go.splits)

text \<open>A state without a next step has crashed or has no work left: the goroutines never block one another.\<close>

lemma stuck_updater:
  assumes "\<And>s'. \<not> pl_step E s s'" "pl_crash s = None"
  shows "pl_cond s = None" "pl_busy s = None" "pl_uconds s = []"
proof -
  have none: "pl_update E 0 0 s = None" "pl_updater_condition s = None" "pl_inject E s = None"
    using assms pl_step.intros by (metis not_None_eq)+
  from none(3) show c: "pl_cond s = None" by (auto simp: pl_inject_def split: option.splits prod.splits)
  from none(1) show b: "pl_busy s = None" by (auto simp: pl_update_def split: option.splits prod.splits)
  from none(2) b c show "pl_uconds s = []" by (simp add: pl_updater_condition_def split: list.splits)
qed

lemma stuck_idle:
  assumes stuck: "\<And>s'. \<not> pl_step E s s'" and "pl_crash s = None" "pl_inv s"
  shows "pl_events s = [] \<and> pl_infos s = [] \<and> pl_oconds s = [] \<and> pl_busy s = None \<and> pl_uconds s = [] \<and>
    pl_cond s = None"
proof -
  have none: "pl_receive E s = None" "pl_handover s = None" "pl_observer_condition s = None"
    using assms(1,2) pl_step.intros by (metis not_None_eq)+
  note u = stuck_updater [OF stuck assms(2)]
  from none(2) u assms(3) have i: "pl_infos s = []"
    by (simp add: pl_handover_def pl_uidle_def pl_inv_def split: list.splits)
  from none(3) u i have o: "pl_oconds s = []" by (simp add: pl_observer_condition_def split: list.splits)
  from none(1) i o assms(3) have "pl_events s = []"
    by (auto simp: pl_receive_def pl_oidle_def pl_inv_def split: list.splits go.splits)
  with u i o show ?thesis by simp
qed

context pipeline_env
begin

lemma run_facts:
  assumes "(pl_step E ^^ n) s0 s" "pl_inv s0"
  shows "pl_inv s \<and> n + pl_work s \<le> pl_work s0 \<and>
    (case pl_crash s of
       None \<Rightarrow> (\<forall>r. pl_results E s r \<longrightarrow> pl_results E s0 r) \<and>
         (\<forall>p. pl_observer E s = Panic p \<longrightarrow> pl_observer E s0 = Panic p)
     | Some p \<Rightarrow> pl_crash s0 = None \<longrightarrow> pl_observer E s0 = Panic p)"
  using assms(1)
proof (induction n arbitrary: s)
  case 0
  with assms(2) show ?case by (simp split: option.split)
next
  case (Suc n)
  then obtain s1 where s1: "(pl_step E ^^ n) s0 s1" "pl_step E s1 s" by auto
  note ih = Suc.IH [OF s1(1)]
  from s1(2) have c: "pl_crash s1 = None" by (auto elim: pl_stepE)
  from ih have b: "pl_busy s1 \<noteq> None \<longrightarrow> pl_uconds s1 = []" by (simp add: pl_inv_def)
  have "pl_inv s" using ih step_inv [OF s1(2)] by blast
  moreover have "Suc n + pl_work s \<le> pl_work s0" using ih step_work [OF s1(2) b] by simp
  ultimately show ?case
    using ih c step_panic [OF s1(2)] step_results [OF s1(2) _ _ b] by (auto split: option.splits)
qed

lemma outcome:
  assumes run: "(pl_step E ^^ n) s0 s" and inv: "pl_inv s0" "pl_crash s0 = None"
    and stuck: "\<And>s'. \<not> pl_step E s s'"
  shows "case pl_observer E s0 of
      Panic p \<Rightarrow> pl_crash s = Some p
    | Ret _ \<Rightarrow> pl_crash s = None \<and> pl_results E s0 (pl_te s, pl_nrts s, pl_inj s, pl_pods s)"
proof (cases "pl_crash s")
  case (Some p)
  with run_facts [OF run inv(1)] inv(2) show ?thesis by simp
next
  case None
  with run_facts [OF run inv(1)] have s: "pl_inv s" "pl_results E s r \<Longrightarrow> pl_results E s0 r" for r
    by (cases r; simp)+
  from stuck_idle [OF stuck None s(1)]
  have "pl_results E s (pl_te s, pl_nrts s, pl_inj s, pl_pods s)"
    by (auto simp: pl_results_def)
  then have r: "pl_results E s0 (pl_te s, pl_nrts s, pl_inj s, pl_pods s)" by (rule s(2))
  then obtain x where "pl_observer E s0 = Ret x" by (auto elim: pl_resultsE)
  with None r show ?thesis by simp
qed

end

section \<open>The pipeline of the exporter\<close>

definition exporter_env ::
    "('fp, 'st) pfp_lib \<Rightarrow> ((int \<times> string list) list \<Rightarrow> (int \<times> string list) list) \<Rightarrow>
     (int \<Rightarrow> (string \<times> int) list \<Rightarrow> (string \<times> int) list) \<Rightarrow> ResourceExclude \<Rightarrow> bool \<Rightarrow> bool \<Rightarrow>
     metrics_state \<Rightarrow> json_lib \<Rightarrow> 'w nrt_api \<Rightarrow> 'p pods_api \<Rightarrow>
     (resourceMonitor \<times> list_result, 'w, 'p) pl_env" where
  "exporter_env P ord ordR excl exposeTiming condChan ms js api pods =
     \<lparr>env_exposeTiming = exposeTiming, env_condChan = condChan, env_scan = pl_scan P ord ordR excl,
      env_metrics = ms, env_js = js, env_api = api, env_pods = pods\<rparr>"

interpretation exporter: pipeline_env "exporter_env P ord ordR excl exposeTiming condChan ms js api pods"
  by unfold_locales (auto simp: exporter_env_def intro: mon.blind)

text \<open>
  However the goroutines of the exporter interleave, they take at most seven steps per event and
  never block one another for good. When no step is left, the published objects and the updater's
  state are those of the updater's loop over all results of the observer's loop, in order, and the
  pod has received all conditions of both, those of each in their order. If the observer's loop
  panics, the process crashes with its panic.
\<close>

lemma pipeline_sequential:
  fixes w :: 'w and p :: 'p
  assumes "(pl_step (exporter_env P ord ordR excl exposeTiming condChan ms js api pods) ^^ n)
     (pl_start evs now te w ci p) s"
  shows "n \<le> 7 * length evs \<and>
    ((\<forall>s'. \<not> pl_step (exporter_env P ord ordR excl exposeTiming condChan ms js api pods) s s') \<longrightarrow>
     (case obs_Run exposeTiming condChan (pl_scan P ord ordR excl) (events evs) now ms of
        Panic q \<Rightarrow> pl_crash s = Some q
      | Ret (ms1, oi, oc) \<Rightarrow> pl_crash s = None \<and>
          (\<exists>xs ms2 uc cs. map fst xs = oi \<and>
             upd_Run js api condChan (infos xs) te ms w = (pl_te s, ms2, pl_nrts s, uc) \<and>
             cs \<in> shuffles oc uc \<and> inj_Run pods cs ci p = (pl_inj s, pl_pods s))))"
proof -
  let ?E = "exporter_env P ord ordR excl exposeTiming condChan ms js api pods"
  let ?s = "pl_start evs now te w ci p :: (resourceMonitor \<times> list_result, 'w, 'p) pipeline"
  have s: "pl_inv ?s" "pl_crash ?s = None" "pl_work ?s = 7 * length evs"
    by (simp_all add: pl_inv_def pl_start_def pl_work_def)
  have "n \<le> 7 * length evs" using exporter.run_facts [OF assms s(1)] s(3) by simp
  moreover have "case obs_Run exposeTiming condChan (pl_scan P ord ordR excl) (events evs) now ms of
        Panic q \<Rightarrow> pl_crash s = Some q
      | Ret (ms1, oi, oc) \<Rightarrow> pl_crash s = None \<and>
          (\<exists>xs ms2 uc cs. map fst xs = oi \<and>
             upd_Run js api condChan (infos xs) te ms w = (pl_te s, ms2, pl_nrts s, uc) \<and>
             cs \<in> shuffles oc uc \<and> inj_Run pods cs ci p = (pl_inj s, pl_pods s))"
    if "\<forall>s'. \<not> pl_step ?E s s'"
    using exporter.outcome [OF assms s(1,2)] that
    by (auto simp: exporter_env_def pl_start_def pl_results_def split: go.splits) blast
  ultimately show ?thesis by blast
qed

section \<open>Stopping\<close>

text \<open>
  The order in which the loops are stopped matters. Once the updater has stopped, an observer with a
  result to send is blocked for ever, and so is a call of its \<^verbatim>\<open>Stop\<close>.
\<close>

lemma stop_updater_first:
  assumes "(pl_step E)\<^sup>*\<^sup>* s s'" "pl_ustopped s" "pl_infos s \<noteq> []"
  shows "pl_infos s' = pl_infos s \<and> obs_StopCall s' = None"
proof -
  from assms have "pl_infos s' = pl_infos s \<and> pl_ustopped s'"
  proof (induction rule: rtranclp_induct)
    case (step s1 s2)
    from step(2) step.IH [OF step.prems] step.prems(2) show ?case
      by (elim pl_stepE)
        (auto simp: pl_receive_def pl_oidle_def pl_handover_def pl_uidle_def pl_update_def
          pl_observer_condition_def pl_updater_condition_def pl_inject_def
          split: list.splits option.splits prod.splits if_splits go.splits)
  qed simp
  with assms(3) show ?thesis by (simp add: obs_StopCall_def pl_oidle_def)
qed

text \<open>In the other order both calls return: with the observer stopped the updater becomes idle.\<close>

lemma stop_observer_first:
  assumes "obs_StopCall s = Some s1" "pl_inv s" "pl_crash s = None" "(pl_step E)\<^sup>*\<^sup>* s1 s'"
    and stuck: "\<And>s''. \<not> pl_step E s' s''"
  shows "upd_StopCall s' \<noteq> None"
proof -
  from assms(1-3) have "pl_ostopped s1 \<and> \<not> pl_ustopped s1 \<and> pl_crash s1 = None"
    by (auto simp: obs_StopCall_def pl_inv_def split: if_splits)
  with assms(4) have s': "pl_ostopped s' \<and> \<not> pl_ustopped s' \<and> pl_crash s' = None"
  proof (induction rule: rtranclp_induct)
    case (step s2 s3)
    from step(2) step.IH [OF step.prems] show ?case
      by (elim pl_stepE)
        (auto simp: pl_receive_def pl_oidle_def pl_handover_def pl_update_def
          pl_observer_condition_def pl_updater_condition_def pl_inject_def
          split: list.splits option.splits prod.splits if_splits go.splits)
  qed simp
  with stuck_updater [OF stuck] show ?thesis by (simp add: upd_StopCall_def pl_uidle_def)
qed

end
