(* ===== verification/EventLoop.thy ===== *)
theory EventLoop
  imports Pipeline Exporter UpdaterBudget ReadinessProps Samples
begin

text \<open>
  The goroutines of the event source in front of the pipeline, and the main goroutine that waits for
  the source at the end of \<^verbatim>\<open>Execute\<close>: the source of \<^verbatim>\<open>pkg/notification/notification.go\<close> and, when the
  events are limited, the receiver and the sender of \<^verbatim>\<open>pkg/ratelimiter/ratelimiter.go\<close> between the
  source and the observer.
\<close>

section \<open>The source\<close>

text \<open>
  The source is blocked sending an event, is in its \<^verbatim>\<open>select\<close>, or is blocked sending on \<^verbatim>\<open>doneChan\<close>
  after it was told to stop. Every event carries the answers of the environment of its scan.
\<close>

datatype 'a es_phase = es_Sending Event 'a | es_Selecting | es_Finishing

fun es_select :: "fsnotify_ops \<Rightarrow> UnlimitedEventSource \<Rightarrow> es_input \<Rightarrow> 'a \<Rightarrow> 'a es_phase" where
  "es_select ops es (es_Tick tickTs) a =
     (if es_sleepInterval es > 0
      then es_Sending \<lparr>ev_Timestamp = tickTs, ev_TimerInterval = es_sleepInterval es\<rparr> a
      else es_Selecting)"
| "es_select ops es (es_FsEvent event now) a =
     (if AnyFilter ops (es_filters es) event
      then es_Sending \<lparr>ev_Timestamp = now, ev_TimerInterval = 0\<rparr> a
      else es_Selecting)"
| "es_select ops es es_Error a = es_Selecting"
| "es_select ops es es_Stop a = es_Finishing"

section \<open>The exporter\<close>

fun inner_source :: "EventSource \<Rightarrow> UnlimitedEventSource" where
  "inner_source (Unlimited es) = es"
| "inner_source (RateLimited es n u) = es"


text \<open>
  The inputs of the source's \<^verbatim>\<open>select\<close> to come, the rate limiter if there is one, the pipeline, and
  whether \<^verbatim>\<open>Execute\<close> has returned. The pipeline's own list of events is empty here: its next event is
  the one that is sent to it. The last field is history: the events that the observer has received.
\<close>

record ('a, 'w, 'p) rte_state =
  rs_phase :: "('a \<times> int \<times> int) es_phase"
  rs_inputs :: "(es_input \<times> 'a \<times> int \<times> int) list"
  rs_limit :: "(Event \<times> 'a \<times> int \<times> int) RateLimitedEventSource option"
  rs_pipe :: "('a, 'w, 'p) pipeline"
  rs_returned :: bool
  rs_seen :: "(Event \<times> 'a \<times> int \<times> int) list"


definition rs_select ::
    "fsnotify_ops \<Rightarrow> UnlimitedEventSource \<Rightarrow> ('a, 'w, 'p) rte_state \<Rightarrow> ('a, 'w, 'p) rte_state option" where
  "rs_select ops es s =
     (case rs_phase s of
        es_Selecting \<Rightarrow>
          (case rs_inputs s of
             [] \<Rightarrow> None
           | (i, a) # rest \<Rightarrow> Some (s\<lparr>rs_phase := es_select ops es i a, rs_inputs := rest\<rparr>))
      | _ \<Rightarrow> None)"

text \<open>Somebody sends an event to the observer, which has to be in its \<^verbatim>\<open>select\<close>.\<close>

definition rs_observe ::
    "('a, 'w, 'p) pl_env \<Rightarrow> Event \<times> 'a \<times> int \<times> int \<Rightarrow> ('a, 'w, 'p) rte_state \<Rightarrow>
     ('a, 'w, 'p) rte_state option" where
  "rs_observe E e s =
     (case pl_receive E ((rs_pipe s)\<lparr>pl_events := [e]\<rparr>) of
        None \<Rightarrow> None
      | Some pipe \<Rightarrow> Some (s\<lparr>rs_pipe := pipe, rs_seen := rs_seen s @ [e]\<rparr>))"

text \<open>The source sends its event: to the observer, or to the receiver of the rate limiter.\<close>

definition rs_event ::
    "('a, 'w, 'p) pl_env \<Rightarrow> ('a, 'w, 'p) rte_state \<Rightarrow> ('a, 'w, 'p) rte_state option" where
  "rs_event E s =
     (case rs_phase s of
        es_Sending ev a \<Rightarrow>
          (case rs_limit s of
             None \<Rightarrow> map_option (\<lambda>s'. s'\<lparr>rs_phase := es_Selecting\<rparr>) (rs_observe E (ev, a) s)
           | Some rl \<Rightarrow>
               if rl_receiver rl
               then Some (s\<lparr>rs_phase := es_Selecting, rs_limit := Some (rl_receive (ev, a) rl)\<rparr>)
               else None)
      | _ \<Rightarrow> None)"

text \<open>The sender of the rate limiter takes an event, and sends it to the observer.\<close>

definition rs_take :: "('a, 'w, 'p) rte_state \<Rightarrow> ('a, 'w, 'p) rte_state option" where
  "rs_take s =
     (case rs_limit s of
        None \<Rightarrow> None
      | Some rl \<Rightarrow> map_option (\<lambda>rl'. s\<lparr>rs_limit := Some rl'\<rparr>) (rl_take rl))"

definition rs_deliver ::
    "('a, 'w, 'p) pl_env \<Rightarrow> ('a, 'w, 'p) rte_state \<Rightarrow> ('a, 'w, 'p) rte_state option" where
  "rs_deliver E s =
     (case rs_limit s of
        None \<Rightarrow> None
      | Some rl \<Rightarrow>
          (case rl_deliver rl of
             None \<Rightarrow> None
           | Some (e, rl') \<Rightarrow> map_option (\<lambda>s'. s'\<lparr>rs_limit := Some rl'\<rparr>) (rs_observe E e s)))"

text \<open>
  \<^verbatim>\<open>Wait\<close> returns, then \<^verbatim>\<open>Execute\<close> closes the source and returns. It waits on \<^verbatim>\<open>doneChan\<close> of the source or,
  when events are limited, for the two tokens of the rate limiter.
\<close>

definition rs_wait :: "('a, 'w, 'p) rte_state \<Rightarrow> ('a, 'w, 'p) rte_state option" where
  "rs_wait s =
     (if (case rs_limit s of
            None \<Rightarrow> (case rs_phase s of es_Finishing \<Rightarrow> True | _ \<Rightarrow> False)
          | Some rl \<Rightarrow> rl_doneReceiverCh rl > 0 \<and> rl_doneSenderCh rl > 0)
      then Some (s\<lparr>rs_returned := True\<rparr>) else None)"

text \<open>Steps of the process: none after a panic, nor after the main goroutine has returned.\<close>

definition rs_alive :: "('a, 'w, 'p) rte_state \<Rightarrow> bool" where
  "rs_alive s \<longleftrightarrow> pl_crash (rs_pipe s) = None \<and> \<not> rs_returned s"

inductive rs_step ::
    "fsnotify_ops \<Rightarrow> EventSource \<Rightarrow> ('a, 'w, 'p) pl_env \<Rightarrow> ('a, 'w, 'p) rte_state \<Rightarrow>
     ('a, 'w, 'p) rte_state \<Rightarrow> bool" for ops src E where
  select: "rs_alive s \<Longrightarrow> rs_select ops (inner_source src) s = Some s' \<Longrightarrow> rs_step ops src E s s'"
| event: "rs_alive s \<Longrightarrow> rs_event E s = Some s' \<Longrightarrow> rs_step ops src E s s'"
| take: "rs_alive s \<Longrightarrow> rs_take s = Some s' \<Longrightarrow> rs_step ops src E s s'"
| deliver: "rs_alive s \<Longrightarrow> rs_deliver E s = Some s' \<Longrightarrow> rs_step ops src E s s'"
| wait: "rs_alive s \<Longrightarrow> rs_wait s = Some s' \<Longrightarrow> rs_step ops src E s s'"
| pipe: "rs_alive s \<Longrightarrow> pl_step E (rs_pipe s) p \<Longrightarrow> rs_step ops src E s (s\<lparr>rs_pipe := p\<rparr>)"

inductive_cases rs_stepE: "rs_step ops src E s s'"

section \<open>The events to come\<close>





section \<open>Events that wait do not matter\<close>








section \<open>The invariant\<close>
















section \<open>The exporter computes the composition of its loops\<close>


section \<open>An instance\<close>








end
