(* ===== verification/Spec2Isabelle.thy ===== *)
theory Spec2Isabelle
  imports MonitorProps ScanProps RefreshProps FilterProps SysinfoProps UpdaterBudget ReadinessProps ConfigProps
    LoadProps TimingProps PodResClient PfpProps ProgramProps ProxyProgram Stress MetricsSafety
    EventLoop MonitorStart
begin

text \<open>
  \<^bold>\<open>The resource topology exporter, verified.\<close>

  The program runs on every node of a cluster. It asks the kubelet which pods hold which CPUs,
  devices and memory, computes per NUMA node what is still available, and publishes the result as a
  \<^verbatim>\<open>NodeResourceTopology\<close> object. An event source wakes it up (timer, notification file), a rate limiter
  bounds how often, a resource observer scans, an updater publishes, and a condition injector reports
  on the exporter's own pod whether the last scan and the last update worked.

  \<^bold>\<open>How the theories correspond to the code\<close> (paths are below \<^verbatim>\<open>src/pkg\<close> unless they start with \<^verbatim>\<open>cmd\<close>).

  \<^item> \<open>Prelude\<close>: 64-bit integers with wrap-around (\<open>w64\<close>), Go maps, errors, panics.
  \<^item> \<open>GoStd\<close>: the functions of \<^verbatim>\<open>strings\<close>, \<^verbatim>\<open>strconv\<close>, \<^verbatim>\<open>path\<close> and \<^verbatim>\<open>filepath\<close> that the program calls.
    \<open>GoText\<close>: the readers of booleans, integers and durations, with \<^verbatim>\<open>float64\<close> rounding. \<open>GoFlag\<close>: package
    \<^verbatim>\<open>flag\<close>, with its process exits. \<open>GoUrl\<close>: \<^verbatim>\<open>net/url.Parse\<close>. \<open>DurationText\<close>: durations are read back.
  \<^item> \<open>PodRes\<close>: the data of the podresources API, and the locales \<open>podres_filter\<close> and
    \<open>podres_filter2\<close>, the contract of a filtering client and of two stacked ones.
  \<^item> \<open>NumaLocality\<close>: \<^verbatim>\<open>podres/filter\<close>. \<open>PodExclude\<close>, \<open>TerminalPods\<close>, \<open>SharedCPUsPool\<close>:
    \<^verbatim>\<open>podres/middleware\<close>, each interpreting the contract. \<open>Middleware\<close>: the chain that
    \<^verbatim>\<open>cmd/resource-topology-exporter/main.go\<close> builds.
  \<^item> \<open>NRTApi\<close>: the published types. \<open>Metrics\<close>: \<^verbatim>\<open>metrics/metrics.go\<close>, as a log of calls.
  \<^item> \<open>Sysinfo\<close>: \<^verbatim>\<open>sysinfo\<close>, over an abstract file system.
  \<^item> \<open>ResourceMonitor\<close>: \<^verbatim>\<open>resourcemonitor/resourcemonitor.go\<close>; its state is the record
    \<open>resourceMonitor\<close>, its operations \<open>NewResourceMonitor\<close>, \<open>Scan\<close>, \<open>updateNodeResources\<close> and
    \<open>resUpdated\<close>. \<open>DeviceCounters\<close>, \<open>MonitorFacts\<close> and \<open>NodeResources\<close> hold the lemmas about it,
    \<open>MonitorProps\<close>, \<open>ScanProps\<close> and \<open>RefreshProps\<close> its properties. \<open>MonitorOptions\<close>: its
    options and the node informer. \<open>MonitorStart\<close>: its life under node updates, and when the monitor that
    the program builds can panic.
  \<^item> \<open>NRTUpdater\<close>: \<^verbatim>\<open>nrtupdater\<close> and \<^verbatim>\<open>k8sannotations\<close>; its state is the record \<open>NRTUpdater\<close>.
    \<open>UpdaterProps\<close> and \<open>UpdaterBudget\<close> hold its properties.
  \<^item> \<open>PodReadiness\<close>, \<open>ReadinessProps\<close>: \<^verbatim>\<open>podreadiness\<close>.
  \<^item> \<open>Notification\<close>: \<^verbatim>\<open>notification\<close>. \<open>RateLimiter\<close>: \<^verbatim>\<open>ratelimiter\<close>, a step relation over its goroutines.
  \<^item> \<open>Observer\<close>, \<open>Exporter\<close>: \<^verbatim>\<open>resourcetopologyexporter\<close>. \<open>MetricsServer\<close>: \<^verbatim>\<open>metrics/server\<close>.
    \<open>Pipeline\<close>: observer, updater and injector as goroutines on unbuffered channels; the locales
    \<open>monitor_scan\<close> and \<open>pipeline_env\<close> say what they ask of the scan, and are interpreted on the
    exporter's own. \<open>EventLoop\<close>: the event source in front of them, with or without the two goroutines of the rate
    limiter in between, and the wait at the end of \<^verbatim>\<open>Execute\<close>.
    \<open>MetricsSafety\<close>: no component uses a metric other than it is registered.
  \<^item> \<open>Config\<close>, \<open>ConfigProps\<close>: \<^verbatim>\<open>config\<close>, arguments, defaults, environment and validation. \<open>Settings\<close>: the
    fields of the arguments as pointers. \<open>KlogLevel\<close>: \<^verbatim>\<open>kloglevel\<close>. \<open>Flags\<close>, \<open>FlagFacts\<close>:
    \<^verbatim>\<open>config/flags.go\<close>. \<open>ConfigFiles\<close>, \<open>DispatchProps\<close>: \<^verbatim>\<open>config/cfgfile.go\<close> and \<^verbatim>\<open>cfgdispatch.go\<close>.
    \<open>LoadArgs\<close>, \<open>LoadProps\<close>: how all of them are put together. \<open>TimingProps\<close>: published timings as
    values of a flag.
  \<^item> \<open>PodResClient\<close>: \<^verbatim>\<open>podres/client.go\<close>, \<^verbatim>\<open>fake.go\<close> and \<^verbatim>\<open>proxy\<close>. \<open>PfpDump\<close>, \<open>PfpProps\<close>: \<^verbatim>\<open>pfpdump\<close>.
    \<open>LogText\<close>: the texts for the log, \<^verbatim>\<open>dump\<close>.
  \<^item> \<open>Program\<close>, \<open>ProgramProps\<close>: \<^verbatim>\<open>cmd/resource-topology-exporter\<close> with \<^verbatim>\<open>k8shelpers\<close>, \<^verbatim>\<open>kubeconf\<close> and
    \<^verbatim>\<open>version\<close>. \<open>ProxyProgram\<close>: \<^verbatim>\<open>cmd/podresources-proxy\<close>. \<open>Stress\<close>: \<^verbatim>\<open>nrtupdater/fake\<close> and
    \<^verbatim>\<open>tools/nrtstress\<close>.
  \<^item> \<open>SysinfoProps\<close>, \<open>FilterProps\<close>: properties of the readers and of the clients. \<open>Samples\<close>: concrete
    inputs at which theorems are instantiated.

  \<^bold>\<open>What the lemmas show.\<close> Counting: the counters are the exact wrapped sums of what the devices,
  CPUs and memory blocks of the pods amount to, in whatever order Go visits its maps. Scanning: which
  resources a zone lists and with which amounts, and that the order of maps does not show once zones
  are sorted. Refreshing: the capacities it leaves, exactly when it panics, and
  that a refreshed monitor scans like a restarted one. Filtering: what every
  client removes, and that no filter lowers the availability that is published. Publishing: with a
  server that stores what it accepts, a successful update leaves the monitored data in the stored
  object, a failed one changes nothing, true conditions are truthful, and the whole object is written
  again after a bounded number of patches. Events: what wakes the exporter, order and bound of the
  rate limiter, and when its stop ends. Concurrency: every interleaving of the goroutines
  ends, without a deadlock, in the result of the loops run one after the other on the events that the
  rate limiter does not drop; stopping the updater
  before the observer blocks the observer for ever. Configuration: normal forms, the environment,
  confinement of the files read, TLS options, the types that the files are held to, and the layer
  that every setting comes from. Files: the fingerprint dump is replaced atomically, whatever fails.
  Connection: which endpoint leads where. The program: when it can panic, how it exits, which stage a
  fatal end names, and that what runs is what the arguments say. This theory puts a whole cycle together.

  \<^bold>\<open>Conventions.\<close> Code outside the repository is an argument: the API server, the podresources answers,
  the machine topology, the fingerprint library, \<^verbatim>\<open>cpuset\<close>, JSON and YAML, \<^verbatim>\<open>fsnotify\<close>, gRPC, \<^verbatim>\<open>klog\<close>,
  the Kubernetes clients, the file system, the clock.
  What is relied on is a predicate with a name (\<open>cpuset_spec\<close>, \<open>nrt_api_spec\<close>, \<open>pods_api_spec\<close>, \<open>klog_spec\<close>), shown
  to hold of a concrete instance where a theorem assumes it. A function that the code may run in any
  map order takes the order as an argument; \<open>legal_order\<close> says that it permutes. The order is one function
  of the map, applied to each map that is visited, where Go may also choose anew for every visit. No model needs fuel:
  loops over lists are structural, the loops over channels consume a list of messages, and the steps
  of goroutines are relations whose runs are bounded by a measure. The functions of the loops record
  metrics; the goroutines leave them out, because nothing else depends on them. Node updates take
  effect between two scans. The rate limiter has no clock: its sender may take the next event at any
  time. Texts are byte strings; trimming and lower case follow Go for ASCII.

  \<^bold>\<open>Not modelled.\<close> The inside of gRPC, of the informers and of the metrics server, which belong to
  libraries; the accessors that return a channel; a node update in the middle of a scan, which
  the code does not lock and Go does not define; stopping the rate limiter in the interleavings of
  \<open>EventLoop\<close>, which the exporter never does (\<open>RateLimiter\<close> has the stop on its own); signals; the mock of the podresources client, which is generated; the
  pinned release tool, which has no code; the end-to-end tests. In a URL, whether a host in brackets is accepted differs between
  releases of Go and is an argument.
\<close>

section \<open>From the pods of the node to the published object\<close>

lemma scan_annotations_wf:
  assumes "snd (snd (Scan P ord ordR rm excl resp ms)) = Inr sr"
  shows "wf_gomap (sr_Annotations sr)"
  using assms by (cases resp) (auto simp: Scan_def Let_def wf_gomap_def split: prod.splits if_splits)

lemma scan_zone_names:
  assumes "snd (snd (Scan P ord ordR rm excl (Inr ps) ms)) = Inr sr"
  shows "map z_Name (sr_Zones sr) = map makeZoneName (node_indexes (rm_topo rm))"
proof -
  obtain ms' sts where "Scan P ord ordR rm excl (Inr ps) ms = (ms', sts, Inr sr)"
    using assms by (cases "Scan P ord ordR rm excl (Inr ps) ms") auto
  then have "sr_Zones sr = map (scan_zone ordR rm (ToMapSet excl)
     (ContainerDevicesToPerNUMAResourceCounters
        (GetAllContainerDevices ord ps (ra_Namespace (rm_args rm)) (rm_coreIDToNodeIDMap rm))))
     (node_indexes (rm_topo rm))" using Scan_Inr by blast
  then show ?thesis by simp
qed

lemma scan_of_pods: "\<exists>sr. snd (snd (Scan P ord ordR rm excl (Inr ps) ms)) = Inr sr"
  by (auto simp: Scan_def Let_def split: prod.splits)

text \<open>
  C5. One cycle of the exporter, through all its parts: the pods that the chain of clients lets
  through are scanned, the observer hands the result on, and once the update has succeeded the
  object stored under the host name has precisely the zones of that scan, one for every NUMA node of
  the topology, with the attributes of the scan followed by those of the topology manager, and says
  what triggered the update.
\<close>

theorem cycle_publishes_scan:
  assumes "nrt_api_spec js api obj" "in_sync obj te w" "\<not> ua_NoPublish (te_args te)"
    "podres_client_List L debug podExclude terminal lister sc (Inr ps) = (sc', Inr qs)"
    "obs_handle False True (obs_scan P ord ordR rm excl (Inr qs)) d t ev lastWakeup ms =
       Ret (ms1, [info], conds)"
    "upd_Update js api info te ms1 w = (te', ms2, w', None)"
  shows "\<exists>sr n. snd (snd (Scan P ord ordR rm excl (Inr qs) ms)) = Inr sr \<and>
     obj w' (ua_Hostname (te_args te)) = Some n \<and> nrt_Zones n = sr_Zones sr \<and>
     map z_Name (nrt_Zones n) = map (\<lambda>i. ''node-'' @ show_int (int i)) [0..<length (rm_topo rm)] \<and>
     nrt_Attributes n = sr_Attributes sr @ makeAttributes te \<and>
     map_of (nrt_Annotations n) RTEUpdate = Some (if IsTimer ev then ''periodic'' else ''reactive'') \<and>
     in_sync obj te' w'"
proof -
  obtain sr where sr: "snd (snd (Scan P ord ordR rm excl (Inr qs) ms)) = Inr sr"
    using scan_of_pods by blast
  have "snd (obs_scan P ord ordR rm excl (Inr qs) m) = Inr sr" for m
    using obs_scan_result [of P ord ordR rm excl "Inr qs" m ms] sr by simp
  with obs_handle_quiet [of "obs_scan P ord ordR rm excl (Inr qs)" d t ev lastWakeup ms] assms(5)
  have info: "info = \<lparr>mi_Timer = IsTimer ev, mi_Zones = sr_Zones sr, mi_Attributes = sr_Attributes sr,
      mi_Annotations = sr_Annotations sr\<rparr>"
    by (simp add: obs_info_def)
  have "wf_gomap (mi_Annotations info)" using scan_annotations_wf [OF sr] info by simp
  from sendData_outcome [OF assms(1) this assms(2,3) assms(6) [unfolded upd_Update_def]] obtain n
    where n: "carries te info n" "obj w' = (obj w)(ua_Hostname (te_args te) \<mapsto> n)" "in_sync obj te' w'"
    by auto
  then have "nrt_Zones n = sr_Zones sr" "nrt_Attributes n = sr_Attributes sr @ makeAttributes te"
    "map_of (nrt_Annotations n) RTEUpdate = Some (if IsTimer ev then ''periodic'' else ''reactive'')"
    by (simp_all add: carries_def info UpdateReason_def RTEUpdatePeriodic_def RTEUpdateReactive_def)
  moreover have "map z_Name (sr_Zones sr) =
      map (\<lambda>i. ''node-'' @ show_int (int i)) [0..<length (rm_topo rm)]"
    using scan_zone_names [OF sr] by (simp add: node_indexes_def makeZoneName_def)
  ultimately show ?thesis using sr n by auto
qed

theorem cycle_publishes_scan_witness:
  "\<exists>sr n info ms1 conds te' ms2 w'.
     obs_handle False True (obs_scan sample_pfp id (\<lambda>_. id) sample_rm [] (Inr (tl sample_pods))) 3 100
       (sample_event 50) 0 sample_ms = Ret (ms1, [info], conds) \<and>
     upd_Update sample_js sample_api info sample_te ms1 [] = (te', ms2, w', None) \<and>
     snd (snd (Scan sample_pfp id (\<lambda>_. id) sample_rm [] (Inr (tl sample_pods)) sample_ms)) = Inr sr \<and>
     sample_obj w' ''n1'' = Some n \<and> nrt_Zones n = sr_Zones sr"
proof -
  let ?h = "obs_handle False True (obs_scan sample_pfp id (\<lambda>_. id) sample_rm [] (Inr (tl sample_pods))) 3 100
       (sample_event 50) 0 sample_ms"
  have "case podres_client_List sample_cpusets False sample_exclude False (Inr []) sample_sc (Inr sample_pods) of
      (sc', r) \<Rightarrow> r = Inr (tl sample_pods)" by code_simp
  then obtain sc' where chain: "podres_client_List sample_cpusets False sample_exclude False (Inr [])
      sample_sc (Inr sample_pods) = (sc', Inr (tl sample_pods))" by (auto split: prod.splits)
  have "case ?h of Ret (m, is, c) \<Rightarrow> length is = 1 | Panic p \<Rightarrow> False" by code_simp
  then obtain ms1 info conds where h: "?h = Ret (ms1, [info], conds)"
    by (auto split: go.splits prod.splits simp: length_Suc_conv)
  have te: "in_sync sample_obj sample_te []" "\<not> ua_NoPublish (te_args sample_te)"
    "ua_Hostname (te_args sample_te) = ''n1''"
    by (simp_all add: in_sync_def sample_te_def sample_upd_args_def)
  have "snd (snd (snd (upd_Update sample_js sample_api info sample_te ms1 []))) = None"
    by (simp add: upd_Update_def sendData_def sample_te_def sample_upd_args_def sendObjectPatch_def
        needsResync_def patchNRT_def resync_def sendObjectUpdate_def sample_api_def Let_def)
  then obtain te' ms2 w' where u: "upd_Update sample_js sample_api info sample_te ms1 [] = (te', ms2, w', None)"
    by (metis prod.collapse)
  from cycle_publishes_scan [OF sample_api_spec te(1,2) chain h u] h u te(3) show ?thesis by auto
qed

end
